(* ===== verification/Auth_Prelude.thy ===== *)
theory Auth_Prelude
  imports Main
begin

section \<open>Shared vocabulary of the development\<close>

text \<open>
  The types every component shares (identifiers, instants, errors), the transaction
  monad in which the engine's database work is written, the list operations that
  stand for SQL statements on one table, and the lemmas about them that the component
  theories rely on. A transaction is a function from the database to either an error
  (the transaction is rolled back) or a value and the new database. The operations of
  the engine are obtained from a transaction body by \<open>transact\<close>, which models
  \<open>begin\<close>, the deferred \<open>Rollback\<close> and the final \<open>Commit\<close>.
\<close>

named_theorems tx_simps \<open>equations that run a transaction body\<close>
named_theorems tx_inv \<open>what a successful transaction body says about its parts\<close>
named_theorems triples \<open>Hoare rules for transaction bodies\<close>
named_theorems table_simps \<open>equations for the statements on one table\<close>
named_theorems run_defs \<open>definitions to unfold when an operation is run on concrete data\<close>

subsection \<open>Identifiers, instants and errors\<close>

text \<open>
  A UUID is only compared and ordered, so it is a number, \<open>uuid.Nil\<close> being zero.
  An instant counts nanoseconds from the Unix epoch, a duration counts nanoseconds.
  A Go string and a byte slice are both a list of bytes, that is a \<open>string\<close>.
\<close>

type_synonym uuid = nat
type_synonym time = int
type_synonym duration = int

definition uuid_Nil :: uuid where
  "uuid_Nil = 0"

definition Second :: duration where
  "Second = 1000000000"

definition Minute :: duration where
  "Minute = 60 * Second"

definition Hour :: duration where
  "Hour = 60 * Minute"

text \<open>The zero value of \<open>time.Time\<close>: the first of January of the year 1, UTC.\<close>

definition ZeroTime :: time where
  "ZeroTime = - 62135596800 * Second"

text \<open>
  The sentinel errors of \<open>internal/authentication/types.go\<close>, and three that come from
  below: \<open>NoRows\<close> is \<open>sql.ErrNoRows\<close>, \<open>UniqueViolation\<close> an error with SQLSTATE 23505,
  \<open>ErrInternal\<close> any other failure of the database or of a library.
\<close>

datatype error =
    ErrAccountExists | ErrNotFound | ErrSession | ErrInvalid | ErrUnauthorized
  | ErrCredentials | ErrConflict | ErrForbidden | ErrUnavailable | ErrAttempts
  | NoRows | UniqueViolation | ErrInternal

text \<open>\<open>conflict\<close> of \<open>account.go\<close>: a unique violation is reported as a conflict.\<close>

definition conflict :: "error \<Rightarrow> error" where
  "conflict err = (if err = UniqueViolation then ErrConflict else err)"

subsection \<open>Transaction bodies\<close>

type_synonym ('s, 'a) tx = "'s \<Rightarrow> error + 'a \<times> 's"

definition tx_return :: "'a \<Rightarrow> ('s, 'a) tx" where
  "tx_return x = (\<lambda>s. Inr (x, s))"

definition tx_fail :: "error \<Rightarrow> ('s, 'a) tx" where
  "tx_fail err = (\<lambda>s. Inl err)"

definition tx_bind :: "('s, 'a) tx \<Rightarrow> ('a \<Rightarrow> ('s, 'b) tx) \<Rightarrow> ('s, 'b) tx" where
  "tx_bind m f = (\<lambda>s. case m s of Inl err \<Rightarrow> Inl err | Inr (x, t) \<Rightarrow> f x t)"

definition tx_then :: "('s, 'a) tx \<Rightarrow> ('s, 'b) tx \<Rightarrow> ('s, 'b) tx" where
  "tx_then m n = tx_bind m (\<lambda>_. n)"

text \<open>A guard: an early return with an error unless the condition holds.\<close>

definition tx_assert :: "bool \<Rightarrow> error \<Rightarrow> ('s, unit) tx" where
  "tx_assert b err = (if b then tx_return () else tx_fail err)"

text \<open>A query that cannot fail, a query of one row that may be missing, a fallible query.\<close>

definition tx_read :: "('s \<Rightarrow> 'a) \<Rightarrow> ('s, 'a) tx" where
  "tx_read f = (\<lambda>s. Inr (f s, s))"

definition tx_row :: "('s \<Rightarrow> 'a option) \<Rightarrow> error \<Rightarrow> ('s, 'a) tx" where
  "tx_row f err = (\<lambda>s. case f s of None \<Rightarrow> Inl err | Some x \<Rightarrow> Inr (x, s))"

definition tx_query :: "('s \<Rightarrow> error + 'a) \<Rightarrow> ('s, 'a) tx" where
  "tx_query f = (\<lambda>s. case f s of Inl err \<Rightarrow> Inl err | Inr x \<Rightarrow> Inr (x, s))"

text \<open>A statement: one that cannot fail, and one that may break a constraint.\<close>

definition tx_exec :: "('s \<Rightarrow> 's) \<Rightarrow> ('s, unit) tx" where
  "tx_exec f = (\<lambda>s. Inr ((), f s))"

definition tx_stmt :: "('s \<Rightarrow> error + 's) \<Rightarrow> ('s, unit) tx" where
  "tx_stmt f = (\<lambda>s. case f s of Inl err \<Rightarrow> Inl err | Inr t \<Rightarrow> Inr ((), t))"

text \<open>Replacing the error a body fails with (\<open>return conflict(err)\<close> and its kin).\<close>

definition tx_catch :: "('s, 'a) tx \<Rightarrow> (error \<Rightarrow> error) \<Rightarrow> ('s, 'a) tx" where
  "tx_catch m g = (\<lambda>s. case m s of Inl err \<Rightarrow> Inl (g err) | Inr r \<Rightarrow> Inr r)"

text \<open>
  Inspecting an error and going on (\<open>if errors.Is(err, ...)\<close>): the statements of a body that
  failed are undone, so this is only used where a failing body has changed nothing.
\<close>

definition tx_try :: "('s, 'a) tx \<Rightarrow> ('s, error + 'a) tx" where
  "tx_try m = (\<lambda>s. case m s of Inl err \<Rightarrow> Inr (Inl err, s) | Inr (x, t) \<Rightarrow> Inr (Inr x, t))"

lemma tx_run [tx_simps]:
  "tx_return x s = Inr (x, s)"
  "tx_fail err s = Inl err"
  "tx_bind m f s = (case m s of Inl err \<Rightarrow> Inl err | Inr (y, t) \<Rightarrow> f y t)"
  "tx_then m n s = (case m s of Inl err \<Rightarrow> Inl err | Inr (y, t) \<Rightarrow> n t)"
  "tx_assert b err s = (if b then Inr ((), s) else Inl err)"
  "tx_read g s = Inr (g s, s)"
  "tx_row h err s = (case h s of None \<Rightarrow> Inl err | Some y \<Rightarrow> Inr (y, s))"
  "tx_query q s = (case q s of Inl err \<Rightarrow> Inl err | Inr y \<Rightarrow> Inr (y, s))"
  "tx_exec k s = Inr ((), k s)"
  "tx_stmt l s = (case l s of Inl err \<Rightarrow> Inl err | Inr t \<Rightarrow> Inr ((), t))"
  "tx_catch m c s = (case m s of Inl err \<Rightarrow> Inl (c err) | Inr r \<Rightarrow> Inr r)"
  "tx_try m s = (case m s of Inl err \<Rightarrow> Inr (Inl err, s) | Inr (y, t) \<Rightarrow> Inr (Inr y, t))"
  by (simp_all add: tx_return_def tx_fail_def tx_bind_def tx_then_def tx_assert_def
      tx_read_def tx_row_def tx_query_def tx_exec_def tx_stmt_def tx_catch_def tx_try_def)

lemma tx_success [tx_inv]:
  "tx_return x s = Inr (y, t) \<longleftrightarrow> y = x \<and> t = s"
  "tx_fail err s = Inr (y, t) \<longleftrightarrow> False"
  "tx_bind m f s = Inr (z, t) \<longleftrightarrow> (\<exists>x u. m s = Inr (x, u) \<and> f x u = Inr (z, t))"
  "tx_then m n s = Inr (z, t) \<longleftrightarrow> (\<exists>x u. m s = Inr (x, u) \<and> n u = Inr (z, t))"
  "tx_assert b err s = Inr (v, t) \<longleftrightarrow> b \<and> t = s"
  "tx_read g s = Inr (y, t) \<longleftrightarrow> y = g s \<and> t = s"
  "tx_row h err s = Inr (y, t) \<longleftrightarrow> h s = Some y \<and> t = s"
  "tx_query q s = Inr (y, t) \<longleftrightarrow> q s = Inr y \<and> t = s"
  "tx_exec k s = Inr (v, t) \<longleftrightarrow> t = k s"
  "tx_stmt l s = Inr (v, t) \<longleftrightarrow> l s = Inr t"
  "tx_catch m c s = Inr (y, t) \<longleftrightarrow> m s = Inr (y, t)"
  "tx_try m s = Inr (w, t) \<longleftrightarrow>
     (\<exists>err. m s = Inl err \<and> w = Inl err \<and> t = s) \<or> (\<exists>y. m s = Inr (y, t) \<and> w = Inr y)"
  by (auto simp: tx_simps split: sum.splits option.splits)

text \<open>
  Congruences for running a body on concrete data: the continuation is left alone until the
  first part has been evaluated.
\<close>

lemma tx_weak:
  "m = m' \<Longrightarrow> tx_bind m f = tx_bind m' f"
  "m = m' \<Longrightarrow> tx_then m n = tx_then m' n"
  by simp_all

subsection \<open>Hoare rules\<close>

text \<open>
  \<open>triple P m Q\<close>: where the body succeeds from a database with \<open>P\<close>, the value and the
  new database satisfy \<open>Q\<close>. A rolled-back body changes nothing, so nothing is asked
  of it.
\<close>

definition triple :: "('s \<Rightarrow> bool) \<Rightarrow> ('s, 'a) tx \<Rightarrow> ('a \<Rightarrow> 's \<Rightarrow> bool) \<Rightarrow> bool" where
  "triple P m Q \<longleftrightarrow> (\<forall>s x t. P s \<longrightarrow> m s = Inr (x, t) \<longrightarrow> Q x t)"

abbreviation keeps :: "('s \<Rightarrow> bool) \<Rightarrow> ('s, 'a) tx \<Rightarrow> bool" where
  "keeps P m \<equiv> triple P m (\<lambda>_. P)"

lemma tripleD: "triple P m Q \<Longrightarrow> P s \<Longrightarrow> m s = Inr (x, t) \<Longrightarrow> Q x t"
  by (simp add: triple_def)

lemma tripleI: "(\<And>s x t. P s \<Longrightarrow> m s = Inr (x, t) \<Longrightarrow> Q x t) \<Longrightarrow> triple P m Q"
  by (simp add: triple_def)

lemma triple_weaken:
  "triple P m Q \<Longrightarrow> (\<And>s. P' s \<Longrightarrow> P s) \<Longrightarrow> (\<And>x s. Q x s \<Longrightarrow> Q' x s) \<Longrightarrow> triple P' m Q'"
  unfolding triple_def by blast

lemma triple_bind:
  "triple P m R \<Longrightarrow> (\<And>x. triple (R x) (f x) Q) \<Longrightarrow> triple P (tx_bind m f) Q"
  unfolding triple_def by (auto simp: tx_inv)

text \<open>\<open>yields m x\<close>: the body may return \<open>x\<close>. What follows a body may rely on it.\<close>

definition yields :: "('s, 'a) tx \<Rightarrow> 'a \<Rightarrow> bool" where
  "yields m x \<longleftrightarrow> (\<exists>s t. m s = Inr (x, t))"

lemma keeps_return [triples]: "keeps P (tx_return x)"
  by (auto simp: triple_def tx_inv)

lemma keeps_fail [triples]: "keeps P (tx_fail err)"
  by (auto simp: triple_def tx_inv)

lemma keeps_bind [triples]:
  "keeps P m \<Longrightarrow> (\<And>x. yields m x \<Longrightarrow> keeps P (f x)) \<Longrightarrow> keeps P (tx_bind m f)"
  unfolding triple_def yields_def tx_success(3) by blast

lemma keeps_then [triples]: "keeps P m \<Longrightarrow> keeps P n \<Longrightarrow> keeps P (tx_then m n)"
  unfolding tx_then_def by (rule keeps_bind)

lemma keeps_assert [triples]: "keeps P (tx_assert b err)"
  by (auto simp: triple_def tx_inv)

lemma keeps_read [triples]: "keeps P (tx_read g)"
  by (auto simp: triple_def tx_inv)

lemma keeps_row [triples]: "keeps P (tx_row h err)"
  by (auto simp: triple_def tx_inv)

lemma keeps_query [triples]: "keeps P (tx_query q)"
  by (auto simp: triple_def tx_inv)

lemma keeps_exec: "(\<And>s. P s \<Longrightarrow> P (f s)) \<Longrightarrow> keeps P (tx_exec f)"
  by (auto simp: triple_def tx_inv)

lemma keeps_stmt: "(\<And>s t. P s \<Longrightarrow> f s = Inr t \<Longrightarrow> P t) \<Longrightarrow> keeps P (tx_stmt f)"
  by (auto simp: triple_def tx_inv)

lemma keeps_catch [triples]: "keeps P m \<Longrightarrow> keeps P (tx_catch m g)"
  by (auto simp: triple_def tx_inv)

lemma keeps_try [triples]: "keeps P m \<Longrightarrow> keeps P (tx_try m)"
  unfolding triple_def by (auto simp: tx_inv)

lemma keeps_if [triples]: "(b \<Longrightarrow> keeps P m) \<Longrightarrow> (\<not> b \<Longrightarrow> keeps P n) \<Longrightarrow> keeps P (if b then m else n)"
  by simp

lemma keeps_option [triples]:
  "(z = None \<Longrightarrow> keeps P m) \<Longrightarrow> (\<And>x. z = Some x \<Longrightarrow> keeps P (f x)) \<Longrightarrow>
   keeps P (case z of None \<Rightarrow> m | Some x \<Rightarrow> f x)"
  by (cases z) auto

lemma keeps_sum [triples]:
  "(\<And>x. z = Inl x \<Longrightarrow> keeps P (f x)) \<Longrightarrow> (\<And>y. z = Inr y \<Longrightarrow> keeps P (g y)) \<Longrightarrow>
   keeps P (case z of Inl x \<Rightarrow> f x | Inr y \<Rightarrow> g y)"
  by (cases z) auto

lemma keeps_prod [triples]:
  "(\<And>x y. z = (x, y) \<Longrightarrow> keeps P (f x y)) \<Longrightarrow> keeps P (case z of (x, y) \<Rightarrow> f x y)"
  by (cases z) auto

lemma keeps_let [triples]: "keeps P (f x) \<Longrightarrow> keeps P (let y = x in f y)"
  by simp

subsection \<open>Statements on one table\<close>

text \<open>
  A table is the list of its rows. \<open>exists_row\<close> is \<open>SELECT EXISTS\<close>, \<open>find\<close> selects a
  row, \<open>update_rows\<close> and \<open>delete_rows\<close> are \<open>UPDATE\<close> and \<open>DELETE\<close> with a \<open>WHERE\<close> clause,
  and a row is inserted at the end.
\<close>

definition exists_row :: "('r \<Rightarrow> bool) \<Rightarrow> 'r list \<Rightarrow> bool" where
  "exists_row P rows = list_ex P rows"

definition update_rows :: "('r \<Rightarrow> bool) \<Rightarrow> ('r \<Rightarrow> 'r) \<Rightarrow> 'r list \<Rightarrow> 'r list" where
  "update_rows P f rows = map (\<lambda>r. if P r then f r else r) rows"

definition delete_rows :: "('r \<Rightarrow> bool) \<Rightarrow> 'r list \<Rightarrow> 'r list" where
  "delete_rows P rows = filter (\<lambda>r. \<not> P r) rows"

lemma exists_row_iff: "exists_row P rows \<longleftrightarrow> (\<exists>r \<in> set rows. P r)"
  by (simp add: exists_row_def list_ex_iff)

lemma exists_row_append [table_simps]: "exists_row P (rows @ [r]) \<longleftrightarrow> exists_row P rows \<or> P r"
  by (simp add: exists_row_def disj_commute)

lemma exists_row_update:
  "(\<And>r. g (f r) = g r) \<Longrightarrow>
   exists_row (\<lambda>r. g r = y) (update_rows P f rows) = exists_row (\<lambda>r. g r = y) rows"
  by (auto simp: exists_row_iff update_rows_def)

lemma exists_row_delete:
  "exists_row (\<lambda>r. g r = y) rows \<Longrightarrow> y \<notin> g ` {r \<in> set rows. P r} \<Longrightarrow>
   exists_row (\<lambda>r. g r = y) (delete_rows P rows)"
  by (auto simp: exists_row_iff delete_rows_def)

lemma set_update_rows [table_simps]:
  "set (update_rows P f rows) = (\<lambda>r. if P r then f r else r) ` set rows"
  by (simp add: update_rows_def)

lemma set_delete_rows [table_simps]: "set (delete_rows P rows) = {r \<in> set rows. \<not> P r}"
  by (simp add: delete_rows_def)

lemma delete_rows_twice [table_simps]:
  "delete_rows P (delete_rows Q rows) = delete_rows (\<lambda>r. P r \<or> Q r) rows"
  by (simp add: delete_rows_def conj_commute)

lemma find_Some_D: "find P rows = Some r \<Longrightarrow> r \<in> set rows \<and> P r"
  by (auto simp: find_Some_iff)

lemma find_None_D: "find P rows = None \<Longrightarrow> r \<in> set rows \<Longrightarrow> \<not> P r"
  by (auto simp: find_None_iff)

subsection \<open>Tables with constraints\<close>

text \<open>
  The constraints of one table: \<open>clash q r\<close> says that two rows share a value of a unique
  key, \<open>ok r\<close> that a row passes the table's checks and that what it references exists.
\<close>

definition wf_table :: "('r \<Rightarrow> 'r \<Rightarrow> bool) \<Rightarrow> ('r \<Rightarrow> bool) \<Rightarrow> 'r list \<Rightarrow> bool" where
  "wf_table clash ok rows \<longleftrightarrow> (\<forall>r \<in> set rows. ok r) \<and> sorted_wrt (\<lambda>q r. \<not> clash q r) rows"

text \<open>
  \<open>INSERT\<close>: the checks of the row come first, then the unique keys, then the references.
\<close>

definition insert_row ::
  "('r \<Rightarrow> 'r \<Rightarrow> bool) \<Rightarrow> ('r \<Rightarrow> bool) \<Rightarrow> ('r \<Rightarrow> bool) \<Rightarrow> 'r \<Rightarrow> 'r list \<Rightarrow> error + 'r list" where
  "insert_row clash check refs r rows =
     (if \<not> check r then Inl ErrInternal
      else if exists_row (\<lambda>q. clash q r) rows then Inl UniqueViolation
      else if \<not> refs r then Inl ErrInternal
      else Inr (rows @ [r]))"

text \<open>\<open>UPDATE\<close> of columns under a unique key, for a condition that selects one row by its key.\<close>

definition update_unique ::
  "('r \<Rightarrow> 'r \<Rightarrow> bool) \<Rightarrow> ('r \<Rightarrow> bool) \<Rightarrow> ('r \<Rightarrow> 'r) \<Rightarrow> 'r list \<Rightarrow> error + 'r list" where
  "update_unique clash P f rows =
     (if list_ex (\<lambda>r. P r \<and> list_ex (\<lambda>q. \<not> P q \<and> clash q (f r)) rows) rows
      then Inl UniqueViolation else Inr (update_rows P f rows))"

lemma map_sum_success [tx_inv]: "map_sum f g x = Inr y \<longleftrightarrow> (\<exists>z. x = Inr z \<and> y = g z)"
  by (cases x) auto

lemma insert_row_success [tx_inv]:
  "insert_row clash check refs r rows = Inr rows' \<longleftrightarrow>
     check r \<and> refs r \<and> (\<forall>q \<in> set rows. \<not> clash q r) \<and> rows' = rows @ [r]"
  by (auto simp: insert_row_def exists_row_iff)

lemma update_unique_success [tx_inv]:
  "update_unique clash P f rows = Inr rows' \<longleftrightarrow>
     (\<forall>r \<in> set rows. \<forall>q \<in> set rows. P r \<longrightarrow> \<not> P q \<longrightarrow> \<not> clash q (f r)) \<and> rows' = update_rows P f rows"
  by (auto simp: update_unique_def list_ex_iff)

lemma wf_table_Nil [simp]: "wf_table clash ok []"
  by (simp add: wf_table_def)

lemma wf_table_ok: "wf_table clash ok rows \<Longrightarrow> r \<in> set rows \<Longrightarrow> ok r"
  by (simp add: wf_table_def)

lemma wf_table_mono:
  "wf_table clash ok rows \<Longrightarrow> (\<And>r. r \<in> set rows \<Longrightarrow> ok r \<Longrightarrow> ok' r) \<Longrightarrow> wf_table clash ok' rows"
  by (auto simp: wf_table_def)

lemma wf_table_append [table_simps]:
  "wf_table clash ok (rows @ [r]) \<longleftrightarrow> wf_table clash ok rows \<and> ok r \<and> (\<forall>q \<in> set rows. \<not> clash q r)"
  by (auto simp: wf_table_def sorted_wrt_append)

lemma wf_table_delete:
  "wf_table clash ok rows \<Longrightarrow> (\<And>r. r \<in> set rows \<Longrightarrow> \<not> P r \<Longrightarrow> ok r \<Longrightarrow> ok' r) \<Longrightarrow>
   wf_table clash ok' (delete_rows P rows)"
  by (auto simp: wf_table_def delete_rows_def sorted_wrt_filter)

text \<open>An update that leaves the unique columns of every row alone.\<close>

lemma wf_table_update:
  assumes "wf_table clash ok rows"
    and "\<And>r. r \<in> set rows \<Longrightarrow> P r \<Longrightarrow> ok r \<Longrightarrow> ok (f r)"
    and "\<And>q r. clash (if P q then f q else q) (if P r then f r else r) \<Longrightarrow> clash q r"
  shows "wf_table clash ok (update_rows P f rows)"
proof -
  have "sorted_wrt (\<lambda>q r. \<not> clash q r) rows"
    using assms(1) by (simp add: wf_table_def)
  then have "sorted_wrt (\<lambda>q r. \<not> clash (if P q then f q else q) (if P r then f r else r)) rows"
    by (rule sorted_wrt_mono_rel [rotated]) (blast dest: assms(3))
  then show ?thesis
    using assms(1,2) by (auto simp: wf_table_def update_rows_def sorted_wrt_map)
qed

lemma update_rows_none: "(\<And>r. r \<in> set rows \<Longrightarrow> \<not> P r) \<Longrightarrow> update_rows P f rows = rows"
  by (simp add: update_rows_def map_idI)

text \<open>The interface of a table: its unique keys compare symmetrically and a row clashes with itself.\<close>

locale keyed_table =
  fixes clash :: "'r \<Rightarrow> 'r \<Rightarrow> bool"
  assumes clash_sym: "clash q r \<Longrightarrow> clash r q"
    and clash_refl: "clash r r"
begin

lemma row_unique:
  assumes "wf_table clash ok rows" "q \<in> set rows" "r \<in> set rows" "clash q r"
  shows "q = r"
proof (rule ccontr)
  assume "q \<noteq> r"
  then obtain i j where ij: "i < length rows" "j < length rows" "rows ! i = q" "rows ! j = r" "i \<noteq> j"
    using assms(2,3) by (metis in_set_conv_nth)
  then have "i < j \<or> j < i" by arith
  moreover have "\<not> clash (rows ! k) (rows ! l)" if "k < l" "l < length rows" for k l
    using assms(1) that by (simp add: wf_table_def sorted_wrt_iff_nth_less)
  ultimately show False
    using assms(4) ij clash_sym by metis
qed

lemma find_by_key:
  assumes "wf_table clash ok rows" "r \<in> set rows" "P r"
    and "\<And>q. q \<in> set rows \<Longrightarrow> P q \<Longrightarrow> clash q r"
  shows "find P rows = Some r"
proof (cases "find P rows")
  case None
  then show ?thesis using assms(2,3) by (auto dest: find_None_D)
next
  case (Some q)
  then show ?thesis using assms row_unique by (auto dest!: find_Some_D)
qed

lemma wf_table_distinct: "wf_table clash ok rows \<Longrightarrow> distinct rows"
  using clash_refl by (induction rows) (auto simp: wf_table_def)

lemma wf_table_update_unique:
  assumes wf: "wf_table clash ok rows"
    and upd: "update_unique clash P f rows = Inr rows'"
    and one: "\<And>q r. q \<in> set rows \<Longrightarrow> r \<in> set rows \<Longrightarrow> P q \<Longrightarrow> P r \<Longrightarrow> clash q r"
    and ok: "\<And>r. r \<in> set rows \<Longrightarrow> P r \<Longrightarrow> ok r \<Longrightarrow> ok (f r)"
  shows "wf_table clash ok rows'"
proof -
  let ?g = "\<lambda>r. if P r then f r else r"
  have sep: "\<not> clash (?g q) (?g r)"
    if "q \<in> set rows" "r \<in> set rows" "\<not> clash q r" for q r
  proof -
    have free: "\<not> clash u (f t)" if "t \<in> set rows" "u \<in> set rows" "P t" "\<not> P u" for t u
      using upd that by (simp add: tx_inv)
    have "\<not> (P q \<and> P r)" using one that by blast
    then show ?thesis using that free clash_sym by (metis (full_types))
  qed
  have "sorted_wrt (\<lambda>q r. \<not> clash q r) rows" using wf by (simp add: wf_table_def)
  then have "sorted_wrt (\<lambda>q r. \<not> clash (?g q) (?g r)) rows"
    by (rule sorted_wrt_mono_rel [rotated]) (rule sep)
  then show ?thesis
    using wf ok upd by (auto simp: wf_table_def tx_inv update_rows_def sorted_wrt_map)
qed

end

subsection \<open>Running operations\<close>

text \<open>
  \<open>begin\<close> of \<open>transaction.go\<close>: opening the transaction, setting the lock timeout and
  taking the advisory lock may each fail; only a lock timeout (SQLSTATE 55P03) is
  reported as unavailability.
\<close>

datatype begin_outcome = BeginOk | BeginTxFailed | SetTimeoutFailed | LockTimeout | LockFailed

fun begin_tx :: "begin_outcome \<Rightarrow> error option" where
  "begin_tx BeginOk = None"
| "begin_tx BeginTxFailed = Some ErrInternal"
| "begin_tx SetTimeoutFailed = Some ErrInternal"
| "begin_tx LockTimeout = Some ErrUnavailable"
| "begin_tx LockFailed = Some ErrInternal"

text \<open>
  \<open>run_tx b c m s\<close> is an operation whose body is \<open>m\<close>: an error of the body rolls the
  transaction back, a value commits it, and a failing commit leaves the database as it
  was. The body's value is itself a sum, since two operations commit and then report an
  error.
\<close>

definition run_tx :: "begin_outcome \<Rightarrow> bool \<Rightarrow> ('s, error + 'a) tx \<Rightarrow> 's \<Rightarrow> (error + 'a) \<times> 's" where
  "run_tx b c m s =
     (case begin_tx b of
        Some err \<Rightarrow> (Inl err, s)
      | None \<Rightarrow> (case m s of
          Inl err \<Rightarrow> (Inl err, s)
        | Inr (r, t) \<Rightarrow> if c then (r, t) else (Inl ErrInternal, s)))"

definition tx_done :: "('s, 'a) tx \<Rightarrow> ('s, error + 'a) tx" where
  "tx_done m = tx_bind m (\<lambda>x. tx_return (Inr x))"

text \<open>An operation that never commits: the deferred rollback discards its locks.\<close>

definition run_query :: "begin_outcome \<Rightarrow> ('s, 'a) tx \<Rightarrow> 's \<Rightarrow> (error + 'a) \<times> 's" where
  "run_query b m s =
     (case begin_tx b of
        Some err \<Rightarrow> (Inl err, s)
      | None \<Rightarrow> (case m s of Inl err \<Rightarrow> (Inl err, s) | Inr (x, _) \<Rightarrow> (Inr x, s)))"

lemma tx_done_success [tx_inv]:
  "tx_done m s = Inr (r, t) \<longleftrightarrow> (\<exists>x. m s = Inr (x, t) \<and> r = Inr x)"
  by (auto simp: tx_done_def tx_inv)

lemma tx_done_run [tx_simps]:
  "tx_done m s = (case m s of Inl err \<Rightarrow> Inl err | Inr (x, t) \<Rightarrow> Inr (Inr x, t))"
  by (auto simp: tx_done_def tx_simps split: sum.splits)

lemma keeps_done [triples]: "keeps P m \<Longrightarrow> keeps P (tx_done m)"
  unfolding tx_done_def by (intro triples)

text \<open>What an operation returned tells what its body did; an error leaves the state alone.\<close>

lemma run_tx_cases:
  assumes "run_tx b c m s = (r, t)"
  obtains (aborted) err where "r = Inl err" "t = s"
    | (committed) "m s = Inr (r, t)" "b = BeginOk" "c"
  using assms by (cases b) (auto simp: run_tx_def split: sum.splits if_splits)

lemma run_tx_done_Inr:
  "run_tx b c (tx_done m) s = (Inr x, t) \<longleftrightarrow> b = BeginOk \<and> c \<and> m s = Inr (x, t)"
  by (cases b) (auto simp: run_tx_def tx_simps split: sum.splits if_splits)

lemma run_tx_done_Inl: "run_tx b c (tx_done m) s = (Inl err, t) \<Longrightarrow> t = s"
  by (auto simp: run_tx_def tx_simps split: sum.splits option.splits if_splits)

lemma run_tx_keeps: "keeps P m \<Longrightarrow> P s \<Longrightarrow> P (snd (run_tx b c m s))"
  by (auto simp: run_tx_def dest: tripleD split: sum.splits option.splits)

lemma run_query_Inr: "run_query b m s = (Inr x, t) \<longleftrightarrow> b = BeginOk \<and> t = s \<and> (\<exists>u. m s = Inr (x, u))"
  by (cases b) (auto simp: run_query_def split: sum.splits)

lemma run_query_state [simp]: "snd (run_query b m s) = s"
  by (auto simp: run_query_def split: sum.splits option.splits)

subsection \<open>Reachable states and invariants\<close>

text \<open>The states a step relation reaches from an initial state, and the contract of an invariant.\<close>

inductive reach :: "('s \<Rightarrow> 's \<Rightarrow> bool) \<Rightarrow> 's \<Rightarrow> 's \<Rightarrow> bool" for step :: "'s \<Rightarrow> 's \<Rightarrow> bool" and s0 :: 's where
  reach_init: "reach step s0 s0"
| reach_step: "reach step s0 s \<Longrightarrow> step s t \<Longrightarrow> reach step s0 t"

locale invariant_of =
  fixes step :: "'s \<Rightarrow> 's \<Rightarrow> bool"
    and start :: "'s \<Rightarrow> bool"
    and inv :: "'s \<Rightarrow> bool"
  assumes inv_start: "start s \<Longrightarrow> inv s"
    and inv_step: "step s t \<Longrightarrow> inv s \<Longrightarrow> inv t"
begin

lemma inv_reach_from: "reach step s t \<Longrightarrow> inv s \<Longrightarrow> inv t"
  by (induction rule: reach.induct) (auto intro: inv_step)

lemma inv_reach: "start s \<Longrightarrow> reach step s t \<Longrightarrow> inv t"
  using inv_reach_from inv_start by blast

end

lemmas run_prelude [run_defs] = uuid_Nil_def Second_def Minute_def Hour_def ZeroTime_def conflict_def
  exists_row_def update_rows_def delete_rows_def insert_row_def update_unique_def run_tx_def run_query_def

end
