(* ===== verification/Auth_Strings.thy ===== *)
theory Auth_Strings
  imports Auth_Prelude "HOL-Library.Sublist"
begin

section \<open>Strings, numerals and encodings\<close>

text \<open>
  What the program uses of Go's \<open>strings\<close>, \<open>fmt\<close>, \<open>strconv\<close> and \<open>encoding\<close> packages. A
  string is its list of bytes. \<open>ToLower\<close>, \<open>TrimSpace\<close> and \<open>Fields\<close> have a path for ASCII
  text, written out here, and fall back to the Unicode tables for other text; the
  fallbacks are the fields of the record \<open>unicode\<close>, a parameter of every definition that
  needs them.
\<close>

record unicode =
  uni_ToLower :: "string \<Rightarrow> string"
  uni_TrimFunc :: "string \<Rightarrow> string"
  uni_TrimRightFunc :: "string \<Rightarrow> string"
  uni_FieldsFunc :: "string \<Rightarrow> string list"

definition byte :: "char \<Rightarrow> nat" where
  "byte c = of_char c"

definition is_ascii :: "char \<Rightarrow> bool" where
  "is_ascii c \<longleftrightarrow> byte c < 128"

definition is_upper :: "char \<Rightarrow> bool" where
  "is_upper c \<longleftrightarrow> 65 \<le> byte c \<and> byte c \<le> 90"

definition is_lower :: "char \<Rightarrow> bool" where
  "is_lower c \<longleftrightarrow> 97 \<le> byte c \<and> byte c \<le> 122"

definition is_digit :: "char \<Rightarrow> bool" where
  "is_digit c \<longleftrightarrow> 48 \<le> byte c \<and> byte c \<le> 57"

text \<open>\<open>asciiSpace\<close>: tab, newline, vertical tab, form feed, carriage return and space.\<close>

definition ascii_space :: "char \<Rightarrow> bool" where
  "ascii_space c \<longleftrightarrow> byte c = 32 \<or> 9 \<le> byte c \<and> byte c \<le> 13"

definition lower_ascii :: "char \<Rightarrow> char" where
  "lower_ascii c = (if is_upper c then char_of (byte c + 32) else c)"

definition ToLower :: "unicode \<Rightarrow> string \<Rightarrow> string" where
  "ToLower u s = (if list_all is_ascii s then map lower_ascii s else uni_ToLower u s)"

definition trim_right :: "string \<Rightarrow> string" where
  "trim_right s = rev (dropWhile ascii_space (rev s))"

definition TrimSpace :: "unicode \<Rightarrow> string \<Rightarrow> string" where
  "TrimSpace u s =
     (let t = dropWhile ascii_space s in
      if t \<noteq> [] \<and> \<not> is_ascii (hd t) then uni_TrimFunc u t
      else let w = trim_right t in
        if w \<noteq> [] \<and> \<not> is_ascii (last w) then uni_TrimRightFunc u w else w)"

fun Contains :: "string \<Rightarrow> string \<Rightarrow> bool" where
  "Contains [] t = (t = [])"
| "Contains (c # s) t = (prefix t (c # s) \<or> Contains s t)"

fun fields_ascii :: "string \<Rightarrow> string \<Rightarrow> string list" where
  "fields_ascii acc [] = (if acc = [] then [] else [rev acc])"
| "fields_ascii acc (c # s) =
     (if ascii_space c then (if acc = [] then [] else [rev acc]) @ fields_ascii [] s
      else fields_ascii (c # acc) s)"

definition Fields :: "unicode \<Rightarrow> string \<Rightarrow> string list" where
  "Fields u s = (if list_all is_ascii s then fields_ascii [] s else uni_FieldsFunc u s)"

lemma Contains_iff: "Contains s t \<longleftrightarrow> sublist t s"
  by (induction s) (auto simp: sublist_Cons_right)

lemma byte_char_of: "n < 256 \<Longrightarrow> byte (char_of n) = n"
  by (simp add: byte_def)

lemma byte_bound: "byte c < 256"
  by (simp add: byte_def)

lemma byte_inject: "byte c = byte d \<longleftrightarrow> c = d"
  by (simp add: byte_def)

lemma lower_ascii_idem [simp]: "lower_ascii (lower_ascii c) = lower_ascii c"
  by (auto simp: lower_ascii_def is_upper_def byte_char_of)

lemma is_ascii_lower [simp]: "is_ascii (lower_ascii c) = is_ascii c"
  by (auto simp: lower_ascii_def is_upper_def is_ascii_def byte_char_of)

lemma ascii_space_lower [simp]: "ascii_space (lower_ascii c) = ascii_space c"
  by (auto simp: lower_ascii_def is_upper_def ascii_space_def byte_char_of)

text \<open>Normalising ASCII text is idempotent, and its result has no upper-case letter.\<close>

lemma ToLower_ascii: "list_all is_ascii s \<Longrightarrow> ToLower u s = map lower_ascii s"
  by (simp add: ToLower_def)

lemma TrimSpace_ascii:
  assumes "list_all is_ascii s"
  shows "TrimSpace u s = trim_right (dropWhile ascii_space s)"
proof -
  have *: "is_ascii c" if "c \<in> set (dropWhile ascii_space s)" for c
    using assms that by (auto simp: list_all_iff dest: set_dropWhileD)
  have "(dropWhile ascii_space s \<noteq> [] \<and> \<not> is_ascii (hd (dropWhile ascii_space s))) = False"
    using * hd_in_set by blast
  moreover have "(trim_right (dropWhile ascii_space s) \<noteq> [] \<and>
      \<not> is_ascii (last (trim_right (dropWhile ascii_space s)))) = False"
    using * by (metis last_in_set set_dropWhileD set_rev trim_right_def)
  ultimately show ?thesis unfolding TrimSpace_def Let_def by (simp only: if_False)
qed

subsection \<open>Decimal numerals\<close>

definition digit_char :: "nat \<Rightarrow> char" where
  "digit_char n = char_of (48 + n mod 10)"

fun decimal :: "nat \<Rightarrow> string" where
  "decimal n = (if n < 10 then [digit_char n] else decimal (n div 10) @ [digit_char n])"

declare decimal.simps [simp del]

text \<open>\<open>strconv.FormatInt(v, 10)\<close>, and \<open>fmt.Sprintf("%06d", n)\<close> of a number that is not negative.\<close>

definition FormatInt :: "int \<Rightarrow> string" where
  "FormatInt v = (if v < 0 then ''-'' @ decimal (nat (- v)) else decimal (nat v))"

definition pad06 :: "nat \<Rightarrow> string" where
  "pad06 n = (let d = decimal n in replicate (6 - length d) (digit_char 0) @ d)"

definition digit_value :: "char \<Rightarrow> nat" where
  "digit_value c = byte c - 48"

definition decimal_value :: "string \<Rightarrow> nat" where
  "decimal_value s = foldl (\<lambda>n c. 10 * n + digit_value c) 0 s"

lemma is_digit_digit_char [simp]: "is_digit (digit_char n)"
  by (simp add: is_digit_def digit_char_def byte_char_of)

lemma digit_value_digit_char [simp]: "digit_value (digit_char n) = n mod 10"
  by (simp add: digit_value_def digit_char_def byte_char_of)

lemma decimal_value_append: "decimal_value (s @ [c]) = 10 * decimal_value s + digit_value c"
  by (simp add: decimal_value_def)

lemma decimal_value_decimal [simp]: "decimal_value (decimal n) = n"
proof (induction n rule: decimal.induct)
  case (1 n)
  then show ?case
    by (cases "n < 10") (auto simp: decimal.simps [of n] decimal_value_append, simp add: decimal_value_def)
qed

lemma decimal_digits: "list_all is_digit (decimal n)"
proof (induction n rule: decimal.induct)
  case (1 n)
  then show ?case by (cases "n < 10") (auto simp: decimal.simps [of n])
qed

lemma decimal_nonempty [simp]: "decimal n \<noteq> []"
  by (subst decimal.simps) simp

lemma decimal_inject [simp]: "decimal m = decimal n \<longleftrightarrow> m = n"
  by (metis decimal_value_decimal)

lemma length_decimal: "n < 10 ^ k \<Longrightarrow> 0 < k \<Longrightarrow> length (decimal n) \<le> k"
proof (induction n arbitrary: k rule: decimal.induct)
  case (1 n)
  show ?case
  proof (cases "n < 10")
    case True
    then show ?thesis using 1(3) by (simp add: decimal.simps [of n])
  next
    case False
    obtain j where k: "k = Suc j" using 1(3) by (cases k) auto
    then have "n div 10 < 10 ^ j" "0 < j" using False 1(2) by (auto intro: gr0I)
    then show ?thesis using 1(1) [OF False] False k by (simp add: decimal.simps [of n])
  qed
qed

lemma decimal_not_minus: "decimal n \<noteq> CHR ''-'' # s"
proof
  assume "decimal n = CHR ''-'' # s"
  then have "is_digit (CHR ''-'')" using decimal_digits [of n] by simp
  then show False by (simp add: is_digit_def byte_def)
qed

lemma FormatInt_inject: "FormatInt v = FormatInt w \<longleftrightarrow> v = w"
  by (auto simp: FormatInt_def decimal_not_minus decimal_not_minus [symmetric] split: if_splits)

lemma decimal_value_replicate: "decimal_value (replicate k (digit_char 0) @ s) = decimal_value s"
  by (induction k) (simp_all add: decimal_value_def)

lemma pad06_value [simp]: "decimal_value (pad06 n) = n"
  by (simp add: pad06_def Let_def decimal_value_replicate)

lemma pad06_length: "n < 1000000 \<Longrightarrow> length (pad06 n) = 6"
  using length_decimal [of n 6] by (simp add: pad06_def Let_def)

lemma pad06_digits: "list_all is_digit (pad06 n)"
  using decimal_digits [of n] by (auto simp: pad06_def Let_def list_all_iff)

subsection \<open>Base 64 and base 32\<close>

text \<open>
  \<open>base64.RawURLEncoding\<close> and unpadded \<open>base32.StdEncoding\<close> are one scheme: the bits of the
  bytes, most significant first, cut into groups of six or five, the last group filled
  with zeros, each group shown by a letter of the alphabet.
\<close>

fun to_bits :: "nat \<Rightarrow> nat \<Rightarrow> bool list" where
  "to_bits 0 n = []"
| "to_bits (Suc w) n = to_bits w (n div 2) @ [odd n]"

definition of_bits :: "bool list \<Rightarrow> nat" where
  "of_bits bs = foldl (\<lambda>n b. 2 * n + of_bool b) 0 bs"

function chunks :: "nat \<Rightarrow> 'a list \<Rightarrow> 'a list list" where
  "chunks k xs = (if xs = [] \<or> k = 0 then [] else take k xs # chunks k (drop k xs))"
  by pat_completeness auto
termination by (relation "measure (\<lambda>(k, xs). length xs)") auto

declare chunks.simps [simp del]

definition encode_groups :: "nat \<Rightarrow> bool list \<Rightarrow> nat list" where
  "encode_groups k bs = map (\<lambda>g. of_bits (g @ replicate (k - length g) False)) (chunks k bs)"

definition base_encode :: "nat \<Rightarrow> string \<Rightarrow> string \<Rightarrow> string" where
  "base_encode k alphabet s =
     map (\<lambda>n. alphabet ! n) (encode_groups k (concat (map (\<lambda>c. to_bits 8 (byte c)) s)))"

definition base64url :: string where
  "base64url = ''ABCDEFGHIJKLMNOPQRSTUVWXYZabcdefghijklmnopqrstuvwxyz0123456789-_''"

definition base32std :: string where
  "base32std = ''ABCDEFGHIJKLMNOPQRSTUVWXYZ234567''"

definition RawURLEncoding :: "string \<Rightarrow> string" where
  "RawURLEncoding s = base_encode 6 base64url s"

definition Base32 :: "string \<Rightarrow> string" where
  "Base32 s = base_encode 5 base32std s"

text \<open>The index of a letter in an alphabet, and \<open>base64.RawURLEncoding.DecodeString\<close>.\<close>

fun index_of :: "'a \<Rightarrow> 'a list \<Rightarrow> nat option" where
  "index_of x [] = None"
| "index_of x (y # ys) = (if x = y then Some 0 else map_option Suc (index_of x ys))"

fun indices :: "'a list \<Rightarrow> 'a list \<Rightarrow> nat list option" where
  "indices alphabet [] = Some []"
| "indices alphabet (c # s) =
     (case index_of c alphabet of None \<Rightarrow> None | Some n \<Rightarrow> map_option (\<lambda>ns. n # ns) (indices alphabet s))"

definition whole_bytes :: "bool list \<Rightarrow> string" where
  "whole_bytes bs = map (\<lambda>g. char_of (of_bits g)) (chunks 8 (take (8 * (length bs div 8)) bs))"

definition RawURLDecode :: "string \<Rightarrow> string option" where
  "RawURLDecode s =
     (let t = filter (\<lambda>c. byte c \<noteq> 10 \<and> byte c \<noteq> 13) s in
      if length t mod 4 = 1 then None
      else map_option (\<lambda>ns. whole_bytes (concat (map (to_bits 6) ns))) (indices base64url t))"

lemma length_to_bits [simp]: "length (to_bits w n) = w"
  by (induction w n rule: to_bits.induct) simp_all

lemma of_bits_append: "of_bits (bs @ [b]) = 2 * of_bits bs + of_bool b"
  by (simp add: of_bits_def)

lemma of_bits_to_bits: "n < 2 ^ w \<Longrightarrow> of_bits (to_bits w n) = n"
proof (induction w n rule: to_bits.induct)
  case (2 w n)
  then have "n div 2 < 2 ^ w" by auto
  then have "of_bits (to_bits w (n div 2)) = n div 2" using 2(1) by simp
  then show ?case by (simp add: of_bits_append)
qed (simp add: of_bits_def)

lemma to_bits_of_bits: "to_bits (length bs) (of_bits bs) = bs"
proof (induction bs rule: rev_induct)
  case (snoc b bs)
  then show ?case by (simp add: of_bits_append)
qed simp

lemma of_bits_bound: "of_bits bs < 2 ^ length bs"
proof (induction bs rule: rev_induct)
  case (snoc b bs)
  then show ?case by (cases b) (auto simp: of_bits_append)
qed (simp add: of_bits_def)

lemma concat_groups:
  assumes "0 < k"
  shows "\<exists>pad < k. concat (map (to_bits k) (encode_groups k bs)) = bs @ replicate pad False"
  using assms
proof (induction k bs rule: chunks.induct)
  case (1 k bs)
  show ?case
  proof (cases "bs = [] \<or> k = 0")
    case True
    then show ?thesis using 1(2) by (auto simp: encode_groups_def chunks.simps [of k bs] chunks.simps [of k "[]"])
  next
    case False
    let ?g = "take k bs"
    have bits: "to_bits k (of_bits (?g @ replicate (k - length ?g) False)) = ?g @ replicate (k - length ?g) False"
      using to_bits_of_bits [of "?g @ replicate (k - length ?g) False"] by (simp add: min_def split: if_splits)
    show ?thesis
    proof (cases "k \<le> length bs")
      case True
      then show ?thesis
        using 1(1) [OF False 1(2)] False bits by (auto simp: encode_groups_def chunks.simps [of k bs])
    next
      case short: False
      moreover have "k - length bs < k" using False by (cases bs) auto
      ultimately show ?thesis
        using False bits by (auto simp: encode_groups_def chunks.simps [of k bs] chunks.simps [of k "[]"])
    qed
  qed
qed

lemma chunks_concat:
  assumes "\<And>g. g \<in> set gs \<Longrightarrow> length g = k" "0 < k"
  shows "chunks k (concat gs) = gs"
  using assms by (induction gs) (auto simp: chunks.simps [of k])

lemma whole_bytes_concat:
  assumes "pad < 8"
  shows "whole_bytes (concat (map (\<lambda>c. to_bits 8 (byte c)) s) @ replicate pad False) = s"
proof -
  have len: "length (concat (map (\<lambda>c. to_bits 8 (byte c)) s)) = 8 * length s"
    by (induction s) auto
  have "of_bits (to_bits 8 (byte c)) = byte c" for c
    using byte_bound [of c] by (simp add: of_bits_to_bits)
  then have "map (\<lambda>g. char_of (of_bits g)) (map (\<lambda>c. to_bits 8 (byte c)) s) = s"
    by (simp add: byte_def map_idI)
  moreover have "chunks 8 (concat (map (\<lambda>c. to_bits 8 (byte c)) s)) = map (\<lambda>c. to_bits 8 (byte c)) s"
    by (rule chunks_concat) auto
  ultimately show ?thesis
    using assms len by (simp add: whole_bytes_def)
qed

lemma index_of_nth: "distinct xs \<Longrightarrow> n < length xs \<Longrightarrow> index_of (xs ! n) xs = Some n"
  by (induction xs arbitrary: n) (auto simp: nth_Cons split: nat.splits)

lemma indices_map:
  "distinct alphabet \<Longrightarrow> (\<And>n. n \<in> set ns \<Longrightarrow> n < length alphabet) \<Longrightarrow>
   indices alphabet (map (\<lambda>n. alphabet ! n) ns) = Some ns"
  by (induction ns) (simp_all add: index_of_nth)

lemma encode_groups_bound: "n \<in> set (encode_groups k bs) \<Longrightarrow> n < 2 ^ k"
proof (induction k bs rule: chunks.induct)
  case (1 k bs)
  have "of_bits (take k bs @ replicate (k - length (take k bs)) False) < 2 ^ k"
    using of_bits_bound [of "take k bs @ replicate (k - length (take k bs)) False"] by (simp add: min_def split: if_splits)
  with 1 show ?case
    by (auto simp: encode_groups_def chunks.simps [of k bs] split: if_splits)
qed

lemma length_chunks: "0 < k \<Longrightarrow> length (chunks k xs) = (length xs + k - 1) div k"
proof (induction k xs rule: chunks.induct)
  case (1 k xs)
  show ?case
  proof (cases "xs = []")
    case True
    then show ?thesis using 1(2) by (simp add: chunks.simps)
  next
    case False
    then obtain m where m: "length xs = Suc m" by (cases xs) auto
    then have "(length xs + k - 1) div k = Suc (m div k)" using 1(2) by (simp add: div_add_self2)
    moreover have "(length xs - k + k - 1) div k = m div k"
      using m 1(2) by (cases "k \<le> length xs") auto
    ultimately have "(length xs + k - 1) div k = Suc ((length xs - k + k - 1) div k)" by simp
    then show ?thesis using 1 False by (simp add: chunks.simps [of k xs])
  qed
qed

lemma length_bytes_bits: "length (concat (map (\<lambda>c. to_bits 8 (byte c)) s)) = 8 * length s"
  by (induction s) auto

lemma length_RawURLEncoding: "length (RawURLEncoding s) = (8 * length s + 5) div 6"
  by (simp add: RawURLEncoding_def base_encode_def encode_groups_def length_chunks length_bytes_bits)

lemma base64url_distinct: "distinct base64url" and base64url_length: "length base64url = 64"
  by (simp_all add: base64url_def)

lemma RawURLEncoding_letters: "set (RawURLEncoding s) \<subseteq> set base64url"
  using encode_groups_bound [of _ 6] base64url_length
  by (auto simp: RawURLEncoding_def base_encode_def)

lemma base64url_no_newline: "c \<in> set base64url \<Longrightarrow> byte c \<noteq> 10 \<and> byte c \<noteq> 13"
  by (auto simp: base64url_def byte_def)

lemma length_RawURLEncoding_mod: "length (RawURLEncoding s) mod 4 \<noteq> 1"
proof -
  define q r where "q = length s div 3" and "r = length s mod 3"
  then have n: "length s = 3 * q + r" and "r < 3" by simp_all
  have "8 * length s + 5 = (8 * r + 5) + 6 * (4 * q)" by (simp add: n)
  then have "(8 * length s + 5) div 6 = 4 * q + (8 * r + 5) div 6" by (simp only: div_mult_self2)
  moreover have "r = 0 \<or> r = 1 \<or> r = 2" using \<open>r < 3\<close> by arith
  ultimately show ?thesis unfolding length_RawURLEncoding by auto
qed

lemma RawURLDecode_encode: "RawURLDecode (RawURLEncoding s) = Some s"
proof -
  let ?ns = "encode_groups 6 (concat (map (\<lambda>c. to_bits 8 (byte c)) s))"
  have plain: "filter (\<lambda>c. byte c \<noteq> 10 \<and> byte c \<noteq> 13) (RawURLEncoding s) = RawURLEncoding s"
    using RawURLEncoding_letters [of s] base64url_no_newline by (auto simp: filter_id_conv)
  have "indices base64url (RawURLEncoding s) = Some ?ns"
    unfolding RawURLEncoding_def base_encode_def
    using encode_groups_bound [of _ 6] by (intro indices_map) (simp_all add: base64url_distinct base64url_length)
  moreover obtain pad where "pad < 6"
      "concat (map (to_bits 6) ?ns) = concat (map (\<lambda>c. to_bits 8 (byte c)) s) @ replicate pad False"
    using concat_groups [of 6] by auto
  ultimately show ?thesis
    using length_RawURLEncoding_mod [of s] by (simp add: RawURLDecode_def plain whole_bytes_concat)
qed

end
