(* ===== verification/Auth_Provider.thy ===== *)
theory Auth_Provider
  imports Auth_Strings Complex_Main
begin

section \<open>Identity providers\<close>

text \<open>
  \<open>internal/authentication/provider/provider.go\<close> and the \<open>Provider\<close> interface of
  \<open>oauth.go\<close>: the Google and VK adapters. What they reach over the network (the OAuth
  token endpoint, the validation of an ID token, VK's token endpoint), the OAuth2
  library's authorization URL and \<open>url.Parse\<close> are the fields of the record \<open>network\<close>,
  a parameter; which answers the adapters accept and which error they turn a failure
  into is written out.
\<close>

record ProviderIdentity =
  pid_Subject :: string
  pid_Email :: string
  pid_Nonce :: string
  pid_AuthenticatedAt :: time

text \<open>What \<open>url.Parse\<close> returns: the parts of a URL the program looks at, and its text.\<close>

record URL =
  url_Scheme :: string
  url_Host :: string
  url_Fragment :: string
  url_User :: bool
  url_RawQuery :: string
  url_Rest :: string

text \<open>
  An error of a library as \<open>providerError\<close> inspects it: which of the wrapped error types
  it matches, with the HTTP status a retrieve error or an API error carries.
\<close>

record raw_error =
  err_Net :: bool
  err_DeadlineExceeded :: bool
  err_Canceled :: bool
  err_Retrieve :: "int option"
  err_Api :: "int option"

datatype claim = ClString string | ClBool bool | ClNumber rat

record idtoken_payload =
  tok_Issuer :: string
  tok_Subject :: string
  tok_Expires :: int
  tok_Claims :: "string \<rightharpoonup> claim"

record vk_data =
  vkd_UserID :: int
  vkd_Email :: string
  vkd_Token :: string

text \<open>An HTTP answer: the status, and the body decoded as JSON where that succeeds.\<close>

record vk_response =
  vkr_StatusCode :: int
  vkr_Data :: "vk_data option"

record network =
  net_Now :: time
  net_Parse :: "string \<Rightarrow> URL option"
  net_AuthCodeURL :: "string \<Rightarrow> string \<Rightarrow> string \<Rightarrow> (string \<times> string) list \<Rightarrow> string"
  net_Exchange :: "string \<Rightarrow> string \<Rightarrow> string \<Rightarrow> string \<Rightarrow> string \<Rightarrow> raw_error + string option"
  net_Validate :: "string \<Rightarrow> string \<Rightarrow> raw_error + idtoken_payload"
  net_Post :: "string \<Rightarrow> string \<Rightarrow> vk_response option"

text \<open>The interface the engine calls. An adapter's answer depends on the network.\<close>

record Provider =
  prv_Authorize :: "network \<Rightarrow> string \<Rightarrow> string \<Rightarrow> string \<Rightarrow> string \<Rightarrow> bool \<Rightarrow> error + string"
  prv_Exchange :: "network \<Rightarrow> string \<Rightarrow> string \<Rightarrow> string \<Rightarrow> error + ProviderIdentity"
  prv_Native :: "network \<Rightarrow> string \<Rightarrow> error + ProviderIdentity"

subsection \<open>Query strings\<close>

text \<open>\<open>url.QueryEscape\<close> and \<open>url.Values.Encode\<close>, for values given in the order of their keys.\<close>

definition hex_digit :: "nat \<Rightarrow> char" where
  "hex_digit n = (if n < 10 then char_of (48 + n) else char_of (55 + n))"

definition unreserved :: "char \<Rightarrow> bool" where
  "unreserved c \<longleftrightarrow> is_lower c \<or> is_upper c \<or> is_digit c \<or> c \<in> set ''-_.~''"

definition escape_char :: "char \<Rightarrow> string" where
  "escape_char c =
     (if unreserved c then [c]
      else if c = CHR '' '' then ''+''
      else [CHR ''%'', hex_digit (byte c div 16), hex_digit (byte c mod 16)])"

definition QueryEscape :: "string \<Rightarrow> string" where
  "QueryEscape s = concat (map escape_char s)"

fun values_encode :: "(string \<times> string) list \<Rightarrow> string" where
  "values_encode [] = ''''"
| "values_encode [(k, v)] = QueryEscape k @ ''='' @ QueryEscape v"
| "values_encode ((k, v) # kvs) = QueryEscape k @ ''='' @ QueryEscape v @ ''&'' @ values_encode kvs"

subsection \<open>Errors\<close>

definition server_side :: "int option \<Rightarrow> bool" where
  "server_side status = (case status of None \<Rightarrow> False | Some code \<Rightarrow> code \<ge> 500 \<or> code = 429)"

definition providerError :: "raw_error \<Rightarrow> error" where
  "providerError err =
     (if err_Net err \<or> err_DeadlineExceeded err \<or> err_Canceled err then ErrUnavailable
      else if server_side (err_Retrieve err) then ErrUnavailable
      else if server_side (err_Api err) then ErrUnavailable
      else ErrCredentials)"

subsection \<open>Google\<close>

record GoogleClient =
  ggl_ClientID :: string
  ggl_ClientSecret :: string

definition Google_Authorize ::
  "GoogleClient \<Rightarrow> network \<Rightarrow> string \<Rightarrow> string \<Rightarrow> string \<Rightarrow> string \<Rightarrow> bool \<Rightarrow> error + string" where
  "Google_Authorize g net state nonce challenge redirect reauth =
     (if ggl_ClientID g = '''' then Inl ErrUnavailable
      else Inr (net_AuthCodeURL net (ggl_ClientID g) redirect state
        ([(''nonce'', nonce), (''code_challenge'', challenge), (''code_challenge_method'', ''S256'')] @
         (if reauth then [(''max_age'', ''0''), (''prompt'', ''select_account'')] else []))))"

text \<open>\<open>int64(t)\<close> of a floating-point number truncates towards zero.\<close>

definition trunc :: "rat \<Rightarrow> int" where
  "trunc t = (if t < 0 then \<lceil>t\<rceil> else \<lfloor>t\<rfloor>)"

definition claim_string :: "claim option \<Rightarrow> string" where
  "claim_string c = (case c of Some (ClString s) \<Rightarrow> s | _ \<Rightarrow> '''')"

definition Google_Native :: "GoogleClient \<Rightarrow> network \<Rightarrow> string \<Rightarrow> error + ProviderIdentity" where
  "Google_Native g net raw =
     (if ggl_ClientID g = '''' \<or> raw = '''' then Inl ErrCredentials
      else case net_Validate net raw (ggl_ClientID g) of
        Inl err \<Rightarrow> Inl (providerError err)
      | Inr p \<Rightarrow>
          if tok_Issuer p \<noteq> ''accounts.google.com'' \<and> tok_Issuer p \<noteq> ''https://accounts.google.com'' \<or>
             tok_Subject p = '''' \<or> tok_Expires p \<le> net_Now net div Second
          then Inl ErrCredentials
          else Inr \<lparr>pid_Subject = tok_Subject p,
                    pid_Email = (if tok_Claims p ''email_verified'' = Some (ClBool True)
                                 then claim_string (tok_Claims p ''email'') else ''''),
                    pid_Nonce = claim_string (tok_Claims p ''nonce''),
                    pid_AuthenticatedAt = (case tok_Claims p ''auth_time'' of
                       Some (ClNumber t) \<Rightarrow> trunc t * Second | _ \<Rightarrow> ZeroTime)\<rparr>)"

definition Google_Exchange ::
  "GoogleClient \<Rightarrow> network \<Rightarrow> string \<Rightarrow> string \<Rightarrow> string \<Rightarrow> error + ProviderIdentity" where
  "Google_Exchange g net code redirect verifier =
     (case net_Exchange net (ggl_ClientID g) (ggl_ClientSecret g) redirect code verifier of
        Inl err \<Rightarrow> Inl (providerError err)
      | Inr raw \<Rightarrow> Google_Native g net (case raw of None \<Rightarrow> '''' | Some t \<Rightarrow> t))"

definition Google :: "GoogleClient \<Rightarrow> Provider" where
  "Google g = \<lparr>prv_Authorize = Google_Authorize g, prv_Exchange = Google_Exchange g,
               prv_Native = Google_Native g\<rparr>"

subsection \<open>VK\<close>

record VKClient =
  vk_ClientID :: string
  vk_ClientSecret :: string

definition https_url :: "network \<Rightarrow> string \<Rightarrow> bool" where
  "https_url net value =
     (case net_Parse net value of None \<Rightarrow> False
      | Some u \<Rightarrow> url_Scheme u = ''https'' \<and> url_Host u \<noteq> '''')"

definition VK_Authorize ::
  "VKClient \<Rightarrow> network \<Rightarrow> string \<Rightarrow> string \<Rightarrow> string \<Rightarrow> string \<Rightarrow> bool \<Rightarrow> error + string" where
  "VK_Authorize v net state nonce challenge redirect reauth =
     (if \<not> https_url net redirect then Inl ErrInvalid
      else if vk_ClientID v = '''' then Inl ErrUnavailable
      else Inr (''https://oauth.vk.com/authorize?'' @
        values_encode [(''client_id'', vk_ClientID v), (''redirect_uri'', redirect),
          (''response_type'', ''code''), (''scope'', ''email''), (''state'', state)]))"

definition VK_Native :: "VKClient \<Rightarrow> network \<Rightarrow> string \<Rightarrow> error + ProviderIdentity" where
  "VK_Native v net raw = Inl ErrUnavailable"

definition VK_Exchange ::
  "VKClient \<Rightarrow> network \<Rightarrow> string \<Rightarrow> string \<Rightarrow> string \<Rightarrow> error + ProviderIdentity" where
  "VK_Exchange v net code redirect verifier =
     (if \<not> https_url net redirect then Inl ErrInvalid
      else case net_Post net ''https://oauth.vk.com/access_token''
          (values_encode [(''client_id'', vk_ClientID v), (''client_secret'', vk_ClientSecret v),
            (''code'', code), (''redirect_uri'', redirect)]) of
        None \<Rightarrow> Inl ErrUnavailable
      | Some res \<Rightarrow>
          if vkr_StatusCode res \<ge> 500 \<or> vkr_StatusCode res = 429 then Inl ErrUnavailable
          else if vkr_StatusCode res \<noteq> 200 then Inl ErrCredentials
          else case vkr_Data res of
            None \<Rightarrow> Inl ErrCredentials
          | Some d \<Rightarrow>
              if vkd_UserID d \<le> 0 \<or> vkd_Token d = '''' then Inl ErrCredentials
              else Inr \<lparr>pid_Subject = FormatInt (vkd_UserID d), pid_Email = vkd_Email d,
                        pid_Nonce = '''', pid_AuthenticatedAt = ZeroTime\<rparr>)"

definition VK :: "VKClient \<Rightarrow> Provider" where
  "VK v = \<lparr>prv_Authorize = VK_Authorize v, prv_Exchange = VK_Exchange v, prv_Native = VK_Native v\<rparr>"

subsection \<open>What an adapter promises\<close>

text \<open>
  The contract the engine relies on: an identity has a subject, and the errors an adapter
  reports are credential, availability or request errors, so a failing provider is never
  reported as one of the engine's own state errors. Both adapters satisfy it.
\<close>

locale identity_provider =
  fixes p :: Provider
  assumes exchange_subject: "prv_Exchange p net code redirect verifier = Inr i \<Longrightarrow> pid_Subject i \<noteq> ''''"
    and native_subject: "prv_Native p net raw = Inr i \<Longrightarrow> pid_Subject i \<noteq> ''''"
    and exchange_error: "prv_Exchange p net code redirect verifier = Inl err \<Longrightarrow>
      err \<in> {ErrCredentials, ErrUnavailable, ErrInvalid}"
    and native_error: "prv_Native p net raw = Inl err \<Longrightarrow> err \<in> {ErrCredentials, ErrUnavailable, ErrInvalid}"
begin

lemma exchange_total:
  "(\<exists>i. prv_Exchange p net code redirect verifier = Inr i \<and> pid_Subject i \<noteq> '''') \<or>
   (\<exists>err \<in> {ErrCredentials, ErrUnavailable, ErrInvalid}. prv_Exchange p net code redirect verifier = Inl err)"
  using exchange_subject exchange_error by (cases "prv_Exchange p net code redirect verifier") auto

end

lemma providerError_cases: "providerError err \<in> {ErrCredentials, ErrUnavailable}"
  by (simp add: providerError_def)

lemma Google_Native_subject: "Google_Native g net raw = Inr i \<Longrightarrow> pid_Subject i \<noteq> ''''"
  by (auto simp: Google_Native_def split: if_splits sum.splits)

lemma Google_Native_error: "Google_Native g net raw = Inl err \<Longrightarrow> err \<in> {ErrCredentials, ErrUnavailable}"
  using providerError_cases by (auto simp: Google_Native_def split: if_splits sum.splits)

lemma Google_Exchange_error:
  "Google_Exchange g net code redirect verifier = Inl err \<Longrightarrow> err \<in> {ErrCredentials, ErrUnavailable}"
  unfolding Google_Exchange_def
  using Google_Native_error providerError_cases by (fastforce split: sum.splits)

interpretation google: identity_provider "Google g" for g
proof unfold_locales
  fix net code redirect verifier raw i err
  show "pid_Subject i \<noteq> ''''" if "prv_Exchange (Google g) net code redirect verifier = Inr i"
    using that by (auto simp: Google_def Google_Exchange_def Google_Native_subject split: sum.splits)
  show "pid_Subject i \<noteq> ''''" if "prv_Native (Google g) net raw = Inr i"
    using that Google_Native_subject by (simp add: Google_def)
  show "err \<in> {ErrCredentials, ErrUnavailable, ErrInvalid}"
    if "prv_Exchange (Google g) net code redirect verifier = Inl err"
    using that Google_Exchange_error [of g] by (fastforce simp: Google_def)
  show "err \<in> {ErrCredentials, ErrUnavailable, ErrInvalid}" if "prv_Native (Google g) net raw = Inl err"
    using that Google_Native_error [of g] by (fastforce simp: Google_def)
qed

lemma FormatInt_nonempty: "FormatInt v \<noteq> ''''"
  by (simp add: FormatInt_def)

interpretation vk: identity_provider "VK v" for v
  using FormatInt_nonempty
  by unfold_locales (auto simp: VK_def VK_Native_def VK_Exchange_def split: if_splits option.splits)

lemmas run_provider [run_defs] = hex_digit_def unreserved_def escape_char_def QueryEscape_def server_side_def
  providerError_def Google_Authorize_def trunc_def claim_string_def Google_Native_def Google_Exchange_def
  Google_def https_url_def VK_Authorize_def VK_Native_def VK_Exchange_def VK_def

end
