(* ===== verification/Auth_Config.thy ===== *)
theory Auth_Config
  imports Auth_Provider
begin

section \<open>Configuration\<close>

text \<open>
  \<open>internal/config\<close> and the flags of \<open>cmd/app/main.go\<close>. A configuration field is a pointer,
  here an option; dereferencing a nil pointer panics, which is the outcome \<open>NilPointer\<close>.
  The text of the database URL is written out down to the escaping of \<open>net/url\<close>, and read
  back by a reference parser.
\<close>

datatype start_error = NilPointer | StartError string

definition EnvDev :: string where
  "EnvDev = ''develop''"

definition EnvProd :: string where
  "EnvProd = ''production''"

record Security_config =
  cfg_HMACKey :: "string option"
  cfg_EncryptionKey :: "string option"
  cfg_RPID :: "string option"
  cfg_Origins :: "string option"
  cfg_OpaqueOrigins :: "string option"
  cfg_OAuthRedirects :: "string option"
  cfg_PasswordResetURL :: "string option"
  cfg_EmailChangeURL :: "string option"

record Auth_config =
  cfg_SaltCost :: "int option"
  cfg_AccessTokenSigningKey :: "string option"
  cfg_AccessToken :: "duration option"
  cfg_RefreshToken :: "duration option"
  cfg_PasswordResetCode :: "duration option"
  cfg_FirebaseCredentials :: "string option"
  cfg_FirebaseApiKey :: "string option"

record Client_config =
  cfg_ClientId :: "string option"
  cfg_ClientSecret :: "string option"

record OAuth_config =
  cfg_State :: "string option"
  cfg_Google :: Client_config
  cfg_Vk :: Client_config

record Deletion_config =
  cfg_Offset :: "duration option"
  cfg_CheckInterval :: "duration option"

record Database_config =
  dbc_SSLMode :: "string option"
  dbc_Host :: "string option"
  dbc_Port :: "int option"
  dbc_User :: "string option"
  dbc_Password :: "string option"
  dbc_DBName :: "string option"

record Amqp_config =
  mqc_Host :: "string option"
  mqc_Port :: "int option"
  mqc_User :: "string option"
  mqc_Password :: "string option"
  mqc_VHost :: "string option"

record Smtp_config =
  smc_Username :: "string option"
  smc_Host :: "string option"
  smc_Port :: "int option"
  smc_Email :: "string option"
  smc_Password :: "string option"
  smc_SendAttempts :: "int option"

record Config =
  cfg_Environment :: "string option"
  cfg_Port :: "int option"
  cfg_LogsPath :: "string option"
  cfg_Security :: Security_config
  cfg_Auth :: Auth_config
  cfg_OAuth :: OAuth_config
  cfg_ProfileDeletion :: Deletion_config
  cfg_SubscriptionAddr :: "string option"
  cfg_Database :: Database_config
  cfg_Amqp :: Amqp_config
  cfg_Smtp :: Smtp_config

text \<open>The flags of the command with their defaults; \<open>state\<close> is the random digit string of one of them.\<close>

definition default_config :: "string \<Rightarrow> Config" where
  "default_config state =
     \<lparr>cfg_Environment = Some ''debug'', cfg_Port = Some 8080, cfg_LogsPath = Some '''',
      cfg_Security = \<lparr>cfg_HMACKey = Some '''', cfg_EncryptionKey = Some '''', cfg_RPID = Some '''', cfg_Origins = Some '''',
        cfg_OpaqueOrigins = Some '''', cfg_OAuthRedirects = Some '''', cfg_PasswordResetURL = Some '''', cfg_EmailChangeURL = Some ''''\<rparr>,
      cfg_Auth = \<lparr>cfg_SaltCost = Some 10, cfg_AccessTokenSigningKey = Some '''', cfg_AccessToken = Some (20 * Minute),
        cfg_RefreshToken = Some (24 * Hour * 30), cfg_PasswordResetCode = Some (24 * Hour),
        cfg_FirebaseCredentials = Some '''', cfg_FirebaseApiKey = Some ''''\<rparr>,
      cfg_OAuth = \<lparr>cfg_State = Some state, cfg_Google = \<lparr>cfg_ClientId = Some '''', cfg_ClientSecret = Some ''''\<rparr>,
        cfg_Vk = \<lparr>cfg_ClientId = Some '''', cfg_ClientSecret = Some ''''\<rparr>\<rparr>,
      cfg_ProfileDeletion = \<lparr>cfg_Offset = Some (14 * 24 * Hour), cfg_CheckInterval = Some (30 * Minute)\<rparr>,
      cfg_SubscriptionAddr = Some '''',
      cfg_Database = \<lparr>dbc_SSLMode = Some ''require'', dbc_Host = Some ''localhost'', dbc_Port = Some 5432, dbc_User = Some '''',
        dbc_Password = Some '''', dbc_DBName = Some ''''\<rparr>,
      cfg_Amqp = \<lparr>mqc_Host = Some '''', mqc_Port = Some 5672, mqc_User = Some ''guest'', mqc_Password = Some ''guest'',
        mqc_VHost = Some ''''\<rparr>,
      cfg_Smtp = \<lparr>smc_Username = Some '''', smc_Host = Some '''', smc_Port = Some 465, smc_Email = Some '''',
        smc_Password = Some '''', smc_SendAttempts = Some 3\<rparr>\<rparr>"

text \<open>
  \<open>Validate\<close> writes the environment through its pointer, so that the caller sees it changed
  whatever the outcome.
\<close>

fun require_text :: "(string option \<times> string) list \<Rightarrow> start_error + unit" where
  "require_text [] = Inr ()"
| "require_text ((p, message) # rest) =
     (case p of None \<Rightarrow> Inl NilPointer
      | Some value \<Rightarrow> if value = '''' then Inl (StartError message) else require_text rest)"

definition Validate :: "Config \<Rightarrow> (start_error + unit) \<times> Config" where
  "Validate c =
     (case cfg_Environment c of None \<Rightarrow> (Inl NilPointer, c)
      | Some environment \<Rightarrow>
          (require_text
             [(dbc_Host (cfg_Database c), ''database host is empty''), (dbc_DBName (cfg_Database c), ''database name is empty''),
              (dbc_User (cfg_Database c), ''database username is empty''),
              (dbc_Password (cfg_Database c), ''database user password is empty'')],
           if environment \<noteq> EnvProd then c\<lparr>cfg_Environment := Some EnvDev\<rparr> else c))"

subsection \<open>The text of a URL\<close>

text \<open>\<open>escape\<close> of \<open>net/url\<close> in the modes for userinfo, host and path: a byte that must not stand for itself is shown in hexadecimal.\<close>

definition percent :: "char \<Rightarrow> string" where
  "percent c = [CHR ''%'', hex_digit (byte c div 16), hex_digit (byte c mod 16)]"

definition escape_url :: "string \<Rightarrow> string \<Rightarrow> string" where
  "escape_url allowed s = concat (map (\<lambda>c. if unreserved c \<or> c \<in> set allowed then [c] else percent c) s)"

definition userinfo_chars :: string where
  "userinfo_chars = ''$&+,;=''"

definition host_chars :: string where
  "host_chars = [CHR ''!'', CHR ''$'', CHR ''&'', CHR 0x27, CHR ''('', CHR '')'', CHR ''*'', CHR ''+'', CHR '','', CHR '';'', CHR ''='',
     CHR '':'', CHR ''['', CHR '']'', CHR ''<'', CHR ''>'', CHR 0x22]"

definition path_chars :: string where
  "path_chars = ''$&+,/:;=@''"

text \<open>\<open>net.JoinHostPort\<close> with \<open>strconv.Itoa\<close>, and \<open>String\<close> of a URL with a scheme, a host and a user.\<close>

definition JoinHostPort :: "string \<Rightarrow> int \<Rightarrow> string" where
  "JoinHostPort host port =
     (if CHR '':'' \<in> set host then ''['' @ host @ '']:'' @ FormatInt port else host @ '':'' @ FormatInt port)"

definition url_String :: "string \<Rightarrow> string \<Rightarrow> string \<Rightarrow> string \<Rightarrow> string \<Rightarrow> string \<Rightarrow> string" where
  "url_String scheme user password host path query =
     scheme @ ''://'' @ escape_url userinfo_chars user @ '':'' @ escape_url userinfo_chars password @ ''@'' @
     escape_url host_chars host @ escape_url path_chars path @ (if query = '''' then '''' else ''?'' @ query)"

definition DatabaseURL :: "Database_config \<Rightarrow> start_error + string" where
  "DatabaseURL c =
     (let mode = (case dbc_SSLMode c of None \<Rightarrow> ''require'' | Some m \<Rightarrow> if m = '''' then ''require'' else m) in
      case (dbc_Host c, dbc_Port c, dbc_DBName c, dbc_User c, dbc_Password c) of
        (Some host, Some port, Some name, Some user, Some password) \<Rightarrow>
          Inr (url_String ''postgres'' user password (JoinHostPort host port) (''/'' @ name) (values_encode [(''sslmode'', mode)]))
      | _ \<Rightarrow> Inl NilPointer)"

text \<open>The broker of the outbox worker, where a host is configured.\<close>

definition broker_url :: "Amqp_config \<Rightarrow> start_error + string" where
  "broker_url c =
     (case (mqc_Host c, mqc_Port c, mqc_User c, mqc_Password c, mqc_VHost c) of
        (Some host, Some port, Some user, Some password, Some vhost) \<Rightarrow>
          Inr (url_String ''amqp'' user password (JoinHostPort host port) (''/'' @ vhost) '''')
      | _ \<Rightarrow> Inl NilPointer)"

subsection \<open>Reading a URL back\<close>

text \<open>
  The reference reader takes a URL apart the way \<open>url.Parse\<close> does: the query follows the
  first question mark, the authority ends at the first slash after the scheme, the user
  information at its last at sign, the user name at its first colon, and escapes are undone.
\<close>

definition hex_value :: "char \<Rightarrow> nat option" where
  "hex_value c =
     (if is_digit c then Some (byte c - 48) else if 65 \<le> byte c \<and> byte c \<le> 70 then Some (byte c - 55)
      else if 97 \<le> byte c \<and> byte c \<le> 102 then Some (byte c - 87) else None)"

fun unescape_url :: "string \<Rightarrow> string option" where
  "unescape_url [] = Some []"
| "unescape_url (c # s) =
     (if c = CHR ''%'' then
        (case s of a # b # rest \<Rightarrow>
           (case (hex_value a, hex_value b) of
              (Some x, Some y) \<Rightarrow> map_option (\<lambda>t. char_of (16 * x + y) # t) (unescape_url rest)
            | _ \<Rightarrow> None)
         | _ \<Rightarrow> None)
      else map_option (\<lambda>t. c # t) (unescape_url s))"

definition cut :: "char \<Rightarrow> string \<Rightarrow> string \<times> string" where
  "cut c s = (takeWhile (\<lambda>x. x \<noteq> c) s, drop 1 (dropWhile (\<lambda>x. x \<noteq> c) s))"

definition cut_last :: "char \<Rightarrow> string \<Rightarrow> string \<times> string" where
  "cut_last c s = (rev (drop 1 (dropWhile (\<lambda>x. x \<noteq> c) (rev s))), rev (takeWhile (\<lambda>x. x \<noteq> c) (rev s)))"

record url_parts =
  upt_Scheme :: string
  upt_User :: "string option"
  upt_Password :: "string option"
  upt_Host :: "string option"
  upt_Path :: "string option"
  upt_Query :: string

definition read_url :: "string \<Rightarrow> url_parts" where
  "read_url raw =
     (let (front, query) = cut CHR ''?'' raw;
          (scheme, rest) = cut CHR '':'' front;
          after = drop 2 rest;
          authority = takeWhile (\<lambda>x. x \<noteq> CHR ''/'') after;
          path = dropWhile (\<lambda>x. x \<noteq> CHR ''/'') after;
          (userinfo, host) = cut_last CHR ''@'' authority;
          (user, password) = cut CHR '':'' userinfo
      in \<lparr>upt_Scheme = scheme, upt_User = unescape_url user, upt_Password = unescape_url password,
          upt_Host = unescape_url host, upt_Path = unescape_url path, upt_Query = query\<rparr>)"


subsection \<open>Escaped text is read back\<close>

lemma hex_value_digit: "n < 16 \<Longrightarrow> hex_value (hex_digit n) = Some n"
  by (auto simp: hex_value_def hex_digit_def is_digit_def byte_char_of)

lemma hex_digit_unreserved: "n < 16 \<Longrightarrow> unreserved (hex_digit n)"
  by (auto simp: unreserved_def hex_digit_def is_digit_def is_upper_def byte_char_of)

lemma percent_parts: "byte c div 16 < 16" "char_of (16 * (byte c div 16) + byte c mod 16) = c"
  using byte_bound [of c] by simp_all (simp add: byte_def)

lemma percent_reserved: "\<not> unreserved (CHR ''%'')"
  by (simp add: unreserved_def is_lower_def is_upper_def is_digit_def byte_def)

lemma unescape_escape:
  assumes "CHR ''%'' \<notin> set allowed"
  shows "unescape_url (escape_url allowed s) = Some s"
proof (induction s)
  case (Cons c s)
  have "unescape_url (percent c @ escape_url allowed s) = Some (c # s)"
    using percent_parts [of c] Cons by (simp add: percent_def hex_value_digit)
  then show ?case
    using Cons assms percent_reserved by (auto simp: escape_url_def)
qed (simp add: escape_url_def)

lemma escape_chars: "set (escape_url allowed s) \<subseteq> Collect unreserved \<union> set allowed \<union> {CHR ''%''}"
  using percent_parts(1) by (auto simp: escape_url_def percent_def hex_digit_unreserved split: if_splits)

lemma QueryEscape_chars: "set (QueryEscape s) \<subseteq> Collect unreserved \<union> {CHR ''%'', CHR ''+''}"
  using percent_parts(1) by (auto simp: QueryEscape_def escape_char_def hex_digit_unreserved split: if_splits)

definition url_delimiters :: "char set" where
  "url_delimiters = set ''/?#:@=&''"

lemma delimiter_reserved: "c \<in> url_delimiters \<Longrightarrow> \<not> unreserved c"
  by (auto simp: url_delimiters_def unreserved_def is_lower_def is_upper_def is_digit_def byte_def)

lemma escape_avoids:
  "c \<in> url_delimiters \<Longrightarrow> c \<notin> set allowed \<Longrightarrow> c \<notin> set (escape_url allowed s)"
  using escape_chars [of allowed s] delimiter_reserved [of c] by (auto simp: url_delimiters_def)

lemma QueryEscape_avoids: "c \<in> url_delimiters \<Longrightarrow> c \<notin> set (QueryEscape s)"
  using QueryEscape_chars [of s] delimiter_reserved [of c] by (auto simp: url_delimiters_def)

lemma split_while:
  assumes "c \<notin> set s"
  shows "takeWhile (\<lambda>x. x \<noteq> c) (s @ c # t) = s" "dropWhile (\<lambda>x. x \<noteq> c) (s @ c # t) = c # t"
    "takeWhile (\<lambda>x. x \<noteq> c) s = s" "dropWhile (\<lambda>x. x \<noteq> c) s = []"
  using assms by (induction s) auto

lemma cut_append: "c \<notin> set s \<Longrightarrow> cut c (s @ c # t) = (s, t)"
  by (simp add: cut_def split_while)

lemma cut_none: "c \<notin> set s \<Longrightarrow> cut c s = (s, '''')"
  by (simp add: cut_def split_while)

lemma cut_last_append: "c \<notin> set t \<Longrightarrow> cut_last c (s @ c # t) = (s, t)"
  by (simp add: cut_last_def split_while)

lemma unescape_userinfo: "unescape_url (escape_url userinfo_chars s) = Some s"
  and unescape_host: "unescape_url (escape_url host_chars s) = Some s"
  by (simp_all add: unescape_escape userinfo_chars_def host_chars_def)

lemma escape_path: "escape_url path_chars (CHR ''/'' # name) = CHR ''/'' # escape_url path_chars name"
  by (simp add: escape_url_def path_chars_def)

text \<open>Whatever the parts hold, the text of the URL is taken apart into them again.\<close>

lemma read_url_String:
  assumes "scheme = ''postgres'' \<or> scheme = ''amqp''"
  shows "read_url (url_String scheme user password host (CHR ''/'' # name) query) =
    \<lparr>upt_Scheme = scheme, upt_User = Some user, upt_Password = Some password, upt_Host = Some host,
     upt_Path = Some (CHR ''/'' # name), upt_Query = query\<rparr>"
proof -
  let ?u = "escape_url userinfo_chars user" and ?p = "escape_url userinfo_chars password"
  let ?h = "escape_url host_chars host" and ?n = "escape_url path_chars name"
  define front where "front = scheme @ CHR '':'' # ''//'' @ ?u @ CHR '':'' # ?p @ CHR ''@'' # ?h @ CHR ''/'' # ?n"
  have info: "c \<notin> set ?u" "c \<notin> set ?p" if "c \<in> set ''/?#:@''" for c
    using that by (intro escape_avoids; auto simp: url_delimiters_def userinfo_chars_def)+
  have host: "c \<notin> set ?h" if "c \<in> set ''/?#@''" for c
    using that by (intro escape_avoids) (auto simp: url_delimiters_def host_chars_def)
  have path: "CHR ''?'' \<notin> set ?n" by (rule escape_avoids) (simp_all add: url_delimiters_def path_chars_def)
  have raw: "url_String scheme user password host (CHR ''/'' # name) query = front @ (if query = '''' then '''' else CHR ''?'' # query)"
    by (simp add: url_String_def front_def escape_path)
  have sch: "CHR ''?'' \<notin> set scheme" "CHR '':'' \<notin> set scheme" using assms by auto
  have "CHR ''?'' \<notin> set front" using sch info host path by (auto simp: front_def)
  then have 1: "cut CHR ''?'' (url_String scheme user password host (CHR ''/'' # name) query) = (front, query)"
    by (simp add: raw cut_append cut_none)
  have 2: "cut CHR '':'' front = (scheme, ''//'' @ ?u @ CHR '':'' # ?p @ CHR ''@'' # ?h @ CHR ''/'' # ?n)"
    unfolding front_def by (rule cut_append [OF sch(2)])
  have authority: "CHR ''/'' \<notin> set (?u @ CHR '':'' # ?p @ CHR ''@'' # ?h)" using info host by auto
  note 3 = split_while(1,2) [OF authority, of ?n, simplified]
  have 4: "cut_last CHR ''@'' (?u @ CHR '':'' # ?p @ CHR ''@'' # ?h) = (?u @ CHR '':'' # ?p, ?h)"
    using cut_last_append [of "CHR ''@''" ?h "?u @ CHR '':'' # ?p"] host by simp
  have 5: "cut CHR '':'' (?u @ CHR '':'' # ?p) = (?u, ?p)" using info by (simp add: cut_append)
  have 6: "unescape_url ?n = Some name" by (rule unescape_escape) (simp add: path_chars_def)
  show ?thesis
    unfolding read_url_def 1 by (simp add: Let_def 2 3 4 5 6 unescape_userinfo unescape_host)
qed

text \<open>
  C36: The database credentials cannot alter the connection. Whatever the user name, the
  password, the host and the database name contain, the URL built from them has no fragment
  and reads back as exactly these parts, with the TLS mode as its only option; the mode is
  never empty, and is \<open>require\<close> where none is configured.
\<close>

theorem database_url_roundtrip:
  assumes "DatabaseURL c = Inr raw"
  shows "\<exists>user password host port name mode. dbc_User c = Some user \<and> dbc_Password c = Some password \<and>
     dbc_Host c = Some host \<and> dbc_Port c = Some port \<and> dbc_DBName c = Some name \<and> mode \<noteq> '''' \<and>
     (dbc_SSLMode c = Some mode \<or> mode = ''require'' \<and> dbc_SSLMode c \<in> {None, Some ''''}) \<and>
     CHR ''#'' \<notin> set raw \<and> CHR ''&'' \<notin> set (QueryEscape mode) \<and>
     read_url raw = \<lparr>upt_Scheme = ''postgres'', upt_User = Some user, upt_Password = Some password,
       upt_Host = Some (JoinHostPort host port), upt_Path = Some (''/'' @ name), upt_Query = ''sslmode='' @ QueryEscape mode\<rparr>"
proof -
  define mode where "mode = (case dbc_SSLMode c of None \<Rightarrow> ''require'' | Some m \<Rightarrow> if m = '''' then ''require'' else m)"
  obtain host port name user password where parts: "dbc_Host c = Some host" "dbc_Port c = Some port" "dbc_DBName c = Some name"
      "dbc_User c = Some user" "dbc_Password c = Some password"
    and raw: "raw = url_String ''postgres'' user password (JoinHostPort host port) (''/'' @ name) (values_encode [(''sslmode'', mode)])"
    using assms by (auto simp: DatabaseURL_def Let_def mode_def split: option.splits)
  have query: "values_encode [(''sslmode'', mode)] = ''sslmode='' @ QueryEscape mode"
    by (simp add: QueryEscape_def escape_char_def unreserved_def is_lower_def byte_def)
  have avoid: "CHR ''#'' \<notin> set (escape_url chars s)" if "chars \<in> {userinfo_chars, host_chars, path_chars}" for chars s
    using that by (intro escape_avoids) (auto simp: url_delimiters_def userinfo_chars_def host_chars_def path_chars_def)
  have "CHR ''#'' \<notin> set (QueryEscape mode)" by (rule QueryEscape_avoids) (simp add: url_delimiters_def)
  then have "CHR ''#'' \<notin> set raw" unfolding raw url_String_def query by (simp add: avoid)
  moreover have "CHR ''&'' \<notin> set (QueryEscape mode)" by (rule QueryEscape_avoids) (simp add: url_delimiters_def)
  moreover have "mode \<noteq> ''''" "dbc_SSLMode c = Some mode \<or> mode = ''require'' \<and> dbc_SSLMode c \<in> {None, Some ''''}"
    by (auto simp: mode_def split: option.splits)
  moreover have "read_url raw = \<lparr>upt_Scheme = ''postgres'', upt_User = Some user, upt_Password = Some password,
       upt_Host = Some (JoinHostPort host port), upt_Path = Some (''/'' @ name), upt_Query = ''sslmode='' @ QueryEscape mode\<rparr>"
    unfolding raw query using read_url_String [of "''postgres''"] by simp
  ultimately show ?thesis using parts by blast
qed

definition demo_database :: Database_config where
  "demo_database = \<lparr>dbc_SSLMode = None, dbc_Host = Some ''localhost'', dbc_Port = Some 5432, dbc_User = Some ''user name'',
     dbc_Password = Some ''x @/?sslmode=disable'', dbc_DBName = Some ''auth''\<rparr>"

theorem database_url_roundtrip_witness:
  "\<exists>raw. DatabaseURL demo_database = Inr raw \<and> upt_Password (read_url raw) = Some ''x @/?sslmode=disable'' \<and>
     upt_Query (read_url raw) = ''sslmode='' @ QueryEscape ''require''"
proof -
  obtain raw where raw: "DatabaseURL demo_database = Inr raw" by (simp add: DatabaseURL_def demo_database_def)
  from database_url_roundtrip [OF raw] obtain user password host port name mode where
    "dbc_Password demo_database = Some password" "dbc_SSLMode demo_database = Some mode \<or> mode = ''require''"
    "upt_Password (read_url raw) = Some password" "upt_Query (read_url raw) = ''sslmode='' @ QueryEscape mode" by fastforce
  with raw show ?thesis by (auto simp: demo_database_def)
qed

end
