(* ===== verification/Auth_Schema.thy ===== *)
theory Auth_Schema
  imports Auth_Prelude
begin

section \<open>The database schema\<close>

text \<open>
  The tables of \<open>schema/initial.sql\<close>: one record type per table, a record of all tables,
  the \<open>INSERT\<close> statements with the constraints they can break, and the cascading
  \<open>DELETE\<close> statements. A nullable column is an \<open>option\<close>. Columns that no statement of
  the engine reads are left out (\<open>creation_timestamp\<close> of the request tables and of
  \<open>authentications\<close>, \<open>request_timestamp\<close>); row order is insertion order. A violated
  \<open>CHECK\<close> or foreign key is an \<open>ErrInternal\<close>, a violated unique key a
  \<open>UniqueViolation\<close>. The identity sequence of \<open>sessions\<close> is the counter
  \<open>next_session\<close>.
\<close>

datatype status = Pending | Completed | Failed | Cancelled

datatype email_stage = AwaitingPreviousEmail | AwaitingNewEmail

record account_row =
  acc_id :: uuid
  acc_email :: string
  acc_email_verified :: "time option"
  acc_username :: "string option"
  acc_password :: "string option"
  acc_password_changed :: "time option"
  acc_blocked :: "time option"
  acc_created :: time

record identity_row =
  idn_account :: uuid
  idn_provider :: string
  idn_subject :: string

record session_row =
  ses_id :: int
  ses_account :: uuid
  ses_refresh :: string
  ses_ip :: string
  ses_user_agent :: string
  ses_last_refresh :: time
  ses_expiry :: time

record auth_row =
  aut_id :: uuid
  aut_purpose :: string
  aut_status :: status
  aut_account :: "uuid option"
  aut_session :: "int option"
  aut_flow :: string
  aut_failed :: int
  aut_expiry :: time
  aut_completion :: "time option"
  aut_invalidation :: "time option"
  aut_grant :: "string option"
  aut_grant_expiry :: "time option"

record registration_row =
  reg_auth :: uuid
  reg_email :: string
  reg_password :: "string option"

record step_row =
  stp_id :: uuid
  stp_auth :: uuid
  stp_type :: string
  stp_status :: status
  stp_failed :: int
  stp_created :: time
  stp_expiry :: time
  stp_completion :: "time option"

record email_step_row =
  est_id :: uuid
  est_email :: string
  est_code :: string

record passkey_step_row =
  pst_id :: uuid
  pst_challenge :: string

record google_step_row =
  gst_id :: uuid
  gst_nonce :: string

record oauth_row =
  oar_state :: string
  oar_provider :: string
  oar_step :: "uuid option"
  oar_session :: "int option"
  oar_binding :: string
  oar_redirect :: string
  oar_nonce :: string
  oar_verifier :: string
  oar_expiry :: time

record email_change_row =
  emc_account :: uuid
  emc_previous :: string
  emc_email :: string
  emc_stage :: email_stage
  emc_token :: string
  emc_expiry :: time

record reset_row =
  rst_account :: uuid
  rst_token :: string
  rst_expiry :: time

record deletion_row =
  del_account :: uuid
  del_shared :: bool
  del_at :: time

record totp_row =
  ttp_account :: uuid
  ttp_secret :: string
  ttp_last :: int
  ttp_activated :: time

record totp_request_row =
  ttr_account :: uuid
  ttr_session :: int
  ttr_secret :: string
  ttr_expiry :: time

record passkey_row =
  psk_id :: uuid
  psk_account :: uuid
  psk_credential :: string
  psk_public_key :: string
  psk_name :: string
  psk_sign_count :: int
  psk_eligible :: bool
  psk_state :: bool
  psk_created :: time
  psk_last_use :: "time option"

record transport_row =
  ptr_passkey :: uuid
  ptr_transport :: string

record passkey_request_row =
  pkr_id :: uuid
  pkr_session :: int
  pkr_challenge :: string
  pkr_expiry :: time

record backup_row =
  bkp_account :: uuid
  bkp_code :: string
  bkp_generated :: time

text \<open>
  The body of an outbox event: the two lifecycle events and the \<open>mail.send.v1\<close>
  request, \<open>mailRequest\<close> of \<open>mail.go\<close>, kept structured instead of as JSON text.
\<close>

record mailRequest =
  ml_Username :: string
  ml_Timestamp :: "time option"
  ml_DeleteSharedData :: bool
  ml_Client :: string
  ml_To :: string
  ml_Template :: string
  ml_Code :: string
  ml_URL :: string
  ml_ExpirationTimestamp :: time

datatype message_body = ProfileCreated uuid | ProfileDeleted uuid bool | MailSend mailRequest

record outbox_row =
  obx_id :: uuid
  obx_exchange :: string
  obx_type :: string
  obx_body :: message_body
  obx_created :: time

record db =
  accounts :: "account_row list"
  identities :: "identity_row list"
  sessions :: "session_row list"
  next_session :: int
  authentications :: "auth_row list"
  registrations :: "registration_row list"
  authentication_steps :: "step_row list"
  email_authentication_steps :: "email_step_row list"
  passkey_authentication_steps :: "passkey_step_row list"
  google_authentication_steps :: "google_step_row list"
  oauth_requests :: "oauth_row list"
  email_change_requests :: "email_change_row list"
  password_reset_requests :: "reset_row list"
  account_deletion_requests :: "deletion_row list"
  totp :: "totp_row list"
  totp_activation_requests :: "totp_request_row list"
  passkeys :: "passkey_row list"
  passkey_transports :: "transport_row list"
  passkey_registration_requests :: "passkey_request_row list"
  backup_codes :: "backup_row list"
  outbox :: "outbox_row list"

text \<open>The empty database that \<open>schema.Initialize\<close> creates.\<close>

definition Initial :: db where
  "Initial = \<lparr>accounts = [], identities = [], sessions = [], next_session = 1,
     authentications = [], registrations = [], authentication_steps = [],
     email_authentication_steps = [], passkey_authentication_steps = [],
     google_authentication_steps = [], oauth_requests = [], email_change_requests = [],
     password_reset_requests = [], account_deletion_requests = [], totp = [],
     totp_activation_requests = [], passkeys = [], passkey_transports = [],
     passkey_registration_requests = [], backup_codes = [], outbox = []\<rparr>"

subsection \<open>Referenced keys\<close>

definition has_account :: "db \<Rightarrow> uuid \<Rightarrow> bool" where
  "has_account db = (\<lambda>a. exists_row (\<lambda>r. acc_id r = a) (accounts db))"

definition has_session :: "db \<Rightarrow> int \<Rightarrow> bool" where
  "has_session db = (\<lambda>i. exists_row (\<lambda>r. ses_id r = i) (sessions db))"

definition has_auth :: "db \<Rightarrow> uuid \<Rightarrow> bool" where
  "has_auth db = (\<lambda>a. exists_row (\<lambda>r. aut_id r = a) (authentications db))"

definition has_step :: "db \<Rightarrow> uuid \<Rightarrow> bool" where
  "has_step db = (\<lambda>c. exists_row (\<lambda>r. stp_id r = c) (authentication_steps db))"

definition has_passkey :: "db \<Rightarrow> uuid \<Rightarrow> bool" where
  "has_passkey db = (\<lambda>k. exists_row (\<lambda>r. psk_id r = k) (passkeys db))"

definition purpose_values :: "string list" where
  "purpose_values = [''signIn'', ''signUp'', ''passwordChange'', ''emailChange'',
     ''accountDeletion'', ''totpEnrollment'', ''totpRemoval'', ''passkeyEnrollment'',
     ''passkeyRemoval'', ''backupCodesRotation'', ''identityLink'', ''identityUnlink'']"

definition step_type_values :: "string list" where
  "step_type_values = [''registration'', ''passwordSetup'', ''passwordVerification'',
     ''googleVerification'', ''vkVerification'', ''passkeyVerification'',
     ''totpVerification'', ''backupCodeVerification'', ''emailVerification'']"

definition provider_values :: "string list" where
  "provider_values = [''google'', ''vk'']"

subsection \<open>Constraints of each table\<close>

text \<open>
  Per table: which two rows share a unique key, which checks a row passes, and which rows
  of other tables it references. A null value of a unique column clashes with nothing.
\<close>

definition account_unique :: "account_row \<Rightarrow> account_row \<Rightarrow> bool" where
  "account_unique q r \<longleftrightarrow> acc_id q = acc_id r \<or> acc_email q = acc_email r \<or>
     acc_username q \<noteq> None \<and> acc_username q = acc_username r"

definition identity_unique :: "identity_row \<Rightarrow> identity_row \<Rightarrow> bool" where
  "identity_unique q r \<longleftrightarrow> idn_account q = idn_account r \<and> idn_provider q = idn_provider r \<or>
     idn_provider q = idn_provider r \<and> idn_subject q = idn_subject r"

definition identity_check :: "identity_row \<Rightarrow> bool" where
  "identity_check r \<longleftrightarrow> idn_provider r \<in> set provider_values \<and> idn_subject r \<noteq> ''''"

definition identity_refs :: "db \<Rightarrow> identity_row \<Rightarrow> bool" where
  "identity_refs db = (\<lambda>r. has_account db (idn_account r))"

definition session_unique :: "session_row \<Rightarrow> session_row \<Rightarrow> bool" where
  "session_unique q r \<longleftrightarrow> ses_id q = ses_id r \<or> ses_refresh q = ses_refresh r"

definition session_refs :: "db \<Rightarrow> session_row \<Rightarrow> bool" where
  "session_refs db = (\<lambda>r. has_account db (ses_account r))"

definition auth_unique :: "auth_row \<Rightarrow> auth_row \<Rightarrow> bool" where
  "auth_unique q r \<longleftrightarrow> aut_id q = aut_id r \<or> aut_flow q = aut_flow r \<or>
     aut_grant q \<noteq> None \<and> aut_grant q = aut_grant r"

definition auth_check :: "auth_row \<Rightarrow> bool" where
  "auth_check r \<longleftrightarrow> aut_purpose r \<in> set purpose_values \<and> 0 \<le> aut_failed r \<and>
     (aut_grant r = None) = (aut_grant_expiry r = None) \<and>
     (aut_purpose r = ''signIn'' \<or> aut_purpose r = ''signUp'' \<or>
      aut_account r \<noteq> None \<and> aut_session r \<noteq> None) \<and>
     (aut_status r = Completed \<longrightarrow> aut_account r \<noteq> None \<and> aut_completion r \<noteq> None)"

definition auth_refs :: "db \<Rightarrow> auth_row \<Rightarrow> bool" where
  "auth_refs db = (\<lambda>r. pred_option (has_account db) (aut_account r) \<and>
     pred_option (has_session db) (aut_session r))"

definition registration_unique :: "registration_row \<Rightarrow> registration_row \<Rightarrow> bool" where
  "registration_unique q r \<longleftrightarrow> reg_auth q = reg_auth r"

definition registration_refs :: "db \<Rightarrow> registration_row \<Rightarrow> bool" where
  "registration_refs db = (\<lambda>r. has_auth db (reg_auth r))"

definition step_unique :: "step_row \<Rightarrow> step_row \<Rightarrow> bool" where
  "step_unique q r \<longleftrightarrow> stp_id q = stp_id r"

definition step_check :: "step_row \<Rightarrow> bool" where
  "step_check r \<longleftrightarrow> stp_type r \<in> set step_type_values \<and> 0 \<le> stp_failed r \<and>
     (stp_status r = Completed \<longrightarrow> stp_completion r \<noteq> None)"

definition step_refs :: "db \<Rightarrow> step_row \<Rightarrow> bool" where
  "step_refs db = (\<lambda>r. has_auth db (stp_auth r))"

definition email_step_unique :: "email_step_row \<Rightarrow> email_step_row \<Rightarrow> bool" where
  "email_step_unique q r \<longleftrightarrow> est_id q = est_id r"

definition email_step_refs :: "db \<Rightarrow> email_step_row \<Rightarrow> bool" where
  "email_step_refs db = (\<lambda>r. has_step db (est_id r))"

definition passkey_step_unique :: "passkey_step_row \<Rightarrow> passkey_step_row \<Rightarrow> bool" where
  "passkey_step_unique q r \<longleftrightarrow> pst_id q = pst_id r"

definition passkey_step_refs :: "db \<Rightarrow> passkey_step_row \<Rightarrow> bool" where
  "passkey_step_refs db = (\<lambda>r. has_step db (pst_id r))"

definition google_step_unique :: "google_step_row \<Rightarrow> google_step_row \<Rightarrow> bool" where
  "google_step_unique q r \<longleftrightarrow> gst_id q = gst_id r"

definition google_step_refs :: "db \<Rightarrow> google_step_row \<Rightarrow> bool" where
  "google_step_refs db = (\<lambda>r. has_step db (gst_id r))"

definition oauth_request_unique :: "oauth_row \<Rightarrow> oauth_row \<Rightarrow> bool" where
  "oauth_request_unique q r \<longleftrightarrow> oar_state q = oar_state r"

definition oauth_request_check :: "oauth_row \<Rightarrow> bool" where
  "oauth_request_check r \<longleftrightarrow> oar_provider r \<in> set provider_values \<and> (oar_step r = None) \<noteq> (oar_session r = None)"

definition oauth_request_refs :: "db \<Rightarrow> oauth_row \<Rightarrow> bool" where
  "oauth_request_refs db = (\<lambda>r. pred_option (has_step db) (oar_step r) \<and>
     pred_option (has_session db) (oar_session r))"

definition email_change_unique :: "email_change_row \<Rightarrow> email_change_row \<Rightarrow> bool" where
  "email_change_unique q r \<longleftrightarrow> emc_account q = emc_account r \<or> emc_token q = emc_token r"

definition email_change_refs :: "db \<Rightarrow> email_change_row \<Rightarrow> bool" where
  "email_change_refs db = (\<lambda>r. has_account db (emc_account r))"

definition reset_unique :: "reset_row \<Rightarrow> reset_row \<Rightarrow> bool" where
  "reset_unique q r \<longleftrightarrow> rst_account q = rst_account r \<or> rst_token q = rst_token r"

definition reset_refs :: "db \<Rightarrow> reset_row \<Rightarrow> bool" where
  "reset_refs db = (\<lambda>r. has_account db (rst_account r))"

definition deletion_unique :: "deletion_row \<Rightarrow> deletion_row \<Rightarrow> bool" where
  "deletion_unique q r \<longleftrightarrow> del_account q = del_account r"

definition deletion_refs :: "db \<Rightarrow> deletion_row \<Rightarrow> bool" where
  "deletion_refs db = (\<lambda>r. has_account db (del_account r))"

definition totp_unique :: "totp_row \<Rightarrow> totp_row \<Rightarrow> bool" where
  "totp_unique q r \<longleftrightarrow> ttp_account q = ttp_account r"

definition totp_check :: "totp_row \<Rightarrow> bool" where
  "totp_check r \<longleftrightarrow> 0 \<le> ttp_last r"

definition totp_refs :: "db \<Rightarrow> totp_row \<Rightarrow> bool" where
  "totp_refs db = (\<lambda>r. has_account db (ttp_account r))"

definition totp_request_unique :: "totp_request_row \<Rightarrow> totp_request_row \<Rightarrow> bool" where
  "totp_request_unique q r \<longleftrightarrow> ttr_account q = ttr_account r"

definition totp_request_refs :: "db \<Rightarrow> totp_request_row \<Rightarrow> bool" where
  "totp_request_refs db = (\<lambda>r. has_account db (ttr_account r) \<and> has_session db (ttr_session r))"

definition passkey_unique :: "passkey_row \<Rightarrow> passkey_row \<Rightarrow> bool" where
  "passkey_unique q r \<longleftrightarrow> psk_id q = psk_id r \<or> psk_credential q = psk_credential r"

definition passkey_check :: "passkey_row \<Rightarrow> bool" where
  "passkey_check r \<longleftrightarrow> 0 \<le> psk_sign_count r \<and> (psk_state r \<longrightarrow> psk_eligible r)"

definition passkey_refs :: "db \<Rightarrow> passkey_row \<Rightarrow> bool" where
  "passkey_refs db = (\<lambda>r. has_account db (psk_account r))"

definition transport_unique :: "transport_row \<Rightarrow> transport_row \<Rightarrow> bool" where
  "transport_unique q r \<longleftrightarrow> ptr_passkey q = ptr_passkey r \<and> ptr_transport q = ptr_transport r"

definition transport_refs :: "db \<Rightarrow> transport_row \<Rightarrow> bool" where
  "transport_refs db = (\<lambda>r. has_passkey db (ptr_passkey r))"

definition passkey_request_unique :: "passkey_request_row \<Rightarrow> passkey_request_row \<Rightarrow> bool" where
  "passkey_request_unique q r \<longleftrightarrow> pkr_id q = pkr_id r"

definition passkey_request_refs :: "db \<Rightarrow> passkey_request_row \<Rightarrow> bool" where
  "passkey_request_refs db = (\<lambda>r. has_session db (pkr_session r))"

definition backup_unique :: "backup_row \<Rightarrow> backup_row \<Rightarrow> bool" where
  "backup_unique q r \<longleftrightarrow> bkp_account q = bkp_account r \<and> bkp_code q = bkp_code r"

definition backup_refs :: "db \<Rightarrow> backup_row \<Rightarrow> bool" where
  "backup_refs db = (\<lambda>r. has_account db (bkp_account r))"

definition outbox_unique :: "outbox_row \<Rightarrow> outbox_row \<Rightarrow> bool" where
  "outbox_unique q r \<longleftrightarrow> obx_id q = obx_id r"

lemmas unique_defs = account_unique_def identity_unique_def session_unique_def auth_unique_def registration_unique_def step_unique_def email_step_unique_def passkey_step_unique_def google_step_unique_def oauth_request_unique_def email_change_unique_def reset_unique_def deletion_unique_def totp_unique_def totp_request_unique_def passkey_unique_def transport_unique_def passkey_request_unique_def backup_unique_def outbox_unique_def

lemmas check_defs = identity_check_def auth_check_def step_check_def oauth_request_check_def totp_check_def passkey_check_def

lemmas refs_defs = identity_refs_def session_refs_def auth_refs_def registration_refs_def step_refs_def email_step_refs_def passkey_step_refs_def google_step_refs_def oauth_request_refs_def email_change_refs_def reset_refs_def deletion_refs_def totp_refs_def totp_request_refs_def passkey_refs_def transport_refs_def passkey_request_refs_def backup_refs_def

text \<open>Every table meets the interface of a keyed table.\<close>

interpretation account_tab: keyed_table account_unique
  by unfold_locales (metis account_unique_def)+

interpretation identity_tab: keyed_table identity_unique
  by unfold_locales (auto simp: identity_unique_def)

interpretation session_tab: keyed_table session_unique
  by unfold_locales (auto simp: session_unique_def)

interpretation auth_tab: keyed_table auth_unique
  by unfold_locales (metis auth_unique_def)+

interpretation registration_tab: keyed_table registration_unique
  by unfold_locales (auto simp: registration_unique_def)

interpretation step_tab: keyed_table step_unique
  by unfold_locales (auto simp: step_unique_def)

interpretation email_step_tab: keyed_table email_step_unique
  by unfold_locales (auto simp: email_step_unique_def)

interpretation passkey_step_tab: keyed_table passkey_step_unique
  by unfold_locales (auto simp: passkey_step_unique_def)

interpretation google_step_tab: keyed_table google_step_unique
  by unfold_locales (auto simp: google_step_unique_def)

interpretation oauth_request_tab: keyed_table oauth_request_unique
  by unfold_locales (auto simp: oauth_request_unique_def)

interpretation email_change_tab: keyed_table email_change_unique
  by unfold_locales (auto simp: email_change_unique_def)

interpretation reset_tab: keyed_table reset_unique
  by unfold_locales (auto simp: reset_unique_def)

interpretation deletion_tab: keyed_table deletion_unique
  by unfold_locales (auto simp: deletion_unique_def)

interpretation totp_tab: keyed_table totp_unique
  by unfold_locales (auto simp: totp_unique_def)

interpretation totp_request_tab: keyed_table totp_request_unique
  by unfold_locales (auto simp: totp_request_unique_def)

interpretation passkey_tab: keyed_table passkey_unique
  by unfold_locales (auto simp: passkey_unique_def)

interpretation transport_tab: keyed_table transport_unique
  by unfold_locales (auto simp: transport_unique_def)

interpretation passkey_request_tab: keyed_table passkey_request_unique
  by unfold_locales (auto simp: passkey_request_unique_def)

interpretation backup_tab: keyed_table backup_unique
  by unfold_locales (auto simp: backup_unique_def)

interpretation outbox_tab: keyed_table outbox_unique
  by unfold_locales (auto simp: outbox_unique_def)

subsection \<open>Insertions\<close>

definition insert_identity :: "identity_row \<Rightarrow> db \<Rightarrow> error + db" where
  "insert_identity r db =
     map_sum id (\<lambda>rows. db\<lparr>identities := rows\<rparr>)
       (insert_row identity_unique identity_check (identity_refs db) r (identities db))"

definition insert_auth :: "auth_row \<Rightarrow> db \<Rightarrow> error + db" where
  "insert_auth r db =
     map_sum id (\<lambda>rows. db\<lparr>authentications := rows\<rparr>)
       (insert_row auth_unique auth_check (auth_refs db) r (authentications db))"

definition insert_registration :: "registration_row \<Rightarrow> db \<Rightarrow> error + db" where
  "insert_registration r db =
     map_sum id (\<lambda>rows. db\<lparr>registrations := rows\<rparr>)
       (insert_row registration_unique (\<lambda>_. True) (registration_refs db) r (registrations db))"

definition insert_step :: "step_row \<Rightarrow> db \<Rightarrow> error + db" where
  "insert_step r db =
     map_sum id (\<lambda>rows. db\<lparr>authentication_steps := rows\<rparr>)
       (insert_row step_unique step_check (step_refs db) r (authentication_steps db))"

definition insert_email_step :: "email_step_row \<Rightarrow> db \<Rightarrow> error + db" where
  "insert_email_step r db =
     map_sum id (\<lambda>rows. db\<lparr>email_authentication_steps := rows\<rparr>)
       (insert_row email_step_unique (\<lambda>_. True) (email_step_refs db) r (email_authentication_steps db))"

definition insert_passkey_step :: "passkey_step_row \<Rightarrow> db \<Rightarrow> error + db" where
  "insert_passkey_step r db =
     map_sum id (\<lambda>rows. db\<lparr>passkey_authentication_steps := rows\<rparr>)
       (insert_row passkey_step_unique (\<lambda>_. True) (passkey_step_refs db) r (passkey_authentication_steps db))"

definition insert_google_step :: "google_step_row \<Rightarrow> db \<Rightarrow> error + db" where
  "insert_google_step r db =
     map_sum id (\<lambda>rows. db\<lparr>google_authentication_steps := rows\<rparr>)
       (insert_row google_step_unique (\<lambda>_. True) (google_step_refs db) r (google_authentication_steps db))"

definition insert_oauth_request :: "oauth_row \<Rightarrow> db \<Rightarrow> error + db" where
  "insert_oauth_request r db =
     map_sum id (\<lambda>rows. db\<lparr>oauth_requests := rows\<rparr>)
       (insert_row oauth_request_unique oauth_request_check (oauth_request_refs db) r (oauth_requests db))"

definition insert_email_change :: "email_change_row \<Rightarrow> db \<Rightarrow> error + db" where
  "insert_email_change r db =
     map_sum id (\<lambda>rows. db\<lparr>email_change_requests := rows\<rparr>)
       (insert_row email_change_unique (\<lambda>_. True) (email_change_refs db) r (email_change_requests db))"

definition insert_totp :: "totp_row \<Rightarrow> db \<Rightarrow> error + db" where
  "insert_totp r db =
     map_sum id (\<lambda>rows. db\<lparr>totp := rows\<rparr>)
       (insert_row totp_unique totp_check (totp_refs db) r (totp db))"

definition insert_passkey :: "passkey_row \<Rightarrow> db \<Rightarrow> error + db" where
  "insert_passkey r db =
     map_sum id (\<lambda>rows. db\<lparr>passkeys := rows\<rparr>)
       (insert_row passkey_unique passkey_check (passkey_refs db) r (passkeys db))"

definition insert_passkey_request :: "passkey_request_row \<Rightarrow> db \<Rightarrow> error + db" where
  "insert_passkey_request r db =
     map_sum id (\<lambda>rows. db\<lparr>passkey_registration_requests := rows\<rparr>)
       (insert_row passkey_request_unique (\<lambda>_. True) (passkey_request_refs db) r (passkey_registration_requests db))"

definition insert_backup :: "backup_row \<Rightarrow> db \<Rightarrow> error + db" where
  "insert_backup r db =
     map_sum id (\<lambda>rows. db\<lparr>backup_codes := rows\<rparr>)
       (insert_row backup_unique (\<lambda>_. True) (backup_refs db) r (backup_codes db))"

definition insert_outbox :: "outbox_row \<Rightarrow> db \<Rightarrow> error + db" where
  "insert_outbox r db =
     map_sum id (\<lambda>rows. db\<lparr>outbox := rows\<rparr>)
       (insert_row outbox_unique (\<lambda>_. True) (\<lambda>_. True) r (outbox db))"

text \<open>
  \<open>INSERT INTO accounts ... ON CONFLICT(email) DO NOTHING RETURNING account_id\<close>: a taken
  email returns no row, another taken unique key is a violation.
\<close>

definition insert_account :: "account_row \<Rightarrow> db \<Rightarrow> error + db" where
  "insert_account r db =
     (if exists_row (\<lambda>q. acc_email q = acc_email r) (accounts db) then Inl NoRows
      else map_sum id (\<lambda>rows. db\<lparr>accounts := rows\<rparr>)
        (insert_row account_unique (\<lambda>_. True) (\<lambda>_. True) r (accounts db)))"

text \<open>\<open>INSERT INTO sessions ... RETURNING session_id\<close> draws the identifier from the sequence.\<close>

definition insert_session :: "(int \<Rightarrow> session_row) \<Rightarrow> db \<Rightarrow> error + int \<times> db" where
  "insert_session mk db =
     (let i = next_session db in
      map_sum id (\<lambda>rows. (i, db\<lparr>sessions := rows, next_session := i + 1\<rparr>))
        (insert_row session_unique (\<lambda>_. True) (session_refs db) ((mk i)\<lparr>ses_id := i\<rparr>) (sessions db)))"

text \<open>\<open>ON CONFLICT(account_id) DO UPDATE\<close>: the row of the account is replaced where there is one.\<close>

definition upsert_reset :: "reset_row \<Rightarrow> db \<Rightarrow> error + db" where
  "upsert_reset r db =
     map_sum id (\<lambda>rows. db\<lparr>password_reset_requests := rows\<rparr>)
       (if exists_row (\<lambda>q. rst_account q = rst_account r) (password_reset_requests db)
        then update_unique reset_unique (\<lambda>q. rst_account q = rst_account r)
               (\<lambda>q. q\<lparr>rst_token := rst_token r, rst_expiry := rst_expiry r\<rparr>)
               (password_reset_requests db)
        else insert_row reset_unique (\<lambda>_. True) (reset_refs db) r (password_reset_requests db))"

definition upsert_totp_request :: "totp_request_row \<Rightarrow> db \<Rightarrow> error + db" where
  "upsert_totp_request r db =
     (if exists_row (\<lambda>q. ttr_account q = ttr_account r) (totp_activation_requests db)
      then if \<not> has_session db (ttr_session r) then Inl ErrInternal
        else Inr (db\<lparr>totp_activation_requests :=
               update_rows (\<lambda>q. ttr_account q = ttr_account r)
                 (\<lambda>q. q\<lparr>ttr_session := ttr_session r, ttr_secret := ttr_secret r,
                         ttr_expiry := ttr_expiry r\<rparr>)
                 (totp_activation_requests db)\<rparr>)
      else map_sum id (\<lambda>rows. db\<lparr>totp_activation_requests := rows\<rparr>)
        (insert_row totp_request_unique (\<lambda>_. True) (totp_request_refs db) r
          (totp_activation_requests db)))"

text \<open>\<open>INSERT INTO passkey_transports ... ON CONFLICT DO NOTHING\<close>.\<close>

definition insert_transport :: "transport_row \<Rightarrow> db \<Rightarrow> error + db" where
  "insert_transport r db =
     (if exists_row (\<lambda>q. transport_unique q r) (passkey_transports db) then Inr db
      else map_sum id (\<lambda>rows. db\<lparr>passkey_transports := rows\<rparr>)
        (insert_row transport_unique (\<lambda>_. True) (transport_refs db) r (passkey_transports db)))"

text \<open>
  \<open>INSERT INTO account_deletion_requests ... ON CONFLICT(account_id) DO UPDATE SET
  delete_shared_data ... WHERE deletion_timestamp > now RETURNING ...\<close>: an existing
  request keeps its deadline; one whose deadline has passed is left alone and returns no row.
\<close>

definition upsert_deletion :: "deletion_row \<Rightarrow> time \<Rightarrow> db \<Rightarrow> error + deletion_row \<times> db" where
  "upsert_deletion r now db =
     (case find (\<lambda>q. del_account q = del_account r) (account_deletion_requests db) of
        Some q \<Rightarrow>
          if del_at q > now
          then Inr (q\<lparr>del_shared := del_shared r\<rparr>,
                 db\<lparr>account_deletion_requests :=
                      update_rows (\<lambda>p. del_account p = del_account r)
                        (\<lambda>p. p\<lparr>del_shared := del_shared r\<rparr>) (account_deletion_requests db)\<rparr>)
          else Inl NoRows
      | None \<Rightarrow>
          map_sum id (\<lambda>rows. (r, db\<lparr>account_deletion_requests := rows\<rparr>))
            (insert_row deletion_unique (\<lambda>_. True) (deletion_refs db) r
              (account_deletion_requests db)))"

lemmas insert_defs = insert_account_def insert_identity_def insert_session_def insert_auth_def insert_registration_def insert_step_def insert_email_step_def insert_passkey_step_def insert_google_step_def insert_oauth_request_def insert_email_change_def insert_totp_def insert_passkey_def insert_transport_def insert_passkey_request_def insert_backup_def insert_outbox_def
  upsert_reset_def upsert_totp_request_def upsert_deletion_def

subsection \<open>Cascading deletions\<close>

text \<open>
  \<open>ON DELETE CASCADE\<close>, from the leaves up: deleting steps deletes their typed details and
  their OAuth requests, deleting processes deletes their registration and steps, deleting
  sessions deletes the processes and requests bound to them, deleting accounts deletes
  everything that references them.
\<close>

definition delete_steps :: "(step_row \<Rightarrow> bool) \<Rightarrow> db \<Rightarrow> db" where
  "delete_steps P db =
     (let gone = map stp_id (filter P (authentication_steps db)) in
      db\<lparr>authentication_steps := delete_rows P (authentication_steps db),
         email_authentication_steps :=
           delete_rows (\<lambda>r. est_id r \<in> set gone) (email_authentication_steps db),
         passkey_authentication_steps :=
           delete_rows (\<lambda>r. pst_id r \<in> set gone) (passkey_authentication_steps db),
         google_authentication_steps :=
           delete_rows (\<lambda>r. gst_id r \<in> set gone) (google_authentication_steps db),
         oauth_requests := delete_rows (\<lambda>r. oar_step r \<in> Some ` set gone) (oauth_requests db)\<rparr>)"

definition delete_auths :: "(auth_row \<Rightarrow> bool) \<Rightarrow> db \<Rightarrow> db" where
  "delete_auths P db =
     (let gone = map aut_id (filter P (authentications db)) in
      delete_steps (\<lambda>r. stp_auth r \<in> set gone)
        (db\<lparr>authentications := delete_rows P (authentications db),
            registrations := delete_rows (\<lambda>r. reg_auth r \<in> set gone) (registrations db)\<rparr>))"

definition delete_sessions :: "(session_row \<Rightarrow> bool) \<Rightarrow> db \<Rightarrow> db" where
  "delete_sessions P db =
     (let gone = map ses_id (filter P (sessions db)) in
      delete_auths (\<lambda>r. aut_session r \<in> Some ` set gone)
        (db\<lparr>sessions := delete_rows P (sessions db),
            oauth_requests := delete_rows (\<lambda>r. oar_session r \<in> Some ` set gone) (oauth_requests db),
            totp_activation_requests :=
              delete_rows (\<lambda>r. ttr_session r \<in> set gone) (totp_activation_requests db),
            passkey_registration_requests :=
              delete_rows (\<lambda>r. pkr_session r \<in> set gone) (passkey_registration_requests db)\<rparr>))"

definition delete_passkeys :: "(passkey_row \<Rightarrow> bool) \<Rightarrow> db \<Rightarrow> db" where
  "delete_passkeys P db =
     (let gone = map psk_id (filter P (passkeys db)) in
      db\<lparr>passkeys := delete_rows P (passkeys db),
         passkey_transports := delete_rows (\<lambda>r. ptr_passkey r \<in> set gone) (passkey_transports db)\<rparr>)"

definition delete_accounts :: "(account_row \<Rightarrow> bool) \<Rightarrow> db \<Rightarrow> db" where
  "delete_accounts P db =
     (let gone = set (map acc_id (filter P (accounts db)));
          db1 = delete_passkeys (\<lambda>r. psk_account r \<in> gone)
                  (delete_auths (\<lambda>r. aut_account r \<in> Some ` gone)
                    (delete_sessions (\<lambda>r. ses_account r \<in> gone) db))
      in db1\<lparr>accounts := delete_rows P (accounts db1),
             identities := delete_rows (\<lambda>r. idn_account r \<in> gone) (identities db1),
             email_change_requests :=
               delete_rows (\<lambda>r. emc_account r \<in> gone) (email_change_requests db1),
             password_reset_requests :=
               delete_rows (\<lambda>r. rst_account r \<in> gone) (password_reset_requests db1),
             account_deletion_requests :=
               delete_rows (\<lambda>r. del_account r \<in> gone) (account_deletion_requests db1),
             totp := delete_rows (\<lambda>r. ttp_account r \<in> gone) (totp db1),
             totp_activation_requests :=
               delete_rows (\<lambda>r. ttr_account r \<in> gone) (totp_activation_requests db1),
             backup_codes := delete_rows (\<lambda>r. bkp_account r \<in> gone) (backup_codes db1)\<rparr>)"

lemmas delete_defs = delete_steps_def delete_auths_def delete_sessions_def
  delete_passkeys_def delete_accounts_def

lemmas run_schema [run_defs] = has_account_def has_session_def has_auth_def has_step_def has_passkey_def
  purpose_values_def step_type_values_def provider_values_def account_unique_def identity_unique_def
  identity_check_def identity_refs_def session_unique_def session_refs_def auth_unique_def auth_check_def
  auth_refs_def registration_unique_def registration_refs_def step_unique_def step_check_def step_refs_def
  email_step_unique_def email_step_refs_def passkey_step_unique_def passkey_step_refs_def
  google_step_unique_def google_step_refs_def oauth_request_unique_def oauth_request_check_def
  oauth_request_refs_def email_change_unique_def email_change_refs_def reset_unique_def reset_refs_def
  deletion_unique_def deletion_refs_def totp_unique_def totp_check_def totp_refs_def totp_request_unique_def
  totp_request_refs_def passkey_unique_def passkey_check_def passkey_refs_def transport_unique_def
  transport_refs_def passkey_request_unique_def passkey_request_refs_def backup_unique_def backup_refs_def
  outbox_unique_def insert_identity_def insert_auth_def insert_registration_def insert_step_def
  insert_email_step_def insert_passkey_step_def insert_google_step_def insert_oauth_request_def
  insert_email_change_def insert_totp_def insert_passkey_def insert_passkey_request_def insert_backup_def
  insert_outbox_def insert_account_def insert_session_def upsert_reset_def upsert_totp_request_def
  insert_transport_def upsert_deletion_def delete_steps_def delete_auths_def delete_sessions_def
  delete_passkeys_def delete_accounts_def

end
