(* ===== verification/Auth_Integrity.thy ===== *)
theory Auth_Integrity
  imports Auth_Schema
begin

section \<open>Integrity of the database\<close>

text \<open>
  The constraints that \<open>schema/initial.sql\<close> declares, as a predicate \<open>wf_db\<close>: every table
  respects its unique keys, its checks and its references, and the session sequence is
  ahead of every session. The insertions of the schema test the constraints they can
  break. Updates and cascading deletions are modelled without a test, so for those the
  lemmas below are what shows that the database would not have refused them: one lemma
  per kind of statement and table.
\<close>

named_theorems wf_intros \<open>statements that keep the database well formed\<close>

definition wf_db :: "db \<Rightarrow> bool" where
  "wf_db db \<longleftrightarrow> 0 < next_session db \<and>
     wf_table account_unique (\<lambda>_. True) (accounts db) \<and>
     wf_table identity_unique (\<lambda>r. identity_check r \<and> identity_refs db r) (identities db) \<and>
     wf_table session_unique (\<lambda>r. session_refs db r \<and> 0 < ses_id r \<and> ses_id r < next_session db) (sessions db) \<and>
     wf_table auth_unique (\<lambda>r. auth_check r \<and> auth_refs db r) (authentications db) \<and>
     wf_table registration_unique (\<lambda>r. registration_refs db r) (registrations db) \<and>
     wf_table step_unique (\<lambda>r. step_check r \<and> step_refs db r) (authentication_steps db) \<and>
     wf_table email_step_unique (\<lambda>r. email_step_refs db r) (email_authentication_steps db) \<and>
     wf_table passkey_step_unique (\<lambda>r. passkey_step_refs db r) (passkey_authentication_steps db) \<and>
     wf_table google_step_unique (\<lambda>r. google_step_refs db r) (google_authentication_steps db) \<and>
     wf_table oauth_request_unique (\<lambda>r. oauth_request_check r \<and> oauth_request_refs db r) (oauth_requests db) \<and>
     wf_table email_change_unique (\<lambda>r. email_change_refs db r) (email_change_requests db) \<and>
     wf_table reset_unique (\<lambda>r. reset_refs db r) (password_reset_requests db) \<and>
     wf_table deletion_unique (\<lambda>r. deletion_refs db r) (account_deletion_requests db) \<and>
     wf_table totp_unique (\<lambda>r. totp_check r \<and> totp_refs db r) (totp db) \<and>
     wf_table totp_request_unique (\<lambda>r. totp_request_refs db r) (totp_activation_requests db) \<and>
     wf_table passkey_unique (\<lambda>r. passkey_check r \<and> passkey_refs db r) (passkeys db) \<and>
     wf_table transport_unique (\<lambda>r. transport_refs db r) (passkey_transports db) \<and>
     wf_table passkey_request_unique (\<lambda>r. passkey_request_refs db r) (passkey_registration_requests db) \<and>
     wf_table backup_unique (\<lambda>r. backup_refs db r) (backup_codes db) \<and>
     wf_table outbox_unique (\<lambda>_. True) (outbox db)"

lemmas has_defs = has_account_def has_session_def has_auth_def has_step_def has_passkey_def

lemma has_iff:
  "has_account db a \<longleftrightarrow> a \<in> acc_id ` set (accounts db)"
  "has_session db i \<longleftrightarrow> i \<in> ses_id ` set (sessions db)"
  "has_auth db b \<longleftrightarrow> b \<in> aut_id ` set (authentications db)"
  "has_step db c \<longleftrightarrow> c \<in> stp_id ` set (authentication_steps db)"
  "has_passkey db k \<longleftrightarrow> k \<in> psk_id ` set (passkeys db)"
  by (auto simp: has_defs exists_row_iff)

lemmas wf_defs = wf_db_def refs_defs has_defs

lemma wf_Initial: "wf_db Initial"
  by (simp add: wf_db_def Initial_def)

subsection \<open>Insertions\<close>

text \<open>
  Rows of a table that nothing references: the other tables' constraints are untouched.
\<close>

lemma insert_identity_wf [wf_intros]:
  "wf_db db \<Longrightarrow> insert_identity r db = Inr db' \<Longrightarrow> wf_db db'"
  by (auto simp: wf_defs insert_identity_def tx_inv table_simps)

lemma insert_registration_wf [wf_intros]:
  "wf_db db \<Longrightarrow> insert_registration r db = Inr db' \<Longrightarrow> wf_db db'"
  by (auto simp: wf_defs insert_registration_def tx_inv table_simps)

lemma insert_email_step_wf [wf_intros]:
  "wf_db db \<Longrightarrow> insert_email_step r db = Inr db' \<Longrightarrow> wf_db db'"
  by (auto simp: wf_defs insert_email_step_def tx_inv table_simps)

lemma insert_passkey_step_wf [wf_intros]:
  "wf_db db \<Longrightarrow> insert_passkey_step r db = Inr db' \<Longrightarrow> wf_db db'"
  by (auto simp: wf_defs insert_passkey_step_def tx_inv table_simps)

lemma insert_google_step_wf [wf_intros]:
  "wf_db db \<Longrightarrow> insert_google_step r db = Inr db' \<Longrightarrow> wf_db db'"
  by (auto simp: wf_defs insert_google_step_def tx_inv table_simps)

lemma insert_oauth_request_wf [wf_intros]:
  "wf_db db \<Longrightarrow> insert_oauth_request r db = Inr db' \<Longrightarrow> wf_db db'"
  by (auto simp: wf_defs insert_oauth_request_def tx_inv table_simps)

lemma insert_email_change_wf [wf_intros]:
  "wf_db db \<Longrightarrow> insert_email_change r db = Inr db' \<Longrightarrow> wf_db db'"
  by (auto simp: wf_defs insert_email_change_def tx_inv table_simps)

lemma insert_totp_wf [wf_intros]:
  "wf_db db \<Longrightarrow> insert_totp r db = Inr db' \<Longrightarrow> wf_db db'"
  by (auto simp: wf_defs insert_totp_def tx_inv table_simps)

lemma insert_passkey_request_wf [wf_intros]:
  "wf_db db \<Longrightarrow> insert_passkey_request r db = Inr db' \<Longrightarrow> wf_db db'"
  by (auto simp: wf_defs insert_passkey_request_def tx_inv table_simps)

lemma insert_backup_wf [wf_intros]:
  "wf_db db \<Longrightarrow> insert_backup r db = Inr db' \<Longrightarrow> wf_db db'"
  by (auto simp: wf_defs insert_backup_def tx_inv table_simps)

lemma insert_outbox_wf [wf_intros]:
  "wf_db db \<Longrightarrow> insert_outbox r db = Inr db' \<Longrightarrow> wf_db db'"
  by (auto simp: wf_defs insert_outbox_def tx_inv table_simps)

lemma insert_transport_wf [wf_intros]:
  "wf_db db \<Longrightarrow> insert_transport r db = Inr db' \<Longrightarrow> wf_db db'"
  by (auto simp: wf_defs insert_transport_def tx_inv table_simps split: if_splits)

text \<open>Rows of a referenced table: what was referenced still exists.\<close>

lemma pred_option_weaken: "pred_option P z \<Longrightarrow> (\<And>x. P x \<Longrightarrow> Q x) \<Longrightarrow> pred_option Q z"
  by (cases z) auto

lemma insert_account_wf [wf_intros]:
  "wf_db db \<Longrightarrow> insert_account r db = Inr db' \<Longrightarrow> wf_db db'"
  by (auto simp: wf_defs insert_account_def tx_inv table_simps split: if_splits
      elim!: wf_table_mono elim: pred_option_weaken)

lemma insert_auth_wf [wf_intros]:
  "wf_db db \<Longrightarrow> insert_auth r db = Inr db' \<Longrightarrow> wf_db db'"
  by (auto simp: wf_defs insert_auth_def tx_inv table_simps split: if_splits
      elim!: wf_table_mono elim: pred_option_weaken)

lemma insert_step_wf [wf_intros]:
  "wf_db db \<Longrightarrow> insert_step r db = Inr db' \<Longrightarrow> wf_db db'"
  by (auto simp: wf_defs insert_step_def tx_inv table_simps split: if_splits
      elim!: wf_table_mono elim: pred_option_weaken)

lemma insert_passkey_wf [wf_intros]:
  "wf_db db \<Longrightarrow> insert_passkey r db = Inr db' \<Longrightarrow> wf_db db'"
  by (auto simp: wf_defs insert_passkey_def tx_inv table_simps split: if_splits
      elim!: wf_table_mono elim: pred_option_weaken)

lemma insert_session_wf [wf_intros]:
  assumes "wf_db db" "insert_session mk db = Inr (i, db')"
  shows "wf_db db'"
proof -
  have "\<forall>r \<in> set (sessions db). 0 < ses_id r \<and> ses_id r < next_session db"
    using assms(1) by (auto simp: wf_db_def dest: wf_table_ok)
  with assms show ?thesis
    by (auto simp: wf_defs insert_session_def Let_def tx_inv table_simps
        elim!: wf_table_mono elim: pred_option_weaken)
qed


subsection \<open>Replacements and updates\<close>

lemma upsert_reset_wf [wf_intros]:
  assumes "wf_db db" "upsert_reset r db = Inr db'"
  shows "wf_db db'"
proof -
  have "wf_table reset_unique (reset_refs db) rows"
    if "update_unique reset_unique (\<lambda>q. rst_account q = rst_account r)
          (\<lambda>q. q\<lparr>rst_token := rst_token r, rst_expiry := rst_expiry r\<rparr>)
          (password_reset_requests db) = Inr rows" for rows
    by (rule reset_tab.wf_table_update_unique [OF _ that])
      (use assms(1) in \<open>auto simp: wf_db_def reset_unique_def reset_refs_def\<close>)
  with assms show ?thesis
    by (auto simp: wf_defs upsert_reset_def tx_inv table_simps split: if_splits)
qed

lemma upsert_totp_request_wf [wf_intros]:
  "wf_db db \<Longrightarrow> upsert_totp_request r db = Inr db' \<Longrightarrow> wf_db db'"
  by (auto simp: wf_defs upsert_totp_request_def tx_inv table_simps totp_request_unique_def
      split: if_splits intro!: wf_table_update)

lemma upsert_deletion_wf [wf_intros]:
  "wf_db db \<Longrightarrow> upsert_deletion r now db = Inr (q, db') \<Longrightarrow> wf_db db'"
  by (auto simp: wf_defs upsert_deletion_def tx_inv table_simps deletion_unique_def
      split: if_splits option.splits intro!: wf_table_update)

lemma update_accounts_wf [wf_intros]:
  assumes "wf_db db"
    and "\<And>r. acc_id (f r) = acc_id r" "\<And>r. acc_email (f r) = acc_email r"
    and "\<And>r. acc_username (f r) = acc_username r"
  shows "wf_db (db\<lparr>accounts := update_rows P f (accounts db)\<rparr>)"
  using assms
  by (auto simp: wf_defs exists_row_update account_unique_def intro!: wf_table_update split: if_splits)

text \<open>An update under the unique keys of \<open>accounts\<close>: of the email or of the username.\<close>

lemma update_unique_accounts_wf [wf_intros]:
  assumes "wf_db db" "update_unique account_unique (\<lambda>r. acc_id r = a \<and> P r) f (accounts db) = Inr rows"
    and "\<And>r. acc_id (f r) = acc_id r"
  shows "wf_db (db\<lparr>accounts := rows\<rparr>)"
proof -
  have "wf_table account_unique (\<lambda>_. True) rows"
    using assms(1,2)
    by (auto intro: account_tab.wf_table_update_unique simp: wf_db_def account_unique_def)
  moreover have "exists_row (\<lambda>r. acc_id r = y) rows = exists_row (\<lambda>r. acc_id r = y) (accounts db)" for y
    using assms(2,3) by (auto simp: tx_inv exists_row_update)
  ultimately show ?thesis using assms(1) by (auto simp: wf_defs)
qed

lemma update_unique_sessions_wf [wf_intros]:
  assumes "wf_db db" "update_unique session_unique (\<lambda>r. ses_id r = i) f (sessions db) = Inr rows"
    and "\<And>r. ses_id (f r) = ses_id r" "\<And>r. ses_account (f r) = ses_account r"
  shows "wf_db (db\<lparr>sessions := rows\<rparr>)"
proof -
  have "wf_table session_unique
      (\<lambda>r. session_refs db r \<and> 0 < ses_id r \<and> ses_id r < next_session db) rows"
    by (rule session_tab.wf_table_update_unique [OF _ assms(2)])
      (use assms(1,3,4) in \<open>auto simp: wf_db_def session_unique_def session_refs_def\<close>)
  moreover have "exists_row (\<lambda>r. ses_id r = y) rows = exists_row (\<lambda>r. ses_id r = y) (sessions db)" for y
    using assms(2,3) by (auto simp: tx_inv exists_row_update)
  ultimately show ?thesis using assms(1) by (auto simp: wf_defs)
qed

lemma update_auths_wf:
  assumes "wf_db db"
    and "\<And>r. aut_id (f r) = aut_id r" "\<And>r. aut_flow (f r) = aut_flow r"
    and "\<And>r. aut_grant (f r) = None \<or> aut_grant (f r) = aut_grant r"
    and "\<And>r. r \<in> set (authentications db) \<Longrightarrow> P r \<Longrightarrow> auth_check r \<Longrightarrow> auth_refs db r \<Longrightarrow>
           auth_check (f r) \<and> auth_refs db (f r)"
  shows "wf_db (db\<lparr>authentications := update_rows P f (authentications db)\<rparr>)"
proof -
  let ?g = "\<lambda>r. if P r then f r else r"
  have g: "aut_grant (?g r) = None \<or> aut_grant (?g r) = aut_grant r"
    and ids: "aut_id (?g r) = aut_id r" "aut_flow (?g r) = aut_flow r" for r
    using assms(2-4) by simp_all
  have "auth_unique q r" if u: "auth_unique (?g q) (?g r)" for q r
  proof (cases "aut_id q = aut_id r \<or> aut_flow q = aut_flow r")
    case True
    then show ?thesis by (auto simp: auth_unique_def)
  next
    case False
    then have "aut_grant (?g q) \<noteq> None" "aut_grant (?g q) = aut_grant (?g r)"
      using u unfolding auth_unique_def ids by blast+
    then show ?thesis using g [of q] g [of r] unfolding auth_unique_def by (metis (no_types))
  qed
  moreover have "wf_table auth_unique (\<lambda>r. auth_check r \<and> auth_refs db r) (authentications db)"
    using assms(1) by (simp add: wf_db_def)
  ultimately have "wf_table auth_unique (\<lambda>r. auth_check r \<and> auth_refs db r)
      (update_rows P f (authentications db))"
    using assms(5) by (intro wf_table_update) blast+
  with assms(1,2) show ?thesis by (auto simp: wf_defs exists_row_update)
qed

lemma update_unique_auths_wf:
  assumes "wf_db db" "update_unique auth_unique (\<lambda>r. aut_id r = a) f (authentications db) = Inr rows"
    and "\<And>r. aut_id (f r) = aut_id r"
    and "\<And>r. r \<in> set (authentications db) \<Longrightarrow> aut_id r = a \<Longrightarrow> auth_check r \<Longrightarrow> auth_refs db r \<Longrightarrow>
           auth_check (f r) \<and> auth_refs db (f r)"
  shows "wf_db (db\<lparr>authentications := rows\<rparr>)"
proof -
  have "wf_table auth_unique (\<lambda>r. auth_check r \<and> auth_refs db r) rows"
    by (rule auth_tab.wf_table_update_unique [OF _ assms(2)])
      (use assms(1,4) in \<open>auto simp: wf_db_def auth_unique_def\<close>)
  moreover have "exists_row (\<lambda>r. aut_id r = y) rows = exists_row (\<lambda>r. aut_id r = y) (authentications db)" for y
    using assms(2,3) by (auto simp: tx_inv exists_row_update)
  ultimately show ?thesis using assms(1) by (auto simp: wf_defs)
qed

lemma update_steps_wf:
  assumes "wf_db db"
    and "\<And>r. stp_id (f r) = stp_id r" "\<And>r. stp_auth (f r) = stp_auth r"
    and "\<And>r. step_check r \<Longrightarrow> step_check (f r)"
  shows "wf_db (db\<lparr>authentication_steps := update_rows P f (authentication_steps db)\<rparr>)"
  using assms
  by (auto simp: wf_defs exists_row_update step_unique_def intro!: wf_table_update split: if_splits)

lemma update_registrations_wf [wf_intros]:
  assumes "wf_db db" "\<And>r. reg_auth (f r) = reg_auth r"
  shows "wf_db (db\<lparr>registrations := update_rows P f (registrations db)\<rparr>)"
  using assms by (auto simp: wf_defs registration_unique_def intro!: wf_table_update split: if_splits)

lemma update_email_change_wf [wf_intros]:
  assumes "wf_db db"
    and "update_unique email_change_unique (\<lambda>r. emc_account r = a) f (email_change_requests db) = Inr rows"
    and "\<And>r. emc_account (f r) = emc_account r"
  shows "wf_db (db\<lparr>email_change_requests := rows\<rparr>)"
proof -
  have "wf_table email_change_unique (email_change_refs db) rows"
    by (rule email_change_tab.wf_table_update_unique [OF _ assms(2)])
      (use assms(1,3) in \<open>auto simp: wf_db_def email_change_unique_def email_change_refs_def\<close>)
  with assms(1) show ?thesis by (auto simp: wf_defs)
qed

lemma update_deletion_wf [wf_intros]:
  assumes "wf_db db" "\<And>r. del_account (f r) = del_account r"
  shows "wf_db (db\<lparr>account_deletion_requests := update_rows P f (account_deletion_requests db)\<rparr>)"
  using assms by (auto simp: wf_defs deletion_unique_def intro!: wf_table_update split: if_splits)

lemma update_totp_wf:
  assumes "wf_db db" "\<And>r. ttp_account (f r) = ttp_account r" "\<And>r. totp_check r \<Longrightarrow> totp_check (f r)"
  shows "wf_db (db\<lparr>totp := update_rows P f (totp db)\<rparr>)"
  using assms by (auto simp: wf_defs totp_unique_def intro!: wf_table_update split: if_splits)

lemma update_passkeys_wf:
  assumes "wf_db db"
    and "\<And>r. psk_id (f r) = psk_id r" "\<And>r. psk_account (f r) = psk_account r"
    and "\<And>r. psk_credential (f r) = psk_credential r"
    and "\<And>r. r \<in> set (passkeys db) \<Longrightarrow> P r \<Longrightarrow> passkey_check r \<Longrightarrow> passkey_check (f r)"
  shows "wf_db (db\<lparr>passkeys := update_rows P f (passkeys db)\<rparr>)"
  using assms
  by (auto simp: wf_defs exists_row_update passkey_unique_def intro!: wf_table_update split: if_splits)

subsection \<open>Deletions\<close>

lemma delete_leaf_wf [wf_intros]:
  assumes "wf_db db"
  shows "wf_db (db\<lparr>identities := delete_rows Pi (identities db)\<rparr>)"
    and "wf_db (db\<lparr>registrations := delete_rows Pr (registrations db)\<rparr>)"
    and "wf_db (db\<lparr>oauth_requests := delete_rows Po (oauth_requests db)\<rparr>)"
    and "wf_db (db\<lparr>email_change_requests := delete_rows Pe (email_change_requests db)\<rparr>)"
    and "wf_db (db\<lparr>password_reset_requests := delete_rows Pp (password_reset_requests db)\<rparr>)"
    and "wf_db (db\<lparr>account_deletion_requests := delete_rows Pd (account_deletion_requests db)\<rparr>)"
    and "wf_db (db\<lparr>totp := delete_rows Pt (totp db)\<rparr>)"
    and "wf_db (db\<lparr>totp_activation_requests := delete_rows Pa (totp_activation_requests db)\<rparr>)"
    and "wf_db (db\<lparr>passkey_registration_requests := delete_rows Pk (passkey_registration_requests db)\<rparr>)"
    and "wf_db (db\<lparr>backup_codes := delete_rows Pb (backup_codes db)\<rparr>)"
    and "wf_db (db\<lparr>outbox := delete_rows Px (outbox db)\<rparr>)"
  using assms by (auto simp: wf_defs elim!: wf_table_delete)

lemma delete_passkeys_wf [wf_intros]: "wf_db db \<Longrightarrow> wf_db (delete_passkeys P db)"
  by (auto simp: wf_defs delete_passkeys_def Let_def elim!: wf_table_delete intro!: exists_row_delete)

lemma delete_steps_wf [wf_intros]: "wf_db db \<Longrightarrow> wf_db (delete_steps P db)"
  by (auto simp: wf_defs delete_steps_def Let_def elim!: wf_table_delete intro!: exists_row_delete
      elim: option.pred_mono_strong)

lemma delete_auths_wf [wf_intros]: "wf_db db \<Longrightarrow> wf_db (delete_auths P db)"
  by (simp add: wf_defs delete_auths_def delete_steps_def Let_def)
    (safe; (erule wf_table_delete | assumption);
     auto intro!: exists_row_delete elim: option.pred_mono_strong)

lemma delete_sessions_wf [wf_intros]: "wf_db db \<Longrightarrow> wf_db (delete_sessions P db)"
  by (simp add: wf_defs delete_sessions_def delete_auths_def delete_steps_def Let_def delete_rows_twice)
    (safe; (erule wf_table_delete | assumption);
     auto intro!: exists_row_delete elim: option.pred_mono_strong)

text \<open>
  Deleting accounts: once nothing else references them, the rows of the accounts and of
  the tables that only they reference can go.
\<close>

lemma remove_accounts_wf:
  assumes wf: "wf_db db"
    and ses: "\<And>r. r \<in> set (sessions db) \<Longrightarrow> ses_account r \<notin> gone"
    and aut: "\<And>r. r \<in> set (authentications db) \<Longrightarrow> aut_account r \<notin> Some ` gone"
    and psk: "\<And>r. r \<in> set (passkeys db) \<Longrightarrow> psk_account r \<notin> gone"
    and gone: "gone = acc_id ` {r \<in> set (accounts db). P r}"
  shows "wf_db (db\<lparr>accounts := delete_rows P (accounts db),
      identities := delete_rows (\<lambda>r. idn_account r \<in> gone) (identities db),
      email_change_requests := delete_rows (\<lambda>r. emc_account r \<in> gone) (email_change_requests db),
      password_reset_requests := delete_rows (\<lambda>r. rst_account r \<in> gone) (password_reset_requests db),
      account_deletion_requests := delete_rows (\<lambda>r. del_account r \<in> gone) (account_deletion_requests db),
      totp := delete_rows (\<lambda>r. ttp_account r \<in> gone) (totp db),
      totp_activation_requests := delete_rows (\<lambda>r. ttr_account r \<in> gone) (totp_activation_requests db),
      backup_codes := delete_rows (\<lambda>r. bkp_account r \<in> gone) (backup_codes db)\<rparr>)"
proof -
  have keep: "exists_row (\<lambda>r. acc_id r = y) (delete_rows P (accounts db))"
    if "exists_row (\<lambda>r. acc_id r = y) (accounts db)" "y \<notin> gone" for y
    using that by (intro exists_row_delete) (simp_all add: gone)
  then have keep_opt: "pred_option (\<lambda>a. exists_row (\<lambda>r. acc_id r = a) (delete_rows P (accounts db))) z"
    if "pred_option (\<lambda>a. exists_row (\<lambda>r. acc_id r = a) (accounts db)) z" "z \<notin> Some ` gone" for z
    using that by (cases z) auto
  show ?thesis
    using wf
    by (simp add: wf_defs)
      (safe; (assumption | erule wf_table_delete | erule wf_table_mono);
        auto intro!: keep keep_opt dest: ses aut psk)
qed

lemma delete_accounts_rest:
  "accounts (delete_passkeys Pp (delete_auths Pa (delete_sessions Ps db))) = accounts db"
  "set (sessions (delete_passkeys Pp (delete_auths Pa (delete_sessions Ps db)))) =
     {r \<in> set (sessions db). \<not> Ps r}"
  "set (authentications (delete_passkeys Pp (delete_auths Pa (delete_sessions Ps db)))) \<subseteq>
     {r. \<not> Pa r}"
  "set (passkeys (delete_passkeys Pp (delete_auths Pa (delete_sessions Ps db)))) =
     {r \<in> set (passkeys db). \<not> Pp r}"
  by (auto simp: delete_passkeys_def delete_auths_def delete_sessions_def delete_steps_def Let_def
      set_delete_rows)

lemma delete_accounts_wf [wf_intros]: "wf_db db \<Longrightarrow> wf_db (delete_accounts P db)"
  unfolding delete_accounts_def Let_def
  by (rule remove_accounts_wf) (auto intro!: wf_intros simp: delete_accounts_rest
      dest: delete_accounts_rest(3) [THEN subsetD])

subsection \<open>What well-formedness gives\<close>

lemma wf_account_unique:
  assumes "wf_db db" "q \<in> set (accounts db)" "r \<in> set (accounts db)" "account_unique q r"
  shows "q = r"
  using assms account_tab.row_unique by (auto simp: wf_db_def)

lemma wf_session_unique:
  assumes "wf_db db" "q \<in> set (sessions db)" "r \<in> set (sessions db)" "session_unique q r"
  shows "q = r"
  using assms session_tab.row_unique by (auto simp: wf_db_def)

lemma wf_auth_unique:
  assumes "wf_db db" "q \<in> set (authentications db)" "r \<in> set (authentications db)" "auth_unique q r"
  shows "q = r"
  using assms auth_tab.row_unique by (auto simp: wf_db_def)

lemma wf_step_unique:
  assumes "wf_db db" "q \<in> set (authentication_steps db)" "r \<in> set (authentication_steps db)"
    and "stp_id q = stp_id r"
  shows "q = r"
  using assms step_tab.row_unique by (auto simp: wf_db_def step_unique_def)

lemma wf_auth_ok:
  "wf_db db \<Longrightarrow> r \<in> set (authentications db) \<Longrightarrow> auth_check r \<and> auth_refs db r"
  by (auto simp: wf_db_def dest: wf_table_ok)

lemma wf_find_auth:
  "wf_db db \<Longrightarrow> r \<in> set (authentications db) \<Longrightarrow> find (\<lambda>q. aut_id q = aut_id r) (authentications db) = Some r"
  by (rule auth_tab.find_by_key) (auto simp: wf_db_def auth_unique_def)

lemma wf_find_account:
  "wf_db db \<Longrightarrow> r \<in> set (accounts db) \<Longrightarrow> find (\<lambda>q. acc_id q = acc_id r) (accounts db) = Some r"
  by (rule account_tab.find_by_key) (auto simp: wf_db_def account_unique_def)

end
