(* ===== verification/Auth_Statements.thy ===== *)
theory Auth_Statements
  imports Auth_Integrity
begin

section \<open>The statements of the engine\<close>

text \<open>
  The \<open>UPDATE\<close> and \<open>DELETE\<close> statements the engine issues, as functions on the database, and
  for every statement, the insertions of the schema included, the rule that it keeps the
  database well formed. The rules are collected in \<open>wf_triples\<close>; with the rules \<open>triples\<close>
  of the transaction monad they prove that an operation keeps the database well formed.
\<close>

named_theorems wf_triples \<open>statements that keep the database well formed\<close>
named_theorems auth_frame \<open>statements that leave the processes alone\<close>

subsection \<open>Statements on processes\<close>

text \<open>
  \<open>UPDATE authentications SET account_id=$2 WHERE authentication_id=$1\<close>, under the foreign
  key to \<open>accounts\<close>.
\<close>

definition set_account :: "uuid \<Rightarrow> uuid \<Rightarrow> db \<Rightarrow> error + db" where
  "set_account aid account db =
     (if exists_row (\<lambda>r. aut_id r = aid) (authentications db) \<and> \<not> has_account db account then Inl ErrInternal
      else Inr (db\<lparr>authentications :=
             update_rows (\<lambda>r. aut_id r = aid) (\<lambda>r. r\<lparr>aut_account := Some account\<rparr>) (authentications db)\<rparr>))"

text \<open>\<open>UPDATE authentications SET status='completed', ...\<close> of \<open>complete\<close>, under the unique key of the grant.\<close>

definition complete_auth :: "uuid \<Rightarrow> uuid \<Rightarrow> time \<Rightarrow> string \<Rightarrow> time \<Rightarrow> db \<Rightarrow> error + db" where
  "complete_auth aid account now grant expiry db =
     (if exists_row (\<lambda>r. aut_id r = aid) (authentications db) \<and> \<not> has_account db account then Inl ErrInternal
      else map_sum id (\<lambda>rows. db\<lparr>authentications := rows\<rparr>)
        (update_unique auth_unique (\<lambda>r. aut_id r = aid)
          (\<lambda>r. r\<lparr>aut_status := Completed, aut_account := Some account, aut_completion := Some now,
                  aut_grant := Some grant, aut_grant_expiry := Some expiry\<rparr>)
          (authentications db)))"

definition update_auths :: "(auth_row \<Rightarrow> bool) \<Rightarrow> (auth_row \<Rightarrow> auth_row) \<Rightarrow> db \<Rightarrow> db" where
  "update_auths P f db = db\<lparr>authentications := update_rows P f (authentications db)\<rparr>"

definition update_steps :: "(step_row \<Rightarrow> bool) \<Rightarrow> (step_row \<Rightarrow> step_row) \<Rightarrow> db \<Rightarrow> db" where
  "update_steps P f db = db\<lparr>authentication_steps := update_rows P f (authentication_steps db)\<rparr>"

lemma set_account_wf [wf_intros]:
  assumes "wf_db db" "set_account aid account db = Inr db'"
  shows "wf_db db'"
proof -
  have "has_account db account" if "r \<in> set (authentications db)" "aut_id r = aid" for r
    using assms(2) that by (auto simp: set_account_def exists_row_iff split: if_splits)
  then have "wf_db (db\<lparr>authentications :=
      update_rows (\<lambda>r. aut_id r = aid) (\<lambda>r. r\<lparr>aut_account := Some account\<rparr>) (authentications db)\<rparr>)"
    using assms(1) by (intro update_auths_wf) (auto simp: auth_check_def auth_refs_def)
  then show ?thesis using assms(2) by (simp add: set_account_def split: if_splits)
qed

lemma complete_auth_wf [wf_intros]:
  assumes "wf_db db" "complete_auth aid account now grant expiry db = Inr db'"
  shows "wf_db db'"
proof -
  have "has_account db account" if "r \<in> set (authentications db)" "aut_id r = aid" for r
    using assms(2) that by (auto simp: complete_auth_def exists_row_iff split: if_splits)
  with assms show ?thesis
    by (auto simp: complete_auth_def tx_inv auth_check_def auth_refs_def split: if_splits
        intro!: update_unique_auths_wf simp flip: update_unique_success)
qed

subsection \<open>Updates of other tables\<close>

definition update_registrations :: "(registration_row \<Rightarrow> bool) \<Rightarrow> (registration_row \<Rightarrow> registration_row) \<Rightarrow> db \<Rightarrow> db" where
  "update_registrations P f db = db\<lparr>registrations := update_rows P f (registrations db)\<rparr>"

definition update_accounts :: "(account_row \<Rightarrow> bool) \<Rightarrow> (account_row \<Rightarrow> account_row) \<Rightarrow> db \<Rightarrow> db" where
  "update_accounts P f db = db\<lparr>accounts := update_rows P f (accounts db)\<rparr>"

definition update_deletions :: "(deletion_row \<Rightarrow> bool) \<Rightarrow> (deletion_row \<Rightarrow> deletion_row) \<Rightarrow> db \<Rightarrow> db" where
  "update_deletions P f db = db\<lparr>account_deletion_requests := update_rows P f (account_deletion_requests db)\<rparr>"

definition update_totp :: "(totp_row \<Rightarrow> bool) \<Rightarrow> (totp_row \<Rightarrow> totp_row) \<Rightarrow> db \<Rightarrow> db" where
  "update_totp P f db = db\<lparr>totp := update_rows P f (totp db)\<rparr>"

definition update_passkeys :: "(passkey_row \<Rightarrow> bool) \<Rightarrow> (passkey_row \<Rightarrow> passkey_row) \<Rightarrow> db \<Rightarrow> error + db" where
  "update_passkeys P f db =
     (if exists_row (\<lambda>r. P r \<and> \<not> passkey_check (f r)) (passkeys db) then Inl ErrInternal
      else Inr (db\<lparr>passkeys := update_rows P f (passkeys db)\<rparr>))"

text \<open>Updates of a column with a unique key.\<close>

definition update_account_key :: "uuid \<Rightarrow> (account_row \<Rightarrow> bool) \<Rightarrow> (account_row \<Rightarrow> account_row) \<Rightarrow> db \<Rightarrow> error + db" where
  "update_account_key a P f db = map_sum id (\<lambda>rows. db\<lparr>accounts := rows\<rparr>)
     (update_unique account_unique (\<lambda>r. acc_id r = a \<and> P r) f (accounts db))"

definition update_session_key :: "int \<Rightarrow> (session_row \<Rightarrow> session_row) \<Rightarrow> db \<Rightarrow> error + db" where
  "update_session_key i f db = map_sum id (\<lambda>rows. db\<lparr>sessions := rows\<rparr>)
     (update_unique session_unique (\<lambda>r. ses_id r = i) f (sessions db))"

definition update_email_change :: "uuid \<Rightarrow> (email_change_row \<Rightarrow> email_change_row) \<Rightarrow> db \<Rightarrow> error + db" where
  "update_email_change a f db = map_sum id (\<lambda>rows. db\<lparr>email_change_requests := rows\<rparr>)
     (update_unique email_change_unique (\<lambda>r. emc_account r = a) f (email_change_requests db))"

subsection \<open>Deletions without a cascade\<close>

definition delete_identities :: "(identity_row \<Rightarrow> bool) \<Rightarrow> db \<Rightarrow> db" where
  "delete_identities P db = db\<lparr>identities := delete_rows P (identities db)\<rparr>"

definition delete_registrations :: "(registration_row \<Rightarrow> bool) \<Rightarrow> db \<Rightarrow> db" where
  "delete_registrations P db = db\<lparr>registrations := delete_rows P (registrations db)\<rparr>"

definition delete_oauth_requests :: "(oauth_row \<Rightarrow> bool) \<Rightarrow> db \<Rightarrow> db" where
  "delete_oauth_requests P db = db\<lparr>oauth_requests := delete_rows P (oauth_requests db)\<rparr>"

definition delete_email_changes :: "(email_change_row \<Rightarrow> bool) \<Rightarrow> db \<Rightarrow> db" where
  "delete_email_changes P db = db\<lparr>email_change_requests := delete_rows P (email_change_requests db)\<rparr>"

definition delete_resets :: "(reset_row \<Rightarrow> bool) \<Rightarrow> db \<Rightarrow> db" where
  "delete_resets P db = db\<lparr>password_reset_requests := delete_rows P (password_reset_requests db)\<rparr>"

definition delete_deletions :: "(deletion_row \<Rightarrow> bool) \<Rightarrow> db \<Rightarrow> db" where
  "delete_deletions P db = db\<lparr>account_deletion_requests := delete_rows P (account_deletion_requests db)\<rparr>"

definition delete_totp :: "(totp_row \<Rightarrow> bool) \<Rightarrow> db \<Rightarrow> db" where
  "delete_totp P db = db\<lparr>totp := delete_rows P (totp db)\<rparr>"

definition delete_totp_requests :: "(totp_request_row \<Rightarrow> bool) \<Rightarrow> db \<Rightarrow> db" where
  "delete_totp_requests P db = db\<lparr>totp_activation_requests := delete_rows P (totp_activation_requests db)\<rparr>"

definition delete_passkey_requests :: "(passkey_request_row \<Rightarrow> bool) \<Rightarrow> db \<Rightarrow> db" where
  "delete_passkey_requests P db = db\<lparr>passkey_registration_requests := delete_rows P (passkey_registration_requests db)\<rparr>"

definition delete_backups :: "(backup_row \<Rightarrow> bool) \<Rightarrow> db \<Rightarrow> db" where
  "delete_backups P db = db\<lparr>backup_codes := delete_rows P (backup_codes db)\<rparr>"

definition delete_outbox :: "(outbox_row \<Rightarrow> bool) \<Rightarrow> db \<Rightarrow> db" where
  "delete_outbox P db = db\<lparr>outbox := delete_rows P (outbox db)\<rparr>"

lemmas statement_defs = update_auths_def update_steps_def update_registrations_def update_accounts_def update_deletions_def update_totp_def
  update_passkeys_def update_account_key_def update_session_key_def update_email_change_def
  delete_identities_def delete_registrations_def delete_oauth_requests_def delete_email_changes_def delete_resets_def delete_deletions_def delete_totp_def delete_totp_requests_def delete_passkey_requests_def delete_backups_def delete_outbox_def

subsection \<open>They keep the database well formed\<close>

lemma insert_triples [wf_triples]:
  "keeps wf_db (tx_stmt (insert_account r0))"
  "keeps wf_db (tx_stmt (insert_identity r1))"
  "keeps wf_db (tx_stmt (insert_auth r2))"
  "keeps wf_db (tx_stmt (insert_registration r3))"
  "keeps wf_db (tx_stmt (insert_step r4))"
  "keeps wf_db (tx_stmt (insert_email_step r5))"
  "keeps wf_db (tx_stmt (insert_passkey_step r6))"
  "keeps wf_db (tx_stmt (insert_google_step r7))"
  "keeps wf_db (tx_stmt (insert_oauth_request r8))"
  "keeps wf_db (tx_stmt (insert_email_change r9))"
  "keeps wf_db (tx_stmt (insert_totp r10))"
  "keeps wf_db (tx_stmt (insert_passkey r11))"
  "keeps wf_db (tx_stmt (insert_transport r12))"
  "keeps wf_db (tx_stmt (insert_passkey_request r13))"
  "keeps wf_db (tx_stmt (insert_backup r14))"
  "keeps wf_db (tx_stmt (insert_outbox r15))"
  "keeps wf_db (tx_stmt (upsert_reset rr))"
  "keeps wf_db (tx_stmt (upsert_totp_request rt))"
  by (rule keeps_stmt, erule (1) wf_intros)+

lemma insert_session_triple [wf_triples]: "keeps wf_db (insert_session mk)"
  by (rule tripleI) (erule (1) insert_session_wf)

lemma upsert_deletion_triple [wf_triples]: "keeps wf_db (upsert_deletion r now)"
  by (rule tripleI) (erule (1) upsert_deletion_wf)

lemma auth_statement_triples [wf_triples]:
  "keeps wf_db (tx_stmt (set_account aid account))"
  "keeps wf_db (tx_stmt (complete_auth aid account now grant expiry))"
  by (rule keeps_stmt, erule (1) wf_intros)+

lemma update_auths_triple:
  assumes "\<And>r. aut_id (f r) = aut_id r" "\<And>r. aut_flow (f r) = aut_flow r"
    and "\<And>r. aut_grant (f r) = None \<or> aut_grant (f r) = aut_grant r"
    and "\<And>r. auth_check r \<Longrightarrow> auth_check (f r)"
    and "\<And>r. aut_account (f r) = aut_account r" "\<And>r. aut_session (f r) = aut_session r"
  shows "keeps wf_db (tx_exec (update_auths P f))"
  unfolding update_auths_def
  by (rule keeps_exec, rule update_auths_wf) (use assms in \<open>auto simp: auth_refs_def\<close>)

lemma update_steps_triple:
  assumes "\<And>r. stp_id (f r) = stp_id r" "\<And>r. stp_auth (f r) = stp_auth r"
    and "\<And>r. step_check r \<Longrightarrow> step_check (f r)"
  shows "keeps wf_db (tx_exec (update_steps P f))"
  unfolding update_steps_def by (rule keeps_exec, rule update_steps_wf) (use assms in auto)

lemma update_registrations_triple [wf_triples]:
  assumes "\<And>r. reg_auth (f r) = reg_auth r"
  shows "keeps wf_db (tx_exec (update_registrations P f))"
  unfolding update_registrations_def by (rule keeps_exec, rule update_registrations_wf) (use assms in auto)

lemma update_accounts_triple [wf_triples]:
  assumes "\<And>r. acc_id (f r) = acc_id r" "\<And>r. acc_email (f r) = acc_email r" "\<And>r. acc_username (f r) = acc_username r"
  shows "keeps wf_db (tx_exec (update_accounts P f))"
  unfolding update_accounts_def by (rule keeps_exec, rule update_accounts_wf) (use assms in auto)

lemma update_deletions_triple [wf_triples]:
  assumes "\<And>r. del_account (f r) = del_account r"
  shows "keeps wf_db (tx_exec (update_deletions P f))"
  unfolding update_deletions_def by (rule keeps_exec, rule update_deletion_wf) (use assms in auto)

lemma update_totp_triple [wf_triples]:
  assumes "\<And>r. ttp_account (f r) = ttp_account r" "\<And>r. totp_check r \<Longrightarrow> totp_check (f r)"
  shows "keeps wf_db (tx_exec (update_totp P f))"
  unfolding update_totp_def by (rule keeps_exec, rule update_totp_wf) (use assms in auto)

lemma update_passkeys_triple [wf_triples]:
  assumes "\<And>r. psk_id (f r) = psk_id r" "\<And>r. psk_account (f r) = psk_account r"
    and "\<And>r. psk_credential (f r) = psk_credential r"
  shows "keeps wf_db (tx_stmt (update_passkeys P f))"
proof (rule keeps_stmt)
  fix s t
  assume s: "wf_db s" "update_passkeys P f s = Inr t"
  then have "passkey_check (f r)" if "r \<in> set (passkeys s)" "P r" for r
    using that by (auto simp: update_passkeys_def exists_row_iff split: if_splits)
  then have "wf_db (s\<lparr>passkeys := update_rows P f (passkeys s)\<rparr>)"
    using s(1) assms by (intro update_passkeys_wf) auto
  then show "wf_db t" using s(2) by (simp add: update_passkeys_def split: if_splits)
qed

lemma update_account_key_triple [wf_triples]:
  assumes "\<And>r. acc_id (f r) = acc_id r"
  shows "keeps wf_db (tx_stmt (update_account_key a P f))"
  by (rule keeps_stmt) (auto simp: update_account_key_def map_sum_success intro: update_unique_accounts_wf assms)

lemma update_session_key_triple [wf_triples]:
  assumes "\<And>r. ses_id (f r) = ses_id r" "\<And>r. ses_account (f r) = ses_account r"
  shows "keeps wf_db (tx_stmt (update_session_key i f))"
  by (rule keeps_stmt) (auto simp: update_session_key_def map_sum_success intro: update_unique_sessions_wf assms)

lemma update_email_change_triple [wf_triples]:
  assumes "\<And>r. emc_account (f r) = emc_account r"
  shows "keeps wf_db (tx_stmt (update_email_change a f))"
  by (rule keeps_stmt) (auto simp: update_email_change_def map_sum_success intro: update_email_change_wf assms)

lemma delete_triples [wf_triples]:
  "keeps wf_db (tx_exec (delete_identities P0))"
  "keeps wf_db (tx_exec (delete_registrations P1))"
  "keeps wf_db (tx_exec (delete_oauth_requests P2))"
  "keeps wf_db (tx_exec (delete_email_changes P3))"
  "keeps wf_db (tx_exec (delete_resets P4))"
  "keeps wf_db (tx_exec (delete_deletions P5))"
  "keeps wf_db (tx_exec (delete_totp P6))"
  "keeps wf_db (tx_exec (delete_totp_requests P7))"
  "keeps wf_db (tx_exec (delete_passkey_requests P8))"
  "keeps wf_db (tx_exec (delete_backups P9))"
  "keeps wf_db (tx_exec (delete_outbox P10))"
  "keeps wf_db (tx_exec (delete_passkeys Q1))"
  "keeps wf_db (tx_exec (delete_auths Q2))"
  "keeps wf_db (tx_exec (delete_sessions Q3))"
  "keeps wf_db (tx_exec (delete_accounts Q4))"
  by (rule keeps_exec, (simp only: statement_defs)?,
      erule delete_leaf_wf delete_passkeys_wf delete_auths_wf delete_sessions_wf delete_accounts_wf)+

lemmas run_statements [run_defs] = set_account_def complete_auth_def update_auths_def update_steps_def
  update_registrations_def update_accounts_def update_deletions_def update_totp_def update_passkeys_def
  update_account_key_def update_session_key_def update_email_change_def delete_identities_def
  delete_registrations_def delete_oauth_requests_def delete_email_changes_def delete_resets_def
  delete_deletions_def delete_totp_def delete_totp_requests_def delete_passkey_requests_def delete_backups_def
  delete_outbox_def

end
