(* ===== verification/Auth_Secrets.thy ===== *)
theory Auth_Secrets
  imports Auth_Strings "HOL-Library.Word" "HOL-Library.Signed_Division"
begin

section \<open>Keyed hashes, encryption and one-time codes\<close>

text \<open>
  \<open>internal/authentication/secrets.go\<close>. The primitives of Go's \<open>crypto\<close> packages and of
  bcrypt are the fields of the record \<open>crypto\<close>, a parameter of the model; the framing
  of the hashed text, the layout of a ciphertext, the RFC 6238 moving factor and its
  truncation are written out. Bytes are characters, the 64-bit counter and the 32-bit
  truncated value are words.
\<close>

unbundle bit_operations_syntax

record crypto =
  hmac_sha256 :: "string \<Rightarrow> string \<Rightarrow> string"
  hmac_sha1 :: "string \<Rightarrow> string \<Rightarrow> string"
  sha256 :: "string \<Rightarrow> string"
  aead_seal :: "string \<Rightarrow> string \<Rightarrow> string \<Rightarrow> string \<Rightarrow> string"
  aead_open :: "string \<Rightarrow> string \<Rightarrow> string \<Rightarrow> string \<Rightarrow> string option"
  bcrypt_generate :: "string \<Rightarrow> string \<Rightarrow> int \<Rightarrow> string option"
  bcrypt_compare :: "string \<Rightarrow> string \<Rightarrow> bool"

text \<open>
  \<open>Secrets\<close>: the MAC key, and the AES-GCM cipher given by its key. \<open>NonceSize\<close> of
  \<open>cipher.NewGCM\<close> is 12.
\<close>

record Secrets =
  macKey :: string
  cipherKey :: string

definition NonceSize :: nat where
  "NonceSize = 12"

definition NewSecrets :: "string \<Rightarrow> string \<Rightarrow> error + Secrets" where
  "NewSecrets mac enc =
     (if length mac < 32 \<or> length enc \<noteq> 32 then Inl ErrInternal
      else Inr \<lparr>macKey = mac, cipherKey = enc\<rparr>)"

text \<open>
  \<open>randomToken\<close> encodes 32 random bytes, \<open>randomCode\<close> shows a random number below a
  million with six digits; the bytes and the number are drawn by the caller's
  environment, which may also fail.
\<close>

definition randomToken :: "string \<Rightarrow> string" where
  "randomToken b = RawURLEncoding b"

definition randomCode :: "nat \<Rightarrow> string" where
  "randomCode n = pad06 n"

definition hash_frame :: "string \<Rightarrow> string \<Rightarrow> string \<Rightarrow> string" where
  "hash_frame kind context value = kind @ [CHR 0x00] @ context @ [CHR 0x00] @ value"

definition Hash :: "crypto \<Rightarrow> Secrets \<Rightarrow> string \<Rightarrow> string \<Rightarrow> string \<Rightarrow> string" where
  "Hash cr s kind context value = hmac_sha256 cr (macKey s) (hash_frame kind context value)"

definition Encrypt :: "crypto \<Rightarrow> Secrets \<Rightarrow> string \<Rightarrow> string \<Rightarrow> string \<Rightarrow> string" where
  "Encrypt cr s nonce value context = nonce @ aead_seal cr (cipherKey s) nonce value context"

definition Decrypt :: "crypto \<Rightarrow> Secrets \<Rightarrow> string \<Rightarrow> string \<Rightarrow> error + string" where
  "Decrypt cr s value context =
     (if length value < NonceSize then Inl ErrInvalid
      else case aead_open cr (cipherKey s) (take NonceSize value) (drop NonceSize value) context of
             None \<Rightarrow> Inl ErrInternal
           | Some plain \<Rightarrow> Inr plain)"

text \<open>\<open>binary.BigEndian.PutUint64\<close> and \<open>binary.BigEndian.Uint32\<close>.\<close>

definition PutUint64 :: "64 word \<Rightarrow> string" where
  "PutUint64 w = map (\<lambda>i. char_of (unat (drop_bit (56 - 8 * i) w AND 255))) [0..<8]"

definition Uint32 :: "string \<Rightarrow> 32 word" where
  "Uint32 b = foldl (\<lambda>w c. push_bit 8 w OR of_nat (byte c)) 0 (take 4 b)"

text \<open>
  The code of one moving factor: the dynamic truncation of the HMAC over the counter.
  The offset is at most 15 and an HMAC-SHA-1 has 20 bytes.
\<close>

definition totp_code :: "crypto \<Rightarrow> string \<Rightarrow> int \<Rightarrow> string" where
  "totp_code cr secret step =
     (let sum = hmac_sha1 cr secret (PutUint64 (word_of_int step));
          off = unat ((of_nat (byte (last sum)) :: 8 word) AND 15);
          n = Uint32 (take 4 (drop off sum)) AND 0x7fffffff
      in pad06 (unat n mod 1000000))"

definition Unix :: "time \<Rightarrow> int" where
  "Unix t = t div Second"

fun totp_try :: "crypto \<Rightarrow> string \<Rightarrow> string \<Rightarrow> int \<Rightarrow> int list \<Rightarrow> int option" where
  "totp_try cr secret code prev [] = None"
| "totp_try cr secret code prev (step # steps) =
     (if step \<le> prev \<or> step < 0 then totp_try cr secret code prev steps
      else if totp_code cr secret step = code then Some step
      else totp_try cr secret code prev steps)"

definition totpStep :: "crypto \<Rightarrow> string \<Rightarrow> string \<Rightarrow> time \<Rightarrow> int \<Rightarrow> int option" where
  "totpStep cr secret code now prev =
     (if length code \<noteq> 6 then None
      else let current = Unix now sdiv 30
        in totp_try cr secret code prev [current, current - 1, current + 1])"

subsection \<open>Tokens and codes\<close>

lemma randomToken_length: "length b = 32 \<Longrightarrow> length (randomToken b) = 43"
  by (simp add: randomToken_def length_RawURLEncoding)

lemma randomToken_inject: "randomToken b = randomToken c \<longleftrightarrow> b = c"
  unfolding randomToken_def by (metis RawURLDecode_encode option.inject)

subsection \<open>Hash domains\<close>

lemma append_sep_inject:
  "c \<notin> set xs \<Longrightarrow> c \<notin> set ys \<Longrightarrow> xs @ c # us = ys @ c # vs \<longleftrightarrow> xs = ys \<and> us = vs"
proof (induction xs arbitrary: ys)
  case Nil
  then show ?case by (cases ys) auto
next
  case (Cons x xs)
  then show ?case by (cases ys) auto
qed

lemma hash_frame_inject:
  assumes "CHR 0x00 \<notin> set k" "CHR 0x00 \<notin> set k'" "CHR 0x00 \<notin> set c" "CHR 0x00 \<notin> set c'"
  shows "hash_frame k c v = hash_frame k' c' v' \<longleftrightarrow> k = k' \<and> c = c' \<and> v = v'"
  using assms by (simp add: hash_frame_def append_sep_inject)

subsection \<open>One-time passwords\<close>

lemma totp_try_Some:
  "totp_try cr secret code prev steps = Some st \<Longrightarrow>
   st \<in> set steps \<and> prev < st \<and> 0 \<le> st \<and> totp_code cr secret st = code"
  by (induction steps) (auto split: if_splits)

lemma totp_try_None:
  "totp_try cr secret code prev steps = None \<longleftrightarrow>
   (\<forall>st \<in> set steps. prev < st \<and> 0 \<le> st \<longrightarrow> totp_code cr secret st \<noteq> code)"
  by (induction steps) auto

lemma totp_code_shape: "length (totp_code cr secret st) = 6 \<and> list_all is_digit (totp_code cr secret st)"
  by (simp add: totp_code_def Let_def pad06_length pad06_digits)

lemma totpStep_Some:
  assumes "totpStep cr secret code now prev = Some st"
  shows "prev < st" "0 \<le> st" "totp_code cr secret st = code" "\<bar>st - Unix now sdiv 30\<bar> \<le> 1"
  using assms by (auto simp: totpStep_def Let_def dest!: totp_try_Some split: if_splits)

lemma totpStep_None:
  "totpStep cr secret code now prev = None \<longleftrightarrow>
   (\<forall>st. \<bar>st - Unix now sdiv 30\<bar> \<le> 1 \<and> prev < st \<and> 0 \<le> st \<longrightarrow> totp_code cr secret st \<noteq> code)"
proof -
  have "st \<in> set [c, c - 1, c + 1] \<longleftrightarrow> \<bar>st - c\<bar> \<le> 1" for st c :: int by auto
  then have *: "totp_try cr secret code prev [c, c - 1, c + 1] = None \<longleftrightarrow>
      (\<forall>st. \<bar>st - c\<bar> \<le> 1 \<and> prev < st \<and> 0 \<le> st \<longrightarrow> totp_code cr secret st \<noteq> code)" for c
    unfolding totp_try_None by metis
  show ?thesis
  proof (cases "length code = 6")
    case True
    then show ?thesis
      using * [of "Unix now sdiv 30"] unfolding totpStep_def Let_def
      by (simp only: not_True_eq_False if_False simp_thms)
  next
    case False
    then have "totp_code cr secret st \<noteq> code" for st using totp_code_shape by blast
    then show ?thesis using False unfolding totpStep_def by simp
  qed
qed

lemmas run_secrets [run_defs] = NonceSize_def NewSecrets_def hash_frame_def Hash_def Encrypt_def Decrypt_def
  Unix_def totpStep_def

end
