(* ===== verification/Auth_Limiter.thy ===== *)
theory Auth_Limiter
  imports Auth_Prelude "HOL-Library.AList"
begin

section \<open>The activation limiter\<close>

text \<open>
  \<open>internal/authentication/limiter.go\<close>: a bounded table of attempt windows, one per
  account, kept in memory and guarded by a mutex, so that calls of \<open>allow\<close> are atomic.
  The Go map is an association list with distinct keys; a \<open>nil\<close> map is the empty list.
\<close>

record attemptWindow =
  win_start :: time
  win_count :: int

type_synonym activationLimiter = "(uuid \<times> attemptWindow) list"

definition window_length :: duration where
  "window_length = 5 * Minute"

text \<open>The eviction loop: windows whose five minutes are over are deleted.\<close>

definition evict :: "time \<Rightarrow> activationLimiter \<Rightarrow> activationLimiter" where
  "evict now l = filter (\<lambda>(k, w). \<not> now - win_start w \<ge> window_length) l"

definition allow :: "uuid \<Rightarrow> time \<Rightarrow> activationLimiter \<Rightarrow> bool \<times> activationLimiter" where
  "allow acc now l0 =
     (let l = (if length l0 \<ge> 10000 then evict now l0 else l0);
          found = map_of l acc
      in if found = None \<and> length l \<ge> 10000 then (False, l)
         else let w = (case found of
                          None \<Rightarrow> \<lparr>win_start = now, win_count = 0\<rparr>
                        | Some w \<Rightarrow>
                            if now - win_start w \<ge> window_length
                            then \<lparr>win_start = now, win_count = 0\<rparr> else w)
           in if win_count w \<ge> 10 then (False, l)
              else (True, AList.update acc (w\<lparr>win_count := win_count w + 1\<rparr>) l))"

text \<open>How many of a sequence of calls the limiter grants to one account.\<close>

fun granted :: "uuid \<Rightarrow> (uuid \<times> time) list \<Rightarrow> activationLimiter \<Rightarrow> nat" where
  "granted acc [] l = 0"
| "granted acc ((k, now) # calls) l =
     (let (ok, l') = allow k now l in (if ok \<and> k = acc then 1 else 0) + granted acc calls l')"

text \<open>The invariant of the table: one window per account, bounded size, bounded counts.\<close>

definition limiter_ok :: "activationLimiter \<Rightarrow> bool" where
  "limiter_ok l \<longleftrightarrow> distinct (map fst l) \<and> length l \<le> 10000 \<and>
     (\<forall>(k, w) \<in> set l. 0 < win_count w \<and> win_count w \<le> 10)"

inductive limiter_step :: "activationLimiter \<Rightarrow> activationLimiter \<Rightarrow> bool" where
  limiter_call: "limiter_step l (snd (allow acc now l))"

lemma map_of_evict:
  "distinct (map fst l) \<Longrightarrow> map_of (evict now l) k =
     (case map_of l k of None \<Rightarrow> None | Some w \<Rightarrow> if now - win_start w \<ge> window_length then None else Some w)"
proof (induction l)
  case (Cons p l)
  then show ?case
    by (cases p) (auto simp: evict_def map_of_eq_None_iff split: option.splits intro: weak_map_of_SomeI)
qed (simp add: evict_def)

lemma evict_distinct: "distinct (map fst l) \<Longrightarrow> distinct (map fst (evict now l))"
  by (induction l) (auto simp: evict_def)

lemma evict_ok: "limiter_ok l \<Longrightarrow> limiter_ok (evict now l)"
  unfolding limiter_ok_def using evict_distinct [of l now]
  by (auto simp: evict_def intro: order_trans [OF length_filter_le])

lemma set_update_subset: "set (AList.update k v l) \<subseteq> insert (k, v) (set l)"
  by (induction l) auto

lemma length_update: "length (AList.update k v l) = (if k \<in> fst ` set l then length l else Suc (length l))"
  by (induction l) auto

lemma window_update_ok:
  assumes "limiter_ok l" "0 < win_count w" "win_count w \<le> 10" "map_of l k \<noteq> None \<or> length l < 10000"
  shows "limiter_ok (AList.update k w l)"
  using assms set_update_subset [of k w l] unfolding limiter_ok_def
  by (auto simp: length_update distinct_update map_of_eq_None_iff)

lemma allow_ok: "limiter_ok l \<Longrightarrow> limiter_ok (snd (allow acc now l))"
proof -
  assume l: "limiter_ok l"
  define l' where "l' = (if length l \<ge> 10000 then evict now l else l)"
  have l': "limiter_ok l'" using l evict_ok by (simp add: l'_def)
  then have "0 \<le> win_count w" if "map_of l' acc = Some w" for w
    using that by (auto simp: limiter_ok_def dest!: map_of_SomeD)
  with l' show ?thesis
    unfolding allow_def Let_def l'_def [symmetric]
    by (auto intro!: window_update_ok split: option.splits)
qed

interpretation limiter: invariant_of limiter_step "\<lambda>l. l = []" limiter_ok
proof
  show "limiter_ok s" if "s = []" for s using that by (simp add: limiter_ok_def)
  show "limiter_ok t" if "limiter_step s t" "limiter_ok s" for s t
    using that by (auto elim!: limiter_step.cases simp: allow_ok)
qed

text \<open>One call, seen from one account whose window is still open.\<close>

lemma allow_open_window:
  assumes "limiter_ok l" "map_of l acc = Some w" "now - win_start w < window_length"
    and "allow k now l = (ok, l')"
  shows "\<exists>w'. map_of l' acc = Some w' \<and> win_start w' = win_start w \<and>
     win_count w' = win_count w + (if ok \<and> k = acc then 1 else 0) \<and> win_count w' \<le> 10"
proof -
  define m where "m = (if length l \<ge> 10000 then evict now l else l)"
  have "distinct (map fst l)" using assms(1) by (simp add: limiter_ok_def)
  then have m: "limiter_ok m" "map_of m acc = Some w"
    using assms(1-3) evict_ok by (simp_all add: m_def map_of_evict)
  then have bound: "win_count w \<le> 10" by (auto simp: limiter_ok_def dest!: map_of_SomeD)
  have "allow k now l = (if map_of m k = None \<and> length m \<ge> 10000 then (False, m)
         else let v = (case map_of m k of None \<Rightarrow> \<lparr>win_start = now, win_count = 0\<rparr>
             | Some w \<Rightarrow> if now - win_start w \<ge> window_length then \<lparr>win_start = now, win_count = 0\<rparr> else w)
           in if win_count v \<ge> 10 then (False, m)
              else (True, AList.update k (v\<lparr>win_count := win_count v + 1\<rparr>) m))"
    by (simp add: allow_def m_def Let_def)
  with assms(3,4) m bound show ?thesis
    by (cases "k = acc") (auto simp: update_conv Let_def split: if_splits)
qed

lemma granted_open_window:
  assumes "limiter_ok l" "map_of l acc = Some w"
    and "\<And>k t. (k, t) \<in> set calls \<Longrightarrow> t - win_start w < window_length"
  shows "int (granted acc calls l) \<le> 10 - win_count w"
  using assms
proof (induction calls arbitrary: l w)
  case Nil
  then show ?case by (auto simp: limiter_ok_def dest!: map_of_SomeD)
next
  case (Cons c calls)
  obtain k now where c: "c = (k, now)" by (cases c)
  obtain ok l' where a: "allow k now l = (ok, l')" by (cases "allow k now l")
  obtain w' where w': "map_of l' acc = Some w'" "win_start w' = win_start w"
      "win_count w' = win_count w + (if ok \<and> k = acc then 1 else 0)"
    using allow_open_window [OF Cons.prems(1,2) _ a] Cons.prems(3) c by auto
  have "limiter_ok l'" using allow_ok [OF Cons.prems(1), of k now] a by simp
  then have "int (granted acc calls l') \<le> 10 - win_count w'"
    using Cons.IH [OF _ w'(1)] w'(2) Cons.prems(3) by auto
  then show ?case using c a w'(3) by auto
qed

text \<open>
  C33: The activation limiter. From an empty table, whatever calls were made before, once
  a call for an account opened a window at time \<open>now\<close> (there was no window, or it was
  over), the limiter grants that account at most nine further calls before five minutes
  have passed, whatever other accounts call in between; and the table never holds more
  than 10,000 windows.
\<close>

theorem activation_attempts_bounded:
  assumes "reach limiter_step [] l" "allow acc now l = (True, l')"
    and "\<And>w. map_of l acc = Some w \<Longrightarrow> now - win_start w \<ge> window_length"
    and "\<And>k t. (k, t) \<in> set calls \<Longrightarrow> t - now < window_length"
  shows "granted acc calls l' \<le> 9 \<and> length l' \<le> 10000"
proof -
  have ok: "limiter_ok l" using assms(1) by (rule limiter.inv_reach [OF refl])
  then have ok': "limiter_ok l'" using allow_ok [of l acc now] assms(2) by simp
  have "map_of (evict now l) acc = None"
    using ok assms(3) by (auto simp: map_of_evict limiter_ok_def split: option.splits)
  then have "map_of l' acc = Some \<lparr>win_start = now, win_count = 1\<rparr>"
    using assms(2,3) by (auto simp: allow_def Let_def update_conv split: if_splits option.splits)
  then have "int (granted acc calls l') \<le> 9"
    using granted_open_window [OF ok', of acc _ calls] assms(4) by fastforce
  then show ?thesis using ok' by (simp add: limiter_ok_def)
qed

theorem activation_attempts_bounded_witness:
  "granted 7 (replicate 15 (7, 1)) (snd (allow 7 0 [])) \<le> 9 \<and> length (snd (allow 7 0 [])) \<le> 10000"
  by (rule activation_attempts_bounded [where l = "[]" and acc = 7 and now = 0])
    (auto simp: reach_init allow_def window_length_def Minute_def Second_def)

lemmas run_limiter [run_defs] = window_length_def evict_def allow_def

end
