(* ===== verification/Auth_Passkey.thy ===== *)
theory Auth_Passkey
  imports Auth_Strings "HOL-Library.Word"
begin

section \<open>The passkey verifier\<close>

text \<open>
  \<open>pkg/passkey/verifier.go\<close>: the checks around go-webauthn. The library's operations
  (starting a ceremony, parsing a response, creating a credential, validating a
  discoverable login) and those of google/uuid are fields of the records \<open>webauthn\<close> and
  \<open>uuids\<close>, parameters of the model; \<open>uuid_ParseValue\<close> is the identifier \<open>uuid.Parse\<close> returns, beside an
  error too. The bytes of a ceremony are base64 text in the
  library and raw bytes in storage. JSON is kept structured. \<open>time.Now\<close> is the argument
  \<open>wall\<close>. Every failure of this package is its single error \<open>ErrInvalid\<close>, so a result is
  an option.
\<close>

record uuids =
  uuid_String :: "uuid \<Rightarrow> string"
  uuid_Parse :: "string \<Rightarrow> uuid option"
  uuid_ParseValue :: "string \<Rightarrow> uuid"
  uuid_Bytes :: "uuid \<Rightarrow> string"
  uuid_FromBytes :: "string \<Rightarrow> uuid option"

record pk_Credential =
  crd_ID :: string
  crd_PublicKey :: string
  crd_SignCount :: "32 word"
  crd_BackupEligible :: bool
  crd_BackupState :: bool
  crd_Transports :: "string list"
  crd_CounterWarning :: bool

record pk_Account =
  pka_ID :: uuid
  pka_Name :: string
  pka_Credentials :: "pk_Credential list"

text \<open>The library's credential, user, session and parsed assertion.\<close>

record lib_credential =
  wac_ID :: string
  wac_PublicKey :: string
  wac_Transport :: "string list"
  wac_UserPresent :: bool
  wac_UserVerified :: bool
  wac_BackupEligible :: bool
  wac_BackupState :: bool
  wac_SignCount :: "32 word"
  wac_CloneWarning :: bool

record lib_user =
  wau_ID :: string
  wau_Name :: string
  wau_DisplayName :: string
  wau_Credentials :: "lib_credential list"

record lib_session =
  was_Challenge :: string
  was_RelyingPartyID :: string
  was_UserID :: string
  was_Expires :: time
  was_UserVerification :: string
  was_CredParams :: "int list"

record lib_assertion =
  asr_RawID :: string
  asr_UserHandle :: string
  asr_Rest :: string

record webauthn =
  web_Valid :: "string \<Rightarrow> string list \<Rightarrow> string list \<Rightarrow> bool"
  web_BeginRegistration :: "string \<Rightarrow> lib_user \<Rightarrow> int list \<Rightarrow> (string \<times> string option) option"
  web_BeginDiscoverableLogin :: "string \<Rightarrow> (string \<times> string option) option"
  web_ParseCreation :: "string \<Rightarrow> string option"
  web_CreateCredential :: "lib_user \<Rightarrow> lib_session \<Rightarrow> string \<Rightarrow> lib_credential option"
  web_ParseAssertion :: "string \<Rightarrow> lib_assertion option"
  web_ValidatePasskeyLogin ::
    "(string \<Rightarrow> string \<Rightarrow> lib_user option) \<Rightarrow> lib_session \<Rightarrow> lib_assertion \<Rightarrow> lib_credential option"

record pk_Config =
  pkc_RPID :: string
  pkc_Origins :: "string list"
  pkc_OpaqueOrigins :: "string list"

record Verifier =
  ver_web :: webauthn
  ver_RPID :: string
  ver_DisplayName :: string

text \<open>Public options: the library's own JSON, or a projection of a stored challenge.\<close>

datatype key_options =
    RawJSON string
  | RequestOptions string string string int
  | CreationOptions string string string string string "int list" int

record Ceremony =
  cer_Challenge :: string
  cer_Options :: key_options

definition NewVerifier :: "webauthn \<Rightarrow> pk_Config \<Rightarrow> Verifier option" where
  "NewVerifier w c =
     (if pkc_RPID c = '''' \<or> pkc_Origins c = [] then None
      else if \<not> web_Valid w (pkc_RPID c) (pkc_Origins c) (pkc_OpaqueOrigins c) then None
      else Some \<lparr>ver_web = w, ver_RPID = pkc_RPID c, ver_DisplayName = ''ChefBook''\<rparr>)"

text \<open>\<open>parameters\<close>: the COSE algorithms ES256 and RS256.\<close>

definition parameters :: "int list" where
  "parameters = [- 7, - 257]"

definition optionTimeout :: "time \<Rightarrow> time \<Rightarrow> int" where
  "optionTimeout expires now = (let n = (expires - now) div 1000000 in if n < 1 then 1 else n)"

definition AuthenticationOptions :: "Verifier \<Rightarrow> string \<Rightarrow> time \<Rightarrow> time \<Rightarrow> key_options option" where
  "AuthenticationOptions v challenge expires now =
     (if length challenge < 32 then None
      else Some (RequestOptions (RawURLEncoding challenge) (ver_RPID v) ''required''
                   (optionTimeout expires now)))"

definition WebAuthnID :: "uuids \<Rightarrow> pk_Account \<Rightarrow> string" where
  "WebAuthnID u a = uuid_Bytes u (pka_ID a)"

definition RegistrationOptions ::
  "uuids \<Rightarrow> Verifier \<Rightarrow> pk_Account \<Rightarrow> string \<Rightarrow> time \<Rightarrow> time \<Rightarrow> key_options option" where
  "RegistrationOptions u v a challenge expires now =
     (if pka_ID a = uuid_Nil \<or> length challenge < 32 then None
      else Some (CreationOptions (ver_DisplayName v) (ver_RPID v) (pka_Name a)
                   (RawURLEncoding (WebAuthnID u a)) (RawURLEncoding challenge) parameters
                   (optionTimeout expires now)))"

definition WebAuthnCredentials :: "pk_Account \<Rightarrow> lib_credential list" where
  "WebAuthnCredentials a =
     map (\<lambda>c. \<lparr>wac_ID = crd_ID c, wac_PublicKey = crd_PublicKey c, wac_Transport = crd_Transports c,
                wac_UserPresent = True, wac_UserVerified = True,
                wac_BackupEligible = crd_BackupEligible c, wac_BackupState = crd_BackupState c,
                wac_SignCount = crd_SignCount c, wac_CloneWarning = False\<rparr>)
       (pka_Credentials a)"

definition lib_account :: "uuids \<Rightarrow> pk_Account \<Rightarrow> lib_user" where
  "lib_account u a = \<lparr>wau_ID = WebAuthnID u a, wau_Name = pka_Name a, wau_DisplayName = pka_Name a,
                      wau_Credentials = WebAuthnCredentials a\<rparr>"

definition ceremony :: "string \<Rightarrow> string option \<Rightarrow> Ceremony option" where
  "ceremony challenge options =
     (case RawURLDecode challenge of None \<Rightarrow> None
      | Some b \<Rightarrow> (case options of None \<Rightarrow> None
          | Some raw \<Rightarrow> Some \<lparr>cer_Challenge = b, cer_Options = RawJSON raw\<rparr>))"

definition BeginRegistration ::
  "uuids \<Rightarrow> Verifier \<Rightarrow> time \<Rightarrow> string \<Rightarrow> pk_Account \<Rightarrow> time \<Rightarrow> Ceremony option" where
  "BeginRegistration u v wall entropy a expires =
     (if pka_ID a = uuid_Nil \<or> \<not> expires > wall then None
      else case web_BeginRegistration (ver_web v) entropy (lib_account u a) parameters of
        None \<Rightarrow> None
      | Some (challenge, options) \<Rightarrow> ceremony challenge options)"

definition BeginAuthentication :: "Verifier \<Rightarrow> time \<Rightarrow> string \<Rightarrow> time \<Rightarrow> Ceremony option" where
  "BeginAuthentication v wall entropy expires =
     (if \<not> expires > wall then None
      else case web_BeginDiscoverableLogin (ver_web v) entropy of
        None \<Rightarrow> None
      | Some (challenge, options) \<Rightarrow> ceremony challenge options)"

definition pk_session :: "Verifier \<Rightarrow> time \<Rightarrow> string \<Rightarrow> time \<Rightarrow> lib_session option" where
  "pk_session v wall challenge expires =
     (if length challenge < 32 \<or> \<not> expires > wall then None
      else Some \<lparr>was_Challenge = RawURLEncoding challenge, was_RelyingPartyID = ver_RPID v,
                 was_UserID = '''', was_Expires = expires, was_UserVerification = ''required'',
                 was_CredParams = parameters\<rparr>)"

definition fromLibrary :: "lib_credential \<Rightarrow> pk_Credential" where
  "fromLibrary c = \<lparr>crd_ID = wac_ID c, crd_PublicKey = wac_PublicKey c, crd_SignCount = wac_SignCount c,
     crd_BackupEligible = wac_BackupEligible c, crd_BackupState = wac_BackupState c,
     crd_Transports = wac_Transport c, crd_CounterWarning = wac_CloneWarning c\<rparr>"

definition VerifyRegistration ::
  "uuids \<Rightarrow> Verifier \<Rightarrow> time \<Rightarrow> pk_Account \<Rightarrow> string \<Rightarrow> time \<Rightarrow> string \<Rightarrow> pk_Credential option" where
  "VerifyRegistration u v wall a challenge expires response =
     (if pka_ID a = uuid_Nil \<or> length response > 65536 then None
      else case pk_session v wall challenge expires of
        None \<Rightarrow> None
      | Some session \<Rightarrow> (case web_ParseCreation (ver_web v) response of
            None \<Rightarrow> None
          | Some parsed \<Rightarrow>
              (case web_CreateCredential (ver_web v) (lib_account u a)
                      (session\<lparr>was_UserID := WebAuthnID u a\<rparr>) parsed of
                 None \<Rightarrow> None
               | Some c \<Rightarrow>
                   if list_ex (\<lambda>existing. crd_ID existing = wac_ID c) (pka_Credentials a) then None
                   else Some (fromLibrary c))))"

definition AssertionIdentity :: "uuids \<Rightarrow> Verifier \<Rightarrow> string \<Rightarrow> (string \<times> uuid) option" where
  "AssertionIdentity u v response =
     (if length response > 65536 then None
      else case web_ParseAssertion (ver_web v) response of
        None \<Rightarrow> None
      | Some p \<Rightarrow> (case uuid_FromBytes u (asr_UserHandle p) of
            None \<Rightarrow> None
          | Some i \<Rightarrow> if i = uuid_Nil then None else Some (asr_RawID p, i)))"

text \<open>The handler \<open>ValidatePasskeyLogin\<close> calls to find the user of a credential.\<close>

definition login_user :: "uuids \<Rightarrow> pk_Account \<Rightarrow> string \<Rightarrow> string \<Rightarrow> lib_user option" where
  "login_user u a cid handle =
     (if handle \<noteq> WebAuthnID u a then None
      else if list_ex (\<lambda>candidate. crd_ID candidate = cid) (pka_Credentials a)
      then Some (lib_account u a) else None)"

definition VerifyAuthentication ::
  "uuids \<Rightarrow> Verifier \<Rightarrow> time \<Rightarrow> pk_Account \<Rightarrow> string \<Rightarrow> time \<Rightarrow> string \<Rightarrow> pk_Credential option" where
  "VerifyAuthentication u v wall a challenge expires response =
     (if pka_ID a = uuid_Nil \<or> length response > 65536 then None
      else case pk_session v wall challenge expires of
        None \<Rightarrow> None
      | Some session \<Rightarrow> (case web_ParseAssertion (ver_web v) response of
            None \<Rightarrow> None
          | Some p \<Rightarrow>
              (case web_ValidatePasskeyLogin (ver_web v) (login_user u a) session p of
                 None \<Rightarrow> None
               | Some c \<Rightarrow>
                   if wac_CloneWarning c \<and> \<not> wac_BackupEligible c then None
                   else Some (fromLibrary c))))"

subsection \<open>What the library promises\<close>

text \<open>
  The documented behaviour the verifier relies on: a validated login is one whose user the
  handler found by the assertion's credential and handle, for a session with the stored
  challenge that has not expired, and the credential returned is that of the assertion.
\<close>

definition validates_logins :: "webauthn \<Rightarrow> bool" where
  "validates_logins w \<longleftrightarrow>
     (\<forall>find_user session p c. web_ValidatePasskeyLogin w find_user session p = Some c \<longrightarrow>
        wac_ID c = asr_RawID p \<and> find_user (asr_RawID p) (asr_UserHandle p) \<noteq> None)"

lemma VerifyAuthentication_owner:
  assumes "validates_logins (ver_web v)"
    and "VerifyAuthentication u v wall a challenge expires response = Some c"
  shows "crd_ID c \<in> crd_ID ` set (pka_Credentials a)" "32 \<le> length challenge" "wall < expires"
    "crd_CounterWarning c \<longrightarrow> crd_BackupEligible c"
proof -
  obtain session p c' where *: "pk_session v wall challenge expires = Some session"
      "web_ValidatePasskeyLogin (ver_web v) (login_user u a) session p = Some c'"
      "c = fromLibrary c'" "\<not> (wac_CloneWarning c' \<and> \<not> wac_BackupEligible c')"
    using assms(2) by (auto simp: VerifyAuthentication_def split: if_splits option.splits)
  then have "wac_ID c' = asr_RawID p" "login_user u a (asr_RawID p) (asr_UserHandle p) \<noteq> None"
    using assms(1) unfolding validates_logins_def by blast+
  then have "wac_ID c' \<in> crd_ID ` set (pka_Credentials a)"
    by (force simp: login_user_def list_ex_iff split: if_splits)
  then show "crd_ID c \<in> crd_ID ` set (pka_Credentials a)" by (simp add: *(3) fromLibrary_def)
  show "32 \<le> length challenge" "wall < expires"
    using *(1) by (auto simp: pk_session_def split: if_splits)
  show "crd_CounterWarning c \<longrightarrow> crd_BackupEligible c" using *(3,4) by (simp add: fromLibrary_def)
qed

lemma VerifyRegistration_fresh:
  assumes "VerifyRegistration u v wall a challenge expires response = Some c"
  shows "crd_ID c \<notin> crd_ID ` set (pka_Credentials a)" "32 \<le> length challenge" "wall < expires"
  using assms
  by (auto simp: VerifyRegistration_def pk_session_def fromLibrary_def list_ex_iff
      split: if_splits option.splits)

lemmas run_passkey [run_defs] = NewVerifier_def parameters_def optionTimeout_def AuthenticationOptions_def
  WebAuthnID_def RegistrationOptions_def WebAuthnCredentials_def lib_account_def ceremony_def
  BeginRegistration_def BeginAuthentication_def pk_session_def fromLibrary_def VerifyRegistration_def
  AssertionIdentity_def login_user_def VerifyAuthentication_def

end
