(* ===== verification/Auth_Engine.thy ===== *)
theory Auth_Engine
  imports Auth_Statements Auth_Secrets Auth_Limiter Auth_Provider Auth_Passkey
begin

section \<open>The engine and its environment\<close>

text \<open>
  \<open>internal/authentication/types.go\<close>: the engine's configuration, the values its
  operations exchange, and its defaults. A database is not a field here but the state the
  operations are run on. Two further records carry what the operations take from
  elsewhere: \<open>libs\<close> the library functions (a parameter throughout), \<open>env\<close> what one call
  meets: the outcome of \<open>begin\<close> and \<open>Commit\<close>, the clocks, the random draws and the network.

  The engine reads its clock several times in one transaction; one reading \<open>ev_now\<close> stands
  for them. \<open>ev_dbnow\<close> is the database's \<open>now()\<close>, constant within a transaction, and
  \<open>ev_wall\<close> the \<open>time.Now\<close> of the passkey verifier. The \<open>i\<close>-th token, identifier or nonce
  an operation draws is the \<open>i\<close>-th value of the corresponding field; \<open>None\<close> is a failure
  of the random source.
\<close>

record libs =
  lib_crypto :: crypto
  lib_unicode :: unicode
  lib_uuid :: uuids
  lib_ParseAddress :: "string \<Rightarrow> string option"
  lib_SetToken :: "URL \<Rightarrow> string \<Rightarrow> string"
  lib_Inet :: "string \<Rightarrow> string option"

record engine =
  Libs :: libs
  Secrets :: Secrets
  Mail :: bool
  Providers :: "string \<rightharpoonup> Provider"
  OAuthRedirects :: "string list"
  Passkeys :: "Verifier option"
  BcryptCost :: int
  dummySalt :: string
  FlowTTL :: duration
  ChallengeTTL :: duration
  GrantTTL :: duration
  ReuseTTL :: duration
  MaxAttempts :: int
  ForbiddenUsernames :: string

record env =
  ev_begin :: begin_outcome
  ev_commit :: bool
  ev_now :: time
  ev_dbnow :: time
  ev_wall :: time
  ev_uuid :: "nat \<Rightarrow> uuid"
  ev_token :: "nat \<Rightarrow> string option"
  ev_code :: "nat option"
  ev_nonce :: "string option"
  ev_secret :: "string option"
  ev_salt :: string
  ev_entropy :: string
  ev_net :: network

definition New :: "libs \<Rightarrow> Secrets \<Rightarrow> bool \<Rightarrow> string \<Rightarrow> string \<Rightarrow> engine" where
  "New lb secrets mail salt words =
     \<lparr>Libs = lb, Secrets = secrets, Mail = mail, Providers = (\<lambda>_. None), OAuthRedirects = [],
      Passkeys = None, BcryptCost = 12, dummySalt = salt, FlowTTL = 15 * Minute,
      ChallengeTTL = 5 * Minute, GrantTTL = 2 * Minute, ReuseTTL = 5 * Minute,
      MaxAttempts = 10, ForbiddenUsernames = words\<rparr>"

record Principal =
  who_AccountID :: uuid
  who_SessionID :: int

record Challenge =
  chl_URL :: string
  chl_Nonce :: string
  chl_PublicKey :: "key_options option"
  chl_ID :: uuid
  chl_Method :: string
  chl_Status :: status
  chl_Expiration :: time

record Process =
  prc_ID :: uuid
  prc_Purpose :: string
  prc_Status :: status
  prc_Expiration :: time
  prc_Next :: "string list"
  prc_Steps :: "Challenge list"
  prc_FlowToken :: string
  prc_ConfirmationToken :: string
  prc_ConfirmationExpiration :: "time option"
  prc_account :: "uuid option"
  prc_session :: "int option"
  prc_failures :: int

record Proof =
  prf_Email :: string
  prf_Name :: string
  prf_IDToken :: string
  prf_State :: string
  prf_Method :: string
  prf_Login :: string
  prf_Password :: string
  prf_Code :: string
  prf_Credential :: string

record AttemptResult =
  att_Challenge :: Challenge
  att_Authentication :: Process

definition validPurpose :: "string \<Rightarrow> bool" where
  "validPurpose p \<longleftrightarrow> p \<in> set [''signIn'', ''signUp'', ''passwordChange'', ''emailChange'',
     ''accountDeletion'', ''totpEnrollment'', ''totpRemoval'', ''passkeyEnrollment'',
     ''passkeyRemoval'', ''backupCodesRotation'', ''identityLink'', ''identityUnlink'']"

definition sensitive :: "string \<Rightarrow> bool" where
  "sensitive p \<longleftrightarrow> p \<noteq> ''signIn'' \<and> p \<noteq> ''signUp''"

subsection \<open>Shorthands\<close>

definition e_hash :: "engine \<Rightarrow> string \<Rightarrow> string \<Rightarrow> string \<Rightarrow> string" where
  "e_hash e kind context value = Hash (lib_crypto (Libs e)) (Secrets e) kind context value"

definition e_uuid :: "engine \<Rightarrow> uuid \<Rightarrow> string" where
  "e_uuid e i = uuid_String (lib_uuid (Libs e)) i"

definition e_lower :: "engine \<Rightarrow> string \<Rightarrow> string" where
  "e_lower e s = ToLower (lib_unicode (Libs e)) (TrimSpace (lib_unicode (Libs e)) s)"

definition e_decrypt :: "engine \<Rightarrow> string \<Rightarrow> string \<Rightarrow> error + string" where
  "e_decrypt e value context = Decrypt (lib_crypto (Libs e)) (Secrets e) value context"

definition e_encrypt :: "engine \<Rightarrow> env \<Rightarrow> string \<Rightarrow> string \<Rightarrow> error + string" where
  "e_encrypt e v value context =
     (case ev_nonce v of None \<Rightarrow> Inl ErrInternal
      | Some nonce \<Rightarrow> Inr (Encrypt (lib_crypto (Libs e)) (Secrets e) nonce value context))"

text \<open>Drawing the \<open>i\<close>-th random token, generating a password hash.\<close>

definition draw_token :: "env \<Rightarrow> nat \<Rightarrow> error + string" where
  "draw_token v i = (case ev_token v i of None \<Rightarrow> Inl ErrInternal | Some b \<Rightarrow> Inr (randomToken b))"

definition draw_code :: "env \<Rightarrow> error + string" where
  "draw_code v = (case ev_code v of None \<Rightarrow> Inl ErrInternal | Some n \<Rightarrow> Inr (randomCode n))"

definition e_bcrypt :: "engine \<Rightarrow> env \<Rightarrow> string \<Rightarrow> error + string" where
  "e_bcrypt e v password =
     (case bcrypt_generate (lib_crypto (Libs e)) (ev_salt v) password (BcryptCost e) of
        None \<Rightarrow> Inl ErrInternal | Some h \<Rightarrow> Inr h)"

definition e_compare :: "engine \<Rightarrow> string \<Rightarrow> string \<Rightarrow> bool" where
  "e_compare e h password = bcrypt_compare (lib_crypto (Libs e)) h password"

text \<open>The boundaries of a transaction of the engine.\<close>

definition e_run :: "env \<Rightarrow> (db, error + 'a) tx \<Rightarrow> db \<Rightarrow> (error + 'a) \<times> db" where
  "e_run v m db = run_tx (ev_begin v) (ev_commit v) m db"

definition e_query :: "env \<Rightarrow> (db, 'a) tx \<Rightarrow> db \<Rightarrow> (error + 'a) \<times> db" where
  "e_query v m db = run_query (ev_begin v) m db"

text \<open>A query outside a transaction, which fails where the database cannot be reached.\<close>

definition e_read :: "env \<Rightarrow> (db \<Rightarrow> error + 'a) \<Rightarrow> db \<Rightarrow> (error + 'a) \<times> db" where
  "e_read v f db = (if ev_begin v = BeginOk then f db else Inl ErrInternal, db)"

definition tx_lift :: "error + 'a \<Rightarrow> (db, 'a) tx" where
  "tx_lift r = tx_query (\<lambda>_. r)"

lemma tx_lift_success [tx_inv]: "tx_lift r s = Inr (x, t) \<longleftrightarrow> r = Inr x \<and> t = s"
  by (auto simp: tx_lift_def tx_inv)

lemma tx_lift_run [tx_simps]: "tx_lift r s = (case r of Inl err \<Rightarrow> Inl err | Inr x \<Rightarrow> Inr (x, s))"
  by (simp add: tx_lift_def tx_simps)

lemma yields_lift [simp]: "yields (tx_lift r) x \<longleftrightarrow> r = Inr x"
  by (simp add: yields_def tx_inv)

lemma keeps_lift [triples]: "keeps P (tx_lift r)"
  unfolding tx_lift_def by (rule triples)

lemma validPurpose_values: "validPurpose p \<longleftrightarrow> p \<in> set purpose_values"
  by (simp add: validPurpose_def purpose_values_def)

lemmas engine_shorthands = e_run_def e_query_def

lemmas run_engine [run_defs] = New_def validPurpose_def sensitive_def e_hash_def e_uuid_def e_lower_def
  e_decrypt_def e_encrypt_def draw_token_def draw_code_def e_bcrypt_def e_compare_def e_run_def e_query_def
  e_read_def

end
