(* ===== verification/Auth_Process.thy ===== *)
theory Auth_Process
  imports Auth_Engine
begin

section \<open>Processes, steps and grants\<close>

text \<open>
  \<open>internal/authentication/process.go\<close> and \<open>steps.go\<close>: starting a process, loading it under
  its flow token, the policy that says which methods come next, reuse of recent evidence,
  completion with a one-time grant, and consuming the grant. The bodies are transaction
  bodies over the database; \<open>Start\<close> and \<open>Get\<close> are the operations.
\<close>

subsection \<open>Step types\<close>

definition StepType :: "string \<Rightarrow> string" where
  "StepType m =
     (if m \<in> set [''password'', ''email'', ''totp'', ''backupCode'', ''google'', ''vk'', ''passkey'']
      then m @ ''Verification'' else m)"

definition StepMethod :: "string \<Rightarrow> string" where
  "StepMethod kind =
     (if kind = ''passwordVerification'' then ''password''
      else if kind = ''emailVerification'' then ''email''
      else if kind = ''totpVerification'' then ''totp''
      else if kind = ''backupCodeVerification'' then ''backupCode''
      else if kind = ''googleVerification'' then ''google''
      else if kind = ''vkVerification'' then ''vk''
      else if kind = ''passkeyVerification'' then ''passkey''
      else kind)"

definition first_factors :: "string list" where
  "first_factors = [''passwordVerification'', ''googleVerification'', ''vkVerification'', ''passkeyVerification'']"

definition second_factors :: "string list" where
  "second_factors = [''totpVerification'', ''backupCodeVerification'', ''passkeyVerification'']"

subsection \<open>Principals\<close>

definition live_principal :: "time \<Rightarrow> Principal \<Rightarrow> db \<Rightarrow> bool" where
  "live_principal now p db =
     exists_row (\<lambda>s. ses_id s = who_SessionID p \<and> ses_account s = who_AccountID p \<and> ses_expiry s > now \<and>
       exists_row (\<lambda>a. acc_id a = ses_account s \<and> acc_blocked a = None) (accounts db)) (sessions db)"

definition checkRecoveryPrincipal :: "env \<Rightarrow> Principal \<Rightarrow> (db, unit) tx" where
  "checkRecoveryPrincipal v p =
     tx_bind (tx_read (live_principal (ev_now v) p)) (\<lambda>ok. tx_assert ok ErrForbidden)"

definition deleting :: "uuid \<Rightarrow> db \<Rightarrow> bool" where
  "deleting account db = exists_row (\<lambda>r. del_account r = account) (account_deletion_requests db)"

definition deletion_row_of :: "uuid \<Rightarrow> db \<Rightarrow> deletion_row option" where
  "deletion_row_of account db = find (\<lambda>r. del_account r = account) (account_deletion_requests db)"

definition checkPrincipal :: "env \<Rightarrow> Principal \<Rightarrow> (db, unit) tx" where
  "checkPrincipal v p =
     tx_then (checkRecoveryPrincipal v p)
       (tx_bind (tx_read (deleting (who_AccountID p))) (\<lambda>d. tx_assert (\<not> d) ErrForbidden))"

definition checkPurposePrincipal :: "env \<Rightarrow> Principal \<Rightarrow> string \<Rightarrow> (db, unit) tx" where
  "checkPurposePrincipal v p purpose =
     (if purpose = ''accountDeletion'' then checkRecoveryPrincipal v p else checkPrincipal v p)"

subsection \<open>The policy\<close>

definition providerMethods :: "engine \<Rightarrow> string list" where
  "providerMethods e = filter (\<lambda>name. Providers e name \<noteq> None) [''google'', ''vk'']"

definition contains :: "string list \<Rightarrow> string \<Rightarrow> bool" where
  "contains values value = list_ex (\<lambda>v. v = value) values"

definition step_done :: "uuid \<Rightarrow> string list \<Rightarrow> db \<Rightarrow> bool" where
  "step_done aid types db =
     exists_row (\<lambda>r. stp_auth r = aid \<and> stp_status r = Completed \<and> stp_type r \<in> set types)
       (authentication_steps db)"

definition has_totp :: "uuid \<Rightarrow> db \<Rightarrow> bool" where
  "has_totp account db = exists_row (\<lambda>r. ttp_account r = account) (totp db)"

definition totp_row_of :: "uuid \<Rightarrow> db \<Rightarrow> totp_row option" where
  "totp_row_of account db = find (\<lambda>r. ttp_account r = account) (totp db)"

definition next_methods :: "engine \<Rightarrow> Process \<Rightarrow> db \<Rightarrow> error + string list" where
  "next_methods e p db =
     (if prc_Status p \<noteq> Pending then Inr []
      else if prc_Purpose p = ''signUp'' then
        (if \<not> exists_row (\<lambda>r. reg_auth r = prc_ID p) (registrations db) then Inr [''registration'']
         else if \<not> step_done (prc_ID p) [''emailVerification''] db then Inr [''email'']
         else if step_done (prc_ID p) [''passwordSetup''] db then Inr []
         else Inr [''passwordSetup''])
      else if \<not> step_done (prc_ID p) first_factors db then
        Inr ([''password''] @ providerMethods e @ (if Passkeys e \<noteq> None then [''passkey''] else []))
      else case prc_account p of
        None \<Rightarrow> Inl ErrForbidden
      | Some account \<Rightarrow>
          if has_totp account db \<and> \<not> step_done (prc_ID p) second_factors db
          then Inr [''totp'', ''backupCode''] else Inr [])"

text \<open>
  \<open>reusable\<close>: one earlier process of the same account and session is completed, not
  invalidated, and has recent evidence of the first and, with TOTP, of the second factor.
\<close>

definition recent_step :: "uuid \<Rightarrow> string list \<Rightarrow> time \<Rightarrow> db \<Rightarrow> bool" where
  "recent_step aid types since db =
     exists_row (\<lambda>c. stp_auth c = aid \<and> stp_status c = Completed \<and> stp_type c \<in> set types \<and>
       (case stp_completion c of None \<Rightarrow> False | Some t \<Rightarrow> t > since)) (authentication_steps db)"

definition reusable :: "engine \<Rightarrow> env \<Rightarrow> Process \<Rightarrow> db \<Rightarrow> bool" where
  "reusable e v p db =
     (case (prc_account p, prc_session p) of
        (Some account, Some session) \<Rightarrow>
          exists_row (\<lambda>a. aut_account a = Some account \<and> aut_session a = Some session \<and>
            aut_status a = Completed \<and> aut_invalidation a = None \<and>
            recent_step (aut_id a) first_factors (ev_now v - ReuseTTL e) db \<and>
            (\<not> has_totp account db \<or> recent_step (aut_id a) second_factors (ev_now v - ReuseTTL e) db))
            (authentications db)
      | _ \<Rightarrow> False)"

definition account_or_nil :: "uuid option \<Rightarrow> uuid" where
  "account_or_nil a = (case a of None \<Rightarrow> uuid_Nil | Some x \<Rightarrow> x)"

definition complete :: "engine \<Rightarrow> env \<Rightarrow> nat \<Rightarrow> Process \<Rightarrow> (db, Process) tx" where
  "complete e v i p =
     tx_bind (tx_lift (draw_token v i)) (\<lambda>token.
       tx_then (tx_stmt (complete_auth (prc_ID p) (account_or_nil (prc_account p)) (ev_now v)
                  (e_hash e ''grant'' '''' token) (ev_now v + GrantTTL e)))
         (tx_return (p\<lparr>prc_Status := Completed, prc_Next := [], prc_ConfirmationToken := token,
                       prc_ConfirmationExpiration := Some (ev_now v + GrantTTL e)\<rparr>)))"

subsection \<open>Grants\<close>

definition grant_row :: "engine \<Rightarrow> env \<Rightarrow> string \<Rightarrow> string \<Rightarrow> db \<Rightarrow> auth_row option" where
  "grant_row e v token purpose db =
     find (\<lambda>r. aut_grant r = Some (e_hash e ''grant'' '''' token) \<and> aut_purpose r = purpose \<and>
       aut_status r = Completed \<and> aut_invalidation r = None \<and>
       (case aut_grant_expiry r of None \<Rightarrow> False | Some t \<Rightarrow> t > ev_now v)) (authentications db)"

definition account_row_of :: "uuid \<Rightarrow> db \<Rightarrow> account_row option" where
  "account_row_of account db = find (\<lambda>r. acc_id r = account) (accounts db)"

definition clear_grant :: "auth_row \<Rightarrow> auth_row" where
  "clear_grant r = r\<lparr>aut_grant := None, aut_grant_expiry := None\<rparr>"

definition ConsumeGrant :: "engine \<Rightarrow> env \<Rightarrow> string \<Rightarrow> string \<Rightarrow> Principal \<Rightarrow> (db, uuid) tx" where
  "ConsumeGrant e v token purpose who =
     tx_bind (tx_row (grant_row e v token purpose) ErrForbidden) (\<lambda>r.
       let account = account_or_nil (aut_account r) in
       tx_then (if sensitive purpose
                then tx_then (tx_assert (account = who_AccountID who \<and>
                                aut_session r = Some (who_SessionID who)) ErrForbidden)
                       (checkPurposePrincipal v who purpose)
                else tx_return ())
         (tx_bind (tx_row (account_row_of account) NoRows) (\<lambda>a.
           tx_then (tx_assert (acc_blocked a = None) ErrForbidden)
             (tx_then (tx_exec (update_auths (\<lambda>q. aut_id q = aut_id r) clear_grant))
               (tx_return account)))))"

subsection \<open>Loading a process\<close>

definition process_of :: "auth_row \<Rightarrow> Process" where
  "process_of r = \<lparr>prc_ID = aut_id r, prc_Purpose = aut_purpose r, prc_Status = aut_status r,
     prc_Expiration = aut_expiry r, prc_Next = [], prc_Steps = [], prc_FlowToken = '''',
     prc_ConfirmationToken = '''', prc_ConfirmationExpiration = None,
     prc_account = aut_account r, prc_session = aut_session r, prc_failures = aut_failed r\<rparr>"

definition auth_row_of :: "uuid \<Rightarrow> db \<Rightarrow> auth_row option" where
  "auth_row_of aid db = find (\<lambda>r. aut_id r = aid) (authentications db)"

definition load :: "engine \<Rightarrow> env \<Rightarrow> uuid \<Rightarrow> string \<Rightarrow> Principal \<Rightarrow> (db, Process) tx" where
  "load e v aid flow who =
     tx_bind (tx_row (auth_row_of aid) ErrUnauthorized) (\<lambda>r.
       tx_then (tx_assert (aut_flow r = e_hash e ''flow'' '''' flow \<and> aut_invalidation r = None \<and>
                  aut_expiry r > ev_now v) ErrUnauthorized)
         (tx_then (if sensitive (aut_purpose r)
                   then tx_then (tx_assert (aut_account r = Some (who_AccountID who) \<and>
                                   aut_session r = Some (who_SessionID who)) ErrForbidden)
                          (checkPurposePrincipal v who (aut_purpose r))
                   else tx_return ())
           (tx_return (process_of r))))"

subsection \<open>Steps\<close>

definition cancel_step :: "step_row \<Rightarrow> step_row" where
  "cancel_step r = r\<lparr>stp_status := Cancelled\<rparr>"

definition fail_process :: "auth_row \<Rightarrow> auth_row" where
  "fail_process r = r\<lparr>aut_status := Failed\<rparr>"

definition cancelAlternatives :: "uuid \<Rightarrow> uuid \<Rightarrow> (db, unit) tx" where
  "cancelAlternatives process accepted =
     tx_exec (update_steps (\<lambda>r. stp_auth r = process \<and> stp_id r \<noteq> accepted \<and> stp_status r = Pending)
       cancel_step)"

definition registrationAvailable :: "uuid \<Rightarrow> db \<Rightarrow> error option" where
  "registrationAvailable aid db =
     (if exists_row (\<lambda>r. reg_auth r = aid \<and> exists_row (\<lambda>a. acc_email a = reg_email r) (accounts db))
           (registrations db)
      then Some ErrAccountExists else None)"

text \<open>
  \<open>failRegistration\<close> commits the terminal state and then reports the reason: the body
  succeeds with an error value.
\<close>

definition failRegistration :: "uuid \<Rightarrow> error \<Rightarrow> (db, error + 'a) tx" where
  "failRegistration aid reason =
     tx_then (tx_exec (update_auths (\<lambda>r. aut_id r = aid) fail_process))
       (tx_then (cancelAlternatives aid uuid_Nil)
         (tx_then (tx_exec (update_registrations (\<lambda>r. reg_auth r = aid) (\<lambda>r. r\<lparr>reg_password := None\<rparr>)))
           (tx_return (Inl reason))))"

definition challenge_of :: "step_row \<Rightarrow> Challenge" where
  "challenge_of r = \<lparr>chl_URL = '''', chl_Nonce = '''', chl_PublicKey = None, chl_ID = stp_id r,
     chl_Method = StepMethod (stp_type r), chl_Status = stp_status r, chl_Expiration = stp_expiry r\<rparr>"

definition hydrateStep :: "engine \<Rightarrow> env \<Rightarrow> Challenge \<Rightarrow> db \<Rightarrow> error + Challenge" where
  "hydrateStep e v c db =
     (if chl_Method c \<noteq> ''passkey'' then Inr c
      else case Passkeys e of None \<Rightarrow> Inl ErrUnavailable
      | Some pk \<Rightarrow> (case find (\<lambda>r. pst_id r = chl_ID c) (passkey_authentication_steps db) of
            None \<Rightarrow> Inl NoRows
          | Some r \<Rightarrow> (case AuthenticationOptions pk (pst_challenge r) (chl_Expiration c) (ev_now v) of
                None \<Rightarrow> Inl ErrInternal
              | Some o' \<Rightarrow> Inr (c\<lparr>chl_PublicKey := Some o'\<rparr>))))"

fun hydrate_all :: "engine \<Rightarrow> env \<Rightarrow> db \<Rightarrow> Challenge list \<Rightarrow> error + Challenge list" where
  "hydrate_all e v db [] = Inr []"
| "hydrate_all e v db (c # cs) =
     (case hydrateStep e v c db of Inl err \<Rightarrow> Inl err
      | Inr c' \<Rightarrow> (case hydrate_all e v db cs of Inl err \<Rightarrow> Inl err | Inr cs' \<Rightarrow> Inr (c' # cs')))"

definition steps :: "engine \<Rightarrow> env \<Rightarrow> Process \<Rightarrow> db \<Rightarrow> error + Challenge list" where
  "steps e v p db =
     hydrate_all e v db (map challenge_of
       (sort_key stp_created (sort_key stp_id
         (filter (\<lambda>r. stp_auth r = prc_ID p) (authentication_steps db)))))"

subsection \<open>The operations\<close>

definition start_row :: "engine \<Rightarrow> env \<Rightarrow> string \<Rightarrow> Principal \<Rightarrow> string \<Rightarrow> auth_row" where
  "start_row e v purpose who flow =
     \<lparr>aut_id = ev_uuid v 0, aut_purpose = purpose, aut_status = Pending,
      aut_account = (if sensitive purpose then Some (who_AccountID who) else None),
      aut_session = (if sensitive purpose then Some (who_SessionID who) else None),
      aut_flow = e_hash e ''flow'' '''' flow, aut_failed = 0, aut_expiry = ev_now v + FlowTTL e,
      aut_completion = None, aut_invalidation = None, aut_grant = None, aut_grant_expiry = None\<rparr>"

definition start_tx :: "engine \<Rightarrow> env \<Rightarrow> string \<Rightarrow> Principal \<Rightarrow> string \<Rightarrow> (db, Process) tx" where
  "start_tx e v purpose who flow =
     (let p = (process_of (start_row e v purpose who flow))\<lparr>prc_FlowToken := flow\<rparr> in
      tx_then (if sensitive purpose then checkPurposePrincipal v who purpose else tx_return ())
        (tx_then (tx_stmt (insert_auth (start_row e v purpose who flow)))
          (tx_bind (tx_query (next_methods e p)) (\<lambda>methods.
            let p' = p\<lparr>prc_Next := methods\<rparr> in
            if sensitive purpose
            then tx_bind (tx_read (reusable e v p')) (\<lambda>ok.
                   if ok then complete e v 1 p' else tx_return p')
            else tx_return p'))))"

definition Start :: "engine \<Rightarrow> env \<Rightarrow> string \<Rightarrow> Principal \<Rightarrow> db \<Rightarrow> (error + Process) \<times> db" where
  "Start e v purpose who db =
     (if \<not> validPurpose purpose then (Inl ErrInvalid, db)
      else if sensitive purpose \<and> (who_AccountID who = uuid_Nil \<or> who_SessionID who \<le> 0)
      then (Inl ErrForbidden, db)
      else case draw_token v 0 of
        Inl err \<Rightarrow> (Inl err, db)
      | Inr flow \<Rightarrow> e_run v (tx_done (start_tx e v purpose who flow)) db)"

definition Get :: "engine \<Rightarrow> env \<Rightarrow> uuid \<Rightarrow> string \<Rightarrow> Principal \<Rightarrow> db \<Rightarrow> (error + Process) \<times> db" where
  "Get e v aid flow who db =
     e_query v
       (tx_bind (load e v aid flow who) (\<lambda>p.
         tx_bind (tx_query (next_methods e p)) (\<lambda>methods.
           let p' = p\<lparr>prc_Next := methods\<rparr> in
           tx_bind (tx_query (steps e v p')) (\<lambda>ss. tx_return (p'\<lparr>prc_Steps := ss\<rparr>))))) db"

subsection \<open>What success means\<close>

named_theorems op_inv \<open>what the success of a transaction body means\<close>

lemma checkRecoveryPrincipal_success [op_inv]:
  "checkRecoveryPrincipal v p s = Inr (x, t) \<longleftrightarrow> live_principal (ev_now v) p s \<and> t = s"
  by (auto simp: checkRecoveryPrincipal_def tx_inv)

lemma checkPrincipal_success [op_inv]:
  "checkPrincipal v p s = Inr (x, t) \<longleftrightarrow>
     live_principal (ev_now v) p s \<and> \<not> deleting (who_AccountID p) s \<and> t = s"
  by (auto simp: checkPrincipal_def tx_inv op_inv)

lemma checkPurposePrincipal_success [op_inv]:
  "checkPurposePrincipal v p purpose s = Inr (x, t) \<longleftrightarrow>
     live_principal (ev_now v) p s \<and> (purpose \<noteq> ''accountDeletion'' \<longrightarrow> \<not> deleting (who_AccountID p) s) \<and> t = s"
  by (auto simp: checkPurposePrincipal_def op_inv)

lemma load_success [op_inv]:
  "load e v aid flow who s = Inr (p, t) \<longleftrightarrow> t = s \<and>
     (\<exists>r. auth_row_of aid s = Some r \<and> p = process_of r \<and> aut_flow r = e_hash e ''flow'' '''' flow \<and>
        aut_invalidation r = None \<and> aut_expiry r > ev_now v \<and>
        (sensitive (aut_purpose r) \<longrightarrow> aut_account r = Some (who_AccountID who) \<and>
           aut_session r = Some (who_SessionID who) \<and> live_principal (ev_now v) who s \<and>
           (aut_purpose r \<noteq> ''accountDeletion'' \<longrightarrow> \<not> deleting (who_AccountID who) s)))"
  unfolding load_def by (simp add: tx_inv op_inv split del: if_split) (auto simp: tx_inv op_inv)

lemma ConsumeGrant_success [op_inv]:
  "ConsumeGrant e v token purpose who s = Inr (account, t) \<longleftrightarrow>
     (\<exists>r a. grant_row e v token purpose s = Some r \<and> account = account_or_nil (aut_account r) \<and>
        (sensitive purpose \<longrightarrow> account = who_AccountID who \<and> aut_session r = Some (who_SessionID who) \<and>
           live_principal (ev_now v) who s \<and>
           (purpose \<noteq> ''accountDeletion'' \<longrightarrow> \<not> deleting (who_AccountID who) s)) \<and>
        account_row_of account s = Some a \<and> acc_blocked a = None \<and>
        t = update_auths (\<lambda>q. aut_id q = aut_id r) clear_grant s)"
  unfolding ConsumeGrant_def Let_def by (simp add: tx_inv op_inv split del: if_split) (auto simp: tx_inv op_inv)

lemma complete_success [op_inv]:
  "complete e v i p s = Inr (q, t) \<longleftrightarrow>
     (\<exists>token. draw_token v i = Inr token \<and>
        complete_auth (prc_ID p) (account_or_nil (prc_account p)) (ev_now v)
          (e_hash e ''grant'' '''' token) (ev_now v + GrantTTL e) s = Inr t \<and>
        q = p\<lparr>prc_Status := Completed, prc_Next := [], prc_ConfirmationToken := token,
              prc_ConfirmationExpiration := Some (ev_now v + GrantTTL e)\<rparr>)"
  by (auto simp: complete_def tx_inv)

lemmas run_process [run_defs] = StepType_def StepMethod_def first_factors_def second_factors_def
  live_principal_def checkRecoveryPrincipal_def deleting_def deletion_row_of_def checkPrincipal_def
  checkPurposePrincipal_def providerMethods_def contains_def step_done_def has_totp_def totp_row_of_def
  next_methods_def recent_step_def reusable_def account_or_nil_def complete_def grant_row_def
  account_row_of_def clear_grant_def ConsumeGrant_def process_of_def auth_row_of_def load_def
  cancelAlternatives_def registrationAvailable_def failRegistration_def challenge_of_def hydrateStep_def
  steps_def start_row_def start_tx_def Start_def Get_def

end
