(* ===== verification/Auth_Notify.thy ===== *)
theory Auth_Notify
  imports Auth_Process
begin

section \<open>Outgoing events and invalidation\<close>

text \<open>
  The parts of \<open>mail.go\<close> and \<open>account.go\<close> the other components call: queueing an event in
  the outbox within the same transaction, notifying the owner of an account, and
  invalidating the evidence and the grants of an account.
\<close>

definition queue_event :: "env \<Rightarrow> nat \<Rightarrow> string \<Rightarrow> string \<Rightarrow> message_body \<Rightarrow> (db, unit) tx" where
  "queue_event v i exchange kind body =
     tx_stmt (insert_outbox \<lparr>obx_id = ev_uuid v i, obx_exchange = exchange, obx_type = kind,
       obx_body = body, obx_created = ev_dbnow v\<rparr>)"

definition queueMail :: "env \<Rightarrow> nat \<Rightarrow> mailRequest \<Rightarrow> (db, unit) tx" where
  "queueMail v i m = queue_event v i ''mail'' ''mail.send.v1'' (MailSend m)"

definition mail_template :: "string \<Rightarrow> mailRequest" where
  "mail_template template = \<lparr>ml_Username = '''', ml_Timestamp = None, ml_DeleteSharedData = False,
     ml_Client = '''', ml_To = '''', ml_Template = template, ml_Code = '''', ml_URL = '''',
     ml_ExpirationTimestamp = ZeroTime\<rparr>"

definition QueueCode :: "env \<Rightarrow> nat \<Rightarrow> string \<Rightarrow> string \<Rightarrow> time \<Rightarrow> (db, unit) tx" where
  "QueueCode v i to code expiry =
     queueMail v i ((mail_template ''registration_code'')\<lparr>ml_To := to, ml_Code := code,
       ml_ExpirationTimestamp := expiry\<rparr>)"

definition notifyAccount :: "env \<Rightarrow> nat \<Rightarrow> uuid \<Rightarrow> mailRequest \<Rightarrow> (db, unit) tx" where
  "notifyAccount v i account m =
     tx_bind (tx_row (account_row_of account) NoRows) (\<lambda>a.
       queueMail v i (m\<lparr>ml_To := acc_email a, ml_ExpirationTimestamp :=
         (if ml_ExpirationTimestamp m = ZeroTime then ev_now v + 24 * Hour
          else ml_ExpirationTimestamp m)\<rparr>))"

definition invalidate_row :: "time \<Rightarrow> auth_row \<Rightarrow> auth_row" where
  "invalidate_row now r = r\<lparr>aut_invalidation := Some now, aut_grant := None, aut_grant_expiry := None\<rparr>"

definition invalidate :: "env \<Rightarrow> uuid \<Rightarrow> (db, unit) tx" where
  "invalidate v account =
     tx_exec (update_auths (\<lambda>r. aut_account r = Some account \<and> aut_invalidation r = None)
       (invalidate_row (ev_now v)))"

lemmas run_notify [run_defs] = queue_event_def queueMail_def mail_template_def QueueCode_def notifyAccount_def
  invalidate_row_def invalidate_def

end
