(* ===== verification/Auth_Challenge.thy ===== *)
theory Auth_Challenge
  imports Auth_Notify
begin

section \<open>Challenges\<close>

text \<open>
  \<open>internal/authentication/challenge.go\<close>, with \<open>createOAuthChallenge\<close> of \<open>oauth.go\<close> and the
  passkey assertion of \<open>passkeys.go\<close> that it calls: creating a challenge for one of the
  methods that come next, verifying a proof, counting failures, registering an account.
\<close>

subsection \<open>OAuth challenges\<close>

record OAuthOptions =
  oop_CredentialType :: string
  oop_RedirectURI :: string

text \<open>
  The state, nonce and PKCE verifier are the tokens 1, 0 and 2 of the call; the verifier
  is stored encrypted under the state.
\<close>

definition createOAuthChallenge ::
  "engine \<Rightarrow> env \<Rightarrow> Process \<Rightarrow> Challenge \<Rightarrow> string \<Rightarrow> OAuthOptions \<Rightarrow> (db, Challenge) tx" where
  "createOAuthChallenge e v p c flow opts =
     tx_then (tx_assert (oop_CredentialType opts \<in> set ['''', ''idToken'', ''authorizationCode'']) ErrInvalid)
       (case Providers e (chl_Method c) of
          None \<Rightarrow> tx_fail ErrUnavailable
        | Some provider \<Rightarrow>
            tx_bind (tx_lift (draw_token v 0)) (\<lambda>nonce.
              if oop_CredentialType opts = ''idToken''
              then tx_then (tx_assert (chl_Method c = ''google'' \<and> oop_RedirectURI opts = '''') ErrInvalid)
                     (tx_then (tx_stmt (insert_google_step
                                 \<lparr>gst_id = chl_ID c, gst_nonce = e_hash e ''nonce'' '''' nonce\<rparr>))
                       (tx_return (c\<lparr>chl_Nonce := nonce\<rparr>)))
              else tx_then (tx_assert (contains (OAuthRedirects e) (oop_RedirectURI opts)) ErrInvalid)
                (tx_bind (tx_lift (draw_token v 1)) (\<lambda>state.
                  tx_bind (tx_lift (draw_token v 2)) (\<lambda>verifier.
                    tx_bind (tx_lift (e_encrypt e v verifier (''oauth:'' @ state))) (\<lambda>encrypted.
                      tx_bind (tx_lift (prv_Authorize provider (ev_net v) state nonce
                                 (RawURLEncoding (sha256 (lib_crypto (Libs e)) verifier))
                                 (oop_RedirectURI opts) (sensitive (prc_Purpose p)))) (\<lambda>url.
                        tx_then (tx_stmt (insert_oauth_request
                            \<lparr>oar_state = e_hash e ''state'' '''' state, oar_provider = chl_Method c,
                             oar_step = Some (chl_ID c), oar_session = None,
                             oar_binding = e_hash e ''binding'' '''' flow,
                             oar_redirect = oop_RedirectURI opts,
                             oar_nonce = e_hash e ''nonce'' '''' nonce, oar_verifier = encrypted,
                             oar_expiry = chl_Expiration c\<rparr>))
                          (tx_return (c\<lparr>chl_URL := url\<rparr>)))))))))"

subsection \<open>Passkey assertions\<close>

definition passkeyAccount :: "uuid \<Rightarrow> db \<Rightarrow> error + pk_Account" where
  "passkeyAccount account db =
     (case account_row_of account db of
        None \<Rightarrow> Inl ErrCredentials
      | Some a \<Rightarrow>
          if acc_blocked a \<noteq> None then Inl ErrForbidden
          else let rows = filter (\<lambda>r. psk_account r = account) (passkeys db) in
            if list_ex (\<lambda>r. psk_sign_count r < 0 \<or> psk_sign_count r \<ge> 2 ^ 32) rows then Inl ErrInternal
            else Inr \<lparr>pka_ID = account, pka_Name = acc_email a,
              pka_Credentials = map (\<lambda>r. \<lparr>crd_ID = psk_credential r, crd_PublicKey = psk_public_key r,
                crd_SignCount = word_of_int (psk_sign_count r), crd_BackupEligible = psk_eligible r,
                crd_BackupState = psk_state r, crd_Transports = [], crd_CounterWarning = False\<rparr>) rows\<rparr>)"

definition verifyPasskey :: "engine \<Rightarrow> env \<Rightarrow> Process \<Rightarrow> Challenge \<Rightarrow> Proof \<Rightarrow> (db, Process) tx" where
  "verifyPasskey e v p c proof =
     (case Passkeys e of
        None \<Rightarrow> tx_fail ErrUnavailable
      | Some pk \<Rightarrow>
          (case AssertionIdentity (lib_uuid (Libs e)) pk (prf_Credential proof) of
             None \<Rightarrow> tx_fail ErrCredentials
           | Some (_, account) \<Rightarrow>
               if sensitive (prc_Purpose p) \<and> account \<noteq> account_or_nil (prc_account p) then tx_fail ErrCredentials
               else tx_bind (tx_query (passkeyAccount account)) (\<lambda>a.
                 tx_bind (tx_row (\<lambda>db. find (\<lambda>r. pst_id r = chl_ID c) (passkey_authentication_steps db)) NoRows) (\<lambda>st.
                   case VerifyAuthentication (lib_uuid (Libs e)) pk (ev_wall v) a (pst_challenge st)
                          (chl_Expiration c) (prf_Credential proof) of
                     None \<Rightarrow> tx_fail ErrCredentials
                   | Some cred \<Rightarrow>
                       tx_then (tx_stmt (update_passkeys
                           (\<lambda>r. psk_credential r = crd_ID cred \<and> psk_account r = account)
                           (\<lambda>r. r\<lparr>psk_sign_count := uint (crd_SignCount cred),
                                   psk_state := crd_BackupState cred, psk_last_use := Some (ev_now v)\<rparr>)))
                         (tx_then (tx_stmt (set_account (prc_ID p) account))
                           (tx_return (p\<lparr>prc_account := Some account\<rparr>)))))))"

subsection \<open>Creating and reading challenges\<close>


definition passkey_challenge :: "engine \<Rightarrow> env \<Rightarrow> Challenge \<Rightarrow> (db, Challenge) tx" where
  "passkey_challenge e v c =
     (case Passkeys e of
        None \<Rightarrow> tx_fail ErrUnavailable
      | Some pk \<Rightarrow> (case BeginAuthentication pk (ev_wall v) (ev_entropy v) (chl_Expiration c) of
            None \<Rightarrow> tx_fail ErrUnavailable
          | Some cer \<Rightarrow>
              tx_then (tx_stmt (insert_passkey_step \<lparr>pst_id = chl_ID c, pst_challenge = cer_Challenge cer\<rparr>))
                (tx_return (c\<lparr>chl_PublicKey := Some (cer_Options cer)\<rparr>))))"

definition email_challenge :: "engine \<Rightarrow> env \<Rightarrow> uuid \<Rightarrow> Challenge \<Rightarrow> (db, unit) tx" where
  "email_challenge e v aid c =
     tx_then (tx_assert (Mail e) ErrUnavailable)
       (tx_bind (tx_row (\<lambda>db. find (\<lambda>r. reg_auth r = aid) (registrations db)) NoRows) (\<lambda>reg.
         tx_bind (tx_lift (draw_code v)) (\<lambda>code.
           tx_then (tx_stmt (insert_email_step \<lparr>est_id = chl_ID c, est_email = reg_email reg,
                      est_code = e_hash e ''email'' (e_uuid e (chl_ID c)) code\<rparr>))
             (QueueCode v 1 (reg_email reg) code (chl_Expiration c)))))"

definition new_challenge :: "engine \<Rightarrow> env \<Rightarrow> string \<Rightarrow> Process \<Rightarrow> Challenge" where
  "new_challenge e v method p =
     \<lparr>chl_URL = '''', chl_Nonce = '''', chl_PublicKey = None, chl_ID = ev_uuid v 0,
      chl_Method = method, chl_Status = Pending,
      chl_Expiration = (if ev_now v + ChallengeTTL e > prc_Expiration p then prc_Expiration p
                        else ev_now v + ChallengeTTL e)\<rparr>"

definition new_step :: "env \<Rightarrow> uuid \<Rightarrow> string \<Rightarrow> Challenge \<Rightarrow> step_row" where
  "new_step v aid method c =
     \<lparr>stp_id = chl_ID c, stp_auth = aid, stp_type = StepType method, stp_status = Pending,
      stp_failed = 0, stp_created = ev_dbnow v, stp_expiry = chl_Expiration c, stp_completion = None\<rparr>"

definition create_challenge_tx ::
  "engine \<Rightarrow> env \<Rightarrow> uuid \<Rightarrow> string \<Rightarrow> string \<Rightarrow> Principal \<Rightarrow> OAuthOptions \<Rightarrow> (db, Challenge) tx" where
  "create_challenge_tx e v aid flow method who opts =
     tx_bind (load e v aid flow who) (\<lambda>p.
       tx_then (tx_assert (prc_Status p = Pending) ErrConflict)
         (tx_bind (tx_query (next_methods e p)) (\<lambda>methods.
           tx_then (tx_assert (contains methods method) ErrForbidden)
             (let c = new_challenge e v method p in
              tx_then (tx_exec (update_steps
                  (\<lambda>r. stp_auth r = aid \<and> stp_type r = StepType method \<and> stp_status r = Pending) cancel_step))
                (tx_then (tx_stmt (insert_step (new_step v aid method c)))
                  (tx_bind (if method = ''google'' \<or> method = ''vk''
                            then createOAuthChallenge e v p c flow opts else tx_return c) (\<lambda>c1.
                    tx_bind (if method = ''passkey'' then passkey_challenge e v c1 else tx_return c1) (\<lambda>c2.
                      tx_then (if method = ''email'' then email_challenge e v aid c2 else tx_return ())
                        (tx_query (hydrateStep e v c2))))))))))"

definition CreateChallenge ::
  "engine \<Rightarrow> env \<Rightarrow> uuid \<Rightarrow> string \<Rightarrow> string \<Rightarrow> Principal \<Rightarrow> OAuthOptions \<Rightarrow> db \<Rightarrow> (error + Challenge) \<times> db" where
  "CreateChallenge e v aid flow method who opts db =
     e_run v (tx_done (create_challenge_tx e v aid flow method who opts)) db"

definition step_row_of :: "uuid \<Rightarrow> uuid \<Rightarrow> db \<Rightarrow> step_row option" where
  "step_row_of cid aid db = find (\<lambda>r. stp_id r = cid \<and> stp_auth r = aid) (authentication_steps db)"

definition loadChallenge :: "uuid \<Rightarrow> uuid \<Rightarrow> (db, Challenge) tx" where
  "loadChallenge cid aid =
     tx_bind (tx_row (step_row_of cid aid) ErrUnauthorized) (\<lambda>r. tx_return (challenge_of r))"

definition GetChallenge ::
  "engine \<Rightarrow> env \<Rightarrow> uuid \<Rightarrow> uuid \<Rightarrow> string \<Rightarrow> Principal \<Rightarrow> db \<Rightarrow> (error + Challenge) \<times> db" where
  "GetChallenge e v aid cid flow who db =
     e_query v (tx_bind (load e v aid flow who) (\<lambda>p.
       tx_bind (loadChallenge cid aid) (\<lambda>c. tx_query (hydrateStep e v c)))) db"

lemma loadChallenge_success [op_inv]:
  "loadChallenge cid aid s = Inr (c, t) \<longleftrightarrow> t = s \<and> (\<exists>r. step_row_of cid aid s = Some r \<and> c = challenge_of r)"
  by (auto simp: loadChallenge_def tx_inv)

lemmas run_challenge [run_defs] = createOAuthChallenge_def passkeyAccount_def verifyPasskey_def
  cancel_step_def passkey_challenge_def email_challenge_def new_challenge_def new_step_def
  create_challenge_tx_def CreateChallenge_def step_row_of_def loadChallenge_def GetChallenge_def

end
