(* ===== verification/Auth_Attempt.thy ===== *)
theory Auth_Attempt
  imports Auth_Challenge
begin

section \<open>Attempts\<close>

text \<open>
  The second half of \<open>challenge.go\<close>: \<open>verify\<close> checks a proof, \<open>register\<close> creates the
  account of a finished sign-up, and \<open>Attempt\<close> records the outcome: a wrong proof is
  counted and committed, a right one completes its step, cancels the alternatives and,
  when the policy asks for nothing more, completes the process. \<open>AttemptProvider\<close> of
  \<open>oauth.go\<close> does the same for the identity providers, in two transactions around the
  network call.
\<close>

subsection \<open>Verifying a proof\<close>

definition dummyPassword :: "engine \<Rightarrow> error + string" where
  "dummyPassword e =
     (case bcrypt_generate (lib_crypto (Libs e)) (dummySalt e) ''not-an-account-password'' (BcryptCost e) of
        None \<Rightarrow> Inl ErrInternal | Some h \<Rightarrow> Inr h)"

definition verify_registration :: "engine \<Rightarrow> Process \<Rightarrow> Proof \<Rightarrow> (db, Process) tx" where
  "verify_registration e p proof =
     (let email = e_lower e (prf_Email proof) in
      tx_then (tx_assert (lib_ParseAddress (Libs e) email = Some email) ErrInvalid)
        (tx_then (tx_stmt (insert_registration \<lparr>reg_auth = prc_ID p, reg_email = email, reg_password = None\<rparr>))
          (tx_return p)))"

definition verify_passwordSetup :: "engine \<Rightarrow> env \<Rightarrow> Process \<Rightarrow> Proof \<Rightarrow> (db, Process) tx" where
  "verify_passwordSetup e v p proof =
     tx_then (tx_assert (8 \<le> length (prf_Password proof) \<and> length (prf_Password proof) \<le> 72) ErrInvalid)
       (tx_bind (tx_lift (e_bcrypt e v (prf_Password proof))) (\<lambda>h.
         tx_then (tx_exec (update_registrations (\<lambda>r. reg_auth r = prc_ID p) (\<lambda>r. r\<lparr>reg_password := Some h\<rparr>)))
           (tx_return p)))"

text \<open>
  The account a login names: that of the process for a sensitive purpose, otherwise the
  one with that email or username.
\<close>

definition login_row :: "engine \<Rightarrow> Process \<Rightarrow> Proof \<Rightarrow> db \<Rightarrow> account_row option" where
  "login_row e p proof db =
     (if sensitive (prc_Purpose p) then account_row_of (account_or_nil (prc_account p)) db
      else let login = e_lower e (prf_Login proof) in
        find (\<lambda>r. acc_email r = login \<or> acc_username r = Some login) (accounts db))"

definition verify_password :: "engine \<Rightarrow> Process \<Rightarrow> Proof \<Rightarrow> (db, Process) tx" where
  "verify_password e p proof =
     tx_bind (tx_lift (dummyPassword e)) (\<lambda>dummy.
       tx_then (tx_assert (\<not> (sensitive (prc_Purpose p) \<and> prf_Login proof \<noteq> '''') \<and>
                           \<not> (\<not> sensitive (prc_Purpose p) \<and> prf_Login proof = '''')) ErrInvalid)
         (tx_bind (tx_read (login_row e p proof)) (\<lambda>found.
           let stored = (case found of None \<Rightarrow> None | Some r \<Rightarrow> acc_password r);
               compareHash = (case stored of None \<Rightarrow> dummy | Some h \<Rightarrow> h);
               valid = e_compare e compareHash (prf_Password proof)
           in case found of
                None \<Rightarrow> tx_fail ErrCredentials
              | Some r \<Rightarrow>
                  tx_then (tx_assert (valid \<and> stored \<noteq> None \<and> acc_blocked r = None) ErrCredentials)
                    (tx_then (tx_stmt (set_account (prc_ID p) (acc_id r)))
                      (tx_return (p\<lparr>prc_account := Some (acc_id r)\<rparr>))))))"

definition verify_email :: "engine \<Rightarrow> Process \<Rightarrow> Challenge \<Rightarrow> Proof \<Rightarrow> (db, Process) tx" where
  "verify_email e p c proof =
     tx_bind (tx_row (\<lambda>db. find (\<lambda>r. est_id r = chl_ID c) (email_authentication_steps db)) NoRows) (\<lambda>r.
       tx_then (tx_assert (est_code r = e_hash e ''email'' (e_uuid e (chl_ID c)) (prf_Code proof)) ErrCredentials)
         (tx_return p))"


definition verify_totp :: "engine \<Rightarrow> env \<Rightarrow> Process \<Rightarrow> Proof \<Rightarrow> (db, Process) tx" where
  "verify_totp e v p proof =
     (case prc_account p of
        None \<Rightarrow> tx_fail ErrForbidden
      | Some account \<Rightarrow>
          tx_bind (tx_row (totp_row_of account) ErrCredentials) (\<lambda>r.
            tx_bind (tx_lift (e_decrypt e (ttp_secret r) (e_uuid e account))) (\<lambda>secret.
              case totpStep (lib_crypto (Libs e)) secret (prf_Code proof) (ev_now v) (ttp_last r) of
                None \<Rightarrow> tx_fail ErrCredentials
              | Some st \<Rightarrow>
                  tx_then (tx_exec (update_totp (\<lambda>q. ttp_account q = account) (\<lambda>q. q\<lparr>ttp_last := st\<rparr>)))
                    (tx_return p))))"

text \<open>\<open>DELETE FROM backup_codes ... RETURNING 1\<close>: the matching code is gone, or there was none.\<close>

definition backup_match :: "engine \<Rightarrow> uuid \<Rightarrow> string \<Rightarrow> backup_row \<Rightarrow> bool" where
  "backup_match e account code r \<longleftrightarrow>
     bkp_account r = account \<and> bkp_code r = e_hash e ''backup'' (e_uuid e account) code"

definition verify_backupCode :: "engine \<Rightarrow> Process \<Rightarrow> Proof \<Rightarrow> (db, Process) tx" where
  "verify_backupCode e p proof =
     (case prc_account p of
        None \<Rightarrow> tx_fail ErrForbidden
      | Some account \<Rightarrow>
          tx_bind (tx_read (\<lambda>db. exists_row (backup_match e account (prf_Code proof)) (backup_codes db))) (\<lambda>found.
            tx_then (tx_assert found ErrCredentials)
              (tx_then (tx_exec (delete_backups (backup_match e account (prf_Code proof))))
                (tx_return p))))"

definition verify :: "engine \<Rightarrow> env \<Rightarrow> Process \<Rightarrow> Challenge \<Rightarrow> Proof \<Rightarrow> (db, Process) tx" where
  "verify e v p c proof =
     (if chl_Method c = ''registration'' then verify_registration e p proof
      else if chl_Method c = ''passwordSetup'' then verify_passwordSetup e v p proof
      else if chl_Method c = ''passkey'' then verifyPasskey e v p c proof
      else if chl_Method c = ''password'' then verify_password e p proof
      else if chl_Method c = ''email'' then verify_email e p c proof
      else if chl_Method c = ''totp'' then verify_totp e v p proof
      else if chl_Method c = ''backupCode'' then verify_backupCode e p proof
      else tx_fail ErrUnavailable)"

subsection \<open>Registration\<close>

definition new_account :: "env \<Rightarrow> registration_row \<Rightarrow> account_row" where
  "new_account v reg =
     \<lparr>acc_id = ev_uuid v 0, acc_email = reg_email reg, acc_email_verified = Some (ev_now v),
      acc_username = None, acc_password = reg_password reg,
      acc_password_changed = (if reg_password reg = None then None else Some (ev_now v)),
      acc_blocked = None, acc_created = ev_dbnow v\<rparr>"

definition register_error :: "error \<Rightarrow> error" where
  "register_error err = (if err = NoRows then ErrAccountExists else conflict err)"

definition register :: "engine \<Rightarrow> env \<Rightarrow> Process \<Rightarrow> (db, Process) tx" where
  "register e v p =
     tx_bind (tx_row (\<lambda>db. find (\<lambda>r. reg_auth r = prc_ID p) (registrations db)) NoRows) (\<lambda>reg.
       tx_then (tx_assert (reg_password reg \<noteq> None) ErrForbidden)
         (tx_bind (tx_read (\<lambda>db. exists_row (\<lambda>a. acc_email a = reg_email reg) (accounts db))) (\<lambda>exists.
           tx_then (tx_assert (\<not> exists) ErrAccountExists)
             (tx_then (tx_catch (tx_stmt (insert_account (new_account v reg))) register_error)
               (tx_then (queue_event v 1 ''auth.profiles'' ''profile.created'' (ProfileCreated (ev_uuid v 0)))
                 (tx_then (tx_exec (delete_registrations (\<lambda>r. reg_auth r = prc_ID p)))
                   (tx_return (p\<lparr>prc_account := Some (ev_uuid v 0)\<rparr>))))))))"

subsection \<open>Recording the outcome\<close>

definition fail_auth :: "int \<Rightarrow> auth_row \<Rightarrow> auth_row" where
  "fail_auth limit r = r\<lparr>aut_failed := aut_failed r + 1,
     aut_status := (if aut_failed r + 1 \<ge> limit then Failed else aut_status r)\<rparr>"

definition fail_step :: "int \<Rightarrow> step_row \<Rightarrow> step_row" where
  "fail_step limit r = r\<lparr>stp_failed := stp_failed r + 1,
     stp_status := (if stp_failed r + 1 \<ge> limit then Failed else stp_status r)\<rparr>"

definition count_failure :: "engine \<Rightarrow> uuid \<Rightarrow> uuid \<Rightarrow> Process \<Rightarrow> (db, error + 'a) tx" where
  "count_failure e aid cid p =
     tx_then (tx_exec (update_auths (\<lambda>r. aut_id r = aid) (fail_auth (MaxAttempts e))))
       (tx_then (tx_exec (update_steps (\<lambda>r. stp_id r = cid) (fail_step (MaxAttempts e))))
         (tx_return (Inl (if prc_failures p + 1 \<ge> MaxAttempts e then ErrAttempts else ErrCredentials))))"

definition complete_step :: "time \<Rightarrow> step_row \<Rightarrow> step_row" where
  "complete_step now r = r\<lparr>stp_status := Completed, stp_completion := Some now\<rparr>"

text \<open>The end of an attempt: the steps are read again and the answer is put together.\<close>

definition attempt_answer :: "engine \<Rightarrow> env \<Rightarrow> Challenge \<Rightarrow> Process \<Rightarrow> (db, error + AttemptResult) tx" where
  "attempt_answer e v c p =
     tx_bind (tx_query (steps e v p)) (\<lambda>ss.
       tx_bind (tx_query (hydrateStep e v c)) (\<lambda>c'.
         tx_return (Inr \<lparr>att_Challenge = c', att_Authentication = p\<lparr>prc_Steps := ss\<rparr>\<rparr>)))"

text \<open>
  After a right proof of a sign-up: an email that already has an account ends the process,
  a further step leaves it pending, otherwise the account is created and the process
  completed.
\<close>

definition continue_signUp ::
  "engine \<Rightarrow> env \<Rightarrow> Process \<Rightarrow> Challenge \<Rightarrow> (db, error + AttemptResult) tx" where
  "continue_signUp e v p c =
     tx_bind (tx_query (next_methods e p)) (\<lambda>methods.
       let p' = p\<lparr>prc_Next := methods\<rparr> in
       if methods \<noteq> []
       then tx_bind (tx_query (steps e v p')) (\<lambda>ss.
              tx_return (Inr \<lparr>att_Challenge = c, att_Authentication = p'\<lparr>prc_Steps := ss\<rparr>\<rparr>))
       else tx_bind (tx_try (register e v p')) (\<lambda>r.
         case r of
           Inl err \<Rightarrow> if err = ErrAccountExists then failRegistration (prc_ID p) err else tx_fail err
         | Inr p2 \<Rightarrow> tx_bind (complete e v 0 p2) (attempt_answer e v c)))"

definition after_signUp ::
  "engine \<Rightarrow> env \<Rightarrow> Process \<Rightarrow> Challenge \<Rightarrow> (db, error + AttemptResult) tx" where
  "after_signUp e v p c =
     tx_bind (tx_read (\<lambda>db. if chl_Method c = ''email'' then registrationAvailable (prc_ID p) db else None))
       (\<lambda>unavailable. case unavailable of
          Some err \<Rightarrow> failRegistration (prc_ID p) err
        | None \<Rightarrow> continue_signUp e v p c)"

definition after_step ::
  "engine \<Rightarrow> env \<Rightarrow> Process \<Rightarrow> Challenge \<Rightarrow> (db, error + AttemptResult) tx" where
  "after_step e v p c =
     tx_bind (tx_query (next_methods e p)) (\<lambda>methods.
       let p' = p\<lparr>prc_Next := methods\<rparr> in
       tx_bind (if methods = [] then complete e v 0 p' else tx_return p') (attempt_answer e v c))"

text \<open>A right proof completes its step and cancels the alternatives, then the policy decides.\<close>

definition record_success ::
  "engine \<Rightarrow> env \<Rightarrow> uuid \<Rightarrow> Challenge \<Rightarrow> Process \<Rightarrow> (db, error + AttemptResult) tx" where
  "record_success e v cid c p =
     tx_then (tx_exec (update_steps (\<lambda>r. stp_id r = cid) (complete_step (ev_now v))))
       (tx_then (cancelAlternatives (prc_ID p) (chl_ID c))
         (if prc_Purpose p = ''signUp''
          then after_signUp e v p (c\<lparr>chl_Status := Completed\<rparr>)
          else after_step e v p (c\<lparr>chl_Status := Completed\<rparr>)))"

definition judge_proof ::
  "engine \<Rightarrow> env \<Rightarrow> uuid \<Rightarrow> uuid \<Rightarrow> Process \<Rightarrow> Challenge \<Rightarrow> Proof \<Rightarrow> (db, error + AttemptResult) tx" where
  "judge_proof e v aid cid p c proof =
     tx_bind (tx_try (verify e v p c proof)) (\<lambda>r.
       case r of
         Inl err \<Rightarrow> if err = ErrCredentials then count_failure e aid cid p else tx_fail err
       | Inr p1 \<Rightarrow> record_success e v cid c p1)"

definition attempt_tx ::
  "engine \<Rightarrow> env \<Rightarrow> uuid \<Rightarrow> uuid \<Rightarrow> string \<Rightarrow> Principal \<Rightarrow> Proof \<Rightarrow> (db, error + AttemptResult) tx" where
  "attempt_tx e v aid cid flow who proof =
     tx_bind (load e v aid flow who) (\<lambda>p.
       tx_then (tx_assert (prc_Status p = Pending) ErrConflict)
         (tx_bind (loadChallenge cid aid) (\<lambda>c.
           tx_then (tx_assert (chl_Status c = Pending \<and> chl_Expiration c > ev_now v) ErrConflict)
             (tx_then (tx_assert (chl_Method c = prf_Method proof) ErrInvalid)
               (tx_bind (tx_query (next_methods e p)) (\<lambda>methods.
                 tx_then (tx_assert (contains methods (chl_Method c)) ErrForbidden)
                   (judge_proof e v aid cid p c proof)))))))"

definition Attempt ::
  "engine \<Rightarrow> env \<Rightarrow> uuid \<Rightarrow> uuid \<Rightarrow> string \<Rightarrow> Principal \<Rightarrow> Proof \<Rightarrow> db \<Rightarrow> (error + AttemptResult) \<times> db" where
  "Attempt e v aid cid flow who proof db = e_run v (attempt_tx e v aid cid flow who proof) db"

subsection \<open>Identity providers\<close>

text \<open>
  The first transaction checks the challenge and consumes the one-time state (or reads
  the stored nonce of an ID token), yielding the redirect, nonce hash and ciphertext.
\<close>

definition oauth_match :: "engine \<Rightarrow> env \<Rightarrow> uuid \<Rightarrow> string \<Rightarrow> Proof \<Rightarrow> oauth_row \<Rightarrow> bool" where
  "oauth_match e v cid flow proof r \<longleftrightarrow>
     oar_state r = e_hash e ''state'' '''' (prf_State proof) \<and> oar_provider r = prf_Method proof \<and>
     oar_step r = Some cid \<and> oar_binding r = e_hash e ''binding'' '''' flow \<and> oar_expiry r > ev_now v"

definition provider_begin_tx ::
  "engine \<Rightarrow> env \<Rightarrow> uuid \<Rightarrow> uuid \<Rightarrow> string \<Rightarrow> Principal \<Rightarrow> Proof \<Rightarrow> (db, Process \<times> string \<times> string \<times> string) tx" where
  "provider_begin_tx e v aid cid flow who proof =
     tx_bind (load e v aid flow who) (\<lambda>p.
       tx_bind (loadChallenge cid aid) (\<lambda>c.
         tx_then (tx_assert (prc_Status p = Pending \<and> chl_Status c = Pending \<and>
                    chl_Method c = prf_Method proof \<and> chl_Expiration c > ev_now v) ErrConflict)
           (tx_bind (tx_query (next_methods e p)) (\<lambda>methods.
             tx_then (tx_assert (contains methods (chl_Method c)) ErrForbidden)
               (if prf_IDToken proof \<noteq> ''''
                then tx_then (tx_assert (prf_Method proof = ''google'' \<and> prf_Code proof = '''' \<and>
                                prf_State proof = '''') ErrInvalid)
                       (tx_bind (tx_row (\<lambda>db. find (\<lambda>r. gst_id r = cid) (google_authentication_steps db)) ErrCredentials)
                         (\<lambda>r. tx_return (p, '''', gst_nonce r, '''')))
                else tx_bind (tx_row (\<lambda>db. find (oauth_match e v cid flow proof) (oauth_requests db)) ErrCredentials)
                       (\<lambda>r. tx_then (tx_exec (delete_oauth_requests (oauth_match e v cid flow proof)))
                         (tx_return (p, oar_redirect r, oar_nonce r, oar_verifier r))))))))"

text \<open>Between the transactions: the network call and the checks on the identity.\<close>

definition provider_identity ::
  "engine \<Rightarrow> env \<Rightarrow> Provider \<Rightarrow> Process \<Rightarrow> string \<Rightarrow> string \<Rightarrow> string \<Rightarrow> Proof \<Rightarrow> error + ProviderIdentity" where
  "provider_identity e v provider p redirect nonceHash encrypted proof =
     (case (if prf_IDToken proof \<noteq> '''' then prv_Native provider (ev_net v) (prf_IDToken proof)
            else case e_decrypt e encrypted (''oauth:'' @ prf_State proof) of
              Inl err \<Rightarrow> Inl err
            | Inr verifier \<Rightarrow> prv_Exchange provider (ev_net v) (prf_Code proof) redirect verifier) of
        Inl err \<Rightarrow> Inl err
      | Inr identity \<Rightarrow>
          if pid_Subject identity = '''' \<or>
             prf_Method proof = ''google'' \<and>
               (pid_Nonce identity = '''' \<or> nonceHash \<noteq> e_hash e ''nonce'' '''' (pid_Nonce identity))
          then Inl ErrCredentials
          else if sensitive (prc_Purpose p) \<and>
             (pid_AuthenticatedAt identity = ZeroTime \<or>
              pid_AuthenticatedAt identity < ev_now v - ReuseTTL e \<or>
              pid_AuthenticatedAt identity > ev_now v + Minute)
          then Inl ErrForbidden
          else Inr identity)"

text \<open>The second transaction rechecks the challenge and completes the step.\<close>

definition identity_account :: "string \<Rightarrow> string \<Rightarrow> db \<Rightarrow> uuid option" where
  "identity_account provider subject db =
     map_option idn_account (find (\<lambda>i. idn_provider i = provider \<and> idn_subject i = subject \<and>
       exists_row (\<lambda>a. acc_id a = idn_account i \<and> acc_blocked a = None) (accounts db)) (identities db))"

definition provider_finish_tx ::
  "engine \<Rightarrow> env \<Rightarrow> uuid \<Rightarrow> uuid \<Rightarrow> string \<Rightarrow> Principal \<Rightarrow> Proof \<Rightarrow> ProviderIdentity \<Rightarrow> (db, AttemptResult) tx" where
  "provider_finish_tx e v aid cid flow who proof identity =
     tx_bind (load e v aid flow who) (\<lambda>p.
       tx_bind (loadChallenge cid aid) (\<lambda>c.
         tx_then (tx_assert (prc_Status p = Pending \<and> chl_Status c = Pending \<and> chl_Expiration c > ev_now v) ErrConflict)
           (tx_bind (tx_query (next_methods e p)) (\<lambda>methods.
             tx_then (tx_assert (contains methods (chl_Method c)) ErrForbidden)
               (tx_bind (tx_row (identity_account (prf_Method proof) (pid_Subject identity)) ErrCredentials) (\<lambda>account.
                 tx_then (tx_assert (\<not> (sensitive (prc_Purpose p) \<and> account_or_nil (prc_account p) \<noteq> account)) ErrCredentials)
                   (tx_then (tx_stmt (set_account aid account))
                     (tx_then (tx_exec (update_steps (\<lambda>r. stp_id r = cid) (complete_step (ev_now v))))
                       (tx_then (cancelAlternatives (prc_ID p) (chl_ID c))
                         (let p1 = p\<lparr>prc_account := Some account\<rparr> in
                          tx_bind (tx_query (next_methods e p1)) (\<lambda>methods1.
                            let p2 = p1\<lparr>prc_Next := methods1\<rparr> in
                            tx_bind (if methods1 = [] then complete e v 0 p2 else tx_return p2) (\<lambda>p3.
                              tx_bind (tx_query (steps e v p3)) (\<lambda>ss.
                                tx_return \<lparr>att_Challenge = c\<lparr>chl_Status := Completed\<rparr>,
                                  att_Authentication = p3\<lparr>prc_Steps := ss\<rparr>\<rparr>)))))))))))))"

text \<open>
  \<open>attemptProvider\<close>. Other calls may commit between its two transactions: \<open>between\<close> is
  what they make of the database, and \<open>v2\<close> the environment of the second transaction.
\<close>

definition attemptProvider ::
  "engine \<Rightarrow> env \<Rightarrow> env \<Rightarrow> (db \<Rightarrow> db) \<Rightarrow> uuid \<Rightarrow> uuid \<Rightarrow> string \<Rightarrow> Principal \<Rightarrow> Proof \<Rightarrow> db \<Rightarrow>
     (error + AttemptResult) \<times> db" where
  "attemptProvider e v v2 between aid cid flow who proof db =
     (case Providers e (prf_Method proof) of
        None \<Rightarrow> (Inl ErrUnavailable, db)
      | Some provider \<Rightarrow>
          (case e_run v (tx_done (provider_begin_tx e v aid cid flow who proof)) db of
             (Inl err, db1) \<Rightarrow> (Inl err, db1)
           | (Inr (p, redirect, nonceHash, encrypted), db1) \<Rightarrow>
               let db2 = between db1 in
               (case provider_identity e v2 provider p redirect nonceHash encrypted proof of
                  Inl err \<Rightarrow> (Inl err, db2)
                | Inr identity \<Rightarrow>
                    e_run v2 (tx_done (provider_finish_tx e v2 aid cid flow who proof identity)) db2)))"

definition provider_failure_tx ::
  "engine \<Rightarrow> env \<Rightarrow> uuid \<Rightarrow> uuid \<Rightarrow> string \<Rightarrow> Principal \<Rightarrow> (db, error + AttemptResult) tx" where
  "provider_failure_tx e v aid cid flow who =
     tx_bind (load e v aid flow who) (\<lambda>p.
       tx_bind (loadChallenge cid aid) (\<lambda>c.
         tx_then (tx_assert (prc_Status p = Pending \<and> chl_Status c = Pending) ErrConflict)
           (count_failure e aid cid p)))"

definition AttemptProvider ::
  "engine \<Rightarrow> env \<Rightarrow> env \<Rightarrow> env \<Rightarrow> (db \<Rightarrow> db) \<Rightarrow> (db \<Rightarrow> db) \<Rightarrow> uuid \<Rightarrow> uuid \<Rightarrow> string \<Rightarrow> Principal \<Rightarrow> Proof \<Rightarrow>
     db \<Rightarrow> (error + AttemptResult) \<times> db" where
  "AttemptProvider e v v2 v3 between after aid cid flow who proof db =
     (case attemptProvider e v v2 between aid cid flow who proof db of
        (result, db1) \<Rightarrow>
          if result \<noteq> Inl ErrCredentials then (result, db1)
          else e_run v3 (provider_failure_tx e v3 aid cid flow who) (after db1))"

definition validateRedirect :: "network \<Rightarrow> string \<Rightarrow> bool" where
  "validateRedirect net value =
     (case net_Parse net value of None \<Rightarrow> False | Some u \<Rightarrow> url_Scheme u \<noteq> '''' \<and> url_Fragment u = '''')"

lemmas run_attempt [run_defs] = dummyPassword_def verify_registration_def verify_passwordSetup_def
  login_row_def verify_password_def verify_email_def verify_totp_def backup_match_def verify_backupCode_def
  verify_def new_account_def register_error_def register_def fail_auth_def fail_step_def count_failure_def
  complete_step_def attempt_answer_def continue_signUp_def after_signUp_def after_step_def record_success_def
  judge_proof_def attempt_tx_def Attempt_def oauth_match_def provider_begin_tx_def provider_identity_def
  identity_account_def provider_finish_tx_def attemptProvider_def provider_failure_tx_def AttemptProvider_def
  validateRedirect_def

end
