(* ===== verification/Auth_Sessions.thy ===== *)
theory Auth_Sessions
  imports Auth_Notify
begin

section \<open>Sessions\<close>

text \<open>
  \<open>internal/authentication/sessions.go\<close>: a session is created from the grant of a sign-in or
  sign-up, refreshed by rotating its refresh token, listed and revoked. The issuer of
  access tokens is an argument. \<open>lib_Inet\<close> is PostgreSQL's reading of an address as
  \<open>inet\<close>, shown again by \<open>host\<close>.
\<close>

record AccessPayload =
  apl_UserId :: uuid
  apl_SessionID :: int
  apl_Email :: string
  apl_Username :: "string option"
  apl_Deleted :: bool

type_synonym TokenIssuer = "AccessPayload \<Rightarrow> duration \<Rightarrow> error + string"

record Restriction =
  rsn_Type :: string
  rsn_DeletionTimestamp :: time
  rsn_DeleteSharedData :: bool

record Tokens =
  tkn_UserID :: uuid
  tkn_SessionID :: int
  tkn_AccessToken :: string
  tkn_RefreshToken :: string
  tkn_Expiration :: time
  tkn_Restrictions :: "Restriction list"

record Session =
  snn_ID :: int
  snn_IP :: string
  snn_UserAgent :: string
  snn_LastRefresh :: time


definition issue ::
  "env \<Rightarrow> uuid \<Rightarrow> int \<Rightarrow> string \<Rightarrow> time \<Rightarrow> TokenIssuer \<Rightarrow> duration \<Rightarrow> (db, Tokens) tx" where
  "issue v account sid refresh expiry issuer accessTTL =
     tx_bind (tx_row (account_row_of account) NoRows) (\<lambda>a.
       tx_then (tx_assert (acc_blocked a = None) ErrForbidden)
         (tx_bind (tx_read (deletion_row_of account)) (\<lambda>d.
           tx_then (tx_assert (case d of None \<Rightarrow> True | Some r \<Rightarrow> del_at r > ev_now v) ErrForbidden)
             (tx_bind (tx_lift (issuer \<lparr>apl_UserId = account, apl_SessionID = sid,
                 apl_Email = acc_email a, apl_Username = acc_username a, apl_Deleted = (d \<noteq> None)\<rparr> accessTTL)) (\<lambda>token.
               tx_return \<lparr>tkn_UserID = account, tkn_SessionID = sid, tkn_AccessToken = token,
                 tkn_RefreshToken = refresh, tkn_Expiration = expiry,
                 tkn_Restrictions = (case d of None \<Rightarrow> []
                   | Some r \<Rightarrow> [\<lparr>rsn_Type = ''pendingDeletion'', rsn_DeletionTimestamp = del_at r,
                                 rsn_DeleteSharedData = del_shared r\<rparr>])\<rparr>)))))"

definition inet :: "engine \<Rightarrow> string \<Rightarrow> error + string" where
  "inet e ip = (case lib_Inet (Libs e) ip of None \<Rightarrow> Inl ErrInternal | Some a \<Rightarrow> Inr a)"

definition grant_purpose :: "engine \<Rightarrow> string \<Rightarrow> db \<Rightarrow> string option" where
  "grant_purpose e token db =
     map_option aut_purpose (find (\<lambda>r. aut_grant r = Some (e_hash e ''grant'' '''' token)) (authentications db))"

definition create_session_tx ::
  "engine \<Rightarrow> env \<Rightarrow> string \<Rightarrow> string \<Rightarrow> string \<Rightarrow> TokenIssuer \<Rightarrow> duration \<Rightarrow> duration \<Rightarrow> (db, Tokens) tx" where
  "create_session_tx e v grant ip ua issuer accessTTL refreshTTL =
     tx_bind (tx_row (grant_purpose e grant) ErrForbidden) (\<lambda>purpose.
       tx_then (tx_assert (purpose = ''signIn'' \<or> purpose = ''signUp'') ErrForbidden)
         (tx_bind (ConsumeGrant e v grant purpose \<lparr>who_AccountID = uuid_Nil, who_SessionID = 0\<rparr>) (\<lambda>account.
           tx_bind (tx_lift (draw_token v 0)) (\<lambda>refresh.
             tx_bind (tx_lift (inet e ip)) (\<lambda>addr.
               tx_bind (insert_session (\<lambda>sid. \<lparr>ses_id = sid, ses_account = account,
                   ses_refresh = e_hash e ''refresh'' '''' refresh, ses_ip = addr, ses_user_agent = ua,
                   ses_last_refresh = ev_dbnow v, ses_expiry = ev_now v + refreshTTL\<rparr>)) (\<lambda>sid.
                 tx_bind (issue v account sid refresh (ev_now v + refreshTTL) issuer accessTTL) (\<lambda>result.
                   tx_then (notifyAccount v 0 account ((mail_template ''new_login'')\<lparr>ml_Client := ua\<rparr>))
                     (tx_return result))))))))"

definition CreateSession ::
  "engine \<Rightarrow> env \<Rightarrow> string \<Rightarrow> string \<Rightarrow> string \<Rightarrow> TokenIssuer \<Rightarrow> duration \<Rightarrow> duration \<Rightarrow> db \<Rightarrow> (error + Tokens) \<times> db" where
  "CreateSession e v grant ip ua issuer accessTTL refreshTTL db =
     e_run v (tx_done (create_session_tx e v grant ip ua issuer accessTTL refreshTTL)) db"

definition refresh_row :: "engine \<Rightarrow> env \<Rightarrow> int \<Rightarrow> string \<Rightarrow> db \<Rightarrow> session_row option" where
  "refresh_row e v sid refresh db =
     find (\<lambda>r. ses_id r = sid \<and> ses_refresh r = e_hash e ''refresh'' '''' refresh \<and> ses_expiry r > ev_now v)
       (sessions db)"

definition refresh_tx ::
  "engine \<Rightarrow> env \<Rightarrow> int \<Rightarrow> string \<Rightarrow> string \<Rightarrow> string \<Rightarrow> TokenIssuer \<Rightarrow> duration \<Rightarrow> duration \<Rightarrow> (db, Tokens) tx" where
  "refresh_tx e v sid refresh ip ua issuer accessTTL refreshTTL =
     tx_bind (tx_row (refresh_row e v sid refresh) ErrCredentials) (\<lambda>s.
       tx_bind (tx_lift (draw_token v 0)) (\<lambda>fresh.
         tx_bind (tx_lift (inet e ip)) (\<lambda>addr.
           tx_then (tx_stmt (update_session_key sid (\<lambda>r. r\<lparr>ses_refresh := e_hash e ''refresh'' '''' fresh,
               ses_ip := addr, ses_user_agent := ua, ses_last_refresh := ev_now v,
               ses_expiry := ev_now v + refreshTTL\<rparr>)))
             (issue v (ses_account s) sid fresh (ev_now v + refreshTTL) issuer accessTTL))))"

definition Refresh ::
  "engine \<Rightarrow> env \<Rightarrow> int \<Rightarrow> string \<Rightarrow> string \<Rightarrow> string \<Rightarrow> TokenIssuer \<Rightarrow> duration \<Rightarrow> duration \<Rightarrow> db \<Rightarrow> (error + Tokens) \<times> db" where
  "Refresh e v sid refresh ip ua issuer accessTTL refreshTTL db =
     e_run v (tx_done (refresh_tx e v sid refresh ip ua issuer accessTTL refreshTTL)) db"

definition live_session :: "time \<Rightarrow> Principal \<Rightarrow> db \<Rightarrow> bool" where
  "live_session now p db =
     exists_row (\<lambda>s. ses_id s = who_SessionID p \<and> ses_account s = who_AccountID p \<and> ses_expiry s > now) (sessions db)"

definition checkSession :: "env \<Rightarrow> Principal \<Rightarrow> (db, unit) tx" where
  "checkSession v p = tx_bind (tx_read (live_session (ev_now v) p)) (\<lambda>ok. tx_assert ok ErrSession)"

definition revoke_sessions_tx :: "env \<Rightarrow> Principal \<Rightarrow> int option \<Rightarrow> (db, unit) tx" where
  "revoke_sessions_tx v who sid =
     tx_then (checkSession v who)
       (tx_exec (delete_sessions (\<lambda>s. ses_account s = who_AccountID who \<and>
          (case sid of None \<Rightarrow> True | Some i \<Rightarrow> ses_id s = i))))"

definition RevokeSessions :: "env \<Rightarrow> Principal \<Rightarrow> int option \<Rightarrow> db \<Rightarrow> (error + unit) \<times> db" where
  "RevokeSessions v who sid db = e_run v (tx_done (revoke_sessions_tx v who sid)) db"

definition logout_refresh_tx :: "engine \<Rightarrow> int \<Rightarrow> string \<Rightarrow> (db, unit) tx" where
  "logout_refresh_tx e sid refresh =
     tx_exec (delete_sessions (\<lambda>s. ses_id s = sid \<and> ses_refresh s = e_hash e ''refresh'' '''' refresh))"

definition LogoutRefresh :: "engine \<Rightarrow> env \<Rightarrow> int \<Rightarrow> string \<Rightarrow> db \<Rightarrow> (error + unit) \<times> db" where
  "LogoutRefresh e v sid refresh db = e_run v (tx_done (logout_refresh_tx e sid refresh)) db"

definition ValidateSession :: "env \<Rightarrow> Principal \<Rightarrow> db \<Rightarrow> (error + unit) \<times> db" where
  "ValidateSession v who db = e_query v (checkSession v who) db"

definition session_of :: "session_row \<Rightarrow> Session" where
  "session_of r = \<lparr>snn_ID = ses_id r, snn_IP = ses_ip r, snn_UserAgent = ses_user_agent r,
     snn_LastRefresh = ses_last_refresh r\<rparr>"

definition GetSessions :: "env \<Rightarrow> Principal \<Rightarrow> db \<Rightarrow> (error + Session list) \<times> db" where
  "GetSessions v who db =
     e_query v (tx_then (checkRecoveryPrincipal v who)
       (tx_read (\<lambda>db. map session_of (sort_key (\<lambda>r. - ses_last_refresh r)
          (filter (\<lambda>r. ses_account r = who_AccountID who \<and> ses_expiry r > ev_now v) (sessions db)))))) db"

lemmas run_sessions [run_defs] = issue_def inet_def grant_purpose_def create_session_tx_def CreateSession_def
  refresh_row_def refresh_tx_def Refresh_def live_session_def checkSession_def revoke_sessions_tx_def
  RevokeSessions_def logout_refresh_tx_def LogoutRefresh_def ValidateSession_def session_of_def
  GetSessions_def

end
