(* ===== verification/Auth_Totp.thy ===== *)
theory Auth_Totp
  imports Auth_Notify
begin

section \<open>Two-factor enrolment and backup codes\<close>

text \<open>
  \<open>internal/authentication/totp.go\<close>. The \<open>otpauth\<close> URI is kept as the record of its parts.
  \<open>ConfirmTotp\<close> also works on the in-memory limiter of the engine, so it maps a pair of a
  limiter and a database to such a pair.
\<close>

record TotpState =
  tst_Enabled :: bool
  tst_Activation :: "time option"

record OtpauthURI =
  uri_Email :: string
  uri_Secret :: string
  uri_Issuer :: string
  uri_Algorithm :: string
  uri_Digits :: nat
  uri_Period :: nat

record TotpActivation =
  tac_Secret :: string
  tac_URI :: OtpauthURI
  tac_Expiration :: time

record BackupCodes =
  bco_Codes :: "string list"
  bco_Generation :: time

record BackupState =
  bst_Remaining :: nat
  bst_Generation :: "time option"


definition GetTotp :: "env \<Rightarrow> Principal \<Rightarrow> db \<Rightarrow> (error + TotpState) \<times> db" where
  "GetTotp v who db =
     e_query v (tx_then (checkPrincipal v who)
       (tx_read (\<lambda>db. case totp_row_of (who_AccountID who) db of
          None \<Rightarrow> \<lparr>tst_Enabled = False, tst_Activation = None\<rparr>
        | Some r \<Rightarrow> \<lparr>tst_Enabled = True, tst_Activation = Some (ttp_activated r)\<rparr>))) db"

definition start_totp_tx :: "engine \<Rightarrow> env \<Rightarrow> Principal \<Rightarrow> string \<Rightarrow> (db, TotpActivation) tx" where
  "start_totp_tx e v who grant =
     tx_then (ConsumeGrant e v grant ''totpEnrollment'' who)
       (tx_bind (tx_read (has_totp (who_AccountID who))) (\<lambda>exists.
         tx_then (tx_assert (\<not> exists) ErrConflict)
           (tx_bind (tx_lift (case ev_secret v of None \<Rightarrow> Inl ErrInternal | Some s \<Rightarrow> Inr s)) (\<lambda>secret.
             tx_bind (tx_lift (e_encrypt e v secret (e_uuid e (who_AccountID who)))) (\<lambda>encrypted.
               tx_then (tx_stmt (upsert_totp_request \<lparr>ttr_account = who_AccountID who,
                   ttr_session = who_SessionID who, ttr_secret = encrypted, ttr_expiry = ev_now v + 5 * Minute\<rparr>))
                 (tx_bind (tx_row (account_row_of (who_AccountID who)) NoRows) (\<lambda>a.
                   tx_return \<lparr>tac_Secret = Base32 secret,
                     tac_URI = \<lparr>uri_Email = acc_email a, uri_Secret = Base32 secret, uri_Issuer = ''ChefBook'',
                       uri_Algorithm = ''SHA1'', uri_Digits = 6, uri_Period = 30\<rparr>,
                     tac_Expiration = ev_now v + 5 * Minute\<rparr>)))))))"

definition StartTotp :: "engine \<Rightarrow> env \<Rightarrow> Principal \<Rightarrow> string \<Rightarrow> db \<Rightarrow> (error + TotpActivation) \<times> db" where
  "StartTotp e v who grant db = e_run v (tx_done (start_totp_tx e v who grant)) db"

text \<open>The loop of \<open>replaceBackupCodes\<close>: \<open>n\<close> codes from the tokens \<open>i\<close>, \<open>i + 1\<close>, and so on.\<close>

fun insert_codes :: "engine \<Rightarrow> env \<Rightarrow> uuid \<Rightarrow> nat \<Rightarrow> nat \<Rightarrow> (db, string list) tx" where
  "insert_codes e v account i 0 = tx_return []"
| "insert_codes e v account i (Suc n) =
     tx_bind (tx_lift (draw_token v i)) (\<lambda>token.
       tx_then (tx_stmt (insert_backup \<lparr>bkp_account = account,
           bkp_code = e_hash e ''backup'' (e_uuid e account) token, bkp_generated = ev_now v\<rparr>))
         (tx_bind (insert_codes e v account (Suc i) n) (\<lambda>codes. tx_return (token # codes))))"

definition replaceBackupCodes :: "engine \<Rightarrow> env \<Rightarrow> Principal \<Rightarrow> (db, BackupCodes) tx" where
  "replaceBackupCodes e v who =
     tx_then (tx_exec (delete_backups (\<lambda>r. bkp_account r = who_AccountID who)))
       (tx_bind (insert_codes e v (who_AccountID who) 0 10) (\<lambda>codes.
         tx_return \<lparr>bco_Codes = codes, bco_Generation = ev_now v\<rparr>))"

definition activation_row :: "env \<Rightarrow> Principal \<Rightarrow> db \<Rightarrow> totp_request_row option" where
  "activation_row v who db =
     find (\<lambda>r. ttr_account r = who_AccountID who \<and> ttr_session r = who_SessionID who \<and> ttr_expiry r > ev_now v)
       (totp_activation_requests db)"

definition confirm_totp_tx :: "engine \<Rightarrow> env \<Rightarrow> Principal \<Rightarrow> string \<Rightarrow> (db, BackupCodes) tx" where
  "confirm_totp_tx e v who code =
     tx_then (checkPrincipal v who)
       (tx_bind (tx_row (activation_row v who) ErrInvalid) (\<lambda>r.
         tx_bind (tx_lift (e_decrypt e (ttr_secret r) (e_uuid e (who_AccountID who)))) (\<lambda>secret.
           case totpStep (lib_crypto (Libs e)) secret code (ev_now v) (- 1) of
             None \<Rightarrow> tx_fail ErrCredentials
           | Some st \<Rightarrow>
               tx_then (tx_catch (tx_stmt (insert_totp \<lparr>ttp_account = who_AccountID who,
                   ttp_secret = ttr_secret r, ttp_last = st, ttp_activated = ev_now v\<rparr>)) conflict)
                 (tx_then (tx_exec (delete_totp_requests (\<lambda>q. ttr_account q = who_AccountID who)))
                   (tx_then (invalidate v (who_AccountID who))
                     (tx_then (tx_exec (delete_sessions (\<lambda>s. ses_account s = who_AccountID who \<and>
                                 ses_id s \<noteq> who_SessionID who)))
                       (replaceBackupCodes e v who)))))))"

definition ConfirmTotp ::
  "engine \<Rightarrow> env \<Rightarrow> Principal \<Rightarrow> string \<Rightarrow> activationLimiter \<times> db \<Rightarrow>
     (error + BackupCodes) \<times> activationLimiter \<times> db" where
  "ConfirmTotp e v who code s =
     (case s of (l, db) \<Rightarrow>
       (case allow (who_AccountID who) (ev_now v) l of (ok, l') \<Rightarrow>
         if \<not> ok then (Inl ErrAttempts, l', db)
         else (case e_run v (tx_done (confirm_totp_tx e v who code)) db of (r, db') \<Rightarrow> (r, l', db'))))"

definition delete_totp_tx :: "engine \<Rightarrow> env \<Rightarrow> Principal \<Rightarrow> string \<Rightarrow> (db, unit) tx" where
  "delete_totp_tx e v who grant =
     tx_then (ConsumeGrant e v grant ''totpRemoval'' who)
       (tx_then (tx_exec (delete_totp (\<lambda>r. ttp_account r = who_AccountID who)))
         (invalidate v (who_AccountID who)))"

definition DeleteTotp :: "engine \<Rightarrow> env \<Rightarrow> Principal \<Rightarrow> string \<Rightarrow> db \<Rightarrow> (error + unit) \<times> db" where
  "DeleteTotp e v who grant db = e_run v (tx_done (delete_totp_tx e v who grant)) db"

definition rotate_backup_tx :: "engine \<Rightarrow> env \<Rightarrow> Principal \<Rightarrow> string \<Rightarrow> (db, BackupCodes) tx" where
  "rotate_backup_tx e v who grant =
     tx_then (ConsumeGrant e v grant ''backupCodesRotation'' who)
       (tx_bind (replaceBackupCodes e v who) (\<lambda>result.
         tx_then (invalidate v (who_AccountID who)) (tx_return result)))"

definition RotateBackupCodes :: "engine \<Rightarrow> env \<Rightarrow> Principal \<Rightarrow> string \<Rightarrow> db \<Rightarrow> (error + BackupCodes) \<times> db" where
  "RotateBackupCodes e v who grant db = e_run v (tx_done (rotate_backup_tx e v who grant)) db"

definition max_time :: "time list \<Rightarrow> time option" where
  "max_time ts = (case ts of [] \<Rightarrow> None | t # us \<Rightarrow> Some (foldl max t us))"

definition GetBackupCodes :: "env \<Rightarrow> Principal \<Rightarrow> db \<Rightarrow> (error + BackupState) \<times> db" where
  "GetBackupCodes v who db =
     e_query v (tx_then (checkPrincipal v who)
       (tx_read (\<lambda>db. let rows = filter (\<lambda>r. bkp_account r = who_AccountID who) (backup_codes db) in
          \<lparr>bst_Remaining = length rows, bst_Generation = max_time (map bkp_generated rows)\<rparr>))) db"

lemmas run_totp [run_defs] = GetTotp_def start_totp_tx_def StartTotp_def replaceBackupCodes_def
  activation_row_def confirm_totp_tx_def ConfirmTotp_def delete_totp_tx_def DeleteTotp_def
  rotate_backup_tx_def RotateBackupCodes_def max_time_def GetBackupCodes_def

end
