(* ===== verification/Auth_Account.thy ===== *)
theory Auth_Account
  imports Auth_Notify
begin

section \<open>Accounts\<close>

text \<open>
  \<open>internal/authentication/account.go\<close>: passwords, usernames, and the deletion of an
  account: requested with a grant, changed or cancelled before its deadline, carried out
  after it together with the lifecycle event.
\<close>

subsection \<open>Passwords\<close>

definition valid_password :: "string \<Rightarrow> bool" where
  "valid_password password \<longleftrightarrow> 8 \<le> length password \<and> length password \<le> 72"

definition set_hash :: "env \<Rightarrow> string \<Rightarrow> account_row \<Rightarrow> account_row" where
  "set_hash v h r = r\<lparr>acc_password := Some h, acc_password_changed := Some (ev_now v)\<rparr>"

text \<open>What a new password entails: the old evidence is invalidated and the owner notified.\<close>

definition change_password :: "env \<Rightarrow> uuid \<Rightarrow> string \<Rightarrow> (db, unit) tx" where
  "change_password v account h =
     tx_then (tx_exec (update_accounts (\<lambda>r. acc_id r = account) (set_hash v h)))
       (tx_then (invalidate v account)
         (notifyAccount v 0 account (mail_template ''password_changed'')))"

definition set_password_tx :: "engine \<Rightarrow> env \<Rightarrow> Principal \<Rightarrow> string \<Rightarrow> string \<Rightarrow> string \<Rightarrow> (db, unit) tx" where
  "set_password_tx e v who grant password h =
     tx_then (checkPrincipal v who)
       (tx_bind (tx_row (account_row_of (who_AccountID who)) NoRows) (\<lambda>a.
         tx_bind (case acc_password a of
                    None \<Rightarrow> tx_return False
                  | Some old \<Rightarrow> tx_then (ConsumeGrant e v grant ''passwordChange'' who)
                                  (tx_return (e_compare e old password))) (\<lambda>same.
           if same then tx_return ()
           else tx_then (change_password v (who_AccountID who) h)
                  (tx_exec (delete_sessions (\<lambda>s. ses_account s = who_AccountID who \<and>
                      ses_id s \<noteq> who_SessionID who))))))"

definition SetPassword :: "engine \<Rightarrow> env \<Rightarrow> Principal \<Rightarrow> string \<Rightarrow> string \<Rightarrow> db \<Rightarrow> (error + unit) \<times> db" where
  "SetPassword e v who grant password db =
     (if \<not> valid_password password then (Inl ErrInvalid, db)
      else case e_bcrypt e v password of
        Inl err \<Rightarrow> (Inl err, db)
      | Inr h \<Rightarrow> e_run v (tx_done (set_password_tx e v who grant password h)) db)"

subsection \<open>Usernames\<close>

definition normalizeUsername :: "engine \<Rightarrow> string \<Rightarrow> string" where
  "normalizeUsername e s = e_lower e s"

text \<open>The letters of a name, a digit one read as an i.\<close>

fun username_letters :: "string \<Rightarrow> string" where
  "username_letters [] = []"
| "username_letters (c # s) =
     (if is_lower c then c # username_letters s
      else if c = CHR ''1'' then CHR ''i'' # username_letters s
      else username_letters s)"

definition username_char :: "char \<Rightarrow> bool" where
  "username_char c \<longleftrightarrow> is_lower c \<or> is_digit c \<or> c = CHR ''_''"

definition validUsername :: "engine \<Rightarrow> string \<Rightarrow> bool" where
  "validUsername e s \<longleftrightarrow>
     \<not> (length s < 5 \<or> length s > 64 \<or> \<not> is_lower (hd s) \<or> last s = CHR ''_'' \<or> Contains s ''__'') \<and>
     list_all username_char s \<and>
     \<not> list_ex (Contains (username_letters s)) (Fields (lib_unicode (Libs e)) (ForbiddenUsernames e))"

definition UsernameAvailable :: "engine \<Rightarrow> env \<Rightarrow> string \<Rightarrow> db \<Rightarrow> (error + bool) \<times> db" where
  "UsernameAvailable e v username db =
     (let name = normalizeUsername e username in
      if \<not> validUsername e name then (Inr False, db)
      else e_read v (\<lambda>db. Inr (\<not> exists_row
             (\<lambda>a. acc_username a = Some (ToLower (lib_unicode (Libs e)) name)) (accounts db))) db)"

definition set_username_tx :: "env \<Rightarrow> Principal \<Rightarrow> string \<Rightarrow> (db, unit) tx" where
  "set_username_tx v who name =
     tx_then (checkPrincipal v who)
       (tx_bind (tx_read (\<lambda>db. exists_row (\<lambda>r. acc_id r = who_AccountID who \<and> acc_username r \<noteq> Some name) (accounts db)))
         (\<lambda>changed.
            if \<not> changed then tx_return ()
            else tx_then (tx_catch (tx_stmt (update_account_key (who_AccountID who) (\<lambda>r. acc_username r \<noteq> Some name)
                             (\<lambda>r. r\<lparr>acc_username := Some name\<rparr>))) conflict)
                   (notifyAccount v 0 (who_AccountID who)
                     ((mail_template ''username_changed'')\<lparr>ml_Username := name\<rparr>))))"

definition SetUsername :: "engine \<Rightarrow> env \<Rightarrow> Principal \<Rightarrow> string \<Rightarrow> db \<Rightarrow> (error + unit) \<times> db" where
  "SetUsername e v who username db =
     (let name = normalizeUsername e username in
      if \<not> validUsername e name then (Inl ErrInvalid, db)
      else e_run v (tx_done (set_username_tx v who name)) db)"

subsection \<open>Deletion\<close>

record Deletion =
  dlt_Timestamp :: time
  dlt_DeleteSharedData :: bool

definition deletion_of :: "deletion_row \<Rightarrow> Deletion" where
  "deletion_of r = \<lparr>dlt_Timestamp = del_at r, dlt_DeleteSharedData = del_shared r\<rparr>"

definition request_deletion_tx ::
  "engine \<Rightarrow> env \<Rightarrow> Principal \<Rightarrow> string \<Rightarrow> bool \<Rightarrow> duration \<Rightarrow> (db, Deletion) tx" where
  "request_deletion_tx e v who grant shared delay =
     tx_then (ConsumeGrant e v grant ''accountDeletion'' who)
       (tx_bind (tx_catch (upsert_deletion \<lparr>del_account = who_AccountID who, del_shared = shared,
                   del_at = ev_now v + delay\<rparr> (ev_now v)) (\<lambda>err. if err = NoRows then ErrConflict else err)) (\<lambda>d.
         tx_then (notifyAccount v 0 (who_AccountID who) ((mail_template ''account_deletion_requested'')
                    \<lparr>ml_Timestamp := Some (del_at d), ml_DeleteSharedData := shared\<rparr>))
           (tx_return (deletion_of d))))"

definition RequestDeletion ::
  "engine \<Rightarrow> env \<Rightarrow> Principal \<Rightarrow> string \<Rightarrow> bool \<Rightarrow> duration \<Rightarrow> db \<Rightarrow> (error + Deletion) \<times> db" where
  "RequestDeletion e v who grant shared delay db =
     e_run v (tx_done (request_deletion_tx e v who grant shared delay)) db"


definition patch_deletion_tx :: "env \<Rightarrow> Principal \<Rightarrow> bool \<Rightarrow> (db, Deletion) tx" where
  "patch_deletion_tx v who shared =
     tx_then (checkRecoveryPrincipal v who)
       (tx_bind (tx_read (deletion_row_of (who_AccountID who))) (\<lambda>found.
         case found of
           None \<Rightarrow> tx_fail ErrNotFound
         | Some d \<Rightarrow>
             tx_then (tx_assert (del_at d > ev_now v) ErrConflict)
               (tx_then (tx_exec (update_deletions (\<lambda>r. del_account r = who_AccountID who \<and> del_at r > ev_now v)
                          (\<lambda>r. r\<lparr>del_shared := shared\<rparr>)))
                 (tx_return (deletion_of (d\<lparr>del_shared := shared\<rparr>))))))"

definition PatchDeletion :: "env \<Rightarrow> Principal \<Rightarrow> bool \<Rightarrow> db \<Rightarrow> (error + Deletion) \<times> db" where
  "PatchDeletion v who shared db = e_run v (tx_done (patch_deletion_tx v who shared)) db"

definition cancel_deletion_tx :: "env \<Rightarrow> Principal \<Rightarrow> (db, unit) tx" where
  "cancel_deletion_tx v who =
     tx_then (checkRecoveryPrincipal v who)
       (tx_bind (tx_read (deletion_row_of (who_AccountID who))) (\<lambda>found.
         case found of
           None \<Rightarrow> tx_return ()
         | Some d \<Rightarrow>
             tx_then (tx_assert (del_at d > ev_now v) ErrConflict)
               (tx_exec (delete_deletions (\<lambda>r. del_account r = who_AccountID who)))))"

definition CancelDeletion :: "env \<Rightarrow> Principal \<Rightarrow> db \<Rightarrow> (error + unit) \<times> db" where
  "CancelDeletion v who db = e_run v (tx_done (cancel_deletion_tx v who)) db"

text \<open>The earliest request that is due and whose account still exists.\<close>

definition due_deletion :: "time \<Rightarrow> db \<Rightarrow> deletion_row option" where
  "due_deletion now db =
     (case sort_key del_at (filter (\<lambda>d. del_at d \<le> now \<and> has_account db (del_account d))
             (account_deletion_requests db)) of
        [] \<Rightarrow> None | d # _ \<Rightarrow> Some d)"

definition delete_due_tx :: "env \<Rightarrow> deletion_row \<Rightarrow> (db, bool) tx" where
  "delete_due_tx v d =
     tx_then (queue_event v 0 ''auth.profiles'' ''profile.deleted'' (ProfileDeleted (del_account d) (del_shared d)))
       (tx_then (notifyAccount v 1 (del_account d) (mail_template ''account_deleted''))
         (tx_then (tx_exec (delete_accounts (\<lambda>a. acc_id a = del_account d)))
           (tx_return True)))"

definition DeleteDueAccount :: "env \<Rightarrow> db \<Rightarrow> (error + bool) \<times> db" where
  "DeleteDueAccount v db =
     (case due_deletion (ev_now v) db of
        None \<Rightarrow> e_query v (tx_return False) db
      | Some d \<Rightarrow> e_run v (tx_done (delete_due_tx v d)) db)"

lemmas run_account [run_defs] = valid_password_def set_hash_def change_password_def set_password_tx_def
  SetPassword_def normalizeUsername_def username_char_def validUsername_def UsernameAvailable_def
  set_username_tx_def SetUsername_def deletion_of_def request_deletion_tx_def RequestDeletion_def
  patch_deletion_tx_def PatchDeletion_def cancel_deletion_tx_def CancelDeletion_def due_deletion_def
  delete_due_tx_def DeleteDueAccount_def

end
