(* ===== verification/Auth_Mail.thy ===== *)
theory Auth_Mail
  imports Auth_Account
begin

section \<open>Password reset and email change\<close>

text \<open>
  \<open>internal/authentication/mail.go\<close>: links that carry a one-time token, the password reset
  and the two-stage change of the email address. \<open>lib_SetToken\<close> puts a token into the
  query of a parsed URL and shows it.
\<close>

definition confirmationURL :: "engine \<Rightarrow> env \<Rightarrow> string \<Rightarrow> string \<Rightarrow> error + string" where
  "confirmationURL e v base token =
     (case net_Parse (ev_net v) base of
        None \<Rightarrow> Inl ErrUnavailable
      | Some u \<Rightarrow> if url_Scheme u \<noteq> ''https'' \<or> url_Host u = '''' then Inl ErrUnavailable
                  else Inr (lib_SetToken (Libs e) u token))"

definition reset_tx :: "engine \<Rightarrow> env \<Rightarrow> uuid \<Rightarrow> string \<Rightarrow> string \<Rightarrow> (db, unit) tx" where
  "reset_tx e v account email baseURL =
     tx_bind (tx_lift (draw_token v 0)) (\<lambda>token.
       tx_bind (tx_lift (confirmationURL e v baseURL token)) (\<lambda>link.
         tx_then (tx_stmt (upsert_reset \<lparr>rst_account = account, rst_token = e_hash e ''reset'' '''' token,
                    rst_expiry = ev_now v + 30 * Minute\<rparr>))
           (queueMail v 0 ((mail_template ''password_reset'')\<lparr>ml_To := email, ml_URL := link,
              ml_ExpirationTimestamp := ev_now v + 30 * Minute\<rparr>))))"

definition StartPasswordReset :: "engine \<Rightarrow> env \<Rightarrow> string \<Rightarrow> string \<Rightarrow> db \<Rightarrow> (error + unit) \<times> db" where
  "StartPasswordReset e v email baseURL db =
     (case confirmationURL e v baseURL ''configuration-check'' of
        Inl err \<Rightarrow> (Inl err, db)
      | Inr _ \<Rightarrow>
          let address = e_lower e email in
          (case find (\<lambda>r. acc_email r = address \<and> acc_blocked r = None) (accounts db) of
             None \<Rightarrow> e_query v (tx_return ()) db
           | Some a \<Rightarrow> e_run v (tx_done (reset_tx e v (acc_id a) address baseURL)) db))"

definition reset_match :: "engine \<Rightarrow> env \<Rightarrow> string \<Rightarrow> reset_row \<Rightarrow> bool" where
  "reset_match e v token r \<longleftrightarrow> rst_token r = e_hash e ''reset'' '''' token \<and> rst_expiry r > ev_now v"

definition confirm_reset_tx :: "engine \<Rightarrow> env \<Rightarrow> string \<Rightarrow> string \<Rightarrow> (db, unit) tx" where
  "confirm_reset_tx e v token h =
     tx_bind (tx_row (\<lambda>db. find (reset_match e v token) (password_reset_requests db)) ErrInvalid) (\<lambda>r.
       tx_then (tx_exec (delete_resets (reset_match e v token)))
         (tx_then (change_password v (rst_account r) h)
           (tx_exec (delete_sessions (\<lambda>s. ses_account s = rst_account r)))))"

definition ConfirmPasswordReset :: "engine \<Rightarrow> env \<Rightarrow> string \<Rightarrow> string \<Rightarrow> db \<Rightarrow> (error + unit) \<times> db" where
  "ConfirmPasswordReset e v token password db =
     (if \<not> valid_password password then (Inl ErrInvalid, db)
      else case e_bcrypt e v password of
        Inl err \<Rightarrow> (Inl err, db)
      | Inr h \<Rightarrow> e_run v (tx_done (confirm_reset_tx e v token h)) db)"

definition change_email_tx ::
  "engine \<Rightarrow> env \<Rightarrow> Principal \<Rightarrow> string \<Rightarrow> string \<Rightarrow> string \<Rightarrow> (db, unit) tx" where
  "change_email_tx e v who grant email baseURL =
     tx_then (ConsumeGrant e v grant ''emailChange'' who)
       (tx_bind (tx_row (account_row_of (who_AccountID who)) NoRows) (\<lambda>a.
         tx_then (tx_assert (acc_email a \<noteq> email) ErrConflict)
           (tx_bind (tx_lift (draw_token v 0)) (\<lambda>token.
             tx_bind (tx_lift (confirmationURL e v baseURL token)) (\<lambda>link.
               tx_then (tx_catch (tx_stmt (insert_email_change \<lparr>emc_account = who_AccountID who,
                   emc_previous = acc_email a, emc_email = email, emc_stage = AwaitingPreviousEmail,
                   emc_token = e_hash e ''email-change'' '''' token, emc_expiry = ev_now v + 30 * Minute\<rparr>)) conflict)
                 (queueMail v 0 ((mail_template ''email_change_previous'')\<lparr>ml_To := acc_email a, ml_URL := link,
                    ml_ExpirationTimestamp := ev_now v + 30 * Minute\<rparr>)))))))"

definition ChangeEmail ::
  "engine \<Rightarrow> env \<Rightarrow> Principal \<Rightarrow> string \<Rightarrow> string \<Rightarrow> string \<Rightarrow> db \<Rightarrow> (error + unit) \<times> db" where
  "ChangeEmail e v who grant address baseURL db =
     (let email = e_lower e address in
      if lib_ParseAddress (Libs e) email \<noteq> Some email then (Inl ErrInvalid, db)
      else e_run v (tx_done (change_email_tx e v who grant email baseURL)) db)"

definition email_change_row_of :: "engine \<Rightarrow> env \<Rightarrow> string \<Rightarrow> db \<Rightarrow> email_change_row option" where
  "email_change_row_of e v token db =
     find (\<lambda>r. emc_token r = e_hash e ''email-change'' '''' token \<and> emc_expiry r > ev_now v) (email_change_requests db)"

text \<open>The first stage moves the request on to the new address, the second changes the account.\<close>

definition confirm_previous_tx :: "engine \<Rightarrow> env \<Rightarrow> email_change_row \<Rightarrow> string \<Rightarrow> (db, string) tx" where
  "confirm_previous_tx e v r baseURL =
     tx_bind (tx_lift (draw_token v 0)) (\<lambda>fresh.
       tx_bind (tx_lift (confirmationURL e v baseURL fresh)) (\<lambda>link.
         tx_then (tx_stmt (update_email_change (emc_account r) (\<lambda>q. q\<lparr>emc_stage := AwaitingNewEmail,
             emc_token := e_hash e ''email-change'' '''' fresh, emc_expiry := ev_now v + 30 * Minute\<rparr>)))
           (tx_then (queueMail v 0 ((mail_template ''email_change_new'')\<lparr>ml_To := emc_email r, ml_URL := link,
                ml_ExpirationTimestamp := ev_now v + 30 * Minute\<rparr>))
             (tx_return ''pendingNewEmail''))))"

definition confirm_new_tx :: "env \<Rightarrow> email_change_row \<Rightarrow> (db, string) tx" where
  "confirm_new_tx v r =
     tx_bind (tx_read (\<lambda>db. exists_row (\<lambda>a. acc_id a = emc_account r \<and> acc_email a = emc_previous r) (accounts db))) (\<lambda>matches.
       tx_then (tx_catch (tx_stmt (update_account_key (emc_account r) (\<lambda>a. acc_email a = emc_previous r)
                  (\<lambda>a. a\<lparr>acc_email := emc_email r, acc_email_verified := Some (ev_now v)\<rparr>))) conflict)
         (tx_then (tx_assert matches ErrConflict)
           (tx_then (tx_exec (delete_email_changes (\<lambda>q. emc_account q = emc_account r)))
             (tx_then (invalidate v (emc_account r))
               (tx_return ''changed'')))))"

definition confirm_email_tx :: "engine \<Rightarrow> env \<Rightarrow> string \<Rightarrow> string \<Rightarrow> (db, string) tx" where
  "confirm_email_tx e v token baseURL =
     tx_bind (tx_row (email_change_row_of e v token) ErrInvalid) (\<lambda>r.
       if emc_stage r = AwaitingPreviousEmail then confirm_previous_tx e v r baseURL
       else confirm_new_tx v r)"

definition ConfirmEmail :: "engine \<Rightarrow> env \<Rightarrow> string \<Rightarrow> string \<Rightarrow> db \<Rightarrow> (error + string) \<times> db" where
  "ConfirmEmail e v token baseURL db = e_run v (tx_done (confirm_email_tx e v token baseURL)) db"

lemmas run_mail [run_defs] = confirmationURL_def reset_tx_def StartPasswordReset_def reset_match_def
  confirm_reset_tx_def ConfirmPasswordReset_def change_email_tx_def ChangeEmail_def email_change_row_of_def
  confirm_previous_tx_def confirm_new_tx_def confirm_email_tx_def ConfirmEmail_def

end
