(* ===== verification/Auth_Identities.thy ===== *)
theory Auth_Identities
  imports Auth_Notify
begin

section \<open>Linked identities\<close>

text \<open>
  \<open>internal/authentication/identities.go\<close>: listing the identities of an account, preparing
  and finishing the OAuth flow that links one (two transactions around the network call),
  and unlinking one as long as another way to sign in remains.
\<close>

record Identity =
  idt_Provider :: string
  idt_Subject :: string

record PreparedOAuth =
  pre_URL :: string
  pre_Expiration :: time

text \<open>\<open>ORDER BY provider\<close>: the providers are two, and \<open>google\<close> sorts before \<open>vk\<close>.\<close>

definition identity_rows :: "uuid \<Rightarrow> db \<Rightarrow> identity_row list" where
  "identity_rows account db =
     concat (map (\<lambda>name. filter (\<lambda>r. idn_account r = account \<and> idn_provider r = name) (identities db)) provider_values)"

definition GetIdentities :: "env \<Rightarrow> Principal \<Rightarrow> db \<Rightarrow> (error + Identity list) \<times> db" where
  "GetIdentities v who db =
     e_query v (tx_then (checkPrincipal v who)
       (tx_read (\<lambda>db. map (\<lambda>r. \<lparr>idt_Provider = idn_provider r, idt_Subject = idn_subject r\<rparr>)
          (identity_rows (who_AccountID who) db)))) db"

definition prepare_oauth_tx :: "engine \<Rightarrow> env \<Rightarrow> Principal \<Rightarrow> string \<Rightarrow> Provider \<Rightarrow> string \<Rightarrow> (db, PreparedOAuth) tx" where
  "prepare_oauth_tx e v who provider adapter redirect =
     tx_then (checkPrincipal v who)
       (tx_bind (tx_lift (draw_token v 0)) (\<lambda>state.
         tx_bind (tx_lift (draw_token v 1)) (\<lambda>nonce.
           tx_bind (tx_lift (draw_token v 2)) (\<lambda>verifier.
             tx_bind (tx_lift (e_encrypt e v verifier (''oauth:'' @ state))) (\<lambda>encrypted.
               tx_bind (tx_lift (prv_Authorize adapter (ev_net v) state nonce
                          (RawURLEncoding (sha256 (lib_crypto (Libs e)) verifier)) redirect False)) (\<lambda>link.
                 tx_then (tx_stmt (insert_oauth_request
                     \<lparr>oar_state = e_hash e ''state'' '''' state, oar_provider = provider, oar_step = None,
                      oar_session = Some (who_SessionID who),
                      oar_binding = e_hash e ''binding'' '''' (FormatInt (who_SessionID who)),
                      oar_redirect = redirect, oar_nonce = e_hash e ''nonce'' '''' nonce,
                      oar_verifier = encrypted, oar_expiry = ev_now v + 5 * Minute\<rparr>))
                   (tx_return \<lparr>pre_URL = link, pre_Expiration = ev_now v + 5 * Minute\<rparr>)))))))"

definition PrepareIdentityOAuth ::
  "engine \<Rightarrow> env \<Rightarrow> Principal \<Rightarrow> string \<Rightarrow> string \<Rightarrow> db \<Rightarrow> (error + PreparedOAuth) \<times> db" where
  "PrepareIdentityOAuth e v who provider redirect db =
     (case Providers e provider of
        None \<Rightarrow> (Inl ErrUnavailable, db)
      | Some adapter \<Rightarrow>
          if \<not> contains (OAuthRedirects e) redirect then (Inl ErrInvalid, db)
          else e_run v (tx_done (prepare_oauth_tx e v who provider adapter redirect)) db)"

definition link_match :: "engine \<Rightarrow> env \<Rightarrow> Principal \<Rightarrow> string \<Rightarrow> string \<Rightarrow> oauth_row \<Rightarrow> bool" where
  "link_match e v who provider state r \<longleftrightarrow>
     oar_state r = e_hash e ''state'' '''' state \<and> oar_provider r = provider \<and>
     oar_session r = Some (who_SessionID who) \<and>
     oar_binding r = e_hash e ''binding'' '''' (FormatInt (who_SessionID who)) \<and> oar_expiry r > ev_now v"

definition link_begin_tx :: "engine \<Rightarrow> env \<Rightarrow> Principal \<Rightarrow> string \<Rightarrow> string \<Rightarrow> (db, oauth_row) tx" where
  "link_begin_tx e v who provider state =
     tx_then (checkPrincipal v who)
       (tx_bind (tx_row (\<lambda>db. find (link_match e v who provider state) (oauth_requests db)) ErrCredentials) (\<lambda>r.
         tx_then (tx_exec (delete_oauth_requests (link_match e v who provider state))) (tx_return r)))"

definition link_identity_of ::
  "engine \<Rightarrow> env \<Rightarrow> Provider \<Rightarrow> string \<Rightarrow> string \<Rightarrow> string \<Rightarrow> oauth_row \<Rightarrow> error + ProviderIdentity" where
  "link_identity_of e v adapter provider code state r =
     (case e_decrypt e (oar_verifier r) (''oauth:'' @ state) of
        Inl err \<Rightarrow> Inl err
      | Inr verifier \<Rightarrow> (case prv_Exchange adapter (ev_net v) code (oar_redirect r) verifier of
            Inl err \<Rightarrow> Inl err
          | Inr identity \<Rightarrow>
              if pid_Subject identity = '''' \<or>
                 provider = ''google'' \<and>
                   (pid_Nonce identity = '''' \<or> oar_nonce r \<noteq> e_hash e ''nonce'' '''' (pid_Nonce identity))
              then Inl ErrCredentials else Inr identity))"

definition link_finish_tx :: "engine \<Rightarrow> env \<Rightarrow> Principal \<Rightarrow> string \<Rightarrow> string \<Rightarrow> ProviderIdentity \<Rightarrow> (db, bool) tx" where
  "link_finish_tx e v who grant provider identity =
     tx_then (ConsumeGrant e v grant ''identityLink'' who)
       (tx_bind (tx_read (\<lambda>db. find (\<lambda>r. idn_account r = who_AccountID who \<and> idn_provider r = provider) (identities db))) (\<lambda>existing.
         case existing of
           Some r \<Rightarrow> tx_then (tx_assert (idn_subject r = pid_Subject identity) ErrConflict) (tx_return False)
         | None \<Rightarrow>
             tx_then (tx_catch (tx_stmt (insert_identity \<lparr>idn_account = who_AccountID who,
                 idn_provider = provider, idn_subject = pid_Subject identity\<rparr>)) conflict)
               (tx_then (invalidate v (who_AccountID who)) (tx_return True))))"

definition LinkIdentity ::
  "engine \<Rightarrow> env \<Rightarrow> env \<Rightarrow> (db \<Rightarrow> db) \<Rightarrow> Principal \<Rightarrow> string \<Rightarrow> string \<Rightarrow> string \<Rightarrow> string \<Rightarrow> db \<Rightarrow> (error + bool) \<times> db" where
  "LinkIdentity e v v2 between who grant provider code state db =
     (case Providers e provider of
        None \<Rightarrow> (Inl ErrUnavailable, db)
      | Some adapter \<Rightarrow>
          (case e_run v (tx_done (link_begin_tx e v who provider state)) db of
             (Inl err, db1) \<Rightarrow> (Inl err, db1)
           | (Inr r, db1) \<Rightarrow>
               let db2 = between db1 in
               (case link_identity_of e v2 adapter provider code state r of
                  Inl err \<Rightarrow> (Inl err, db2)
                | Inr identity \<Rightarrow> e_run v2 (tx_done (link_finish_tx e v2 who grant provider identity)) db2)))"

subsection \<open>Ways to sign in\<close>

text \<open>
  The count both \<open>UnlinkIdentity\<close> and \<open>DeletePasskey\<close> make before they remove something:
  the password, the identities and the passkeys that would remain.
\<close>

definition sign_in_methods ::
  "uuid \<Rightarrow> (identity_row \<Rightarrow> bool) \<Rightarrow> (passkey_row \<Rightarrow> bool) \<Rightarrow> db \<Rightarrow> nat option" where
  "sign_in_methods account keep_identity keep_passkey db =
     map_option (\<lambda>a. (if acc_password a = None then 0 else 1) +
         length (filter (\<lambda>r. idn_account r = account \<and> keep_identity r) (identities db)) +
         length (filter (\<lambda>r. psk_account r = account \<and> keep_passkey r) (passkeys db)))
       (account_row_of account db)"

definition unlink_tx :: "engine \<Rightarrow> env \<Rightarrow> Principal \<Rightarrow> string \<Rightarrow> string \<Rightarrow> (db, unit) tx" where
  "unlink_tx e v who grant provider =
     tx_then (ConsumeGrant e v grant ''identityUnlink'' who)
       (tx_bind (tx_row (sign_in_methods (who_AccountID who) (\<lambda>r. idn_provider r \<noteq> provider) (\<lambda>_. True)) NoRows) (\<lambda>count.
         tx_then (tx_assert (count \<noteq> 0) ErrConflict)
           (tx_then (tx_exec (delete_identities (\<lambda>r. idn_account r = who_AccountID who \<and> idn_provider r = provider)))
             (invalidate v (who_AccountID who)))))"

definition UnlinkIdentity :: "engine \<Rightarrow> env \<Rightarrow> Principal \<Rightarrow> string \<Rightarrow> string \<Rightarrow> db \<Rightarrow> (error + unit) \<times> db" where
  "UnlinkIdentity e v who grant provider db =
     (if provider \<noteq> ''google'' \<and> provider \<noteq> ''vk'' then (Inl ErrInvalid, db)
      else e_run v (tx_done (unlink_tx e v who grant provider)) db)"

lemmas run_identities [run_defs] = identity_rows_def GetIdentities_def prepare_oauth_tx_def
  PrepareIdentityOAuth_def link_match_def link_begin_tx_def link_identity_of_def link_finish_tx_def
  LinkIdentity_def sign_in_methods_def unlink_tx_def UnlinkIdentity_def

end
