(* ===== verification/Auth_Passkeys.thy ===== *)
theory Auth_Passkeys
  imports Auth_Challenge Auth_Identities "HOL-Library.List_Lexorder" "HOL-Library.Char_ord"
begin

section \<open>Managing passkeys\<close>

text \<open>
  \<open>internal/authentication/passkeys.go\<close>, but for the assertion of a sign-in, which is with
  the challenges: listing, enrolling, renaming and removing the passkeys of an account.
\<close>

record Passkey =
  pky_ID :: uuid
  pky_Name :: string
  pky_Creation :: time
  pky_LastUse :: "time option"
  pky_Transports :: "string list"
  pky_BackupEligible :: bool
  pky_BackupState :: bool

record PasskeyRequest =
  pkq_ID :: uuid
  pkq_PublicKey :: key_options
  pkq_Expiration :: time

definition transports_of :: "uuid \<Rightarrow> db \<Rightarrow> string list" where
  "transports_of k db = map ptr_transport (filter (\<lambda>t. ptr_passkey t = k) (passkey_transports db))"

definition passkey_of :: "passkey_row \<Rightarrow> string list \<Rightarrow> Passkey" where
  "passkey_of r ts = \<lparr>pky_ID = psk_id r, pky_Name = psk_name r, pky_Creation = psk_created r,
     pky_LastUse = psk_last_use r, pky_Transports = ts, pky_BackupEligible = psk_eligible r,
     pky_BackupState = psk_state r\<rparr>"

definition GetPasskeys :: "env \<Rightarrow> Principal \<Rightarrow> db \<Rightarrow> (error + Passkey list) \<times> db" where
  "GetPasskeys v who db =
     e_query v (tx_then (checkPrincipal v who)
       (tx_read (\<lambda>db. map (\<lambda>r. passkey_of r (sort (transports_of (psk_id r) db)))
          (sort_key psk_created (filter (\<lambda>r. psk_account r = who_AccountID who) (passkeys db)))))) db"

definition start_passkey_tx :: "engine \<Rightarrow> env \<Rightarrow> Verifier \<Rightarrow> Principal \<Rightarrow> string \<Rightarrow> (db, PasskeyRequest) tx" where
  "start_passkey_tx e v pk who grant =
     tx_then (ConsumeGrant e v grant ''passkeyEnrollment'' who)
       (tx_bind (tx_query (passkeyAccount (who_AccountID who))) (\<lambda>a.
         case BeginRegistration (lib_uuid (Libs e)) pk (ev_wall v) (ev_entropy v) a (ev_now v + 5 * Minute) of
           None \<Rightarrow> tx_fail ErrInvalid
         | Some cer \<Rightarrow>
             tx_then (tx_stmt (insert_passkey_request \<lparr>pkr_id = ev_uuid v 0, pkr_session = who_SessionID who,
                 pkr_challenge = cer_Challenge cer, pkr_expiry = ev_now v + 5 * Minute\<rparr>))
               (tx_return \<lparr>pkq_ID = ev_uuid v 0, pkq_PublicKey = cer_Options cer,
                  pkq_Expiration = ev_now v + 5 * Minute\<rparr>)))"

definition StartPasskey :: "engine \<Rightarrow> env \<Rightarrow> Principal \<Rightarrow> string \<Rightarrow> db \<Rightarrow> (error + PasskeyRequest) \<times> db" where
  "StartPasskey e v who grant db =
     (case Passkeys e of
        None \<Rightarrow> (Inl ErrUnavailable, db)
      | Some pk \<Rightarrow> e_run v (tx_done (start_passkey_tx e v pk who grant)) db)"

fun insert_transports :: "uuid \<Rightarrow> string list \<Rightarrow> (db, unit) tx" where
  "insert_transports k [] = tx_return ()"
| "insert_transports k (t # ts) =
     tx_then (tx_stmt (insert_transport \<lparr>ptr_passkey = k, ptr_transport = t\<rparr>)) (insert_transports k ts)"

definition new_passkey :: "env \<Rightarrow> Principal \<Rightarrow> string \<Rightarrow> pk_Credential \<Rightarrow> passkey_row" where
  "new_passkey v who name c = \<lparr>psk_id = ev_uuid v 0, psk_account = who_AccountID who,
     psk_credential = crd_ID c, psk_public_key = crd_PublicKey c, psk_name = name,
     psk_sign_count = uint (crd_SignCount c), psk_eligible = crd_BackupEligible c,
     psk_state = crd_BackupState c, psk_created = ev_now v, psk_last_use = None\<rparr>"

definition passkey_request_of :: "env \<Rightarrow> Principal \<Rightarrow> uuid \<Rightarrow> db \<Rightarrow> passkey_request_row option" where
  "passkey_request_of v who k db =
     find (\<lambda>r. pkr_id r = k \<and> pkr_session r = who_SessionID who \<and> pkr_expiry r > ev_now v)
       (passkey_registration_requests db)"

definition register_passkey_tx ::
  "engine \<Rightarrow> env \<Rightarrow> Verifier \<Rightarrow> Principal \<Rightarrow> uuid \<Rightarrow> string \<Rightarrow> string \<Rightarrow> (db, Passkey) tx" where
  "register_passkey_tx e v pk who k name response =
     tx_then (checkPrincipal v who)
       (tx_bind (tx_row (passkey_request_of v who k) ErrInvalid) (\<lambda>r.
         tx_bind (tx_query (passkeyAccount (who_AccountID who))) (\<lambda>a.
           case VerifyRegistration (lib_uuid (Libs e)) pk (ev_wall v) a (pkr_challenge r) (pkr_expiry r) response of
             None \<Rightarrow> tx_fail ErrCredentials
           | Some c \<Rightarrow>
               tx_then (tx_catch (tx_stmt (insert_passkey (new_passkey v who name c))) conflict)
                 (tx_then (insert_transports (ev_uuid v 0) (crd_Transports c))
                   (tx_then (tx_exec (delete_passkey_requests (\<lambda>q. pkr_id q = k)))
                     (tx_then (invalidate v (who_AccountID who))
                       (tx_return (passkey_of (new_passkey v who name c) (crd_Transports c)))))))))"

definition RegisterPasskey ::
  "engine \<Rightarrow> env \<Rightarrow> Principal \<Rightarrow> uuid \<Rightarrow> string \<Rightarrow> string \<Rightarrow> db \<Rightarrow> (error + Passkey) \<times> db" where
  "RegisterPasskey e v who k name response db =
     (case Passkeys e of
        None \<Rightarrow> (Inl ErrUnavailable, db)
      | Some pk \<Rightarrow>
          if length name = 0 \<or> length name > 128 then (Inl ErrInvalid, db)
          else e_run v (tx_done (register_passkey_tx e v pk who k name response)) db)"

definition rename_passkey_tx :: "env \<Rightarrow> Principal \<Rightarrow> uuid \<Rightarrow> string \<Rightarrow> (db, Passkey) tx" where
  "rename_passkey_tx v who k name =
     tx_then (checkPrincipal v who)
       (tx_bind (tx_row (\<lambda>db. find (\<lambda>r. psk_id r = k \<and> psk_account r = who_AccountID who) (passkeys db)) ErrNotFound) (\<lambda>r.
         tx_then (tx_stmt (update_passkeys (\<lambda>q. psk_id q = k \<and> psk_account q = who_AccountID who)
                    (\<lambda>q. q\<lparr>psk_name := name\<rparr>)))
           (tx_bind (tx_read (transports_of k)) (\<lambda>ts. tx_return (passkey_of (r\<lparr>psk_name := name\<rparr>) ts)))))"

definition RenamePasskey :: "env \<Rightarrow> Principal \<Rightarrow> uuid \<Rightarrow> string \<Rightarrow> db \<Rightarrow> (error + Passkey) \<times> db" where
  "RenamePasskey v who k name db =
     (if name = '''' \<or> length name > 128 then (Inl ErrInvalid, db)
      else e_run v (tx_done (rename_passkey_tx v who k name)) db)"

definition delete_passkey_tx :: "engine \<Rightarrow> env \<Rightarrow> Principal \<Rightarrow> string \<Rightarrow> uuid \<Rightarrow> (db, unit) tx" where
  "delete_passkey_tx e v who grant k =
     tx_then (ConsumeGrant e v grant ''passkeyRemoval'' who)
       (tx_bind (tx_row (sign_in_methods (who_AccountID who) (\<lambda>_. True) (\<lambda>r. psk_id r \<noteq> k)) NoRows) (\<lambda>count.
         tx_then (tx_assert (count \<noteq> 0) ErrConflict)
           (tx_then (tx_exec (delete_passkeys (\<lambda>r. psk_account r = who_AccountID who \<and> psk_id r = k)))
             (invalidate v (who_AccountID who)))))"

definition DeletePasskey :: "engine \<Rightarrow> env \<Rightarrow> Principal \<Rightarrow> string \<Rightarrow> uuid \<Rightarrow> db \<Rightarrow> (error + unit) \<times> db" where
  "DeletePasskey e v who grant k db = e_run v (tx_done (delete_passkey_tx e v who grant k)) db"

lemmas run_passkeys [run_defs] = transports_of_def passkey_of_def GetPasskeys_def start_passkey_tx_def
  StartPasskey_def new_passkey_def passkey_request_of_def register_passkey_tx_def RegisterPasskey_def
  rename_passkey_tx_def RenamePasskey_def delete_passkey_tx_def DeletePasskey_def

end
