(* ===== verification/Auth_Cleanup.thy ===== *)
theory Auth_Cleanup
  imports Auth_Account
begin

section \<open>Background work\<close>

text \<open>
  \<open>internal/authentication/cleanup.go\<close>, the deletion loop \<open>runDeletions\<close> of
  \<open>internal/app/app.go\<close> and the worker of \<open>internal/outbox/worker.go\<close>.
\<close>

subsection \<open>Cleanup\<close>

definition stale_auth :: "time \<Rightarrow> time \<Rightarrow> auth_row \<Rightarrow> bool" where
  "stale_auth now since r \<longleftrightarrow> aut_expiry r < now \<and>
     (case aut_completion r of None \<Rightarrow> True | Some t \<Rightarrow> t < since) \<and>
     (case aut_grant_expiry r of None \<Rightarrow> True | Some t \<Rightarrow> t < now)"

definition cleanup_tx :: "engine \<Rightarrow> env \<Rightarrow> (db, unit) tx" where
  "cleanup_tx e v =
     tx_then (tx_exec (delete_oauth_requests (\<lambda>r. oar_expiry r < ev_now v)))
       (tx_then (tx_exec (delete_email_changes (\<lambda>r. emc_expiry r < ev_now v)))
         (tx_then (tx_exec (delete_resets (\<lambda>r. rst_expiry r < ev_now v)))
           (tx_then (tx_exec (delete_totp_requests (\<lambda>r. ttr_expiry r < ev_now v)))
             (tx_then (tx_exec (delete_passkey_requests (\<lambda>r. pkr_expiry r < ev_now v)))
               (tx_then (tx_exec (delete_auths (stale_auth (ev_now v) (ev_now v - ReuseTTL e))))
                 (tx_exec (delete_sessions (\<lambda>r. ses_expiry r < ev_now v))))))))"

definition Cleanup :: "engine \<Rightarrow> env \<Rightarrow> db \<Rightarrow> (error + unit) \<times> db" where
  "Cleanup e v db = e_run v (tx_done (cleanup_tx e v)) db"

subsection \<open>The deletion loop\<close>

text \<open>
  The inner loop of \<open>runDeletions\<close> runs \<open>DeleteDueAccount\<close> until it fails, finds nothing
  or the context ends: the environments are those of the successive calls, and the list
  ends where the context does.
\<close>

fun delete_batch :: "env list \<Rightarrow> db \<Rightarrow> db" where
  "delete_batch [] db = db"
| "delete_batch (v # vs) db =
     (case DeleteDueAccount v db of
        (Inl err, db') \<Rightarrow> db'
      | (Inr removed, db') \<Rightarrow> if removed then delete_batch vs db' else db')"

subsection \<open>The outbox worker\<close>

text \<open>
  What the broker answers to one publication: an error, no confirmation, a confirmation
  that times out, a rejection, or an acknowledgement, with or without the message being
  returned as unroutable before it.
\<close>

datatype publish_outcome = PublishError | NoConfirmation | WaitError | Nack | Ack bool

record publication =
  pub_exchange :: string
  pub_routing :: string
  pub_message :: uuid
  pub_type :: string
  pub_body :: message_body

text \<open>The oldest event, ties broken by its identifier.\<close>

definition oldest_event :: "db \<Rightarrow> outbox_row option" where
  "oldest_event db =
     (case sort_key obx_created (sort_key obx_id (outbox db)) of [] \<Rightarrow> None | r # _ \<Rightarrow> Some r)"

definition routing_key :: "string \<Rightarrow> string option" where
  "routing_key exchange =
     (if exchange = ''mail'' then Some ''mail.send'' else if exchange = ''auth.profiles'' then Some ''''
      else None)"

definition publication_of :: "outbox_row \<Rightarrow> string \<Rightarrow> publication" where
  "publication_of r routing = \<lparr>pub_exchange = obx_exchange r, pub_routing = routing,
     pub_message = obx_id r, pub_type = obx_type r, pub_body = obx_body r\<rparr>"

text \<open>
  \<open>one\<close>: the result, the message published if any, and the database. The worker begins a
  plain transaction without the engine's advisory lock.
\<close>

definition worker_one ::
  "bool \<Rightarrow> bool \<Rightarrow> publish_outcome \<Rightarrow> db \<Rightarrow> (error + bool) \<times> publication option \<times> db" where
  "worker_one begin_ok commit_ok outcome db =
     (if \<not> begin_ok then (Inl ErrInternal, None, db)
      else case oldest_event db of
        None \<Rightarrow> (Inr False, None, db)
      | Some r \<Rightarrow> (case routing_key (obx_exchange r) of
            None \<Rightarrow> (Inl ErrInternal, None, db)
          | Some routing \<Rightarrow>
              let m = publication_of r routing in
              (case outcome of
                 PublishError \<Rightarrow> (Inl ErrInternal, None, db)
               | NoConfirmation \<Rightarrow> (Inl ErrInternal, Some m, db)
               | WaitError \<Rightarrow> (Inl ErrInternal, Some m, db)
               | Nack \<Rightarrow> (Inl ErrInternal, Some m, db)
               | Ack returned \<Rightarrow>
                   if returned then (Inl ErrInternal, Some m, db)
                   else if commit_ok then (Inr True, Some m, delete_outbox (\<lambda>q. obx_id q = obx_id r) db)
                   else (Inl ErrInternal, Some m, db))))"

text \<open>
  \<open>runConnection\<close> on one connection: events are delivered until one fails; the list gives
  for every round whether the database answers and what the broker does.
\<close>

fun run_connection :: "(bool \<times> bool \<times> publish_outcome) list \<Rightarrow> db \<Rightarrow> publication list \<times> db" where
  "run_connection [] db = ([], db)"
| "run_connection ((b, c, outcome) # rounds) db =
     (case worker_one b c outcome db of (r, m, db') \<Rightarrow>
       (case r of
          Inl err \<Rightarrow> ((case m of None \<Rightarrow> [] | Some x \<Rightarrow> [x]), db')
        | Inr delivered \<Rightarrow>
            (case run_connection rounds db' of (ms, db2) \<Rightarrow>
              ((case m of None \<Rightarrow> [] | Some x \<Rightarrow> [x]) @ ms, db2))))"

lemmas run_cleanup [run_defs] = stale_auth_def cleanup_tx_def Cleanup_def oldest_event_def routing_key_def
  publication_of_def worker_one_def

end
