(* ===== verification/Auth_Grpc.thy ===== *)
theory Auth_Grpc
  imports Auth_Attempt Auth_Sessions Auth_Totp Auth_Mail Auth_Passkeys Auth_Cleanup
begin

section \<open>The gRPC service\<close>

text \<open>
  \<open>internal/transport/authenticationgrpc/server.go\<close>: every remote procedure reads the request,
  calls one operation of the engine and turns its result or error into the response or a
  status. A response record has the fields of the protobuf message, identifiers as text and
  instants as instants. A procedure is a function of the server, the environment, the
  request and the database; the one that uses the limiter also takes the limiter.
\<close>

subsection \<open>Statuses\<close>

datatype codes =
    NotFound | Unauthenticated | InvalidArgument | PermissionDenied | FailedPrecondition
  | ResourceExhausted | Unavailable | Internal | RpcCanceled | DeadlineExceeded

type_synonym rpc_error = "codes \<times> string"

text \<open>The text of the sentinel errors of \<open>types.go\<close>.\<close>

fun Error :: "error \<Rightarrow> string" where
  "Error ErrAccountExists = ''account_exists''"
| "Error ErrNotFound = ''not_found''"
| "Error ErrSession = ''invalid_session''"
| "Error ErrInvalid = ''invalid_request''"
| "Error ErrUnauthorized = ''invalid_flow_token''"
| "Error ErrCredentials = ''invalid_credentials''"
| "Error ErrConflict = ''conflict''"
| "Error ErrForbidden = ''insufficient_authentication''"
| "Error ErrUnavailable = ''method_unavailable''"
| "Error ErrAttempts = ''too_many_attempts''"
| "Error NoRows = ''sql: no rows in result set''"
| "Error UniqueViolation = ''duplicate key value violates unique constraint''"
| "Error ErrInternal = ''internal''"

definition rpcError :: "codes \<Rightarrow> string \<Rightarrow> rpc_error" where
  "rpcError code reason = (code, reason)"

definition failure :: "error \<Rightarrow> rpc_error" where
  "failure err =
     (if err = ErrNotFound then rpcError NotFound (Error err)
      else if err = ErrSession then rpcError Unauthenticated (Error err)
      else if err = ErrInvalid then rpcError InvalidArgument (Error err)
      else if err = ErrUnauthorized then rpcError NotFound (Error err)
      else if err = ErrCredentials then rpcError InvalidArgument (Error err)
      else if err = ErrForbidden then rpcError PermissionDenied (Error err)
      else if err = ErrConflict \<or> err = ErrAccountExists then rpcError FailedPrecondition (Error err)
      else if err = ErrAttempts then rpcError ResourceExhausted (Error err)
      else if err = ErrUnavailable then rpcError Unavailable (Error err)
      else rpcError Internal ''authentication operation failed'')"

definition answer :: "('a \<Rightarrow> 'b) \<Rightarrow> (error + 'a) \<times> 's \<Rightarrow> (rpc_error + 'b) \<times> 's" where
  "answer f r = (case r of (Inl err, s) \<Rightarrow> (Inl (failure err), s) | (Inr x, s) \<Rightarrow> (Inr (f x), s))"

subsection \<open>Messages\<close>

record AuthPrincipal =
  apb_AccountId :: string
  apb_SessionId :: int

record FlowContext =
  fpb_AuthenticationId :: string
  fpb_FlowToken :: string
  fpb_Principal :: "AuthPrincipal option"

record SensitiveAction =
  spb_Principal :: "AuthPrincipal option"
  spb_ConfirmationToken :: string

record AuthenticationStep =
  pbs_PublicKeyOptions :: "key_options option"
  pbs_Url :: string
  pbs_Nonce :: string
  pbs_Id :: string
  pbs_Type :: string
  pbs_Status :: status
  pbs_Expiration :: time
  pbs_CodeLength :: nat

record AuthenticationState =
  pba_Id :: string
  pba_Purpose :: string
  pba_Status :: status
  pba_Expiration :: time
  pba_Options :: "string list"
  pba_FlowToken :: string
  pba_ConfirmationToken :: string
  pba_ConfirmationExpiration :: "time option"
  pba_Steps :: "AuthenticationStep list"

record AuthTokens =
  pbt_UserId :: string
  pbt_SessionId :: int
  pbt_AccessToken :: string
  pbt_RefreshToken :: string
  pbt_Expiration :: time
  pbt_Restrictions :: "Restriction list"

text \<open>The proof of a \<open>CompleteAuthenticationStepRequest\<close>, a oneof.\<close>

datatype step_proof =
    PbRegistration string | PbPasswordSetup string | PbGoogle string string string | PbVk string string
  | PbPasskey string | PbPassword string string | PbEmail string | PbTotp string | PbBackupCode string

record AuthPasskey =
  pbk_Id :: string
  pbk_Name :: string
  pbk_Creation :: time
  pbk_LastUse :: "time option"
  pbk_Transports :: "string list"
  pbk_BackupEligible :: bool
  pbk_BackupState :: bool

record PasskeyRegistrationOptions =
  pbo_RequestId :: string
  pbo_PublicKeyOptions :: key_options
  pbo_Expiration :: time

record Server =
  srv_Engine :: engine
  srv_Issuer :: TokenIssuer
  srv_AccessTTL :: duration
  srv_RefreshTTL :: duration
  srv_DeletionDelay :: duration
  srv_PasswordResetURL :: string
  srv_EmailChangeURL :: string

subsection \<open>Reading requests and writing responses\<close>

definition parse_uuid :: "Server \<Rightarrow> string \<Rightarrow> uuid option" where
  "parse_uuid s text = uuid_Parse (lib_uuid (Libs (srv_Engine s))) text"

definition principal :: "Server \<Rightarrow> AuthPrincipal option \<Rightarrow> Principal" where
  "principal s p =
     (case p of
        None \<Rightarrow> \<lparr>who_AccountID = uuid_Nil, who_SessionID = 0\<rparr>
      | Some q \<Rightarrow> \<lparr>who_AccountID = uuid_ParseValue (lib_uuid (Libs (srv_Engine s))) (apb_AccountId q),
                   who_SessionID = apb_SessionId q\<rparr>)"

definition flow_context :: "Server \<Rightarrow> FlowContext option \<Rightarrow> error + uuid \<times> string \<times> Principal" where
  "flow_context s f =
     (case f of
        None \<Rightarrow> Inl ErrInvalid
      | Some q \<Rightarrow> (case parse_uuid s (fpb_AuthenticationId q) of
            None \<Rightarrow> Inl ErrInvalid
          | Some i \<Rightarrow> Inr (i, fpb_FlowToken q, principal s (fpb_Principal q))))"

definition action :: "Server \<Rightarrow> SensitiveAction option \<Rightarrow> Principal \<times> string" where
  "action s a =
     (case a of
        None \<Rightarrow> (\<lparr>who_AccountID = uuid_Nil, who_SessionID = 0\<rparr>, '''')
      | Some q \<Rightarrow> (principal s (spb_Principal q), spb_ConfirmationToken q))"

definition stepOptions :: "string list \<Rightarrow> string list" where
  "stepOptions methods = map StepType methods"

definition challenge_message :: "Server \<Rightarrow> Challenge \<Rightarrow> AuthenticationStep" where
  "challenge_message s c =
     \<lparr>pbs_PublicKeyOptions = chl_PublicKey c, pbs_Url = chl_URL c, pbs_Nonce = chl_Nonce c,
      pbs_Id = e_uuid (srv_Engine s) (chl_ID c), pbs_Type = StepType (chl_Method c),
      pbs_Status = chl_Status c, pbs_Expiration = chl_Expiration c,
      pbs_CodeLength = (if chl_Method c = ''email'' then 6 else 0)\<rparr>"

definition state_message :: "Server \<Rightarrow> Process \<Rightarrow> AuthenticationState" where
  "state_message s p =
     \<lparr>pba_Id = e_uuid (srv_Engine s) (prc_ID p), pba_Purpose = prc_Purpose p, pba_Status = prc_Status p,
      pba_Expiration = prc_Expiration p, pba_Options = stepOptions (prc_Next p),
      pba_FlowToken = prc_FlowToken p, pba_ConfirmationToken = prc_ConfirmationToken p,
      pba_ConfirmationExpiration = prc_ConfirmationExpiration p,
      pba_Steps = map (challenge_message s) (prc_Steps p)\<rparr>"

definition tokens_message :: "Server \<Rightarrow> Tokens \<Rightarrow> AuthTokens" where
  "tokens_message s t =
     \<lparr>pbt_UserId = e_uuid (srv_Engine s) (tkn_UserID t), pbt_SessionId = tkn_SessionID t,
      pbt_AccessToken = tkn_AccessToken t, pbt_RefreshToken = tkn_RefreshToken t,
      pbt_Expiration = tkn_Expiration t, pbt_Restrictions = tkn_Restrictions t\<rparr>"

definition passkey_message :: "Server \<Rightarrow> Passkey \<Rightarrow> AuthPasskey" where
  "passkey_message s p =
     \<lparr>pbk_Id = e_uuid (srv_Engine s) (pky_ID p), pbk_Name = pky_Name p, pbk_Creation = pky_Creation p,
      pbk_LastUse = pky_LastUse p, pbk_Transports = pky_Transports p,
      pbk_BackupEligible = pky_BackupEligible p, pbk_BackupState = pky_BackupState p\<rparr>"

definition proof_of :: "step_proof \<Rightarrow> Proof" where
  "proof_of q =
     (let empty = \<lparr>prf_Email = '''', prf_Name = '''', prf_IDToken = '''', prf_State = '''', prf_Method = '''',
            prf_Login = '''', prf_Password = '''', prf_Code = '''', prf_Credential = ''''\<rparr>
      in case q of
        PbRegistration email \<Rightarrow> empty\<lparr>prf_Method := ''registration'', prf_Email := email\<rparr>
      | PbPasswordSetup password \<Rightarrow> empty\<lparr>prf_Method := ''passwordSetup'', prf_Password := password\<rparr>
      | PbGoogle code st idToken \<Rightarrow>
          empty\<lparr>prf_Method := ''google'', prf_Code := code, prf_State := st, prf_IDToken := idToken\<rparr>
      | PbVk code st \<Rightarrow> empty\<lparr>prf_Method := ''vk'', prf_Code := code, prf_State := st\<rparr>
      | PbPasskey credential \<Rightarrow> empty\<lparr>prf_Method := ''passkey'', prf_Credential := credential\<rparr>
      | PbPassword login password \<Rightarrow>
          empty\<lparr>prf_Method := ''password'', prf_Login := login, prf_Password := password\<rparr>
      | PbEmail code \<Rightarrow> empty\<lparr>prf_Method := ''email'', prf_Code := code\<rparr>
      | PbTotp code \<Rightarrow> empty\<lparr>prf_Method := ''totp'', prf_Code := code\<rparr>
      | PbBackupCode code \<Rightarrow> empty\<lparr>prf_Method := ''backupCode'', prf_Code := code\<rparr>)"

definition validStepType :: "string \<Rightarrow> bool" where
  "validStepType value \<longleftrightarrow> value \<in> set [''registration'', ''passwordSetup'', ''passwordVerification'',
     ''emailVerification'', ''totpVerification'', ''backupCodeVerification'', ''googleVerification'',
     ''vkVerification'', ''passkeyVerification'']"

subsection \<open>Authentication procedures\<close>

definition rpc_CreateAuthentication ::
  "Server \<Rightarrow> env \<Rightarrow> string \<Rightarrow> AuthPrincipal option \<Rightarrow> db \<Rightarrow> (rpc_error + AuthenticationState) \<times> db" where
  "rpc_CreateAuthentication s v purpose p db =
     answer (state_message s) (Start (srv_Engine s) v purpose (principal s p) db)"

definition rpc_GetAuthentication ::
  "Server \<Rightarrow> env \<Rightarrow> FlowContext option \<Rightarrow> db \<Rightarrow> (rpc_error + AuthenticationState) \<times> db" where
  "rpc_GetAuthentication s v f db =
     (case flow_context s f of
        Inl err \<Rightarrow> (Inl (failure err), db)
      | Inr (aid, t, p) \<Rightarrow> answer (state_message s) (Get (srv_Engine s) v aid t p db))"

definition rpc_StartAuthenticationStep ::
  "Server \<Rightarrow> env \<Rightarrow> string \<Rightarrow> FlowContext option \<Rightarrow> string \<Rightarrow> string \<Rightarrow> db \<Rightarrow> (rpc_error + AuthenticationStep) \<times> db" where
  "rpc_StartAuthenticationStep s v kind f credentialType redirect db =
     (if \<not> validStepType kind then (Inl (failure ErrInvalid), db)
      else case flow_context s f of
        Inl err \<Rightarrow> (Inl (failure err), db)
      | Inr (aid, t, p) \<Rightarrow>
          answer (challenge_message s) (CreateChallenge (srv_Engine s) v aid t (StepMethod kind) p
            \<lparr>oop_CredentialType = credentialType, oop_RedirectURI = redirect\<rparr> db))"

definition rpc_GetAuthenticationStep ::
  "Server \<Rightarrow> env \<Rightarrow> FlowContext option \<Rightarrow> string \<Rightarrow> db \<Rightarrow> (rpc_error + AuthenticationStep) \<times> db" where
  "rpc_GetAuthenticationStep s v f stepId db =
     (case flow_context s f of
        Inl err \<Rightarrow> (Inl (failure err), db)
      | Inr (aid, t, p) \<Rightarrow> (case parse_uuid s stepId of
            None \<Rightarrow> (Inl (failure ErrInvalid), db)
          | Some cid \<Rightarrow> answer (challenge_message s) (GetChallenge (srv_Engine s) v aid cid t p db)))"

text \<open>
  Identity providers need three environments, for their three transactions, and what other
  calls do between them; the other methods use the first environment.
\<close>

record provider_calls =
  pcl_v2 :: env
  pcl_v3 :: env
  pcl_between :: "db \<Rightarrow> db"
  pcl_after :: "db \<Rightarrow> db"

definition rpc_CompleteAuthenticationStep ::
  "Server \<Rightarrow> env \<Rightarrow> provider_calls \<Rightarrow> (FlowContext option \<times> string) option \<Rightarrow> step_proof option \<Rightarrow> db \<Rightarrow>
     (rpc_error + AuthenticationStep \<times> AuthenticationState) \<times> db" where
  "rpc_CompleteAuthenticationStep s v calls st q db =
     (case st of
        None \<Rightarrow> (Inl (failure ErrInvalid), db)
      | Some (f, stepId) \<Rightarrow> (case flow_context s f of
            Inl err \<Rightarrow> (Inl (failure err), db)
          | Inr (aid, t, p) \<Rightarrow> (case parse_uuid s stepId of
                None \<Rightarrow> (Inl (failure ErrInvalid), db)
              | Some cid \<Rightarrow> (case q of
                    None \<Rightarrow> (Inl (failure ErrUnavailable), db)
                  | Some pb \<Rightarrow>
                      let proof = proof_of pb in
                      answer (\<lambda>r. (challenge_message s (att_Challenge r), state_message s (att_Authentication r)))
                        (if prf_Method proof = ''google'' \<or> prf_Method proof = ''vk''
                         then AttemptProvider (srv_Engine s) v (pcl_v2 calls) (pcl_v3 calls)
                                (pcl_between calls) (pcl_after calls) aid cid t p proof db
                         else Attempt (srv_Engine s) v aid cid t p proof db)))))"

subsection \<open>Sessions\<close>

definition rpc_CreateSession ::
  "Server \<Rightarrow> env \<Rightarrow> string \<Rightarrow> string \<Rightarrow> string \<Rightarrow> db \<Rightarrow> (rpc_error + AuthTokens) \<times> db" where
  "rpc_CreateSession s v token ip ua db =
     answer (tokens_message s)
       (CreateSession (srv_Engine s) v token ip ua (srv_Issuer s) (srv_AccessTTL s) (srv_RefreshTTL s) db)"

definition rpc_RefreshSession ::
  "Server \<Rightarrow> env \<Rightarrow> int \<Rightarrow> string \<Rightarrow> string \<Rightarrow> string \<Rightarrow> db \<Rightarrow> (rpc_error + AuthTokens) \<times> db" where
  "rpc_RefreshSession s v sid token ip ua db =
     (case Refresh (srv_Engine s) v sid token ip ua (srv_Issuer s) (srv_AccessTTL s) (srv_RefreshTTL s) db of
        (Inl err, db') \<Rightarrow>
          (Inl (if err = ErrCredentials then rpcError InvalidArgument ''invalid_refresh_token'' else failure err), db')
      | (Inr t, db') \<Rightarrow> (Inr (tokens_message s t), db'))"

definition rpc_RevokeSessions ::
  "Server \<Rightarrow> env \<Rightarrow> AuthPrincipal option \<Rightarrow> int option \<Rightarrow> string \<Rightarrow> db \<Rightarrow> (rpc_error + unit) \<times> db" where
  "rpc_RevokeSessions s v p sid refresh db =
     (if refresh \<noteq> '''' then
        (case sid of
           None \<Rightarrow> (Inl (failure ErrInvalid), db)
         | Some i \<Rightarrow> answer id (LogoutRefresh (srv_Engine s) v i refresh db))
      else answer id (RevokeSessions v (principal s p) sid db))"

definition rpc_ValidateSession :: "Server \<Rightarrow> env \<Rightarrow> AuthPrincipal option \<Rightarrow> db \<Rightarrow> (rpc_error + unit) \<times> db" where
  "rpc_ValidateSession s v p db = answer id (ValidateSession v (principal s p) db)"

definition rpc_GetSessions :: "Server \<Rightarrow> env \<Rightarrow> AuthPrincipal option \<Rightarrow> db \<Rightarrow> (rpc_error + Session list) \<times> db" where
  "rpc_GetSessions s v p db = answer id (GetSessions v (principal s p) db)"

subsection \<open>Account procedures\<close>

definition rpc_SetPassword ::
  "Server \<Rightarrow> env \<Rightarrow> SensitiveAction option \<Rightarrow> string \<Rightarrow> db \<Rightarrow> (rpc_error + unit) \<times> db" where
  "rpc_SetPassword s v a password db =
     (case action s a of (p, t) \<Rightarrow> answer id (SetPassword (srv_Engine s) v p t password db))"

definition rpc_SetUsername ::
  "Server \<Rightarrow> env \<Rightarrow> AuthPrincipal option \<Rightarrow> string \<Rightarrow> db \<Rightarrow> (rpc_error + unit) \<times> db" where
  "rpc_SetUsername s v p username db = answer id (SetUsername (srv_Engine s) v (principal s p) username db)"

definition rpc_UsernameAvailability :: "Server \<Rightarrow> env \<Rightarrow> string \<Rightarrow> db \<Rightarrow> (rpc_error + bool) \<times> db" where
  "rpc_UsernameAvailability s v username db = answer id (UsernameAvailable (srv_Engine s) v username db)"

definition rpc_StartPasswordReset :: "Server \<Rightarrow> env \<Rightarrow> string \<Rightarrow> db \<Rightarrow> (rpc_error + unit) \<times> db" where
  "rpc_StartPasswordReset s v email db =
     answer id (StartPasswordReset (srv_Engine s) v email (srv_PasswordResetURL s) db)"

definition rpc_ConfirmPasswordReset :: "Server \<Rightarrow> env \<Rightarrow> string \<Rightarrow> string \<Rightarrow> db \<Rightarrow> (rpc_error + unit) \<times> db" where
  "rpc_ConfirmPasswordReset s v token password db =
     answer id (ConfirmPasswordReset (srv_Engine s) v token password db)"

definition rpc_ChangeEmail ::
  "Server \<Rightarrow> env \<Rightarrow> SensitiveAction option \<Rightarrow> string \<Rightarrow> db \<Rightarrow> (rpc_error + unit) \<times> db" where
  "rpc_ChangeEmail s v a email db =
     (case action s a of (p, t) \<Rightarrow> answer id (ChangeEmail (srv_Engine s) v p t email (srv_EmailChangeURL s) db))"

definition rpc_ConfirmEmail :: "Server \<Rightarrow> env \<Rightarrow> string \<Rightarrow> db \<Rightarrow> (rpc_error + string) \<times> db" where
  "rpc_ConfirmEmail s v token db = answer id (ConfirmEmail (srv_Engine s) v token (srv_EmailChangeURL s) db)"

definition rpc_RequestDeletion ::
  "Server \<Rightarrow> env \<Rightarrow> SensitiveAction option \<Rightarrow> bool \<Rightarrow> db \<Rightarrow> (rpc_error + Deletion) \<times> db" where
  "rpc_RequestDeletion s v a shared db =
     (case action s a of (p, t) \<Rightarrow>
       answer id (RequestDeletion (srv_Engine s) v p t shared (srv_DeletionDelay s) db))"

definition rpc_PatchDeletion ::
  "Server \<Rightarrow> env \<Rightarrow> AuthPrincipal option \<Rightarrow> bool \<Rightarrow> db \<Rightarrow> (rpc_error + Deletion) \<times> db" where
  "rpc_PatchDeletion s v p shared db = answer id (PatchDeletion v (principal s p) shared db)"

definition rpc_CancelDeletion :: "Server \<Rightarrow> env \<Rightarrow> AuthPrincipal option \<Rightarrow> db \<Rightarrow> (rpc_error + unit) \<times> db" where
  "rpc_CancelDeletion s v p db = answer id (CancelDeletion v (principal s p) db)"

subsection \<open>Second factors\<close>

definition rpc_GetTotp :: "Server \<Rightarrow> env \<Rightarrow> AuthPrincipal option \<Rightarrow> db \<Rightarrow> (rpc_error + TotpState) \<times> db" where
  "rpc_GetTotp s v p db = answer id (GetTotp v (principal s p) db)"

definition rpc_StartTotp ::
  "Server \<Rightarrow> env \<Rightarrow> SensitiveAction option \<Rightarrow> db \<Rightarrow> (rpc_error + TotpActivation) \<times> db" where
  "rpc_StartTotp s v a db = (case action s a of (p, t) \<Rightarrow> answer id (StartTotp (srv_Engine s) v p t db))"

definition rpc_ConfirmTotp ::
  "Server \<Rightarrow> env \<Rightarrow> AuthPrincipal option \<Rightarrow> string \<Rightarrow> activationLimiter \<times> db \<Rightarrow>
     (rpc_error + BackupCodes) \<times> activationLimiter \<times> db" where
  "rpc_ConfirmTotp s v p code st = answer id (ConfirmTotp (srv_Engine s) v (principal s p) code st)"

definition rpc_DeleteTotp :: "Server \<Rightarrow> env \<Rightarrow> SensitiveAction option \<Rightarrow> db \<Rightarrow> (rpc_error + unit) \<times> db" where
  "rpc_DeleteTotp s v a db = (case action s a of (p, t) \<Rightarrow> answer id (DeleteTotp (srv_Engine s) v p t db))"

definition rpc_GetBackupCodes :: "Server \<Rightarrow> env \<Rightarrow> AuthPrincipal option \<Rightarrow> db \<Rightarrow> (rpc_error + BackupState) \<times> db" where
  "rpc_GetBackupCodes s v p db = answer id (GetBackupCodes v (principal s p) db)"

definition rpc_RotateBackupCodes ::
  "Server \<Rightarrow> env \<Rightarrow> SensitiveAction option \<Rightarrow> db \<Rightarrow> (rpc_error + BackupCodes) \<times> db" where
  "rpc_RotateBackupCodes s v a db =
     (case action s a of (p, t) \<Rightarrow> answer id (RotateBackupCodes (srv_Engine s) v p t db))"

subsection \<open>Passkeys and identities\<close>

definition rpc_GetPasskeys :: "Server \<Rightarrow> env \<Rightarrow> AuthPrincipal option \<Rightarrow> db \<Rightarrow> (rpc_error + AuthPasskey list) \<times> db" where
  "rpc_GetPasskeys s v p db = answer (map (passkey_message s)) (GetPasskeys v (principal s p) db)"

definition rpc_StartPasskeyRegistration ::
  "Server \<Rightarrow> env \<Rightarrow> SensitiveAction option \<Rightarrow> db \<Rightarrow> (rpc_error + PasskeyRegistrationOptions) \<times> db" where
  "rpc_StartPasskeyRegistration s v a db =
     (case action s a of (p, t) \<Rightarrow>
       answer (\<lambda>r. \<lparr>pbo_RequestId = e_uuid (srv_Engine s) (pkq_ID r), pbo_PublicKeyOptions = pkq_PublicKey r,
                     pbo_Expiration = pkq_Expiration r\<rparr>) (StartPasskey (srv_Engine s) v p t db))"

definition rpc_RegisterPasskey ::
  "Server \<Rightarrow> env \<Rightarrow> AuthPrincipal option \<Rightarrow> string \<Rightarrow> string \<Rightarrow> string \<Rightarrow> db \<Rightarrow> (rpc_error + AuthPasskey) \<times> db" where
  "rpc_RegisterPasskey s v p requestId name credential db =
     (case parse_uuid s requestId of
        None \<Rightarrow> (Inl (failure ErrInvalid), db)
      | Some k \<Rightarrow> answer (passkey_message s)
          (RegisterPasskey (srv_Engine s) v (principal s p) k name credential db))"

definition rpc_RenamePasskey ::
  "Server \<Rightarrow> env \<Rightarrow> AuthPrincipal option \<Rightarrow> string \<Rightarrow> string \<Rightarrow> db \<Rightarrow> (rpc_error + AuthPasskey) \<times> db" where
  "rpc_RenamePasskey s v p text name db =
     (case parse_uuid s text of
        None \<Rightarrow> (Inl (failure ErrInvalid), db)
      | Some k \<Rightarrow> answer (passkey_message s) (RenamePasskey v (principal s p) k name db))"

definition rpc_DeletePasskey ::
  "Server \<Rightarrow> env \<Rightarrow> SensitiveAction option \<Rightarrow> string \<Rightarrow> db \<Rightarrow> (rpc_error + unit) \<times> db" where
  "rpc_DeletePasskey s v a text db =
     (case parse_uuid s text of
        None \<Rightarrow> (Inl (failure ErrInvalid), db)
      | Some k \<Rightarrow> (case action s a of (p, t) \<Rightarrow> answer id (DeletePasskey (srv_Engine s) v p t k db)))"

definition rpc_GetIdentities :: "Server \<Rightarrow> env \<Rightarrow> AuthPrincipal option \<Rightarrow> db \<Rightarrow> (rpc_error + Identity list) \<times> db" where
  "rpc_GetIdentities s v p db = answer id (GetIdentities v (principal s p) db)"

definition rpc_PrepareIdentityOAuth ::
  "Server \<Rightarrow> env \<Rightarrow> AuthPrincipal option \<Rightarrow> string \<Rightarrow> string \<Rightarrow> db \<Rightarrow> (rpc_error + PreparedOAuth) \<times> db" where
  "rpc_PrepareIdentityOAuth s v p provider redirect db =
     answer id (PrepareIdentityOAuth (srv_Engine s) v (principal s p) provider redirect db)"

definition rpc_LinkIdentity ::
  "Server \<Rightarrow> env \<Rightarrow> provider_calls \<Rightarrow> SensitiveAction option \<Rightarrow> string \<Rightarrow> string \<Rightarrow> string \<Rightarrow> db \<Rightarrow> (rpc_error + bool) \<times> db" where
  "rpc_LinkIdentity s v calls a provider code st db =
     (case action s a of (p, t) \<Rightarrow>
       answer id (LinkIdentity (srv_Engine s) v (pcl_v2 calls) (pcl_between calls) p t provider code st db))"

definition rpc_UnlinkIdentity ::
  "Server \<Rightarrow> env \<Rightarrow> SensitiveAction option \<Rightarrow> string \<Rightarrow> db \<Rightarrow> (rpc_error + unit) \<times> db" where
  "rpc_UnlinkIdentity s v a provider db =
     (case action s a of (p, t) \<Rightarrow> answer id (UnlinkIdentity (srv_Engine s) v p t provider db))"

lemmas run_grpc [run_defs] = rpcError_def failure_def answer_def parse_uuid_def principal_def flow_context_def
  action_def stepOptions_def challenge_message_def state_message_def tokens_message_def passkey_message_def
  proof_of_def validStepType_def rpc_CreateAuthentication_def rpc_GetAuthentication_def
  rpc_StartAuthenticationStep_def rpc_GetAuthenticationStep_def rpc_CompleteAuthenticationStep_def
  rpc_CreateSession_def rpc_RefreshSession_def rpc_RevokeSessions_def rpc_ValidateSession_def
  rpc_GetSessions_def rpc_SetPassword_def rpc_SetUsername_def rpc_UsernameAvailability_def
  rpc_StartPasswordReset_def rpc_ConfirmPasswordReset_def rpc_ChangeEmail_def rpc_ConfirmEmail_def
  rpc_RequestDeletion_def rpc_PatchDeletion_def rpc_CancelDeletion_def rpc_GetTotp_def rpc_StartTotp_def
  rpc_ConfirmTotp_def rpc_DeleteTotp_def rpc_GetBackupCodes_def rpc_RotateBackupCodes_def rpc_GetPasskeys_def
  rpc_StartPasskeyRegistration_def rpc_RegisterPasskey_def rpc_RenamePasskey_def rpc_DeletePasskey_def
  rpc_GetIdentities_def rpc_PrepareIdentityOAuth_def rpc_LinkIdentity_def rpc_UnlinkIdentity_def

end
