(* ===== verification/Auth_Invariant.thy ===== *)
theory Auth_Invariant
  imports Auth_Grpc
begin

section \<open>What every operation keeps\<close>

text \<open>
  A predicate on databases that every statement of the engine keeps is kept by every
  transaction body, hence by every operation. The locale \<open>statement_closed\<close> is that
  contract: one assumption per kind of statement, with what the program guarantees about
  the statement's arguments (a stored hash is that of a token drawn in this call, an
  accepted TOTP step is not negative, a key column is not changed). Inside the locale the
  bodies are treated once, by the rules of the transaction monad. The interpretation for the
  constraints of the schema (\<open>wf_db\<close>) is at the end; \<open>Auth_Origin\<close> has the one for the
  origin of stored secrets.
\<close>

named_theorems stmts \<open>statements that keep the predicate\<close>
named_theorems ops \<open>transaction bodies that keep the predicate\<close>

text \<open>A hash of kind \<open>kind\<close> of a token drawn in the environment of the call.\<close>

definition drawn :: "engine \<Rightarrow> env \<Rightarrow> string \<Rightarrow> string \<Rightarrow> bool" where
  "drawn e v kind h \<longleftrightarrow> (\<exists>i context token. draw_token v i = Inr token \<and> h = e_hash e kind context token)"

lemma drawnI: "draw_token v i = Inr token \<Longrightarrow> drawn e v kind (e_hash e kind context token)"
  by (auto simp: drawn_def)

locale statement_closed =
  fixes P :: "db \<Rightarrow> bool" and e :: engine and v :: env
  assumes keep_insert_auth: "aut_grant r = None \<Longrightarrow> drawn e v ''flow'' (aut_flow r) \<Longrightarrow>
      aut_id r = ev_uuid v 0 \<Longrightarrow> aut_status r = Pending \<Longrightarrow> aut_failed r = 0 \<Longrightarrow> keeps P (tx_stmt (insert_auth r))"
    and keep_complete: "drawn e v ''grant'' h \<Longrightarrow> keeps P (tx_stmt (complete_auth aid account now h x))"
    and keep_set_account: "keeps P (tx_stmt (set_account aid account))"
    and keep_update_auths: "keeps P (tx_exec (update_auths Q clear_grant))"
      "keeps P (tx_exec (update_auths Q fail_process))" "keeps P (tx_exec (update_auths Q (fail_auth (MaxAttempts e))))"
      "keeps P (tx_exec (update_auths Q (invalidate_row now)))"
    and keep_update_steps: "keeps P (tx_exec (update_steps Q2 cancel_step))"
      "keeps P (tx_exec (update_steps Q2 (fail_step (MaxAttempts e))))" "keeps P (tx_exec (update_steps Q2 (complete_step now)))"
    and keep_insert_step: "keeps P (tx_stmt (insert_step r1))"
    and keep_insert_email_step: "keeps P (tx_stmt (insert_email_step r2))"
    and keep_insert_passkey_step: "keeps P (tx_stmt (insert_passkey_step r3))"
    and keep_insert_google_step: "keeps P (tx_stmt (insert_google_step r4))"
    and keep_insert_oauth_request: "drawn e v ''state'' (oar_state r5) \<Longrightarrow> keeps P (tx_stmt (insert_oauth_request r5))"
    and keep_insert_registration: "keeps P (tx_stmt (insert_registration r6))"
    and keep_update_registrations: "(\<And>r. reg_auth (f6 r) = reg_auth r) \<Longrightarrow> keeps P (tx_exec (update_registrations Q6 f6))"
    and keep_insert_account: "acc_username r7 = None \<Longrightarrow> keeps P (tx_stmt (insert_account r7))"
    and keep_insert_outbox: "routing_key (obx_exchange r8) \<noteq> None \<Longrightarrow> keeps P (tx_stmt (insert_outbox r8))"
    and keep_update_totp: "0 \<le> st \<Longrightarrow> keeps P (tx_exec (update_totp Q9 (\<lambda>q. q\<lparr>ttp_last := st\<rparr>)))"
    and keep_insert_totp: "keeps P (tx_stmt (insert_totp r10))"
    and keep_upsert_totp_request: "keeps P (tx_stmt (upsert_totp_request r11))"
    and keep_insert_backup: "drawn e v ''backup'' (bkp_code r12) \<Longrightarrow> keeps P (tx_stmt (insert_backup r12))"
    and keep_insert_session: "(\<And>i. drawn e v ''refresh'' (ses_refresh (mk i))) \<Longrightarrow> keeps P (insert_session mk)"
    and keep_update_session: "(\<And>r. ses_id (f13 r) = ses_id r) \<Longrightarrow> (\<And>r. ses_account (f13 r) = ses_account r) \<Longrightarrow>
      (\<And>r. drawn e v ''refresh'' (ses_refresh (f13 r))) \<Longrightarrow> keeps P (tx_stmt (update_session_key i13 f13))"
    and keep_set_hash: "keeps P (tx_exec (update_accounts Q14 (set_hash v h14)))"
    and keep_account_key: "(\<And>r. acc_id (f15 r) = acc_id r) \<Longrightarrow>
      (\<And>r. acc_username (f15 r) = acc_username r \<or> (\<exists>n. acc_username (f15 r) = Some n \<and> validUsername e n)) \<Longrightarrow>
      keeps P (tx_stmt (update_account_key a15 Q15 f15))"
    and keep_upsert_deletion: "keeps P (upsert_deletion r16 now16)"
    and keep_update_deletions: "(\<And>r. del_account (f17 r) = del_account r) \<Longrightarrow> keeps P (tx_exec (update_deletions Q17 f17))"
    and keep_upsert_reset: "drawn e v ''reset'' (rst_token r18) \<Longrightarrow> keeps P (tx_stmt (upsert_reset r18))"
    and keep_insert_email_change: "drawn e v ''email-change'' (emc_token r19) \<Longrightarrow> keeps P (tx_stmt (insert_email_change r19))"
    and keep_update_email_change: "(\<And>r. emc_account (f20 r) = emc_account r) \<Longrightarrow>
      (\<And>r. drawn e v ''email-change'' (emc_token (f20 r))) \<Longrightarrow> keeps P (tx_stmt (update_email_change a20 f20))"
    and keep_insert_identity: "keeps P (tx_stmt (insert_identity r21))"
    and keep_insert_passkey: "keeps P (tx_stmt (insert_passkey r22))"
    and keep_insert_transport: "keeps P (tx_stmt (insert_transport r23))"
    and keep_insert_passkey_request: "keeps P (tx_stmt (insert_passkey_request r24))"
    and keep_update_passkeys: "(\<And>r. psk_id (f25 r) = psk_id r) \<Longrightarrow> (\<And>r. psk_account (f25 r) = psk_account r) \<Longrightarrow>
      (\<And>r. psk_credential (f25 r) = psk_credential r) \<Longrightarrow> keeps P (tx_stmt (update_passkeys Q25 f25))"
    and keep_deletes: "keeps P (tx_exec (delete_identities D1))" "keeps P (tx_exec (delete_registrations D2))"
      "keeps P (tx_exec (delete_oauth_requests D3))" "keeps P (tx_exec (delete_email_changes D4))"
      "keeps P (tx_exec (delete_resets D5))" "keeps P (tx_exec (delete_deletions D6))"
      "keeps P (tx_exec (delete_totp D7))" "keeps P (tx_exec (delete_totp_requests D8))"
      "keeps P (tx_exec (delete_passkey_requests D9))" "keeps P (tx_exec (delete_backups D10))"
      "keeps P (tx_exec (delete_passkeys D11))" "keeps P (tx_exec (delete_auths D12))"
      "keeps P (tx_exec (delete_sessions D13))" "keeps P (tx_exec (delete_accounts D14))"
begin

lemmas statement_rules [stmts] = keep_insert_auth keep_complete keep_set_account keep_update_auths
  keep_update_steps keep_insert_step keep_insert_email_step keep_insert_passkey_step keep_insert_google_step
  keep_insert_oauth_request keep_insert_registration keep_update_registrations keep_insert_account
  keep_insert_outbox keep_update_totp keep_insert_totp keep_upsert_totp_request keep_insert_backup
  keep_insert_session keep_update_session keep_set_hash keep_account_key keep_upsert_deletion
  keep_update_deletions keep_upsert_reset keep_insert_email_change keep_update_email_change
  keep_insert_identity keep_insert_passkey keep_insert_transport keep_insert_passkey_request
  keep_update_passkeys keep_deletes

lemma keep_checkRecoveryPrincipal [ops]: "keeps P (checkRecoveryPrincipal v p)"
  unfolding checkRecoveryPrincipal_def by (intro triples)

lemma keep_checkPrincipal [ops]: "keeps P (checkPrincipal v p)"
  unfolding checkPrincipal_def by (intro triples ops)

lemma keep_checkPurposePrincipal [ops]: "keeps P (checkPurposePrincipal v p purpose)"
  unfolding checkPurposePrincipal_def by (intro triples ops)

lemma keep_load [ops]: "keeps P (load e v aid flow who)"
  unfolding load_def by (intro triples ops)

lemma keep_loadChallenge [ops]: "keeps P (loadChallenge cid aid)"
  unfolding loadChallenge_def by (intro triples)

lemma keep_invalidate [ops]: "keeps P (invalidate v account)"
  unfolding invalidate_def by (intro stmts)

lemma keep_cancelAlternatives [ops]: "keeps P (cancelAlternatives a b)"
  unfolding cancelAlternatives_def by (intro stmts)

lemma keep_ConsumeGrant [ops]: "keeps P (ConsumeGrant e v t p w)"
  unfolding ConsumeGrant_def by (intro triples ops stmts)

lemma keep_complete_tx [ops]: "keeps P (complete e v i p)"
  unfolding complete_def by (intro triples ops stmts) (auto intro: drawnI)

lemma keep_start_tx [ops]: "draw_token v 0 = Inr flow \<Longrightarrow> keeps P (start_tx e v purpose who flow)"
  unfolding start_tx_def
  by (intro triples ops stmts) (auto intro: drawnI simp: start_row_def)

lemma keep_failRegistration [ops]: "keeps P (failRegistration aid reason)"
  unfolding failRegistration_def by (intro triples ops stmts) (auto intro: drawnI)

lemma keep_queue_event [ops]: "routing_key x \<noteq> None \<Longrightarrow> keeps P (queue_event v i x k b)"
  unfolding queue_event_def by (intro triples ops stmts) simp

lemma keep_queueMail [ops]: "keeps P (queueMail v i m)"
  unfolding queueMail_def by (intro triples ops stmts) (simp add: routing_key_def)

lemma keep_QueueCode [ops]: "keeps P (QueueCode v i to code expiry)"
  unfolding QueueCode_def by (intro triples ops stmts)

lemma keep_notifyAccount [ops]: "keeps P (notifyAccount v i account m)"
  unfolding notifyAccount_def by (intro triples ops stmts)

lemma keep_createOAuthChallenge [ops]: "keeps P (createOAuthChallenge e v p c flow opts)"
  unfolding createOAuthChallenge_def by (intro triples ops stmts) (auto intro: drawnI)

lemma keep_passkey_challenge [ops]: "keeps P (passkey_challenge e v c)"
  unfolding passkey_challenge_def by (intro triples ops stmts)

lemma keep_email_challenge [ops]: "keeps P (email_challenge e v aid c)"
  unfolding email_challenge_def by (intro triples ops stmts)

lemma keep_create_challenge_tx [ops]: "keeps P (create_challenge_tx e v aid flow method who opts)"
  unfolding create_challenge_tx_def by (intro triples ops stmts)

lemma keep_verifyPasskey [ops]: "keeps P (verifyPasskey e v p c proof)"
  unfolding verifyPasskey_def by (intro triples ops stmts) (auto intro: drawnI)

lemma keep_verify_registration [ops]: "keeps P (verify_registration e p proof)"
  unfolding verify_registration_def by (intro triples ops stmts)

lemma keep_verify_passwordSetup [ops]: "keeps P (verify_passwordSetup e v p proof)"
  unfolding verify_passwordSetup_def by (intro triples ops stmts) (auto intro: drawnI)

lemma keep_verify_password [ops]: "keeps P (verify_password e p proof)"
  unfolding verify_password_def by (intro triples ops stmts)

lemma keep_verify_email [ops]: "keeps P (verify_email e p c proof)"
  unfolding verify_email_def by (intro triples ops stmts)

lemma keep_verify_totp [ops]: "keeps P (verify_totp e v p proof)"
  unfolding verify_totp_def by (intro triples ops stmts) (auto dest: totpStep_Some)

lemma keep_verify_backupCode [ops]: "keeps P (verify_backupCode e p proof)"
  unfolding verify_backupCode_def by (intro triples ops stmts)

lemma keep_verify [ops]: "keeps P (verify e v p c proof)"
  unfolding verify_def by (intro triples ops stmts)

lemma keep_register [ops]: "keeps P (register e v p)"
  unfolding register_def by (intro triples ops stmts) (simp_all add: routing_key_def new_account_def)

lemma keep_count_failure [ops]: "keeps P (count_failure e aid cid p)"
  unfolding count_failure_def by (intro triples ops stmts)

lemma keep_attempt_answer [ops]: "keeps P (attempt_answer e v c p)"
  unfolding attempt_answer_def by (intro triples ops stmts)

lemma keep_continue_signUp [ops]: "keeps P (continue_signUp e v p c)"
  unfolding continue_signUp_def by (intro triples ops stmts)

lemma keep_after_signUp [ops]: "keeps P (after_signUp e v p c)"
  unfolding after_signUp_def by (intro triples ops stmts)

lemma keep_after_step [ops]: "keeps P (after_step e v p c)"
  unfolding after_step_def by (intro triples ops stmts)

lemma keep_record_success [ops]: "keeps P (record_success e v cid c p)"
  unfolding record_success_def by (intro triples ops stmts)

lemma keep_judge_proof [ops]: "keeps P (judge_proof e v aid cid p c proof)"
  unfolding judge_proof_def by (intro triples ops stmts)

lemma keep_attempt_tx [ops]: "keeps P (attempt_tx e v aid cid flow who proof)"
  unfolding attempt_tx_def by (intro triples ops stmts)

lemma keep_provider_begin_tx [ops]: "keeps P (provider_begin_tx e v aid cid flow who proof)"
  unfolding provider_begin_tx_def by (intro triples ops stmts)

lemma keep_provider_finish_tx [ops]: "keeps P (provider_finish_tx e v aid cid flow who proof identity)"
  unfolding provider_finish_tx_def by (intro triples ops stmts)

lemma keep_provider_failure_tx [ops]: "keeps P (provider_failure_tx e v aid cid flow who)"
  unfolding provider_failure_tx_def by (intro triples ops stmts)

lemma keep_issue [ops]: "keeps P (issue v account sid refresh expiry issuer accessTTL)"
  unfolding issue_def by (intro triples ops stmts)

lemma keep_create_session_tx [ops]: "keeps P (create_session_tx e v grant ip ua issuer accessTTL refreshTTL)"
  unfolding create_session_tx_def by (intro triples ops stmts) (auto intro: drawnI)

lemma keep_refresh_tx [ops]: "keeps P (refresh_tx e v sid refresh ip ua issuer accessTTL refreshTTL)"
  unfolding refresh_tx_def by (intro triples ops stmts) (auto intro: drawnI)

lemma keep_checkSession [ops]: "keeps P (checkSession v p)"
  unfolding checkSession_def by (intro triples ops stmts)

lemma keep_revoke_sessions_tx [ops]: "keeps P (revoke_sessions_tx v who sid)"
  unfolding revoke_sessions_tx_def by (intro triples ops stmts)

lemma keep_logout_refresh_tx [ops]: "keeps P (logout_refresh_tx e sid refresh)"
  unfolding logout_refresh_tx_def by (intro triples ops stmts)

lemma keep_start_totp_tx [ops]: "keeps P (start_totp_tx e v who grant)"
  unfolding start_totp_tx_def by (intro triples ops stmts)

lemma keep_insert_codes [ops]: "keeps P (insert_codes e v account i n)"
proof (induction n arbitrary: i)
  case 0
  show ?case by (simp, intro triples)
next
  case (Suc n)
  show ?case by (simp, intro triples stmts Suc) (auto intro: drawnI)
qed

lemma keep_replaceBackupCodes [ops]: "keeps P (replaceBackupCodes e v who)"
  unfolding replaceBackupCodes_def by (intro triples ops stmts)

lemma keep_confirm_totp_tx [ops]: "keeps P (confirm_totp_tx e v who code)"
  unfolding confirm_totp_tx_def by (intro triples ops stmts)

lemma keep_delete_totp_tx [ops]: "keeps P (delete_totp_tx e v who grant)"
  unfolding delete_totp_tx_def by (intro triples ops stmts)

lemma keep_rotate_backup_tx [ops]: "keeps P (rotate_backup_tx e v who grant)"
  unfolding rotate_backup_tx_def by (intro triples ops stmts)

lemma keep_change_password [ops]: "keeps P (change_password v account h)"
  unfolding change_password_def by (intro triples ops stmts)

lemma keep_set_password_tx [ops]: "keeps P (set_password_tx e v who grant password h)"
  unfolding set_password_tx_def by (intro triples ops stmts)

lemma keep_set_username_tx [ops]: "validUsername e name \<Longrightarrow> keeps P (set_username_tx v who name)"
  unfolding set_username_tx_def by (intro triples ops stmts) (auto intro: drawnI)

lemma keep_request_deletion_tx [ops]: "keeps P (request_deletion_tx e v who grant shared delay)"
  unfolding request_deletion_tx_def by (intro triples ops stmts)

lemma keep_patch_deletion_tx [ops]: "keeps P (patch_deletion_tx v who shared)"
  unfolding patch_deletion_tx_def by (intro triples ops stmts) (auto intro: drawnI)

lemma keep_cancel_deletion_tx [ops]: "keeps P (cancel_deletion_tx v who)"
  unfolding cancel_deletion_tx_def by (intro triples ops stmts)

lemma keep_delete_due_tx [ops]: "keeps P (delete_due_tx v d)"
  unfolding delete_due_tx_def by (intro triples ops stmts) (simp add: routing_key_def)

lemma keep_cleanup_tx [ops]: "keeps P (cleanup_tx e v)"
  unfolding cleanup_tx_def by (intro triples ops stmts)

lemma keep_reset_tx [ops]: "keeps P (reset_tx e v account email baseURL)"
  unfolding reset_tx_def by (intro triples ops stmts) (auto intro: drawnI)

lemma keep_confirm_reset_tx [ops]: "keeps P (confirm_reset_tx e v token h)"
  unfolding confirm_reset_tx_def by (intro triples ops stmts)

lemma keep_change_email_tx [ops]: "keeps P (change_email_tx e v who grant email baseURL)"
  unfolding change_email_tx_def by (intro triples ops stmts) (auto intro: drawnI)

lemma keep_confirm_previous_tx [ops]: "keeps P (confirm_previous_tx e v r baseURL)"
  unfolding confirm_previous_tx_def by (intro triples ops stmts) (auto intro: drawnI)

lemma keep_confirm_new_tx [ops]: "keeps P (confirm_new_tx v r)"
  unfolding confirm_new_tx_def by (intro triples ops stmts) (auto intro: drawnI)

lemma keep_confirm_email_tx [ops]: "keeps P (confirm_email_tx e v token baseURL)"
  unfolding confirm_email_tx_def by (intro triples ops stmts)

lemma keep_prepare_oauth_tx [ops]: "keeps P (prepare_oauth_tx e v who provider adapter redirect)"
  unfolding prepare_oauth_tx_def by (intro triples ops stmts) (auto intro: drawnI)

lemma keep_link_begin_tx [ops]: "keeps P (link_begin_tx e v who provider state)"
  unfolding link_begin_tx_def by (intro triples ops stmts)

lemma keep_link_finish_tx [ops]: "keeps P (link_finish_tx e v who grant provider identity)"
  unfolding link_finish_tx_def by (intro triples ops stmts)

lemma keep_unlink_tx [ops]: "keeps P (unlink_tx e v who grant provider)"
  unfolding unlink_tx_def by (intro triples ops stmts)

lemma keep_start_passkey_tx [ops]: "keeps P (start_passkey_tx e v pk who grant)"
  unfolding start_passkey_tx_def by (intro triples ops stmts)

lemma keep_insert_transports [ops]: "keeps P (insert_transports k ts)"
proof (induction ts)
  case Nil
  show ?case by (simp, intro triples)
next
  case (Cons t ts)
  show ?case by (simp, intro triples stmts Cons)
qed

lemma keep_register_passkey_tx [ops]: "keeps P (register_passkey_tx e v pk who k name response)"
  unfolding register_passkey_tx_def by (intro triples ops stmts)

lemma keep_rename_passkey_tx [ops]: "keeps P (rename_passkey_tx v who k name)"
  unfolding rename_passkey_tx_def by (intro triples ops stmts) (auto intro: drawnI)

lemma keep_delete_passkey_tx [ops]: "keeps P (delete_passkey_tx e v who grant k)"
  unfolding delete_passkey_tx_def by (intro triples ops stmts)

end

text \<open>Only the worker deletes from the outbox; a predicate may hold up to its deliveries.\<close>

locale step_closed = statement_closed +
  assumes keep_delete_outbox: "keeps P (tx_exec (delete_outbox D15))"

subsection \<open>The constraints of the schema\<close>

lemma auth_update_rows_wf:
  "keeps wf_db (tx_exec (update_auths Q clear_grant))" "keeps wf_db (tx_exec (update_auths Q fail_process))"
  "keeps wf_db (tx_exec (update_auths Q (fail_auth limit)))" "keeps wf_db (tx_exec (update_auths Q (invalidate_row now)))"
  by (rule update_auths_triple;
      auto simp: clear_grant_def fail_process_def fail_auth_def invalidate_row_def auth_check_def)+

lemma step_update_rows_wf:
  "keeps wf_db (tx_exec (update_steps Q cancel_step))" "keeps wf_db (tx_exec (update_steps Q (fail_step limit)))"
  "keeps wf_db (tx_exec (update_steps Q (complete_step now)))"
  by (rule update_steps_triple; auto simp: cancel_step_def fail_step_def complete_step_def step_check_def)+

interpretation wf: step_closed wf_db e v for e v
  by unfold_locales
    (intro auth_update_rows_wf step_update_rows_wf wf_triples; simp add: set_hash_def totp_check_def)+

end
