(* ===== verification/Auth_Origin.thy ===== *)
theory Auth_Origin
  imports Auth_Invariant
begin

section \<open>Where stored secrets come from\<close>

text \<open>
  The hashes the database holds, each with its kind, and the predicate that they are among
  a given set or are hashes of tokens drawn in the current call. Every statement of the
  engine keeps that predicate, so no operation brings back a hash that an earlier one has
  removed, unless it draws the same token again.
\<close>

definition auth_secrets :: "auth_row \<Rightarrow> (string \<times> string) set" where
  "auth_secrets r = insert (''flow'', aut_flow r) (Pair ''grant'' ` set_option (aut_grant r))"

definition stored :: "db \<Rightarrow> (string \<times> string) set" where
  "stored s = (\<Union>r \<in> set (authentications s). auth_secrets r) \<union>
     (\<lambda>r. (''refresh'', ses_refresh r)) ` set (sessions s) \<union>
     (\<lambda>r. (''reset'', rst_token r)) ` set (password_reset_requests s) \<union>
     (\<lambda>r. (''email-change'', emc_token r)) ` set (email_change_requests s) \<union>
     (\<lambda>r. (''state'', oar_state r)) ` set (oauth_requests s) \<union>
     (\<lambda>r. (''backup'', bkp_code r)) ` set (backup_codes s)"

definition allowed :: "(string \<times> string) set \<Rightarrow> engine \<Rightarrow> env \<Rightarrow> (string \<times> string) set" where
  "allowed G e v = G \<union> {(k, h). drawn e v k h}"

definition stored_from :: "(string \<times> string) set \<Rightarrow> engine \<Rightarrow> env \<Rightarrow> db \<Rightarrow> bool" where
  "stored_from G e v s \<longleftrightarrow> stored s \<subseteq> allowed G e v"

lemma stored_from_mono: "stored_from G e v s \<Longrightarrow> stored t \<subseteq> stored s \<Longrightarrow> stored_from G e v t"
  unfolding stored_from_def by blast

lemma stored_frame [simp]:
  "stored (s\<lparr>accounts := x1\<rparr>) = stored s" "stored (s\<lparr>identities := x2\<rparr>) = stored s"
  "stored (s\<lparr>next_session := x3\<rparr>) = stored s" "stored (s\<lparr>registrations := x4\<rparr>) = stored s"
  "stored (s\<lparr>authentication_steps := x5\<rparr>) = stored s"
  "stored (s\<lparr>email_authentication_steps := x6\<rparr>) = stored s"
  "stored (s\<lparr>passkey_authentication_steps := x7\<rparr>) = stored s"
  "stored (s\<lparr>google_authentication_steps := x8\<rparr>) = stored s"
  "stored (s\<lparr>account_deletion_requests := x9\<rparr>) = stored s" "stored (s\<lparr>totp := x10\<rparr>) = stored s"
  "stored (s\<lparr>totp_activation_requests := x11\<rparr>) = stored s" "stored (s\<lparr>passkeys := x12\<rparr>) = stored s"
  "stored (s\<lparr>passkey_transports := x13\<rparr>) = stored s"
  "stored (s\<lparr>passkey_registration_requests := x14\<rparr>) = stored s" "stored (s\<lparr>outbox := x15\<rparr>) = stored s"
  by (simp_all add: stored_def)

text \<open>A table with secrets may be replaced by one whose secrets are allowed.\<close>

lemma stored_from_table:
  assumes "stored_from G e v s"
  shows "\<forall>r \<in> set x1. auth_secrets r \<subseteq> allowed G e v \<Longrightarrow> stored_from G e v (s\<lparr>authentications := x1\<rparr>)"
    "\<forall>r \<in> set x2. (''refresh'', ses_refresh r) \<in> allowed G e v \<Longrightarrow> stored_from G e v (s\<lparr>sessions := x2\<rparr>)"
    "\<forall>r \<in> set x3. (''reset'', rst_token r) \<in> allowed G e v \<Longrightarrow> stored_from G e v (s\<lparr>password_reset_requests := x3\<rparr>)"
    "\<forall>r \<in> set x4. (''email-change'', emc_token r) \<in> allowed G e v \<Longrightarrow> stored_from G e v (s\<lparr>email_change_requests := x4\<rparr>)"
    "\<forall>r \<in> set x5. (''state'', oar_state r) \<in> allowed G e v \<Longrightarrow> stored_from G e v (s\<lparr>oauth_requests := x5\<rparr>)"
    "\<forall>r \<in> set x6. (''backup'', bkp_code r) \<in> allowed G e v \<Longrightarrow> stored_from G e v (s\<lparr>backup_codes := x6\<rparr>)"
  using assms by (simp_all add: stored_from_def stored_def UN_subset_iff image_subset_iff)

lemma stored_from_rows:
  assumes "stored_from G e v s"
  shows "(\<forall>r \<in> set (authentications s). auth_secrets r \<subseteq> allowed G e v) \<and>
    (\<forall>r \<in> set (sessions s). (''refresh'', ses_refresh r) \<in> allowed G e v) \<and>
    (\<forall>r \<in> set (password_reset_requests s). (''reset'', rst_token r) \<in> allowed G e v) \<and>
    (\<forall>r \<in> set (email_change_requests s). (''email-change'', emc_token r) \<in> allowed G e v) \<and>
    (\<forall>r \<in> set (oauth_requests s). (''state'', oar_state r) \<in> allowed G e v) \<and>
    (\<forall>r \<in> set (backup_codes s). (''backup'', bkp_code r) \<in> allowed G e v)"
  using assms by (simp add: stored_from_def stored_def UN_subset_iff image_subset_iff)

lemma allowed_drawn: "drawn e v k h \<Longrightarrow> (k, h) \<in> allowed G e v"
  by (simp add: allowed_def)

subsection \<open>Deletions, with their cascades\<close>

lemma stored_mono:
  assumes "set (authentications t) \<subseteq> set (authentications s)" "set (sessions t) \<subseteq> set (sessions s)"
    and "set (password_reset_requests t) \<subseteq> set (password_reset_requests s)"
    and "set (email_change_requests t) \<subseteq> set (email_change_requests s)"
    and "set (oauth_requests t) \<subseteq> set (oauth_requests s)" "set (backup_codes t) \<subseteq> set (backup_codes s)"
  shows "stored t \<subseteq> stored s"
  unfolding stored_def using assms by (intro Un_mono image_mono UN_mono) simp_all

lemma stored_delete:
  "stored (delete_identities D1 s) \<subseteq> stored s" "stored (delete_registrations D2 s) \<subseteq> stored s"
  "stored (delete_oauth_requests D3 s) \<subseteq> stored s" "stored (delete_email_changes D4 s) \<subseteq> stored s"
  "stored (delete_resets D5 s) \<subseteq> stored s" "stored (delete_deletions D6 s) \<subseteq> stored s"
  "stored (delete_totp D7 s) \<subseteq> stored s" "stored (delete_totp_requests D8 s) \<subseteq> stored s"
  "stored (delete_passkey_requests D9 s) \<subseteq> stored s" "stored (delete_backups D10 s) \<subseteq> stored s"
  "stored (delete_passkeys D11 s) \<subseteq> stored s" "stored (delete_steps D12 s) \<subseteq> stored s"
  "stored (delete_outbox D13 s) \<subseteq> stored s"
  by (rule stored_mono; simp add: statement_defs delete_defs Let_def table_simps)+

lemma stored_delete_auths: "stored (delete_auths D s) \<subseteq> stored s"
  unfolding delete_auths_def Let_def
  by (rule order_trans [OF stored_delete(12)], rule stored_mono) (simp_all add: table_simps)

lemma stored_delete_sessions: "stored (delete_sessions D s) \<subseteq> stored s"
  unfolding delete_sessions_def Let_def
  by (rule order_trans [OF stored_delete_auths], rule stored_mono) (simp_all add: table_simps)

lemma stored_delete_accounts: "stored (delete_accounts D s) \<subseteq> stored s"
proof -
  let ?t = "delete_passkeys (\<lambda>r. psk_account r \<in> set (map acc_id (filter D (accounts s))))
      (delete_auths (\<lambda>r. aut_account r \<in> Some ` set (map acc_id (filter D (accounts s))))
        (delete_sessions (\<lambda>r. ses_account r \<in> set (map acc_id (filter D (accounts s)))) s))"
  have "stored (delete_accounts D s) \<subseteq> stored ?t"
    unfolding delete_accounts_def Let_def by (rule stored_mono) (simp_all add: table_simps)
  also have "\<dots> \<subseteq> stored s"
    by (rule order_trans [OF stored_delete(11) order_trans [OF stored_delete_auths stored_delete_sessions]])
  finally show ?thesis .
qed

lemma stored_from_deletes:
  "keeps (stored_from G e v) (tx_exec (delete_identities D1))" "keeps (stored_from G e v) (tx_exec (delete_registrations D2))"
  "keeps (stored_from G e v) (tx_exec (delete_oauth_requests D3))" "keeps (stored_from G e v) (tx_exec (delete_email_changes D4))"
  "keeps (stored_from G e v) (tx_exec (delete_resets D5))" "keeps (stored_from G e v) (tx_exec (delete_deletions D6))"
  "keeps (stored_from G e v) (tx_exec (delete_totp D7))" "keeps (stored_from G e v) (tx_exec (delete_totp_requests D8))"
  "keeps (stored_from G e v) (tx_exec (delete_passkey_requests D9))" "keeps (stored_from G e v) (tx_exec (delete_backups D10))"
  "keeps (stored_from G e v) (tx_exec (delete_passkeys D11))" "keeps (stored_from G e v) (tx_exec (delete_auths D12))"
  "keeps (stored_from G e v) (tx_exec (delete_sessions D13))" "keeps (stored_from G e v) (tx_exec (delete_accounts D14))"
  "keeps (stored_from G e v) (tx_exec (delete_outbox D15))"
  by (rule keeps_exec, erule stored_from_mono,
      rule stored_delete stored_delete_auths stored_delete_sessions stored_delete_accounts)+

subsection \<open>Insertions and updates that touch no secret\<close>

lemma stored_from_inserts:
  "keeps (stored_from G e v) (tx_stmt (insert_step r1))" "keeps (stored_from G e v) (tx_stmt (insert_email_step r2))"
  "keeps (stored_from G e v) (tx_stmt (insert_passkey_step r3))" "keeps (stored_from G e v) (tx_stmt (insert_google_step r4))"
  "keeps (stored_from G e v) (tx_stmt (insert_registration r6))" "keeps (stored_from G e v) (tx_stmt (insert_account r7))"
  "keeps (stored_from G e v) (tx_stmt (insert_outbox r8))" "keeps (stored_from G e v) (tx_stmt (insert_totp r10))"
  "keeps (stored_from G e v) (tx_stmt (upsert_totp_request r11))" "keeps (stored_from G e v) (tx_stmt (insert_identity r21))"
  "keeps (stored_from G e v) (tx_stmt (insert_passkey r22))" "keeps (stored_from G e v) (tx_stmt (insert_transport r23))"
  "keeps (stored_from G e v) (tx_stmt (insert_passkey_request r24))"
  by (rule keeps_stmt, erule stored_from_mono; auto simp: insert_defs tx_inv split: if_splits)+

lemma stored_from_updates:
  "keeps (stored_from G e v) (tx_exec (update_steps Q2 g))"
  "keeps (stored_from G e v) (tx_exec (update_registrations Q6 f6))"
  "keeps (stored_from G e v) (tx_exec (update_totp Q9 f9))"
  "keeps (stored_from G e v) (tx_exec (update_accounts Q14 f14))"
  "keeps (stored_from G e v) (tx_exec (update_deletions Q17 f17))"
  by (rule keeps_exec, erule stored_from_mono, simp add: statement_defs)+

lemma stored_from_keys:
  "keeps (stored_from G e v) (tx_stmt (update_passkeys Q25 f25))"
  "keeps (stored_from G e v) (tx_stmt (update_account_key a15 Q15 f15))"
  by (rule keeps_stmt, erule stored_from_mono, auto simp: statement_defs tx_inv split: if_splits)+

lemma stored_from_upsert_deletion: "keeps (stored_from G e v) (upsert_deletion r16 now16)"
  by (rule tripleI, erule stored_from_mono)
    (auto simp: upsert_deletion_def tx_inv split: if_splits option.splits)

subsection \<open>Processes: a grant is cleared, kept, or drawn in this call\<close>

lemma stored_from_update_auths:
  assumes "\<And>r. auth_secrets (f r) \<subseteq> auth_secrets r \<union> allowed G e v" and base: "stored_from G e v s"
  shows "stored_from G e v (s\<lparr>authentications := update_rows Q f (authentications s)\<rparr>)"
proof (rule stored_from_table(1) [OF base], rule ballI)
  fix r assume "r \<in> set (update_rows Q f (authentications s))"
  then obtain q where "q \<in> set (authentications s)" "r = (if Q q then f q else q)"
    by (auto simp: table_simps)
  then show "auth_secrets r \<subseteq> allowed G e v"
    using assms(1) [of q] stored_from_rows [OF base] by auto
qed

lemma stored_from_auths:
  "keeps (stored_from G e v) (tx_exec (update_auths Q clear_grant))"
  "keeps (stored_from G e v) (tx_exec (update_auths Q fail_process))"
  "keeps (stored_from G e v) (tx_exec (update_auths Q (fail_auth limit)))"
  "keeps (stored_from G e v) (tx_exec (update_auths Q (invalidate_row now)))"
  unfolding update_auths_def
  by (rule keeps_exec, rule stored_from_update_auths, simp_all add: auth_secrets_def clear_grant_def fail_process_def fail_auth_def invalidate_row_def le_supI1 subset_insertI2)+

lemma stored_from_set_account: "keeps (stored_from G e v) (tx_stmt (set_account aid account))"
  by (rule keeps_stmt)
    (auto simp: set_account_def auth_secrets_def split: if_splits intro!: stored_from_update_auths)

lemma stored_from_complete:
  "drawn e v ''grant'' h \<Longrightarrow> keeps (stored_from G e v) (tx_stmt (complete_auth aid account now h x))"
  by (rule keeps_stmt)
    (auto simp: complete_auth_def auth_secrets_def tx_inv split: if_splits intro!: stored_from_update_auths allowed_drawn)

lemma new_auth_secrets:
  "aut_grant r = None \<Longrightarrow> drawn e v ''flow'' (aut_flow r) \<Longrightarrow> auth_secrets r \<subseteq> allowed G e v"
  by (simp add: auth_secrets_def allowed_drawn)

lemma stored_from_insert_auth:
  "aut_grant r = None \<Longrightarrow> drawn e v ''flow'' (aut_flow r) \<Longrightarrow> keeps (stored_from G e v) (tx_stmt (insert_auth r))"
  by (rule keeps_stmt, frule stored_from_rows)
    (clarsimp simp: insert_auth_def tx_inv, rule stored_from_table(1), simp_all add: new_auth_secrets)

subsection \<open>Tokens of requests, sessions and backup codes\<close>

lemma stored_from_tokens:
  "drawn e v ''state'' (oar_state r5) \<Longrightarrow> keeps (stored_from G e v) (tx_stmt (insert_oauth_request r5))"
  "drawn e v ''backup'' (bkp_code r12) \<Longrightarrow> keeps (stored_from G e v) (tx_stmt (insert_backup r12))"
  "drawn e v ''email-change'' (emc_token r19) \<Longrightarrow> keeps (stored_from G e v) (tx_stmt (insert_email_change r19))"
  "drawn e v ''reset'' (rst_token r18) \<Longrightarrow> keeps (stored_from G e v) (tx_stmt (upsert_reset r18))"
  by (rule keeps_stmt, frule stored_from_rows,
      auto simp: insert_oauth_request_def insert_backup_def insert_email_change_def upsert_reset_def tx_inv
        table_simps allowed_drawn split: if_splits intro!: stored_from_table)+

lemma stored_from_renewals:
  "(\<And>r. drawn e v ''email-change'' (emc_token (f20 r))) \<Longrightarrow>
   keeps (stored_from G e v) (tx_stmt (update_email_change a20 f20))"
  "(\<And>r. drawn e v ''refresh'' (ses_refresh (f13 r))) \<Longrightarrow>
   keeps (stored_from G e v) (tx_stmt (update_session_key i13 f13))"
  by (rule keeps_stmt, frule stored_from_rows,
      auto simp: update_email_change_def update_session_key_def tx_inv table_simps allowed_drawn
        intro!: stored_from_table)+

lemma stored_from_counter: "stored_from G e v s \<Longrightarrow> stored_from G e v (s\<lparr>next_session := i\<rparr>)"
  by (simp add: stored_from_def)

lemma stored_from_insert_session:
  "(\<And>i. drawn e v ''refresh'' (ses_refresh (mk i))) \<Longrightarrow> keeps (stored_from G e v) (insert_session mk)"
  by (rule tripleI, frule stored_from_rows)
    (auto simp: insert_session_def Let_def tx_inv allowed_drawn intro!: stored_from_table(2) stored_from_counter)

interpretation origin: step_closed "stored_from G e v" e v for G e v
  by unfold_locales
    (intro stored_from_deletes stored_from_inserts stored_from_updates stored_from_keys stored_from_upsert_deletion
      stored_from_auths stored_from_set_account stored_from_complete stored_from_insert_auth stored_from_tokens
      stored_from_renewals stored_from_insert_session; simp)+

end
