(* ===== verification/Auth_Examples.thy ===== *)
theory Auth_Examples
  imports Auth_Engine
begin

section \<open>A concrete world\<close>

text \<open>
  Concrete values for the parameters of the model, used to evaluate the operations on
  examples: hashes and ciphers that only tag their input, a password hash that is the
  password, a UUID shown in unary, a network that knows one URL. They satisfy what the
  properties ask of the real functions (distinct results for distinct inputs, opening what
  was sealed).
\<close>

definition demo_crypto :: crypto where
  "demo_crypto = \<lparr>hmac_sha256 = (\<lambda>k m. m), hmac_sha1 = (\<lambda>k m. k @ m), sha256 = (\<lambda>m. m),
     aead_seal = (\<lambda>k n p c. c @ p), aead_open = (\<lambda>k n w c. if take (length c) w = c then Some (drop (length c) w) else None),
     bcrypt_generate = (\<lambda>salt p cost. Some p), bcrypt_compare = (\<lambda>h p. h = p)\<rparr>"

definition demo_unicode :: unicode where
  "demo_unicode = \<lparr>uni_ToLower = id, uni_TrimFunc = id, uni_TrimRightFunc = id, uni_FieldsFunc = (\<lambda>s. [s])\<rparr>"

definition demo_uuids :: uuids where
  "demo_uuids = \<lparr>uuid_String = (\<lambda>n. replicate n CHR ''u''), uuid_Parse = (\<lambda>s. Some (length s)), uuid_ParseValue = length,
     uuid_Bytes = (\<lambda>n. replicate n CHR ''u''), uuid_FromBytes = (\<lambda>s. Some (length s))\<rparr>"

definition demo_url :: URL where
  "demo_url = \<lparr>url_Scheme = ''https'', url_Host = ''example.org'', url_Fragment = '''', url_User = False,
     url_RawQuery = '''', url_Rest = ''''\<rparr>"

definition demo_libs :: libs where
  "demo_libs = \<lparr>lib_crypto = demo_crypto, lib_unicode = demo_unicode, lib_uuid = demo_uuids,
     lib_ParseAddress = (\<lambda>s. if CHR ''@'' \<in> set s then Some s else None),
     lib_SetToken = (\<lambda>u t. t), lib_Inet = (\<lambda>s. Some s)\<rparr>"

definition demo_engine :: engine where
  "demo_engine = New demo_libs \<lparr>macKey = replicate 32 CHR ''m'', cipherKey = replicate 32 CHR ''c''\<rparr> True ''salt'' ''admin''"

definition demo_network :: network where
  "demo_network = \<lparr>net_Now = 0, net_Parse = (\<lambda>s. Some demo_url), net_AuthCodeURL = (\<lambda>c r s opts. s),
     net_Exchange = (\<lambda>c s r code w. Inr (Some code)),
     net_Validate = (\<lambda>raw aud. Inr \<lparr>tok_Issuer = ''accounts.google.com'', tok_Subject = raw, tok_Expires = 1000,
        tok_Claims = (\<lambda>_. None)\<rparr>),
     net_Post = (\<lambda>url q. Some \<lparr>vkr_StatusCode = 200, vkr_Data = Some \<lparr>vkd_UserID = 7, vkd_Email = '''', vkd_Token = ''t''\<rparr>\<rparr>)\<rparr>"

text \<open>The environment of a call: the clock, and a seed from which its draws are taken.\<close>

definition demo_env :: "time \<Rightarrow> nat \<Rightarrow> env" where
  "demo_env now seed = \<lparr>ev_begin = BeginOk, ev_commit = True, ev_now = now, ev_dbnow = now, ev_wall = now,
     ev_uuid = (\<lambda>i. 10 * seed + i + 1), ev_token = (\<lambda>i. Some (replicate seed CHR ''a'' @ replicate i CHR ''b'')), ev_code = Some 42,
     ev_nonce = Some ''nonce-12byte'', ev_secret = Some ''s'', ev_salt = ''salt'', ev_entropy = ''x'',
     ev_net = demo_network\<rparr>"

definition demo_token :: "nat \<Rightarrow> nat \<Rightarrow> string" where
  "demo_token seed i = randomToken (replicate seed CHR ''a'' @ replicate i CHR ''b'')"

definition demo_account :: account_row where
  "demo_account = \<lparr>acc_id = 5, acc_email = ''a@b'', acc_email_verified = Some 0, acc_username = Some ''cook'',
     acc_password = Some ''password'', acc_password_changed = Some 0, acc_blocked = None, acc_created = 0\<rparr>"

definition demo_session :: session_row where
  "demo_session = \<lparr>ses_id = 1, ses_account = 5, ses_refresh = ''r'', ses_ip = ''ip'', ses_user_agent = ''ua'',
     ses_last_refresh = 0, ses_expiry = 100 * Hour\<rparr>"

text \<open>One account with a password, signed in once.\<close>

definition demo_db :: db where
  "demo_db = Initial\<lparr>accounts := [demo_account], sessions := [demo_session], next_session := 2\<rparr>"

definition demo_who :: Principal where
  "demo_who = \<lparr>who_AccountID = 5, who_SessionID = 1\<rparr>"

definition nobody :: Principal where
  "nobody = \<lparr>who_AccountID = uuid_Nil, who_SessionID = 0\<rparr>"

definition no_proof :: Proof where
  "no_proof = \<lparr>prf_Email = '''', prf_Name = '''', prf_IDToken = '''', prf_State = '''', prf_Method = '''',
     prf_Login = '''', prf_Password = '''', prf_Code = '''', prf_Credential = ''''\<rparr>"

text \<open>A pending process with flow token \<open>f\<close>, one of its steps, and a completed process with grant \<open>g\<close>.\<close>

definition demo_process :: "string \<Rightarrow> uuid option \<Rightarrow> int option \<Rightarrow> auth_row" where
  "demo_process purpose account session =
     \<lparr>aut_id = 11, aut_purpose = purpose, aut_status = Pending, aut_account = account, aut_session = session,
      aut_flow = e_hash demo_engine ''flow'' '''' ''f'', aut_failed = 0, aut_expiry = Hour, aut_completion = None,
      aut_invalidation = None, aut_grant = None, aut_grant_expiry = None\<rparr>"

definition demo_step :: "string \<Rightarrow> step_row" where
  "demo_step kind =
     \<lparr>stp_id = 21, stp_auth = 11, stp_type = kind, stp_status = Pending, stp_failed = 0,
      stp_created = 0, stp_expiry = Hour, stp_completion = None\<rparr>"

definition demo_granted :: "string \<Rightarrow> int option \<Rightarrow> auth_row" where
  "demo_granted purpose session = (demo_process purpose (Some 5) session)
     \<lparr>aut_status := Completed, aut_completion := Some 0,
      aut_grant := Some (e_hash demo_engine ''grant'' '''' ''g''), aut_grant_expiry := Some Hour\<rparr>"

definition demo_pending :: "string \<Rightarrow> string \<Rightarrow> db" where
  "demo_pending purpose kind = demo_db\<lparr>authentications := [demo_process purpose None None],
     authentication_steps := [demo_step kind]\<rparr>"

definition demo_grant_db :: "string \<Rightarrow> int option \<Rightarrow> db" where
  "demo_grant_db purpose session = demo_db\<lparr>authentications := [demo_granted purpose session]\<rparr>"

text \<open>A call that did not fail, as a pair of its answer and the new state.\<close>

lemma answered: "\<not> isl (fst x) \<Longrightarrow> x = (Inr (projr (fst x)), snd x)"
  by (cases x, cases "fst x") auto

text \<open>An equation that lets evaluation run references through an optional column.\<close>

lemma pred_option_code [code]: "pred_option P z = (case z of None \<Rightarrow> True | Some x \<Rightarrow> P x)"
  by (cases z) auto

lemma demo_db_wf: "wf_db demo_db"
  by code_simp

lemmas run_examples [run_defs] = demo_crypto_def demo_unicode_def demo_uuids_def demo_url_def demo_libs_def
  demo_engine_def demo_network_def demo_env_def demo_token_def demo_account_def demo_session_def demo_db_def
  demo_who_def nobody_def no_proof_def demo_process_def demo_step_def demo_granted_def demo_pending_def
  demo_grant_db_def Initial_def

end
