(* ===== verification/Auth_Trace.thy ===== *)
theory Auth_Trace
  imports Auth_Origin Auth_Examples
begin

section \<open>Runs of the service\<close>

text \<open>
  One committed or failed call of the service as a step on the database, sequences of
  steps, and what they keep. The two operations that work in two transactions around a
  network call contribute their transactions as separate steps, so other calls may come in
  between. Reads change nothing and are no steps.
\<close>

inductive engine_step :: "engine \<Rightarrow> env \<Rightarrow> db \<Rightarrow> db \<Rightarrow> bool" for e :: engine and v :: env and s :: db where
  step_Start: "engine_step e v s (snd (Start e v purpose who s))"
| step_CreateChallenge: "engine_step e v s (snd (CreateChallenge e v aid flow method who opts s))"
| step_Attempt: "engine_step e v s (snd (Attempt e v aid cid flow who proof s))"
| step_provider_begin: "engine_step e v s (snd (e_run v (tx_done (provider_begin_tx e v aid cid flow who proof)) s))"
| step_provider_finish:
    "engine_step e v s (snd (e_run v (tx_done (provider_finish_tx e v aid cid flow who proof identity)) s))"
| step_provider_failure: "engine_step e v s (snd (e_run v (provider_failure_tx e v aid cid flow who) s))"
| step_CreateSession: "engine_step e v s (snd (CreateSession e v grant ip ua issuer accessTTL refreshTTL s))"
| step_Refresh: "engine_step e v s (snd (Refresh e v sid refresh ip ua issuer accessTTL refreshTTL s))"
| step_RevokeSessions: "engine_step e v s (snd (RevokeSessions v who sid' s))"
| step_LogoutRefresh: "engine_step e v s (snd (LogoutRefresh e v sid refresh s))"
| step_StartTotp: "engine_step e v s (snd (StartTotp e v who grant s))"
| step_ConfirmTotp: "engine_step e v s (snd (snd (ConfirmTotp e v who code (l, s))))"
| step_DeleteTotp: "engine_step e v s (snd (DeleteTotp e v who grant s))"
| step_RotateBackupCodes: "engine_step e v s (snd (RotateBackupCodes e v who grant s))"
| step_SetPassword: "engine_step e v s (snd (SetPassword e v who grant password s))"
| step_SetUsername: "engine_step e v s (snd (SetUsername e v who username s))"
| step_RequestDeletion: "engine_step e v s (snd (RequestDeletion e v who grant shared delay s))"
| step_PatchDeletion: "engine_step e v s (snd (PatchDeletion v who shared s))"
| step_CancelDeletion: "engine_step e v s (snd (CancelDeletion v who s))"
| step_DeleteDueAccount: "engine_step e v s (snd (DeleteDueAccount v s))"
| step_StartPasswordReset: "engine_step e v s (snd (StartPasswordReset e v email baseURL s))"
| step_ConfirmPasswordReset: "engine_step e v s (snd (ConfirmPasswordReset e v token password s))"
| step_ChangeEmail: "engine_step e v s (snd (ChangeEmail e v who grant address baseURL s))"
| step_ConfirmEmail: "engine_step e v s (snd (ConfirmEmail e v token baseURL s))"
| step_PrepareIdentityOAuth: "engine_step e v s (snd (PrepareIdentityOAuth e v who provider redirect s))"
| step_link_begin: "engine_step e v s (snd (e_run v (tx_done (link_begin_tx e v who provider state)) s))"
| step_link_finish: "engine_step e v s (snd (e_run v (tx_done (link_finish_tx e v who grant provider identity)) s))"
| step_UnlinkIdentity: "engine_step e v s (snd (UnlinkIdentity e v who grant provider s))"
| step_StartPasskey: "engine_step e v s (snd (StartPasskey e v who grant s))"
| step_RegisterPasskey: "engine_step e v s (snd (RegisterPasskey e v who k name response s))"
| step_RenamePasskey: "engine_step e v s (snd (RenamePasskey v who k name s))"
| step_DeletePasskey: "engine_step e v s (snd (DeletePasskey e v who grant k s))"
| step_Cleanup: "engine_step e v s (snd (Cleanup e v s))"
| step_worker: "engine_step e v s (snd (snd (worker_one begin_ok commit_ok outcome s)))"

text \<open>A run: the environments of its steps, in order.\<close>

inductive run_of :: "engine \<Rightarrow> env list \<Rightarrow> db \<Rightarrow> db \<Rightarrow> bool" for e :: engine where
  run_Nil: "run_of e [] s s"
| run_Cons: "engine_step e v s t \<Longrightarrow> run_of e vs t u \<Longrightarrow> run_of e (v # vs) s u"

inductive_cases run_NilE: "run_of e [] s u"
inductive_cases run_ConsE: "run_of e (v # vs) s u"

lemma run_append: "run_of e vs s t \<Longrightarrow> run_of e ws t u \<Longrightarrow> run_of e (vs @ ws) s u"
  by (induction rule: run_of.induct) (auto intro: run_Cons)

lemma run_single: "engine_step e v s t \<Longrightarrow> run_of e [v] s t"
  by (auto intro: run_of.intros)

lemma e_run_keeps: "keeps P m \<Longrightarrow> P s \<Longrightarrow> P (snd (e_run v m s))"
  unfolding e_run_def by (rule run_tx_keeps)

lemma e_query_state [simp]: "snd (e_query v m s) = s"
  by (simp add: e_query_def)

context statement_closed
begin

text \<open>Rules for the checks an operation makes before its transaction.\<close>

lemma after_rules:
  "P s \<Longrightarrow> P (snd (x, s))"
  "(b \<Longrightarrow> P (snd r1)) \<Longrightarrow> (\<not> b \<Longrightarrow> P (snd r2)) \<Longrightarrow> P (snd (if b then r1 else r2))"
  "(z = None \<Longrightarrow> P (snd r3)) \<Longrightarrow> (\<And>y. z = Some y \<Longrightarrow> P (snd (f y))) \<Longrightarrow>
     P (snd (case z of None \<Rightarrow> r3 | Some y \<Rightarrow> f y))"
  "(\<And>err. w = Inl err \<Longrightarrow> P (snd (g err))) \<Longrightarrow> (\<And>y. w = Inr y \<Longrightarrow> P (snd (h y))) \<Longrightarrow>
     P (snd (case w of Inl err \<Rightarrow> g err | Inr y \<Rightarrow> h y))"
  "P s \<Longrightarrow> P (snd (e_query v m s))"
  by (auto split: option.split sum.split)

lemma keep_run: "keeps P m \<Longrightarrow> P s \<Longrightarrow> P (snd (e_run v (tx_done m) s))"
  by (rule e_run_keeps [OF keeps_done])

lemmas keep_commit = e_run_keeps [of P]

lemma keep_Start: "P s \<Longrightarrow> P (snd (Start e v purpose who s))"
  unfolding Start_def Let_def by (intro after_rules keep_run ops)

lemma keep_CreateChallenge: "P s \<Longrightarrow> P (snd (CreateChallenge e v aid flow method who opts s))"
  unfolding CreateChallenge_def Let_def by (intro after_rules keep_run ops)

lemma keep_CreateSession: "P s \<Longrightarrow> P (snd (CreateSession e v grant ip ua issuer accessTTL refreshTTL s))"
  unfolding CreateSession_def Let_def by (intro after_rules keep_run ops)

lemma keep_Refresh: "P s \<Longrightarrow> P (snd (Refresh e v sid refresh ip ua issuer accessTTL refreshTTL s))"
  unfolding Refresh_def Let_def by (intro after_rules keep_run ops)

lemma keep_RevokeSessions: "P s \<Longrightarrow> P (snd (RevokeSessions v who sid' s))"
  unfolding RevokeSessions_def Let_def by (intro after_rules keep_run ops)

lemma keep_LogoutRefresh: "P s \<Longrightarrow> P (snd (LogoutRefresh e v sid refresh s))"
  unfolding LogoutRefresh_def Let_def by (intro after_rules keep_run ops)

lemma keep_StartTotp: "P s \<Longrightarrow> P (snd (StartTotp e v who grant s))"
  unfolding StartTotp_def Let_def by (intro after_rules keep_run ops)

lemma keep_DeleteTotp: "P s \<Longrightarrow> P (snd (DeleteTotp e v who grant s))"
  unfolding DeleteTotp_def Let_def by (intro after_rules keep_run ops)

lemma keep_RotateBackupCodes: "P s \<Longrightarrow> P (snd (RotateBackupCodes e v who grant s))"
  unfolding RotateBackupCodes_def Let_def by (intro after_rules keep_run ops)

lemma keep_SetPassword: "P s \<Longrightarrow> P (snd (SetPassword e v who grant password s))"
  unfolding SetPassword_def Let_def by (intro after_rules keep_run ops)

lemma keep_SetUsername: "P s \<Longrightarrow> P (snd (SetUsername e v who username s))"
  unfolding SetUsername_def Let_def by (intro after_rules keep_run ops) simp_all

lemma keep_RequestDeletion: "P s \<Longrightarrow> P (snd (RequestDeletion e v who grant shared delay s))"
  unfolding RequestDeletion_def Let_def by (intro after_rules keep_run ops)

lemma keep_PatchDeletion: "P s \<Longrightarrow> P (snd (PatchDeletion v who shared s))"
  unfolding PatchDeletion_def Let_def by (intro after_rules keep_run ops)

lemma keep_CancelDeletion: "P s \<Longrightarrow> P (snd (CancelDeletion v who s))"
  unfolding CancelDeletion_def Let_def by (intro after_rules keep_run ops)

lemma keep_DeleteDueAccount: "P s \<Longrightarrow> P (snd (DeleteDueAccount v s))"
  unfolding DeleteDueAccount_def Let_def by (intro after_rules keep_run ops)

lemma keep_StartPasswordReset: "P s \<Longrightarrow> P (snd (StartPasswordReset e v email baseURL s))"
  unfolding StartPasswordReset_def Let_def by (intro after_rules keep_run ops)

lemma keep_ConfirmPasswordReset: "P s \<Longrightarrow> P (snd (ConfirmPasswordReset e v token password s))"
  unfolding ConfirmPasswordReset_def Let_def by (intro after_rules keep_run ops)

lemma keep_ChangeEmail: "P s \<Longrightarrow> P (snd (ChangeEmail e v who grant address baseURL s))"
  unfolding ChangeEmail_def Let_def by (intro after_rules keep_run ops)

lemma keep_ConfirmEmail: "P s \<Longrightarrow> P (snd (ConfirmEmail e v token baseURL s))"
  unfolding ConfirmEmail_def Let_def by (intro after_rules keep_run ops)

lemma keep_PrepareIdentityOAuth: "P s \<Longrightarrow> P (snd (PrepareIdentityOAuth e v who provider redirect s))"
  unfolding PrepareIdentityOAuth_def Let_def by (intro after_rules keep_run ops)

lemma keep_UnlinkIdentity: "P s \<Longrightarrow> P (snd (UnlinkIdentity e v who grant provider s))"
  unfolding UnlinkIdentity_def Let_def by (intro after_rules keep_run ops)

lemma keep_StartPasskey: "P s \<Longrightarrow> P (snd (StartPasskey e v who grant s))"
  unfolding StartPasskey_def Let_def by (intro after_rules keep_run ops)

lemma keep_RegisterPasskey: "P s \<Longrightarrow> P (snd (RegisterPasskey e v who k name response s))"
  unfolding RegisterPasskey_def Let_def by (intro after_rules keep_run ops)

lemma keep_RenamePasskey: "P s \<Longrightarrow> P (snd (RenamePasskey v who k name s))"
  unfolding RenamePasskey_def Let_def by (intro after_rules keep_run ops)

lemma keep_DeletePasskey: "P s \<Longrightarrow> P (snd (DeletePasskey e v who grant k s))"
  unfolding DeletePasskey_def Let_def by (intro after_rules keep_run ops)

lemma keep_Cleanup: "P s \<Longrightarrow> P (snd (Cleanup e v s))"
  unfolding Cleanup_def Let_def by (intro after_rules keep_run ops)

lemma keep_Attempt: "P s \<Longrightarrow> P (snd (Attempt e v aid cid flow who proof s))"
  unfolding Attempt_def by (intro keep_commit ops)

lemma keep_ConfirmTotp: "P s \<Longrightarrow> P (snd (snd (ConfirmTotp e v who code (l, s))))"
  using keep_run [OF keep_confirm_totp_tx, of s who code]
  by (auto simp: ConfirmTotp_def split: prod.split)

lemmas operation_keeps = keep_Start keep_CreateChallenge keep_CreateSession keep_Refresh keep_RevokeSessions
  keep_LogoutRefresh keep_StartTotp keep_DeleteTotp keep_RotateBackupCodes keep_SetPassword keep_SetUsername
  keep_RequestDeletion keep_PatchDeletion keep_CancelDeletion keep_DeleteDueAccount keep_StartPasswordReset
  keep_ConfirmPasswordReset keep_ChangeEmail keep_ConfirmEmail keep_PrepareIdentityOAuth keep_UnlinkIdentity
  keep_StartPasskey keep_RegisterPasskey keep_RenamePasskey keep_DeletePasskey keep_Cleanup keep_Attempt
  keep_ConfirmTotp

text \<open>A step keeps the predicate unless it is one of the worker.\<close>

lemma keep_call:
  "engine_step e v s t \<Longrightarrow> P s \<Longrightarrow> P t \<or> (\<exists>b c outcome. t = snd (snd (worker_one b c outcome s)))"
  by (erule engine_step.cases; hypsubst; (rule disjI2, (rule exI)+, rule refl | rule disjI1, erule operation_keeps |
      rule disjI1, intro keep_run keep_commit ops))

end

context step_closed
begin

lemma keep_worker: "P s \<Longrightarrow> P (snd (snd (worker_one begin_ok commit_ok outcome s)))"
  using tripleD [OF keep_delete_outbox, of s]
  by (auto simp: worker_one_def Let_def tx_simps split: option.splits publish_outcome.splits)

lemma keep_step: "engine_step e v s t \<Longrightarrow> P s \<Longrightarrow> P t"
  using keep_call keep_worker by blast

end

subsection \<open>What a run keeps\<close>

definition some_step :: "engine \<Rightarrow> db \<Rightarrow> db \<Rightarrow> bool" where
  "some_step e s t \<longleftrightarrow> (\<exists>v. engine_step e v s t)"

lemma Initial_wf: "wf_db Initial"
  by (simp add: Initial_def wf_db_def)

interpretation service: invariant_of "some_step e" "\<lambda>s. s = Initial" wf_db for e
  by unfold_locales (auto simp: Initial_wf some_step_def dest: wf.keep_step)

lemma some_stepI: "engine_step e v s t \<Longrightarrow> some_step e s t"
  by (auto simp: some_step_def)

lemma run_reach: "run_of e vs s t \<Longrightarrow> reach (some_step e) q s \<Longrightarrow> reach (some_step e) q t"
proof (induction rule: run_of.induct)
  case (run_Cons v s t vs u)
  then show ?case using reach_step [OF run_Cons.prems some_stepI] by blast
qed

lemma run_wf: "run_of e vs s t \<Longrightarrow> wf_db s \<Longrightarrow> wf_db t"
  by (induction rule: run_of.induct) (auto dest: wf.keep_step)

lemma step_stored: "engine_step e v s t \<Longrightarrow> x \<in> stored t \<Longrightarrow> x \<notin> stored s \<Longrightarrow> drawn e v (fst x) (snd x)"
  using origin.keep_step [where G = "stored s" and e = e and v = v and s = s and t = t]
  by (auto simp: stored_from_def allowed_def)

text \<open>A hash that is gone stays gone, unless a call of the run draws it again.\<close>

lemma run_stored:
  assumes "run_of e vs s t" "(k, h) \<notin> stored s" "\<forall>v \<in> set vs. \<not> drawn e v k h"
  shows "(k, h) \<notin> stored t"
  using assms
proof (induction rule: run_of.induct)
  case (run_Cons v s t vs u)
  then show ?case using step_stored [of e v s t "(k, h)"] by auto
qed

text \<open>
  The two-transaction operations are runs, whatever other calls come between their
  transactions.
\<close>

lemma attemptProvider_run:
  assumes "run_of e vs (snd (e_run v (tx_done (provider_begin_tx e v aid cid flow who proof)) s))
      (between (snd (e_run v (tx_done (provider_begin_tx e v aid cid flow who proof)) s)))"
  shows "\<exists>ws. set ws \<subseteq> insert v (insert v2 (set vs)) \<and>
     run_of e ws s (snd (attemptProvider e v v2 between aid cid flow who proof s))"
proof (cases "Providers e (prf_Method proof)")
  case None
  then show ?thesis by (auto simp: attemptProvider_def intro: run_Nil exI [of _ "[]"])
next
  case (Some provider)
  obtain r s1 where b: "e_run v (tx_done (provider_begin_tx e v aid cid flow who proof)) s = (r, s1)"
    by fastforce
  have one: "run_of e [v] s s1"
    using run_single [OF step_provider_begin] b by (metis snd_conv)
  show ?thesis
  proof (cases r)
    case (Inl err)
    with one Some b show ?thesis by (intro exI [of _ "[v]"]) (simp add: attemptProvider_def)
  next
    case (Inr x)
    obtain p redirect nonce enc where x: "x = (p, redirect, nonce, enc)" by (cases x)
    have two: "run_of e (v # vs) s (between s1)" using run_append [OF one] assms b by simp
    show ?thesis
    proof (cases "provider_identity e v2 provider p redirect nonce enc proof")
      case (Inl err)
      with two Some b Inr x show ?thesis
        by (intro exI [of _ "v # vs"]) (auto simp: attemptProvider_def Let_def)
    next
      case R: (Inr identity)
      have "run_of e ((v # vs) @ [v2]) s
          (snd (e_run v2 (tx_done (provider_finish_tx e v2 aid cid flow who proof identity)) (between s1)))"
        by (rule run_append [OF two run_single]) (rule step_provider_finish)
      with Some b Inr x R show ?thesis
        by (intro exI [of _ "(v # vs) @ [v2]"]) (auto simp: attemptProvider_def Let_def)
    qed
  qed
qed

lemma LinkIdentity_run:
  assumes "run_of e vs (snd (e_run v (tx_done (link_begin_tx e v who provider state)) s))
      (between (snd (e_run v (tx_done (link_begin_tx e v who provider state)) s)))"
  shows "\<exists>ws. set ws \<subseteq> insert v (insert v2 (set vs)) \<and>
     run_of e ws s (snd (LinkIdentity e v v2 between who grant provider code state s))"
proof (cases "Providers e provider")
  case None
  then show ?thesis by (auto simp: LinkIdentity_def intro: run_Nil exI [of _ "[]"])
next
  case (Some adapter)
  obtain r s1 where b: "e_run v (tx_done (link_begin_tx e v who provider state)) s = (r, s1)"
    by fastforce
  have one: "run_of e [v] s s1"
    using run_single [OF step_link_begin [of e v s who provider state]] b by simp
  show ?thesis
  proof (cases r)
    case (Inl err)
    with one Some b show ?thesis by (intro exI [of _ "[v]"]) (simp add: LinkIdentity_def)
  next
    case (Inr q)
    have two: "run_of e (v # vs) s (between s1)" using run_append [OF one] assms b by simp
    show ?thesis
    proof (cases "link_identity_of e v2 adapter provider code state q")
      case (Inl err)
      with two Some b Inr show ?thesis
        by (intro exI [of _ "v # vs"]) (auto simp: LinkIdentity_def Let_def)
    next
      case R: (Inr identity)
      have "run_of e ((v # vs) @ [v2]) s
          (snd (e_run v2 (tx_done (link_finish_tx e v2 who grant provider identity)) (between s1)))"
        by (rule run_append [OF two run_single]) (rule step_link_finish)
      with Some b Inr R show ?thesis
        by (intro exI [of _ "(v # vs) @ [v2]"]) (auto simp: LinkIdentity_def Let_def)
    qed
  qed
qed

text \<open>
  C2: Every state the service reaches from the empty database satisfies the constraints of
  the schema: unique keys, checks and references of all tables. The steps are all
  operations that write, in any order and with any arguments and environments, the
  transactions of the two-transaction operations interleaved with other calls, the cleanup
  and the outbox worker.
\<close>

theorem reachable_well_formed:
  assumes "reach (some_step e) Initial s"
  shows "wf_db s"
  using service.inv_reach [OF refl assms] .

theorem reachable_well_formed_witness:
  "wf_db (snd (Start demo_engine (demo_env 0 1) ''signIn'' nobody Initial))"
  by (rule reachable_well_formed, rule run_reach [OF run_single [OF step_Start] reach_init])

end
