(* ===== verification/Auth_Reads.thy ===== *)
theory Auth_Reads
  imports Auth_Grpc
begin

section \<open>The internal read procedures\<close>

text \<open>
  \<open>internal/transport/authenticationgrpc/legacy_reads.go\<close>: three lookups other services still
  use, and the public key. They read the database outside a transaction; the outcome of
  the query is an argument, \<open>None\<close> where it runs. \<open>LegacyReads\<close> may have no database.
\<close>

datatype read_failure = ReadNoRows | ReadCanceled | ReadDeadline | ReadOther

record LegacyReads =
  lgr_uuid :: uuids
  lgr_unicode :: unicode
  lgr_HasDB :: bool
  lgr_PublicKey :: string

fun legacyReadError :: "read_failure \<Rightarrow> rpc_error" where
  "legacyReadError ReadNoRows = rpcError NotFound ''not_found''"
| "legacyReadError ReadCanceled = rpcError RpcCanceled ''request_cancelled''"
| "legacyReadError ReadDeadline = rpcError DeadlineExceeded ''request_timeout''"
| "legacyReadError ReadOther = rpcError Internal ''auth_lookup_failed''"

definition GetAccessTokenPublicKey :: "LegacyReads \<Rightarrow> rpc_error + string" where
  "GetAccessTokenPublicKey s =
     (if lgr_PublicKey s = '''' then Inl (rpcError Unavailable ''public_key_unavailable'')
      else Inr (lgr_PublicKey s))"

text \<open>\<open>strconv.ParseInt(s, 10, 64)\<close>: an optional sign, at least one digit, within 64 bits.\<close>

definition parse_digits :: "string \<Rightarrow> nat option" where
  "parse_digits s = (if s \<noteq> [] \<and> list_all is_digit s then Some (decimal_value s) else None)"

definition ParseInt :: "string \<Rightarrow> int option" where
  "ParseInt s =
     (let negative = (s \<noteq> [] \<and> hd s = CHR ''-'');
          body = (if s \<noteq> [] \<and> (hd s = CHR ''-'' \<or> hd s = CHR ''+'') then tl s else s)
      in case parse_digits body of
           None \<Rightarrow> None
         | Some n \<Rightarrow> if negative then (if int n \<le> 2 ^ 63 then Some (- int n) else None)
                     else if int n < 2 ^ 63 then Some (int n) else None)"

record AuthInfo =
  inf_Id :: uuid
  inf_Email :: string
  inf_Role :: string
  inf_Username :: "string option"
  inf_Registration :: time
  inf_IsActivated :: bool
  inf_IsBlocked :: bool
  inf_Deletion :: "time option"
  inf_GoogleId :: "string option"
  inf_VkId :: "int option"

text \<open>The predicates a request adds: a parsed identifier, a normalised email, a trimmed username.\<close>

definition info_id :: "LegacyReads \<Rightarrow> string \<Rightarrow> rpc_error + uuid option" where
  "info_id s text =
     (if text = '''' then Inr None
      else case uuid_Parse (lgr_uuid s) text of
        None \<Rightarrow> Inl (rpcError InvalidArgument ''invalid_request'')
      | Some i \<Rightarrow> if i = uuid_Nil then Inl (rpcError InvalidArgument ''invalid_request'') else Inr (Some i))"

definition trimmed :: "LegacyReads \<Rightarrow> string \<Rightarrow> string option" where
  "trimmed s text = (let t = TrimSpace (lgr_unicode s) text in if t = '''' then None else Some t)"

definition info_match :: "uuid option \<Rightarrow> string option \<Rightarrow> string option \<Rightarrow> account_row \<Rightarrow> bool" where
  "info_match i email username a \<longleftrightarrow>
     (case i of None \<Rightarrow> True | Some x \<Rightarrow> acc_id a = x) \<and>
     (case email of None \<Rightarrow> True | Some m \<Rightarrow> acc_email a = m) \<and>
     (case username of None \<Rightarrow> True | Some n \<Rightarrow> acc_username a = Some n)"

definition identity_subject :: "uuid \<Rightarrow> string \<Rightarrow> db \<Rightarrow> string option" where
  "identity_subject account provider db =
     map_option idn_subject (find (\<lambda>r. idn_account r = account \<and> idn_provider r = provider) (identities db))"

definition info_of :: "account_row \<Rightarrow> db \<Rightarrow> rpc_error + AuthInfo" where
  "info_of a db =
     (let vk = identity_subject (acc_id a) ''vk'' db;
          info = \<lparr>inf_Id = acc_id a, inf_Email = acc_email a, inf_Role = ''user'',
                  inf_Username = acc_username a, inf_Registration = acc_created a,
                  inf_IsActivated = (acc_email_verified a \<noteq> None), inf_IsBlocked = (acc_blocked a \<noteq> None),
                  inf_Deletion = map_option del_at (deletion_row_of (acc_id a) db),
                  inf_GoogleId = identity_subject (acc_id a) ''google'' db, inf_VkId = None\<rparr>
      in case vk of
           None \<Rightarrow> Inr info
         | Some t \<Rightarrow> (case ParseInt t of
               None \<Rightarrow> Inl (rpcError Internal ''invalid_identity'')
             | Some n \<Rightarrow> if n \<le> 0 then Inl (rpcError Internal ''invalid_identity'')
                         else Inr (info\<lparr>inf_VkId := Some n\<rparr>)))"

definition GetAuthInfo ::
  "LegacyReads \<Rightarrow> read_failure option \<Rightarrow> string \<Rightarrow> string \<Rightarrow> string \<Rightarrow> db \<Rightarrow> rpc_error + AuthInfo" where
  "GetAuthInfo s outcome idText emailText usernameText db =
     (case info_id s idText of
        Inl err \<Rightarrow> Inl err
      | Inr i \<Rightarrow>
          let email = map_option (ToLower (lgr_unicode s)) (trimmed s emailText);
              username = trimmed s usernameText
          in if i = None \<and> email = None \<and> username = None then Inl (rpcError InvalidArgument ''invalid_request'')
             else if \<not> lgr_HasDB s then Inl (rpcError Unavailable ''auth_storage_unavailable'')
             else case outcome of
               Some f \<Rightarrow> Inl (legacyReadError f)
             | None \<Rightarrow> (case find (info_match i email username) (accounts db) of
                   None \<Rightarrow> Inl (legacyReadError ReadNoRows)
                 | Some a \<Rightarrow> info_of a db))"

text \<open>The loop of \<open>GetVisibleNames\<close>: every identifier must parse, repeated ones are skipped.\<close>

fun parse_ids :: "LegacyReads \<Rightarrow> string list \<Rightarrow> uuid list \<Rightarrow> uuid list option" where
  "parse_ids s [] seen = Some (rev seen)"
| "parse_ids s (raw # rest) seen =
     (case uuid_Parse (lgr_uuid s) raw of
        None \<Rightarrow> None
      | Some i \<Rightarrow> if i = uuid_Nil then None
                  else if i \<in> set seen then parse_ids s rest seen
                  else parse_ids s rest (i # seen))"

definition GetVisibleNames ::
  "LegacyReads \<Rightarrow> read_failure option \<Rightarrow> string list \<Rightarrow> db \<Rightarrow> rpc_error + (uuid \<rightharpoonup> string)" where
  "GetVisibleNames s outcome raws db =
     (case parse_ids s raws [] of
        None \<Rightarrow> Inl (rpcError InvalidArgument ''invalid_request'')
      | Some ids \<Rightarrow>
          if ids = [] then Inr Map.empty
          else if \<not> lgr_HasDB s then Inl (rpcError Unavailable ''auth_storage_unavailable'')
          else case outcome of
            Some f \<Rightarrow> Inl (legacyReadError f)
          | None \<Rightarrow> Inr (map_of (map (\<lambda>a. (acc_id a, the (acc_username a)))
              (filter (\<lambda>a. acc_username a \<noteq> None \<and> acc_id a \<in> set ids) (accounts db)))))"

datatype deletion_status = AccountDeleted | AccountPresent "time option"

definition GetProfileDeletionStatus ::
  "LegacyReads \<Rightarrow> read_failure option \<Rightarrow> string \<Rightarrow> db \<Rightarrow> rpc_error + deletion_status" where
  "GetProfileDeletionStatus s outcome raw db =
     (case uuid_Parse (lgr_uuid s) raw of
        None \<Rightarrow> Inl (rpcError InvalidArgument ''invalid_request'')
      | Some i \<Rightarrow>
          if i = uuid_Nil then Inl (rpcError InvalidArgument ''invalid_request'')
          else if \<not> lgr_HasDB s then Inl (rpcError Unavailable ''auth_storage_unavailable'')
          else case outcome of
            Some ReadNoRows \<Rightarrow> Inr AccountDeleted
          | Some f \<Rightarrow> Inl (legacyReadError f)
          | None \<Rightarrow> (case account_row_of i db of
                None \<Rightarrow> Inr AccountDeleted
              | Some a \<Rightarrow> Inr (AccountPresent (map_option del_at (deletion_row_of i db)))))"

lemma parse_digits_decimal: "parse_digits (decimal n) = Some n"
  using decimal_digits by (simp add: parse_digits_def)

lemma ParseInt_FormatInt:
  assumes "0 < n" "n < 2 ^ 63"
  shows "ParseInt (FormatInt n) = Some n"
proof -
  have "is_digit (hd (decimal (nat n)))"
    using decimal_digits [of "nat n"] by (cases "decimal (nat n)") simp_all
  then have "hd (decimal (nat n)) \<noteq> CHR ''-''" "hd (decimal (nat n)) \<noteq> CHR ''+''"
    by (auto simp: is_digit_def byte_def)
  then show ?thesis
    using assms by (simp add: ParseInt_def FormatInt_def parse_digits_decimal Let_def)
qed

lemmas run_reads [run_defs] = GetAccessTokenPublicKey_def parse_digits_def ParseInt_def info_id_def
  trimmed_def info_match_def identity_subject_def info_of_def GetAuthInfo_def GetVisibleNames_def
  GetProfileDeletionStatus_def

end
