(* ===== verification/Auth_App.thy ===== *)
theory Auth_App
  imports Auth_Config Auth_Trace Auth_Reads
begin

section \<open>Start-up and background work\<close>

text \<open>
  \<open>internal/app\<close>: the engine made from the configuration, the start of the service with the
  checks that may stop it, and the loops that run beside the server. What start-up meets is
  the record \<open>boot\<close>: whether the database can be opened and answers, whether the port is
  free, the key generator and the libraries. \<open>schema/apply.go\<close> creates the schema the
  start-up checks. A panic on a nil pointer is the outcome \<open>Crashed\<close>.
\<close>

subsection \<open>The schema\<close>

text \<open>
  A PostgreSQL schema holds no tables, the tables of \<open>initial.sql\<close>, or others, which may
  have all columns the start-up check names.
\<close>

datatype schema_state = EmptySchema | Installed db | OtherTables bool

definition Initialize :: "begin_outcome \<Rightarrow> bool \<Rightarrow> schema_state \<Rightarrow> (start_error + unit) \<times> schema_state" where
  "Initialize b commit s =
     (if b \<noteq> BeginOk then (Inl (StartError ''begin''), s)
      else case s of
        EmptySchema \<Rightarrow> if commit then (Inr (), Installed Initial) else (Inl (StartError ''commit''), s)
      | _ \<Rightarrow> (Inl (StartError ''initial schema requires an empty database schema; no existing tables were modified''), s))"

definition Check :: "schema_state \<Rightarrow> start_error + unit" where
  "Check s =
     (case s of
        Installed _ \<Rightarrow> Inr ()
      | OtherTables True \<Rightarrow> Inr ()
      | _ \<Rightarrow> Inl (StartError ''new auth initial schema is required; apply schema/initial.sql to an explicitly selected empty database''))"

text \<open>
  \<open>cmd/migrations\<close>: the exit code and the schema. Without the explicit flag nothing runs.
\<close>

definition migrations_main :: "bool \<Rightarrow> bool \<Rightarrow> bool \<Rightarrow> begin_outcome \<Rightarrow> bool \<Rightarrow> schema_state \<Rightarrow> nat \<times> schema_state" where
  "migrations_main parsed initialize opened b commit s =
     (if \<not> parsed \<or> \<not> initialize then (2, s)
      else if \<not> opened then (1, s)
      else case Initialize b commit s of (Inl err, s') \<Rightarrow> (1, s') | (Inr _, s') \<Rightarrow> (0, s'))"

text \<open>Initialisation never changes existing tables, and what it installs passes the start-up check.\<close>

lemma migrations_main_safe:
  assumes "migrations_main parsed initialize opened b commit s = (code, t)"
  shows "t = s \<and> code \<noteq> 0 \<or> s = EmptySchema \<and> t = Installed Initial \<and> code = 0 \<and> Check t = Inr ()"
  using assms by (auto simp: migrations_main_def Initialize_def Check_def split: if_splits schema_state.splits sum.splits prod.splits)

subsection \<open>Reading values\<close>

fun split_on :: "char \<Rightarrow> string \<Rightarrow> string \<Rightarrow> string list" where
  "split_on sep acc [] = [rev acc]"
| "split_on sep acc (c # s) = (if c = sep then rev acc # split_on sep [] s else split_on sep (c # acc) s)"

definition split_list :: "unicode \<Rightarrow> string option \<Rightarrow> string list" where
  "split_list u value =
     (case value of None \<Rightarrow> []
      | Some s \<Rightarrow> filter (\<lambda>v. v \<noteq> '''') (map (TrimSpace u) (split_on CHR '','' [] s)))"

definition text_of :: "string option \<Rightarrow> string" where
  "text_of value = (case value of None \<Rightarrow> '''' | Some s \<Rightarrow> s)"

text \<open>
  \<open>base64.StdEncoding.DecodeString\<close>: line breaks are skipped, the length is a multiple of
  four, at most two padding characters stand at the end, every other character is a letter
  of the alphabet. The bits left over before the padding are ignored.
\<close>

definition base64std :: string where
  "base64std = ''ABCDEFGHIJKLMNOPQRSTUVWXYZabcdefghijklmnopqrstuvwxyz0123456789+/''"

definition StdDecode :: "string \<Rightarrow> string option" where
  "StdDecode s =
     (let t = filter (\<lambda>c. byte c \<noteq> 10 \<and> byte c \<noteq> 13) s;
          pad = length (takeWhile (\<lambda>c. c = CHR ''='') (rev t))
      in if length t mod 4 \<noteq> 0 \<or> pad > 2 then None
         else map_option (\<lambda>ns. whole_bytes (concat (map (to_bits 6) ns))) (indices base64std (take (length t - pad) t)))"

definition stableSecrets :: "Security_config \<Rightarrow> start_error + Secrets" where
  "stableSecrets c =
     (case StdDecode (text_of (cfg_HMACKey c)) of
        None \<Rightarrow> Inl (StartError ''invalid auth HMAC key encoding'')
      | Some mac \<Rightarrow>
          (case StdDecode (text_of (cfg_EncryptionKey c)) of
             None \<Rightarrow> Inl (StartError ''invalid auth encryption key encoding'')
           | Some encryption \<Rightarrow>
               (case NewSecrets mac encryption of
                  Inl err \<Rightarrow> Inl (StartError ''auth keys must be at least 32 / exactly 32 bytes'')
                | Inr s \<Rightarrow> Inr s)))"

subsection \<open>The engine\<close>

text \<open>A token manager as the service uses it: it issues access tokens and shows its public key.\<close>

record Manager =
  mgr_Issue :: TokenIssuer
  mgr_PublicDER :: string

record boot =
  bt_Libs :: libs
  bt_Parse :: "string \<Rightarrow> URL option"
  bt_RawKey :: "string \<Rightarrow> Manager option"
  bt_Generated :: "Manager option"
  bt_Web :: webauthn
  bt_Salt :: string
  bt_Words :: string
  bt_Open :: bool
  bt_Ping :: bool
  bt_Schema :: schema_state
  bt_Listen :: bool

definition signing_key :: "boot \<Rightarrow> Config \<Rightarrow> start_error + Manager" where
  "signing_key b cfg =
     (let raw = text_of (cfg_AccessTokenSigningKey (cfg_Auth cfg));
          failed = StartError ''cannot initialize signing key''
      in if raw \<noteq> '''' then (case bt_RawKey b raw of None \<Rightarrow> Inl failed | Some m \<Rightarrow> Inr m)
         else case cfg_Environment cfg of None \<Rightarrow> Inl NilPointer
         | Some environment \<Rightarrow>
             if environment = EnvProd then Inl (StartError ''production signing key is required'')
             else (case bt_Generated b of None \<Rightarrow> Inl failed | Some m \<Rightarrow> Inr m))"

definition configured_providers :: "OAuth_config \<Rightarrow> string \<rightharpoonup> Provider" where
  "configured_providers c name =
     (if name = ''google'' \<and> text_of (cfg_ClientId (cfg_Google c)) \<noteq> ''''
      then Some (Google \<lparr>ggl_ClientID = text_of (cfg_ClientId (cfg_Google c)), ggl_ClientSecret = text_of (cfg_ClientSecret (cfg_Google c))\<rparr>)
      else if name = ''vk'' \<and> text_of (cfg_ClientId (cfg_Vk c)) \<noteq> '''' \<and> text_of (cfg_ClientSecret (cfg_Vk c)) \<noteq> ''''
      then Some (VK \<lparr>vk_ClientID = text_of (cfg_ClientId (cfg_Vk c)), vk_ClientSecret = text_of (cfg_ClientSecret (cfg_Vk c))\<rparr>)
      else None)"

definition valid_redirect :: "boot \<Rightarrow> string \<Rightarrow> bool" where
  "valid_redirect b redirect =
     (case bt_Parse b redirect of None \<Rightarrow> False
      | Some u \<Rightarrow> url_Scheme u \<noteq> '''' \<and> \<not> url_User u \<and> url_Fragment u = '''')"

definition configured_passkeys :: "boot \<Rightarrow> Security_config \<Rightarrow> start_error + Verifier option" where
  "configured_passkeys b c =
     (if text_of (cfg_RPID c) = '''' then Inr None
      else case NewVerifier (bt_Web b)
                  \<lparr>pkc_RPID = text_of (cfg_RPID c), pkc_Origins = split_list (lib_unicode (bt_Libs b)) (cfg_Origins c),
                   pkc_OpaqueOrigins = split_list (lib_unicode (bt_Libs b)) (cfg_OpaqueOrigins c)\<rparr> of
             None \<Rightarrow> Inl (StartError ''invalid passkey ceremony'')
           | Some v \<Rightarrow> Inr (Some v))"

definition valid_confirmation :: "boot \<Rightarrow> string \<Rightarrow> bool" where
  "valid_confirmation b raw \<longleftrightarrow> raw = '''' \<or>
     (case bt_Parse b raw of None \<Rightarrow> False
      | Some u \<Rightarrow> url_Scheme u = ''https'' \<and> url_Host u \<noteq> '''' \<and> \<not> url_User u \<and> url_Fragment u = '''')"

definition configureEngine :: "boot \<Rightarrow> Config \<Rightarrow> start_error + engine \<times> Manager" where
  "configureEngine b cfg =
     (case stableSecrets (cfg_Security cfg) of Inl err \<Rightarrow> Inl err
      | Inr secrets \<Rightarrow> (case signing_key b cfg of Inl err \<Rightarrow> Inl err
      | Inr issuer \<Rightarrow> (case cfg_SaltCost (cfg_Auth cfg) of None \<Rightarrow> Inl NilPointer
      | Some cost \<Rightarrow>
          let redirects = split_list (lib_unicode (bt_Libs b)) (cfg_OAuthRedirects (cfg_Security cfg)) in
          if \<not> list_all (valid_redirect b) redirects then Inl (StartError ''invalid OAuth redirect allowlist'')
          else case configured_passkeys b (cfg_Security cfg) of Inl err \<Rightarrow> Inl err
          | Inr verifier \<Rightarrow>
              if \<not> list_all (valid_confirmation b)
                    [text_of (cfg_PasswordResetURL (cfg_Security cfg)), text_of (cfg_EmailChangeURL (cfg_Security cfg))]
              then Inl (StartError ''invalid HTTPS confirmation URL'')
              else Inr ((New (bt_Libs b) secrets True (bt_Salt b) (bt_Words b))
                     \<lparr>BcryptCost := cost, Providers := configured_providers (cfg_OAuth cfg), OAuthRedirects := redirects,
                      Passkeys := verifier\<rparr>, issuer))))"

subsection \<open>The service\<close>

record service =
  svc_Server :: Server
  svc_Reads :: LegacyReads
  svc_Port :: int
  svc_Broker :: "string option"
  svc_Interval :: duration

datatype start_outcome = Crashed | StartupFailed string start_error | Serving service

definition deletion_interval :: "duration \<Rightarrow> duration" where
  "deletion_interval interval = (if interval \<le> 0 then Minute else interval)"

definition make_server :: "Config \<Rightarrow> engine \<Rightarrow> Manager \<Rightarrow> Server option" where
  "make_server cfg engine issuer =
     (case (cfg_AccessToken (cfg_Auth cfg), cfg_RefreshToken (cfg_Auth cfg), cfg_Offset (cfg_ProfileDeletion cfg)) of
        (Some access, Some refresh, Some offset) \<Rightarrow>
          Some \<lparr>srv_Engine = engine, srv_Issuer = mgr_Issue issuer, srv_AccessTTL = access, srv_RefreshTTL = refresh,
                srv_DeletionDelay = offset, srv_PasswordResetURL = text_of (cfg_PasswordResetURL (cfg_Security cfg)),
                srv_EmailChangeURL = text_of (cfg_EmailChangeURL (cfg_Security cfg))\<rparr>
      | _ \<Rightarrow> None)"

definition make_reads :: "boot \<Rightarrow> Manager \<Rightarrow> LegacyReads" where
  "make_reads b issuer = \<lparr>lgr_uuid = lib_uuid (bt_Libs b), lgr_unicode = lib_unicode (bt_Libs b), lgr_HasDB = True,
     lgr_PublicKey = mgr_PublicDER issuer\<rparr>"

definition broker_of :: "Config \<Rightarrow> start_error + string option" where
  "broker_of cfg =
     (if text_of (mqc_Host (cfg_Amqp cfg)) = '''' then Inr None
      else case broker_url (cfg_Amqp cfg) of Inl err \<Rightarrow> Inl err | Inr u \<Rightarrow> Inr (Some u))"

text \<open>\<open>Run\<close> up to the point where every loop and the server have been started.\<close>

definition start_service :: "boot \<Rightarrow> Config \<Rightarrow> start_outcome" where
  "start_service b cfg =
     (if cfg_LogsPath cfg = None \<or> cfg_Environment cfg = None then Crashed
      else case DatabaseURL (cfg_Database cfg) of Inl err \<Rightarrow> Crashed
      | Inr url \<Rightarrow>
        if \<not> bt_Open b then StartupFailed ''connect_postgres'' (StartError ''database configuration failed'')
        else if \<not> bt_Ping b \<or> isl (Check (bt_Schema b))
        then StartupFailed ''check_initial_schema'' (StartError ''database unavailable or initial auth schema missing'')
        else case configureEngine b cfg of
          Inl err \<Rightarrow> if err = NilPointer then Crashed else StartupFailed ''configure_authentication'' err
        | Inr (engine, issuer) \<Rightarrow>
          (case (make_server cfg engine issuer, cfg_Port cfg) of
             (Some server, Some port) \<Rightarrow>
               if \<not> bt_Listen b then StartupFailed ''listen_grpc'' (StartError ''listen'')
               else (case (broker_of cfg, cfg_CheckInterval (cfg_ProfileDeletion cfg)) of
                  (Inr broker, Some interval) \<Rightarrow>
                    Serving \<lparr>svc_Server = server, svc_Reads = make_reads b issuer, svc_Port = port, svc_Broker = broker,
                      svc_Interval = deletion_interval interval\<rparr>
                | _ \<Rightarrow> Crashed)
           | _ \<Rightarrow> Crashed))"

text \<open>\<open>main\<close>: the configuration is validated, a failure panics.\<close>

definition main_app :: "boot \<Rightarrow> Config \<Rightarrow> start_outcome" where
  "main_app b cfg = (case Validate cfg of (Inl err, _) \<Rightarrow> Crashed | (Inr _, cfg') \<Rightarrow> start_service b cfg')"

subsection \<open>Health\<close>

datatype serving = SERVING | NOT_SERVING

text \<open>The calls of \<open>SetServingStatus\<close> a status leads to, and those of the monitor, one answer of the database per tick.\<close>

definition setHealthStatus :: "serving \<Rightarrow> (string \<times> serving) list" where
  "setHealthStatus status = map (\<lambda>name. (name, status)) ['''', ''v1.AuthService'', ''v1.AuthenticationService'']"

definition monitor_tick :: "bool \<Rightarrow> (string \<times> serving) list" where
  "monitor_tick ping = setHealthStatus (if ping then SERVING else NOT_SERVING)"

definition monitorHealthChecking :: "bool list \<Rightarrow> (string \<times> serving) list" where
  "monitorHealthChecking pings = concat (map monitor_tick pings)"

subsection \<open>Loops over the database\<close>

text \<open>
  The rounds of the three loops until their context ends: batches of deletions, cleanups,
  and connections of the outbox worker, each of which may fail to be set up.
\<close>

definition runDeletions :: "env list list \<Rightarrow> db \<Rightarrow> db" where
  "runDeletions batches s = fold delete_batch batches s"

definition run_cleanups :: "engine \<Rightarrow> env list \<Rightarrow> db \<Rightarrow> db" where
  "run_cleanups e vs s = fold (\<lambda>v s. snd (Cleanup e v s)) vs s"

datatype connection = DialFailed | ChannelFailed | DeclareFailed string | ConfirmFailed | Connected "(bool \<times> bool \<times> publish_outcome) list"

definition runConnection :: "connection \<Rightarrow> db \<Rightarrow> publication list \<times> db" where
  "runConnection c s = (case c of Connected rounds \<Rightarrow> run_connection rounds s | _ \<Rightarrow> ([], s))"

fun worker_Run :: "connection list \<Rightarrow> db \<Rightarrow> publication list \<times> db" where
  "worker_Run [] s = ([], s)"
| "worker_Run (c # cs) s =
     (case runConnection c s of (ms, s') \<Rightarrow> (case worker_Run cs s' of (ns, s2) \<Rightarrow> (ms @ ns, s2)))"


subsection \<open>What a started service guarantees\<close>

lemma stableSecrets_Inr:
  "stableSecrets c = Inr s \<Longrightarrow> 32 \<le> length (macKey s) \<and> length (cipherKey s) = 32"
  by (auto simp: stableSecrets_def NewSecrets_def split: option.splits if_splits)

lemma signing_key_Inr:
  "signing_key b cfg = Inr m \<Longrightarrow>
     (\<exists>raw. cfg_AccessTokenSigningKey (cfg_Auth cfg) = Some raw \<and> raw \<noteq> '''' \<and> bt_RawKey b raw = Some m) \<or>
     (cfg_Environment cfg \<noteq> Some EnvProd \<and> bt_Generated b = Some m)"
  by (auto simp: signing_key_def text_of_def Let_def split: option.splits if_splits)

lemma split_list_nonempty: "'''' \<notin> set (split_list u value)"
  by (auto simp: split_list_def split: option.splits)

lemma configured_passkeys_Inr:
  "configured_passkeys b c = Inr p \<Longrightarrow> (p = None \<longleftrightarrow> text_of (cfg_RPID c) = '''') \<and>
     (\<forall>v. p = Some v \<longrightarrow> ver_RPID v = text_of (cfg_RPID c) \<and> split_list (lib_unicode (bt_Libs b)) (cfg_Origins c) \<noteq> [])"
  by (auto simp: configured_passkeys_def NewVerifier_def split: option.splits if_splits)

definition engine_ok :: "engine \<Rightarrow> bool" where
  "engine_ok e \<longleftrightarrow> 32 \<le> length (macKey (Secrets e)) \<and> length (cipherKey (Secrets e)) = 32 \<and> Mail e \<and>
     dom (Providers e) \<subseteq> {''google'', ''vk''} \<and> '''' \<notin> set (OAuthRedirects e) \<and> MaxAttempts e = 10 \<and>
     0 < GrantTTL e \<and> GrantTTL e < FlowTTL e \<and> 0 < ChallengeTTL e \<and> ChallengeTTL e < FlowTTL e \<and> 0 < ReuseTTL e"

lemma configureEngine_ok:
  assumes "configureEngine b cfg = Inr (e, issuer)"
  shows "engine_ok e" "BcryptCost e = the (cfg_SaltCost (cfg_Auth cfg))" "Providers e = configured_providers (cfg_OAuth cfg)"
    "list_all (valid_redirect b) (OAuthRedirects e)" "configured_passkeys b (cfg_Security cfg) = Inr (Passkeys e)"
    "valid_confirmation b (text_of (cfg_PasswordResetURL (cfg_Security cfg)))"
    "valid_confirmation b (text_of (cfg_EmailChangeURL (cfg_Security cfg)))" "signing_key b cfg = Inr issuer"
proof -
  obtain secrets cost verifier where s: "stableSecrets (cfg_Security cfg) = Inr secrets" "signing_key b cfg = Inr issuer"
      "cfg_SaltCost (cfg_Auth cfg) = Some cost"
    and v: "list_all (valid_redirect b) (split_list (lib_unicode (bt_Libs b)) (cfg_OAuthRedirects (cfg_Security cfg)))"
      "valid_confirmation b (text_of (cfg_PasswordResetURL (cfg_Security cfg)))"
      "valid_confirmation b (text_of (cfg_EmailChangeURL (cfg_Security cfg)))"
    and k: "configured_passkeys b (cfg_Security cfg) = Inr verifier"
    and e: "e = (New (bt_Libs b) secrets True (bt_Salt b) (bt_Words b)) \<lparr>BcryptCost := cost,
        Providers := configured_providers (cfg_OAuth cfg),
        OAuthRedirects := split_list (lib_unicode (bt_Libs b)) (cfg_OAuthRedirects (cfg_Security cfg)), Passkeys := verifier\<rparr>"
    using assms by (auto simp: configureEngine_def Let_def split: sum.splits option.splits if_splits)
  have "dom (configured_providers (cfg_OAuth cfg)) \<subseteq> {''google'', ''vk''}"
    by (auto simp: configured_providers_def split: if_splits)
  then show "engine_ok e"
    unfolding engine_ok_def e using stableSecrets_Inr [OF s(1)] split_list_nonempty by (auto simp: New_def Minute_def Second_def)
  show "BcryptCost e = the (cfg_SaltCost (cfg_Auth cfg))" "Providers e = configured_providers (cfg_OAuth cfg)"
    "list_all (valid_redirect b) (OAuthRedirects e)" "configured_passkeys b (cfg_Security cfg) = Inr (Passkeys e)"
    using s v k by (simp_all add: e)
  show "valid_confirmation b (text_of (cfg_PasswordResetURL (cfg_Security cfg)))"
    "valid_confirmation b (text_of (cfg_EmailChangeURL (cfg_Security cfg)))" "signing_key b cfg = Inr issuer"
    using s v by simp_all
qed

text \<open>
  C34: A service that starts is configured safely. Its keys have their lengths and are not
  generated, in production neither is the signing key; only Google and VK can be providers,
  each only with its client configured; every redirect on the allowlist is a URL with a
  scheme and without user and fragment; the confirmation links are empty or HTTPS; passkeys
  are offered exactly where a relying party is named, with an origin; a process allows ten
  wrong attempts and its grants and steps expire before it does; the database has answered
  and passed the schema check, and the deletion loop has a positive interval.
\<close>

theorem configured_service:
  assumes "main_app b cfg = Serving svc"
  shows "engine_ok (srv_Engine (svc_Server svc)) \<and> bt_Ping b \<and> Check (bt_Schema b) = Inr () \<and> 0 < svc_Interval svc \<and>
     (cfg_Environment cfg = Some EnvProd \<longrightarrow> (\<exists>raw m. cfg_AccessTokenSigningKey (cfg_Auth cfg) = Some raw \<and> raw \<noteq> '''' \<and>
        bt_RawKey b raw = Some m \<and> srv_Issuer (svc_Server svc) = mgr_Issue m \<and> lgr_PublicKey (svc_Reads svc) = mgr_PublicDER m)) \<and>
     (\<forall>r \<in> set (OAuthRedirects (srv_Engine (svc_Server svc))). valid_redirect b r) \<and>
     valid_confirmation b (srv_PasswordResetURL (svc_Server svc)) \<and> valid_confirmation b (srv_EmailChangeURL (svc_Server svc)) \<and>
     (''google'' \<in> dom (Providers (srv_Engine (svc_Server svc))) \<longleftrightarrow> text_of (cfg_ClientId (cfg_Google (cfg_OAuth cfg))) \<noteq> '''') \<and>
     (''vk'' \<in> dom (Providers (srv_Engine (svc_Server svc))) \<longleftrightarrow>
        text_of (cfg_ClientId (cfg_Vk (cfg_OAuth cfg))) \<noteq> '''' \<and> text_of (cfg_ClientSecret (cfg_Vk (cfg_OAuth cfg))) \<noteq> '''') \<and>
     (Passkeys (srv_Engine (svc_Server svc)) = None \<longleftrightarrow> text_of (cfg_RPID (cfg_Security cfg)) = '''') \<and>
     (Passkeys (srv_Engine (svc_Server svc)) \<noteq> None \<longrightarrow> split_list (lib_unicode (bt_Libs b)) (cfg_Origins (cfg_Security cfg)) \<noteq> [])"
proof -
  obtain c where c: "c = cfg \<or> c = cfg\<lparr>cfg_Environment := Some EnvDev\<rparr>" "cfg_Environment cfg = Some EnvProd \<longrightarrow> c = cfg"
    and run: "start_service b c = Serving svc"
    using assms by (auto simp: main_app_def Validate_def split: option.splits sum.splits if_splits)
  have same: "cfg_Auth c = cfg_Auth cfg" "cfg_OAuth c = cfg_OAuth cfg" "cfg_Security c = cfg_Security cfg" using c by auto
  obtain e issuer interval where conf: "configureEngine b c = Inr (e, issuer)" and sv: "make_server c e issuer = Some (svc_Server svc)"
    and rest: "bt_Ping b" "\<not> isl (Check (bt_Schema b))" "svc_Interval svc = deletion_interval interval" "svc_Reads svc = make_reads b issuer"
    using run by (auto simp: start_service_def split: if_splits sum.splits option.splits prod.splits)
  have srv: "srv_Engine (svc_Server svc) = e" "srv_Issuer (svc_Server svc) = mgr_Issue issuer"
    "srv_PasswordResetURL (svc_Server svc) = text_of (cfg_PasswordResetURL (cfg_Security cfg))"
    "srv_EmailChangeURL (svc_Server svc) = text_of (cfg_EmailChangeURL (cfg_Security cfg))"
    using sv same by (auto simp: make_server_def split: option.splits dest!: sym [of _ "svc_Server svc"])
  note ok = configureEngine_ok [OF conf, unfolded same]
  have dbok: "Check (bt_Schema b) = Inr ()" using rest(2) by (cases "Check (bt_Schema b)") auto
  have key: "\<exists>raw m. cfg_AccessTokenSigningKey (cfg_Auth cfg) = Some raw \<and> raw \<noteq> '''' \<and> bt_RawKey b raw = Some m \<and>
      mgr_Issue issuer = mgr_Issue m \<and> mgr_PublicDER issuer = mgr_PublicDER m" if "cfg_Environment cfg = Some EnvProd"
    using signing_key_Inr [OF ok(8)] that c(2) same by auto
  have prov: "''google'' \<in> dom (Providers e) \<longleftrightarrow> text_of (cfg_ClientId (cfg_Google (cfg_OAuth cfg))) \<noteq> ''''"
    "''vk'' \<in> dom (Providers e) \<longleftrightarrow>
       text_of (cfg_ClientId (cfg_Vk (cfg_OAuth cfg))) \<noteq> '''' \<and> text_of (cfg_ClientSecret (cfg_Vk (cfg_OAuth cfg))) \<noteq> ''''"
    by (auto simp: ok(3) configured_providers_def dom_def)
  have pos: "0 < svc_Interval svc" by (simp add: rest(3) deletion_interval_def Minute_def Second_def)
  show ?thesis
    unfolding srv rest(4) using ok(1,4,6,7) rest(1) dbok key prov pos configured_passkeys_Inr [OF ok(5)]
    by (simp add: list_all_iff make_reads_def) auto
qed


definition demo_hmac_key :: string where
  "demo_hmac_key = replicate 43 CHR ''A'' @ ''=''"

definition demo_boot :: boot where
  "demo_boot = \<lparr>bt_Libs = demo_libs, bt_Parse = (\<lambda>s. Some demo_url),
     bt_RawKey = (\<lambda>raw. Some \<lparr>mgr_Issue = (\<lambda>p d. Inr raw), mgr_PublicDER = raw\<rparr>), bt_Generated = None,
     bt_Web = \<lparr>web_Valid = (\<lambda>_ _ _. True), web_BeginRegistration = (\<lambda>_ _ _. None), web_BeginDiscoverableLogin = (\<lambda>_. None),
       web_ParseCreation = (\<lambda>_. None), web_CreateCredential = (\<lambda>_ _ _. None), web_ParseAssertion = (\<lambda>_. None),
       web_ValidatePasskeyLogin = (\<lambda>_ _ _. None)\<rparr>,
     bt_Salt = ''salt'', bt_Words = ''admin'', bt_Open = True, bt_Ping = True, bt_Schema = Installed Initial, bt_Listen = True\<rparr>"

text \<open>The default flags, in production, with the keys, the database and one redirect set.\<close>

definition demo_config :: Config where
  "demo_config = (default_config ''0'')\<lparr>cfg_Environment := Some EnvProd,
     cfg_Security := (cfg_Security (default_config ''0''))\<lparr>cfg_HMACKey := Some demo_hmac_key, cfg_EncryptionKey := Some demo_hmac_key,
       cfg_OAuthRedirects := Some ''app://login, ''\<rparr>,
     cfg_Auth := (cfg_Auth (default_config ''0''))\<lparr>cfg_AccessTokenSigningKey := Some ''key''\<rparr>, cfg_Database := demo_database\<rparr>"

lemma demo_secrets: "stableSecrets (cfg_Security demo_config) = Inr \<lparr>macKey = replicate 32 CHR 0x00, cipherKey = replicate 32 CHR 0x00\<rparr>"
  by code_simp

lemma demo_redirects: "split_list demo_unicode (Some ''app://login, '') = [''app://login'']"
  by code_simp

lemma demo_starts: "\<exists>svc. main_app demo_boot demo_config = Serving svc"
  using demo_secrets
  by (simp add: main_app_def Validate_def start_service_def configureEngine_def signing_key_def configured_passkeys_def make_server_def
      make_reads_def broker_of_def demo_config_def default_config_def demo_boot_def demo_database_def DatabaseURL_def EnvProd_def EnvDev_def
      text_of_def Check_def demo_redirects demo_libs_def valid_redirect_def valid_confirmation_def demo_url_def Let_def)

theorem configured_service_witness:
  "\<exists>svc. main_app demo_boot demo_config = Serving svc \<and> lgr_PublicKey (svc_Reads svc) = ''key'' \<and> 0 < svc_Interval svc"
proof -
  obtain svc where run: "main_app demo_boot demo_config = Serving svc" using demo_starts by blast
  from configured_service [OF run] show ?thesis
    by (intro exI [of _ svc]) (simp add: run, simp add: demo_config_def demo_boot_def default_config_def)
qed

end
