(* ===== verification/Auth_Cascade.thy ===== *)
theory Auth_Cascade
  imports Auth_Schema
begin

section \<open>What a cascading delete leaves alone\<close>

text \<open>
  Deleting steps, processes, sessions, passkeys or accounts takes the rows that reference
  them along. These equations say which tables each of them changes and how, one cascade
  resting on the one below it.
\<close>

named_theorems frames \<open>tables a cascading delete leaves alone or filters\<close>

lemma delete_steps_frame [frames]:
  "accounts (delete_steps D s) = accounts s" "identities (delete_steps D s) = identities s" "sessions (delete_steps D s) = sessions s"
  "authentications (delete_steps D s) = authentications s" "passkeys (delete_steps D s) = passkeys s" "outbox (delete_steps D s) = outbox s"
  "account_deletion_requests (delete_steps D s) = account_deletion_requests s" "totp (delete_steps D s) = totp s"
  "password_reset_requests (delete_steps D s) = password_reset_requests s" "backup_codes (delete_steps D s) = backup_codes s"
  "email_change_requests (delete_steps D s) = email_change_requests s"
  by (simp_all add: delete_steps_def Let_def)

lemma delete_auths_frame [frames]:
  "accounts (delete_auths D s) = accounts s" "identities (delete_auths D s) = identities s" "sessions (delete_auths D s) = sessions s"
  "authentications (delete_auths D s) = delete_rows D (authentications s)" "passkeys (delete_auths D s) = passkeys s"
  "outbox (delete_auths D s) = outbox s" "account_deletion_requests (delete_auths D s) = account_deletion_requests s" "totp (delete_auths D s) = totp s"
  "password_reset_requests (delete_auths D s) = password_reset_requests s" "backup_codes (delete_auths D s) = backup_codes s"
  "email_change_requests (delete_auths D s) = email_change_requests s"
  by (simp_all add: delete_auths_def Let_def delete_steps_frame)

lemma delete_sessions_frame [frames]:
  "accounts (delete_sessions D s) = accounts s" "identities (delete_sessions D s) = identities s"
  "sessions (delete_sessions D s) = delete_rows D (sessions s)" "passkeys (delete_sessions D s) = passkeys s"
  "outbox (delete_sessions D s) = outbox s" "account_deletion_requests (delete_sessions D s) = account_deletion_requests s"
  "totp (delete_sessions D s) = totp s" "password_reset_requests (delete_sessions D s) = password_reset_requests s"
  "backup_codes (delete_sessions D s) = backup_codes s" "email_change_requests (delete_sessions D s) = email_change_requests s"
  by (simp_all add: delete_sessions_def Let_def delete_auths_frame)

lemma delete_sessions_auths [frames]:
  "authentications (delete_sessions D s) =
     delete_rows (\<lambda>r. \<exists>x \<in> set (sessions s). D x \<and> aut_session r = Some (ses_id x)) (authentications s)"
  by (auto simp: delete_sessions_def Let_def delete_auths_frame delete_rows_def intro!: filter_cong)

lemma delete_passkeys_frame [frames]:
  "accounts (delete_passkeys D s) = accounts s" "identities (delete_passkeys D s) = identities s" "sessions (delete_passkeys D s) = sessions s"
  "authentications (delete_passkeys D s) = authentications s" "passkeys (delete_passkeys D s) = delete_rows D (passkeys s)"
  "outbox (delete_passkeys D s) = outbox s" "account_deletion_requests (delete_passkeys D s) = account_deletion_requests s"
  by (simp_all add: delete_passkeys_def Let_def)

lemma delete_accounts_frame [frames]:
  "accounts (delete_accounts D s) = delete_rows D (accounts s)" "outbox (delete_accounts D s) = outbox s"
  "account_deletion_requests (delete_accounts D s) = delete_rows (\<lambda>d. del_account d \<in> acc_id ` {a \<in> set (accounts s). D a}) (account_deletion_requests s)"
  "sessions (delete_accounts D s) = delete_rows (\<lambda>x. ses_account x \<in> acc_id ` {a \<in> set (accounts s). D a}) (sessions s)"
  "identities (delete_accounts D s) = delete_rows (\<lambda>x. idn_account x \<in> acc_id ` {a \<in> set (accounts s). D a}) (identities s)"
  "passkeys (delete_accounts D s) = delete_rows (\<lambda>x. psk_account x \<in> acc_id ` {a \<in> set (accounts s). D a}) (passkeys s)"
  by (simp_all add: delete_accounts_def Let_def delete_auths_frame delete_sessions_frame delete_passkeys_frame)

subsection \<open>The cascades in one piece\<close>

text \<open>
  What is left when the sessions \<open>S\<close> and the processes \<open>A\<close> go: a process goes with its session, a
  step and a kept registration with their process, what a step issued with the step, a request
  with its step or session. The order in which the cascades run makes no difference.
\<close>

definition cut_auth :: "(session_row \<Rightarrow> bool) \<Rightarrow> (auth_row \<Rightarrow> bool) \<Rightarrow> db \<Rightarrow> auth_row \<Rightarrow> bool" where
  "cut_auth S A s r \<longleftrightarrow> A r \<or> (\<exists>x \<in> set (sessions s). S x \<and> aut_session r = Some (ses_id x))"

definition cut_process :: "(session_row \<Rightarrow> bool) \<Rightarrow> (auth_row \<Rightarrow> bool) \<Rightarrow> db \<Rightarrow> uuid \<Rightarrow> bool" where
  "cut_process S A s aid \<longleftrightarrow> (\<exists>r \<in> set (authentications s). cut_auth S A s r \<and> aut_id r = aid)"

definition cut_step :: "(session_row \<Rightarrow> bool) \<Rightarrow> (auth_row \<Rightarrow> bool) \<Rightarrow> db \<Rightarrow> uuid \<Rightarrow> bool" where
  "cut_step S A s cid \<longleftrightarrow> (\<exists>c \<in> set (authentication_steps s). cut_process S A s (stp_auth c) \<and> stp_id c = cid)"

definition cut_session :: "(session_row \<Rightarrow> bool) \<Rightarrow> db \<Rightarrow> int \<Rightarrow> bool" where
  "cut_session S s sid \<longleftrightarrow> (\<exists>x \<in> set (sessions s). S x \<and> ses_id x = sid)"

definition cut :: "(session_row \<Rightarrow> bool) \<Rightarrow> (auth_row \<Rightarrow> bool) \<Rightarrow> db \<Rightarrow> db" where
  "cut S A s = s\<lparr>sessions := filter (\<lambda>x. \<not> S x) (sessions s),
     authentications := filter (\<lambda>r. \<not> cut_auth S A s r) (authentications s),
     registrations := filter (\<lambda>r. \<not> cut_process S A s (reg_auth r)) (registrations s),
     authentication_steps := filter (\<lambda>c. \<not> cut_process S A s (stp_auth c)) (authentication_steps s),
     email_authentication_steps := filter (\<lambda>r. \<not> cut_step S A s (est_id r)) (email_authentication_steps s),
     passkey_authentication_steps := filter (\<lambda>r. \<not> cut_step S A s (pst_id r)) (passkey_authentication_steps s),
     google_authentication_steps := filter (\<lambda>r. \<not> cut_step S A s (gst_id r)) (google_authentication_steps s),
     oauth_requests := filter (\<lambda>r. (\<forall>cid. oar_step r = Some cid \<longrightarrow> \<not> cut_step S A s cid) \<and>
       (\<forall>sid. oar_session r = Some sid \<longrightarrow> \<not> cut_session S s sid)) (oauth_requests s),
     totp_activation_requests := filter (\<lambda>r. \<not> cut_session S s (ttr_session r)) (totp_activation_requests s),
     passkey_registration_requests := filter (\<lambda>r. \<not> cut_session S s (pkr_session r)) (passkey_registration_requests s)\<rparr>"

lemmas cut_defs = cut_def cut_auth_def cut_process_def cut_step_def cut_session_def

lemma Some_image: "x \<in> Some ` X \<longleftrightarrow> (\<exists>y. x = Some y \<and> y \<in> X)"
  by auto

lemma delete_steps_of:
  assumes "\<And>cid. cid \<in> set (map stp_id (filter P (authentication_steps s))) \<longleftrightarrow> C cid"
  shows "delete_steps P s = s\<lparr>authentication_steps := filter (\<lambda>c. \<not> P c) (authentication_steps s),
     email_authentication_steps := filter (\<lambda>r. \<not> C (est_id r)) (email_authentication_steps s),
     passkey_authentication_steps := filter (\<lambda>r. \<not> C (pst_id r)) (passkey_authentication_steps s),
     google_authentication_steps := filter (\<lambda>r. \<not> C (gst_id r)) (google_authentication_steps s),
     oauth_requests := filter (\<lambda>r. \<forall>cid. oar_step r = Some cid \<longrightarrow> \<not> C cid) (oauth_requests s)\<rparr>"
  unfolding delete_steps_def Let_def delete_rows_def Some_image assms by simp

lemma delete_auths_cut: "delete_auths A s = cut (\<lambda>_. False) A s"
proof -
  have aid: "aid \<in> set (map aut_id (filter A (authentications s))) \<longleftrightarrow> cut_process (\<lambda>_. False) A s aid" for aid
    by (auto simp: cut_process_def cut_auth_def)
  have "delete_steps (\<lambda>r. cut_process (\<lambda>_. False) A s (stp_auth r)) (s\<lparr>authentications := X, registrations := Y\<rparr>) =
    s\<lparr>authentications := X, registrations := Y,
     authentication_steps := filter (\<lambda>c. \<not> cut_process (\<lambda>_. False) A s (stp_auth c)) (authentication_steps s),
     email_authentication_steps := filter (\<lambda>r. \<not> cut_step (\<lambda>_. False) A s (est_id r)) (email_authentication_steps s),
     passkey_authentication_steps := filter (\<lambda>r. \<not> cut_step (\<lambda>_. False) A s (pst_id r)) (passkey_authentication_steps s),
     google_authentication_steps := filter (\<lambda>r. \<not> cut_step (\<lambda>_. False) A s (gst_id r)) (google_authentication_steps s),
     oauth_requests := filter (\<lambda>r. \<forall>cid. oar_step r = Some cid \<longrightarrow> \<not> cut_step (\<lambda>_. False) A s cid) (oauth_requests s)\<rparr>" for X Y
    by (subst delete_steps_of [of _ _ "cut_step (\<lambda>_. False) A s"]) (auto simp: cut_step_def)
  then show ?thesis
    unfolding delete_auths_def Let_def aid by (simp add: delete_rows_def) (simp add: cut_def cut_session_def cut_auth_def)
qed

lemma delete_sessions_cut: "delete_sessions S s = cut S (\<lambda>_. False) s"
proof -
  define gone where "gone = set (map ses_id (filter S (sessions s)))"
  have sid: "sid \<in> gone \<longleftrightarrow> cut_session S s sid" for sid by (auto simp: gone_def cut_session_def)
  define u where "u = s\<lparr>sessions := delete_rows S (sessions s),
     oauth_requests := delete_rows (\<lambda>r. oar_session r \<in> Some ` gone) (oauth_requests s),
     totp_activation_requests := delete_rows (\<lambda>r. ttr_session r \<in> gone) (totp_activation_requests s),
     passkey_registration_requests := delete_rows (\<lambda>r. pkr_session r \<in> gone) (passkey_registration_requests s)\<rparr>"
  have A: "cut_auth (\<lambda>_. False) (\<lambda>r. aut_session r \<in> Some ` gone) u r = cut_auth S (\<lambda>_. False) s r" for r
    by (auto simp: cut_auth_def sid cut_session_def Some_image)
  have P: "cut_process (\<lambda>_. False) (\<lambda>r. aut_session r \<in> Some ` gone) u aid = cut_process S (\<lambda>_. False) s aid" for aid
    unfolding cut_process_def A by (simp add: u_def)
  have C: "cut_step (\<lambda>_. False) (\<lambda>r. aut_session r \<in> Some ` gone) u cid = cut_step S (\<lambda>_. False) s cid" for cid
    unfolding cut_step_def P by (simp add: u_def)
  have "delete_sessions S s = cut (\<lambda>_. False) (\<lambda>r. aut_session r \<in> Some ` gone) u"
    unfolding delete_sessions_def Let_def delete_auths_cut gone_def u_def by simp
  also have "\<dots> = cut S (\<lambda>_. False) s"
    unfolding cut_def A P C
    by (rule db.equality) (auto simp: u_def delete_rows_def sid Some_image cut_session_def intro!: filter_cong)
  finally show ?thesis .
qed

text \<open>Two cuts are one; so the order of the cascades does not matter.\<close>

lemma cut_cut: "cut S' A' (cut S A s) = cut (\<lambda>x. S x \<or> S' x) (\<lambda>r. A r \<or> A' r) s"
proof -
  define t where "t = cut S A s"
  have rows: "sessions t = filter (\<lambda>x. \<not> S x) (sessions s)" "authentications t = filter (\<lambda>r. \<not> cut_auth S A s r) (authentications s)"
    "authentication_steps t = filter (\<lambda>c. \<not> cut_process S A s (stp_auth c)) (authentication_steps s)"
    by (simp_all add: t_def cut_def)
  have sid: "cut_session (\<lambda>x. S x \<or> S' x) s sid \<longleftrightarrow> cut_session S s sid \<or> cut_session S' t sid" for sid
    by (auto simp: cut_session_def rows)
  have auth: "cut_auth (\<lambda>x. S x \<or> S' x) (\<lambda>r. A r \<or> A' r) s r \<longleftrightarrow> cut_auth S A s r \<or> cut_auth S' A' t r" for r
    by (auto simp: cut_auth_def rows(1))
  have aid: "cut_process (\<lambda>x. S x \<or> S' x) (\<lambda>r. A r \<or> A' r) s aid \<longleftrightarrow> cut_process S A s aid \<or> cut_process S' A' t aid" for aid
    unfolding cut_process_def auth rows(2) by auto
  have cid: "cut_step (\<lambda>x. S x \<or> S' x) (\<lambda>r. A r \<or> A' r) s cid \<longleftrightarrow> cut_step S A s cid \<or> cut_step S' A' t cid" for cid
    unfolding cut_step_def aid rows(3) by auto
  have "cut S' A' t = cut (\<lambda>x. S x \<or> S' x) (\<lambda>r. A r \<or> A' r) s"
    unfolding cut_def [of S'] cut_def [of "\<lambda>x. S x \<or> S' x"] sid auth aid cid
    by (rule db.equality) (auto simp: t_def cut_def intro!: filter_cong)
  then show ?thesis by (simp add: t_def)
qed

lemma cut_cascades:
  "delete_sessions S (delete_auths A s) = cut S A s"
  "delete_auths A (delete_sessions S s) = cut S A s"
  by (simp_all add: delete_auths_cut delete_sessions_cut cut_cut)

text \<open>What is left when one account goes, with everything that belongs to it.\<close>

definition without_account :: "uuid \<Rightarrow> db \<Rightarrow> db" where
  "without_account account s = (cut (\<lambda>x. ses_account x = account) (\<lambda>r. aut_account r = Some account) s)\<lparr>
     accounts := filter (\<lambda>a. acc_id a \<noteq> account) (accounts s),
     identities := filter (\<lambda>r. idn_account r \<noteq> account) (identities s),
     email_change_requests := filter (\<lambda>r. emc_account r \<noteq> account) (email_change_requests s),
     password_reset_requests := filter (\<lambda>r. rst_account r \<noteq> account) (password_reset_requests s),
     account_deletion_requests := filter (\<lambda>r. del_account r \<noteq> account) (account_deletion_requests s),
     totp := filter (\<lambda>r. ttp_account r \<noteq> account) (totp s),
     totp_activation_requests := filter (\<lambda>r. ttr_account r \<noteq> account \<and> \<not> cut_session (\<lambda>x. ses_account x = account) s (ttr_session r))
       (totp_activation_requests s),
     passkeys := filter (\<lambda>r. psk_account r \<noteq> account) (passkeys s),
     passkey_transports := filter (\<lambda>r. \<forall>k \<in> set (passkeys s). psk_account k = account \<longrightarrow> ptr_passkey r \<noteq> psk_id k) (passkey_transports s),
     backup_codes := filter (\<lambda>r. bkp_account r \<noteq> account) (backup_codes s)\<rparr>"

lemma delete_account_cut:
  assumes "a \<in> set (accounts s)" "acc_id a = account"
  shows "delete_accounts (\<lambda>b. acc_id b = account) s = without_account account s"
proof -
  have gone: "set (map acc_id (filter (\<lambda>b. acc_id b = account) (accounts s))) = {account}" using assms by force
  have "delete_accounts (\<lambda>b. acc_id b = account) s =
    (let db1 = delete_passkeys (\<lambda>r. psk_account r = account) (cut (\<lambda>x. ses_account x = account) (\<lambda>r. aut_account r = Some account) s)
     in db1\<lparr>accounts := delete_rows (\<lambda>b. acc_id b = account) (accounts db1),
       identities := delete_rows (\<lambda>r. idn_account r = account) (identities db1),
       email_change_requests := delete_rows (\<lambda>r. emc_account r = account) (email_change_requests db1),
       password_reset_requests := delete_rows (\<lambda>r. rst_account r = account) (password_reset_requests db1),
       account_deletion_requests := delete_rows (\<lambda>r. del_account r = account) (account_deletion_requests db1),
       totp := delete_rows (\<lambda>r. ttp_account r = account) (totp db1),
       totp_activation_requests := delete_rows (\<lambda>r. ttr_account r = account) (totp_activation_requests db1),
       backup_codes := delete_rows (\<lambda>r. bkp_account r = account) (backup_codes db1)\<rparr>)"
    unfolding delete_accounts_def gone cut_cascades(2) [symmetric] Let_def by simp
  also have "\<dots> = without_account account s"
    by (rule db.equality) (auto simp: without_account_def delete_passkeys_def Let_def cut_def delete_rows_def intro!: filter_cong)
  finally show ?thesis .
qed

lemma without_account_outbox: "without_account account (s\<lparr>outbox := q\<rparr>) = (without_account account s)\<lparr>outbox := q\<rparr>"
  by (simp add: without_account_def cut_defs)

end
