(* ===== verification/Auth_Policy.thy ===== *)
theory Auth_Policy
  imports Auth_Invariant Auth_Examples
begin

section \<open>The authentication policy\<close>

text \<open>
  What the success of an attempt means: which checks it passed, what it recorded, and that
  a process is completed only when the policy asks for nothing more.
\<close>

text \<open>What a right proof leaves alone: the process but for its account, and the steps.\<close>

definition same_process :: "Process \<Rightarrow> Process \<Rightarrow> bool" where
  "same_process p q \<longleftrightarrow> prc_ID q = prc_ID p \<and> prc_Purpose q = prc_Purpose p \<and> prc_Status q = prc_Status p \<and>
     prc_session q = prc_session p \<and> prc_failures q = prc_failures p"

lemma same_process_account [simp]: "same_process p p" "same_process p (p\<lparr>prc_account := a\<rparr>)"
  by (simp_all add: same_process_def)

lemmas verify_defs = verify_registration_def verify_passwordSetup_def verify_password_def verify_email_def
  verify_totp_def verify_backupCode_def verifyPasskey_def

lemma set_account_steps [simp]:
  "set_account aid account s = Inr t \<Longrightarrow> authentication_steps t = authentication_steps s"
  by (auto simp: set_account_def split: if_splits)

lemma verify_frame:
  assumes "verify e v p c proof s = Inr (q, t)"
  shows "same_process p q" "authentication_steps t = authentication_steps s"
  using assms unfolding verify_def verify_defs Let_def
  by (auto simp: tx_inv statement_defs insert_registration_def split: if_splits option.splits prod.splits)

lemma next_methods_done:
  assumes "next_methods e p s = Inr []" "prc_Status p = Pending" "prc_Purpose p \<noteq> ''signUp''"
  obtains account where "prc_account p = Some account" "step_done (prc_ID p) first_factors s"
    "has_totp account s \<longrightarrow> step_done (prc_ID p) second_factors s"
  using assms by (auto simp: next_methods_def split: if_splits option.splits)

lemma complete_auth_frame:
  assumes "complete_auth aid account now g x s = Inr t"
  shows "authentication_steps t = authentication_steps s" "totp t = totp s" "accounts t = accounts s"
    "sessions t = sessions s" "registrations t = registrations s"
  using assms by (auto simp: complete_auth_def tx_inv split: if_splits)

lemma policy_frame:
  assumes "authentication_steps t = authentication_steps s" "totp t = totp s"
  shows "step_done aid types t = step_done aid types s" "has_totp a t = has_totp a s"
  using assms by (simp_all add: step_done_def has_totp_def)

lemma auth_row_of_id: "auth_row_of aid s = Some r \<Longrightarrow> aut_id r = aid \<and> r \<in> set (authentications s)"
  by (auto simp: auth_row_of_def dest: find_Some_D)

lemma step_row_of_id: "step_row_of cid aid s = Some r \<Longrightarrow> stp_id r = cid \<and> stp_auth r = aid \<and> r \<in> set (authentication_steps s)"
  by (auto simp: step_row_of_def dest: find_Some_D)


lemma process_of_simps [simp]:
  "prc_ID (process_of r) = aut_id r" "prc_Purpose (process_of r) = aut_purpose r"
  "prc_Status (process_of r) = aut_status r" "prc_account (process_of r) = aut_account r"
  "prc_session (process_of r) = aut_session r" "prc_failures (process_of r) = aut_failed r"
  "prc_Expiration (process_of r) = aut_expiry r"
  by (simp_all add: process_of_def)

lemma challenge_of_simps [simp]:
  "chl_ID (challenge_of r) = stp_id r" "chl_Method (challenge_of r) = StepMethod (stp_type r)"
  "chl_Status (challenge_of r) = stp_status r" "chl_Expiration (challenge_of r) = stp_expiry r"
  by (simp_all add: challenge_of_def)

text \<open>The checks an attempt passes before its proof is judged.\<close>

lemma attempt_success [op_inv]:
  "attempt_tx e v aid cid flow who proof s = Inr (res, t) \<longleftrightarrow>
     (\<exists>r c methods. load e v aid flow who s = Inr (process_of r, s) \<and> auth_row_of aid s = Some r \<and>
        aut_status r = Pending \<and> step_row_of cid aid s = Some c \<and> stp_status c = Pending \<and>
        ev_now v < stp_expiry c \<and> StepMethod (stp_type c) = prf_Method proof \<and>
        next_methods e (process_of r) s = Inr methods \<and> contains methods (prf_Method proof) \<and>
        judge_proof e v aid cid (process_of r) (challenge_of c) proof s = Inr (res, t))"
  unfolding attempt_tx_def by (simp add: tx_inv op_inv) (auto; metis)

lemma record_success_run [op_inv]:
  "record_success e v cid c p s = Inr (res, t) \<longleftrightarrow>
     (if prc_Purpose p = ''signUp'' then after_signUp else after_step) e v p
       (c\<lparr>chl_Status := Completed\<rparr>)
       (update_steps (\<lambda>r. stp_auth r = prc_ID p \<and> stp_id r \<noteq> chl_ID c \<and> stp_status r = Pending)
         cancel_step (update_steps (\<lambda>r. stp_id r = cid) (complete_step (ev_now v)) s)) =
     Inr (res, t)"
  by (simp add: record_success_def tx_inv cancelAlternatives_def)

lemma judge_proof_success [op_inv]:
  "judge_proof e v aid cid p c proof s = Inr (res, t) \<longleftrightarrow>
     verify e v p c proof s = Inl ErrCredentials \<and> count_failure e aid cid p s = Inr (res, t) \<or>
     (\<exists>p1 u. verify e v p c proof s = Inr (p1, u) \<and> record_success e v cid c p1 u = Inr (res, t))"
  unfolding judge_proof_def
  by (cases "verify e v p c proof s") (auto simp: tx_inv tx_simps split: if_splits)

lemma attempt_answer_success [op_inv]:
  "attempt_answer e v c p s = Inr (res, t) \<longleftrightarrow> t = s \<and>
     (\<exists>ss c'. steps e v p s = Inr ss \<and> hydrateStep e v c s = Inr c' \<and>
        res = Inr \<lparr>att_Challenge = c', att_Authentication = p\<lparr>prc_Steps := ss\<rparr>\<rparr>)"
  by (auto simp: attempt_answer_def tx_inv)

lemma after_step_success [op_inv]:
  "after_step e v p c s = Inr (res, t) \<longleftrightarrow>
     (\<exists>methods. next_methods e p s = Inr methods \<and>
        (if methods = []
         then \<exists>q. complete e v 0 (p\<lparr>prc_Next := []\<rparr>) s = Inr (q, t) \<and> attempt_answer e v c q t = Inr (res, t)
         else attempt_answer e v c (p\<lparr>prc_Next := methods\<rparr>) s = Inr (res, t)))"
proof (cases "next_methods e p s")
  case (Inr methods)
  then show ?thesis
    by (cases "methods = []") (auto simp: after_step_def Let_def tx_inv attempt_answer_success)
qed (simp add: after_step_def tx_inv)

lemma after_step_completed:
  assumes "after_step e v p c s = Inr (Inr res, t)" "prc_Status p = Pending" "prc_Purpose p \<noteq> ''signUp''"
    and "prc_Status (att_Authentication res) = Completed"
  obtains account where "prc_account (att_Authentication res) = Some account"
    "prc_Purpose (att_Authentication res) = prc_Purpose p"
    "step_done (prc_ID p) first_factors t" "has_totp account t \<longrightarrow> step_done (prc_ID p) second_factors t"
proof -
  have "next_methods e p s = Inr []"
    using assms by (auto simp: op_inv split: if_splits)
  then obtain account where *: "prc_account p = Some account" "step_done (prc_ID p) first_factors s"
      "has_totp account s \<longrightarrow> step_done (prc_ID p) second_factors s"
    using next_methods_done assms(2,3) by metis
  obtain g x where c: "complete_auth (prc_ID p) account (ev_now v) g x s = Inr t"
    and res: "prc_account (att_Authentication res) = Some account"
      "prc_Purpose (att_Authentication res) = prc_Purpose p"
    using assms(1) \<open>next_methods e p s = Inr []\<close> *(1)
    by (auto simp: op_inv account_or_nil_def)
  show ?thesis
    using that [OF res] *(2,3) policy_frame [OF complete_auth_frame(1,2) [OF c]] by blast
qed

lemma complete_same: "complete e v i p s = Inr (q, t) \<Longrightarrow> prc_Purpose q = prc_Purpose p \<and> prc_ID q = prc_ID p"
  by (auto simp: op_inv)

lemma failRegistration_success [op_inv]:
  "failRegistration aid reason s = Inr (res, t) \<longleftrightarrow> res = Inl reason \<and>
     t = update_registrations (\<lambda>r. reg_auth r = aid) (\<lambda>r. r\<lparr>reg_password := None\<rparr>)
       (update_steps (\<lambda>r. stp_auth r = aid \<and> stp_id r \<noteq> uuid_Nil \<and> stp_status r = Pending)
         cancel_step (update_auths (\<lambda>r. aut_id r = aid) fail_process s))"
  by (auto simp: failRegistration_def tx_inv cancelAlternatives_def)

lemma register_success [op_inv]:
  "register e v p s = Inr (q, t) \<longleftrightarrow>
     (\<exists>reg u w. find (\<lambda>r. reg_auth r = prc_ID p) (registrations s) = Some reg \<and> reg_password reg \<noteq> None \<and>
        \<not> exists_row (\<lambda>a. acc_email a = reg_email reg) (accounts s) \<and>
        insert_account (new_account v reg) s = Inr u \<and>
        queue_event v 1 ''auth.profiles'' ''profile.created'' (ProfileCreated (ev_uuid v 0)) u = Inr ((), w) \<and>
        t = delete_registrations (\<lambda>r. reg_auth r = prc_ID p) w \<and> q = p\<lparr>prc_account := Some (ev_uuid v 0)\<rparr>)"
  unfolding register_def by (auto simp: tx_inv)

text \<open>How a sign-up goes on after a right proof.\<close>

lemma continue_signUp_cases:
  assumes "continue_signUp e v p c s = Inr (res, t)"
  obtains (more) methods ss where "next_methods e p s = Inr methods" "methods \<noteq> []" "t = s"
      "res = Inr \<lparr>att_Challenge = c, att_Authentication = p\<lparr>prc_Next := methods, prc_Steps := ss\<rparr>\<rparr>"
    | (exists) "next_methods e p s = Inr []" "register e v (p\<lparr>prc_Next := []\<rparr>) s = Inl ErrAccountExists"
      "failRegistration (prc_ID p) ErrAccountExists s = Inr (res, t)"
    | (registered) p2 u q where "next_methods e p s = Inr []" "register e v (p\<lparr>prc_Next := []\<rparr>) s = Inr (p2, u)"
      "complete e v 0 p2 u = Inr (q, t)" "attempt_answer e v c q t = Inr (res, t)"
proof -
  obtain methods where m: "next_methods e p s = Inr methods"
    using assms by (auto simp: continue_signUp_def tx_inv)
  show thesis
  proof (cases "methods = []")
    case False
    then show ?thesis using assms m more by (auto simp: continue_signUp_def Let_def tx_inv)
  next
    case True
    note c = assms [unfolded continue_signUp_def Let_def, simplified tx_simps m True]
    show ?thesis
    proof (cases "register e v (p\<lparr>prc_Next := []\<rparr>) s")
      case (Inl err)
      then show ?thesis using c exists m True by (auto simp: tx_simps split: if_splits)
    next
      case (Inr y)
      obtain p2 u where y: "y = (p2, u)" by (cases y)
      obtain q where "complete e v 0 p2 u = Inr (q, t)" "attempt_answer e v c q t = Inr (res, t)"
        using c Inr y by (auto simp: tx_inv tx_simps attempt_answer_success split: sum.splits)
      then show ?thesis using registered m True Inr y by blast
    qed
  qed
qed

lemma after_signUp_cases:
  assumes "after_signUp e v p c s = Inr (res, t)"
  obtains (taken) "chl_Method c = ''email''" "registrationAvailable (prc_ID p) s = Some ErrAccountExists"
      "failRegistration (prc_ID p) ErrAccountExists s = Inr (res, t)"
    | (free) "continue_signUp e v p c s = Inr (res, t)"
      "chl_Method c = ''email'' \<Longrightarrow> registrationAvailable (prc_ID p) s = None"
  using assms
  by (auto simp: after_signUp_def tx_inv registrationAvailable_def split: if_splits)

lemma after_signUp_purpose:
  assumes "after_signUp e v p c s = Inr (Inr res, t)"
  shows "prc_Purpose (att_Authentication res) = prc_Purpose p"
  using assms
proof (cases rule: after_signUp_cases)
  case taken
  then show ?thesis by (simp add: op_inv)
next
  case free
  from free(1) show ?thesis
    by (cases rule: continue_signUp_cases) (auto simp: op_inv)
qed

text \<open>An attempt that answers without an error had a right proof.\<close>

lemma count_failure_error: "count_failure e aid cid p s = Inr (res, t) \<Longrightarrow> \<exists>err. res = Inl err"
  by (auto simp: count_failure_def tx_inv)

lemma attempt_right:
  assumes "attempt_tx e v aid cid flow who proof s = Inr (Inr res, t)"
  obtains r c p1 u where "auth_row_of aid s = Some r" "aut_status r = Pending"
    "step_row_of cid aid s = Some c" "stp_status c = Pending" "StepMethod (stp_type c) = prf_Method proof"
    "verify e v (process_of r) (challenge_of c) proof s = Inr (p1, u)" "same_process (process_of r) p1"
    "record_success e v cid (challenge_of c) p1 u = Inr (Inr res, t)"
proof -
  obtain r c where rc: "auth_row_of aid s = Some r" "aut_status r = Pending"
      "step_row_of cid aid s = Some c" "stp_status c = Pending" "StepMethod (stp_type c) = prf_Method proof"
    and j: "judge_proof e v aid cid (process_of r) (challenge_of c) proof s = Inr (Inr res, t)"
    using assms unfolding attempt_success by blast
  obtain p1 u where "verify e v (process_of r) (challenge_of c) proof s = Inr (p1, u)"
      "record_success e v cid (challenge_of c) p1 u = Inr (Inr res, t)"
    using j unfolding judge_proof_success by (auto dest: count_failure_error)
  then show ?thesis using that [OF rc] verify_frame(1) by blast
qed

text \<open>
  C1: A process is completed only when the policy is met. When an attempt answers with a
  completed process whose purpose is not signing up, the process has an account, a first
  factor (password, Google, VK or passkey) has been completed in this very process, and if
  the account has TOTP enabled, so has a second factor (TOTP, backup code or passkey).
\<close>

theorem completion_requires_factors:
  assumes "Attempt e v aid cid flow who proof db = (Inr res, db')"
    and "prc_Status (att_Authentication res) = Completed"
    and "prc_Purpose (att_Authentication res) \<noteq> ''signUp''"
  shows "\<exists>account. prc_account (att_Authentication res) = Some account \<and>
     step_done aid first_factors db' \<and> (has_totp account db' \<longrightarrow> step_done aid second_factors db')"
proof -
  have "attempt_tx e v aid cid flow who proof db = Inr (Inr res, db')"
    using assms(1) by (auto simp: Attempt_def e_run_def elim: run_tx_cases)
  then obtain r c p1 u where r: "auth_row_of aid db = Some r" "aut_status r = Pending"
    and same: "same_process (process_of r) p1"
    and rec: "record_success e v cid (challenge_of c) p1 u = Inr (Inr res, db')"
    by (rule attempt_right)
  have p1: "prc_ID p1 = aid" "prc_Status p1 = Pending"
    using same r auth_row_of_id [OF r(1)] by (auto simp: same_process_def)
  show ?thesis
  proof (cases "prc_Purpose p1 = ''signUp''")
    case True
    then show ?thesis using rec assms(3) after_signUp_purpose by (simp add: record_success_run)
  next
    case False
    then have "\<exists>w. after_step e v p1 ((challenge_of c)\<lparr>chl_Status := Completed\<rparr>) w = Inr (Inr res, db')"
      using rec unfolding record_success_run by auto
    then show ?thesis
      using after_step_completed [OF _ p1(2) False assms(2)] p1(1) by metis
  qed
qed

definition password_proof :: Proof where
  "password_proof = no_proof\<lparr>prf_Method := ''password'', prf_Login := ''a@b'', prf_Password := ''password''\<rparr>"

lemmas byte_defs = is_ascii_def byte_def ascii_space_def lower_ascii_def is_upper_def

lemma demo_attempt:
  defines "x \<equiv> Attempt demo_engine (demo_env 2 3) 11 21 ''f'' nobody password_proof
      (demo_pending ''signIn'' ''passwordVerification'')"
  shows "\<not> isl (fst x)" "prc_Status (att_Authentication (projr (fst x))) = Completed"
    "prc_Purpose (att_Authentication (projr (fst x))) = ''signIn''"
  unfolding x_def
  by (simp_all add: run_defs tx_simps password_proof_def byte_defs ToLower_def TrimSpace_def trim_right_def Let_def
      cong: tx_weak)

theorem completion_requires_factors_witness:
  "\<exists>account. step_done 11 first_factors (snd (Attempt demo_engine (demo_env 2 3) 11 21 ''f'' nobody
        password_proof (demo_pending ''signIn'' ''passwordVerification''))) \<and> account = (5 :: uuid)"
  using completion_requires_factors [OF answered [OF demo_attempt(1)] demo_attempt(2)] demo_attempt(3) by auto

end
