(* ===== verification/Auth_Outbox.thy ===== *)
theory Auth_Outbox
  imports Auth_Cascade Auth_Trace Auth_Policy "HOL-Library.Multiset"
begin

section \<open>Events, usernames and deliveries\<close>

text \<open>
  Two more facts every step keeps: events are only queued for exchanges the worker knows,
  and stored usernames are valid ones. The first makes the outbox worker live; with the
  second a login is never ambiguous. The worker refines a queue: it delivers the events in
  the order of their creation, each at least once, and none is lost.
\<close>

subsection \<open>What the steps keep of events and usernames\<close>

definition orderly :: "engine \<Rightarrow> db \<Rightarrow> bool" where
  "orderly e s \<longleftrightarrow> (\<forall>r \<in> set (outbox s). routing_key (obx_exchange r) \<noteq> None) \<and>
     (\<forall>a \<in> set (accounts s). \<forall>n. acc_username a = Some n \<longrightarrow> validUsername e n)"

declare frames [simp]

lemma keep_orderly:
  assumes "\<And>s y t. m s = Inr (y, t) \<Longrightarrow> set (outbox t) \<subseteq> set (outbox s) \<and> acc_username ` set (accounts t) \<subseteq> acc_username ` set (accounts s)"
  shows "keeps (orderly e) m"
proof (rule tripleI)
  fix s x t
  assume "orderly e s" "m s = Inr (x, t)"
  with assms [OF this(2)] show "orderly e t" unfolding orderly_def
  proof (intro conjI ballI allI impI)
    fix a n
    assume a: "a \<in> set (accounts t)" "acc_username a = Some n"
      and *: "set (outbox t) \<subseteq> set (outbox s) \<and> acc_username ` set (accounts t) \<subseteq> acc_username ` set (accounts s)"
      and s: "(\<forall>r \<in> set (outbox s). routing_key (obx_exchange r) \<noteq> None) \<and>
        (\<forall>a \<in> set (accounts s). \<forall>n. acc_username a = Some n \<longrightarrow> validUsername e n)"
    from a * obtain b where "b \<in> set (accounts s)" "acc_username b = Some n" by force
    then show "validUsername e n" using s by blast
  qed blast
qed

interpretation orderly: step_closed "orderly e" e v for e v
proof unfold_locales
  show "keeps (orderly e) (tx_stmt (insert_account r))" if "acc_username r = None" for r
    using that by (intro keeps_stmt) (auto simp: orderly_def insert_account_def tx_inv split: if_splits)
  show "keeps (orderly e) (tx_stmt (insert_outbox r))" if "routing_key (obx_exchange r) \<noteq> None" for r
    using that by (intro keeps_stmt) (auto simp: orderly_def insert_outbox_def tx_inv)
  show "keeps (orderly e) (tx_stmt (update_account_key a Q f))"
    if "\<And>r. acc_username (f r) = acc_username r \<or> (\<exists>n. acc_username (f r) = Some n \<and> validUsername e n)" for a Q f
  proof (rule keeps_stmt)
    fix s t
    assume "orderly e s" "update_account_key a Q f s = Inr t"
    then show "orderly e t"
      using that by (auto simp: orderly_def update_account_key_def tx_inv table_simps) (metis option.inject)
  qed
qed (rule keep_orderly; auto simp: insert_defs statement_defs complete_auth_def set_account_def set_hash_def tx_inv table_simps Let_def
       split: if_splits option.splits)+

lemma Initial_orderly: "orderly e Initial"
  by (simp add: orderly_def Initial_def)

interpretation order: invariant_of "some_step e" "\<lambda>s. s = Initial" "orderly e" for e
  by unfold_locales (auto simp: Initial_orderly some_step_def dest: orderly.keep_step)

subsection \<open>The outbox as a queue\<close>

text \<open>
  The abstract state is the list of messages still to be delivered, oldest first. A round
  of the worker either delivers its head or leaves it; what it publishes is always the
  head.
\<close>

definition pending_events :: "db \<Rightarrow> outbox_row list" where
  "pending_events db = sort_key obx_created (sort_key obx_id (outbox db))"

definition message_of :: "outbox_row \<Rightarrow> publication" where
  "message_of r = publication_of r (the (routing_key (obx_exchange r)))"

definition queue_of :: "db \<Rightarrow> publication list" where
  "queue_of db = map message_of (pending_events db)"

lemma oldest_event_pending:
  "oldest_event db = (case pending_events db of [] \<Rightarrow> None | r # _ \<Rightarrow> Some r)"
  by (simp add: oldest_event_def pending_events_def)

lemma sort_key_delete: "sort_key f (delete_rows P rows) = delete_rows P (sort_key f rows)"
  by (simp add: delete_rows_def filter_sort)

lemma pending_delete: "pending_events (delete_outbox P db) = delete_rows P (pending_events db)"
  by (simp add: pending_events_def delete_outbox_def sort_key_delete)

lemma delete_head:
  assumes "distinct (map f (r # rows))"
  shows "delete_rows (\<lambda>q. f q = f r) (r # rows) = rows"
  using assms by (fastforce simp: delete_rows_def filter_id_conv image_iff)

lemma distinct_sort_keys: "distinct (map f (sort_key g rows)) = distinct (map f rows)"
  by (metis mset_map mset_sort mset_eq_imp_distinct_iff)

lemma sorted_wrt_distinct: "sorted_wrt (\<lambda>q r. f q \<noteq> f r) rows \<longleftrightarrow> distinct (map f rows)"
  by (induction rows) auto

lemma wf_outbox_distinct: "wf_db s \<Longrightarrow> distinct (map obx_id (pending_events s))"
  using sorted_wrt_distinct [of obx_id "outbox s"]
  by (simp add: pending_events_def distinct_sort_keys wf_db_def wf_table_def outbox_unique_def)

text \<open>One round: the worker publishes at most the head of the queue, and removes at most it.\<close>

lemma worker_round:
  assumes "wf_db s" "worker_one b c outcome s = (r, m, t)"
  shows "case pending_events s of
      [] \<Rightarrow> m = None \<and> t = s
    | x # xs \<Rightarrow> (m = None \<or> m = Some (message_of x)) \<and>
        (if r = Inr True then m = Some (message_of x) \<and> pending_events t = xs else r \<noteq> Inr False \<and> t = s)"
proof (cases "pending_events s")
  case Nil
  then show ?thesis using assms(2) by (auto simp: worker_one_def oldest_event_pending split: if_splits)
next
  case (Cons x xs)
  have "pending_events (delete_outbox (\<lambda>q. obx_id q = obx_id x) s) = xs"
    using wf_outbox_distinct [OF assms(1)] by (simp add: pending_delete Cons delete_head del: list.map)
  then show ?thesis
    using assms(2) Cons
    by (auto simp: worker_one_def oldest_event_pending message_of_def Let_def split: if_splits option.splits publish_outcome.splits)
qed

text \<open>One round of a connection: it stops, finds nothing, or delivers the head and goes on.\<close>

lemma connection_round:
  assumes "wf_db s" "run_connection ((b, c, outcome) # rounds) s = (ms, t)"
  obtains (stop) "t = s" "ms = [] \<or> (\<exists>x xs. queue_of s = x # xs \<and> ms = [x])"
    | (idle) "run_connection rounds s = (ms, t)"
    | (deliver) x u ms' where "wf_db u" "queue_of s = x # queue_of u" "run_connection rounds u = (ms', t)" "ms = x # ms'"
proof -
  obtain r m u where w: "worker_one b c outcome s = (r, m, u)" by (metis prod_cases3)
  note round = worker_round [OF assms(1) w]
  have "wf_db u" using wf.keep_worker [OF assms(1), of b c outcome] by (simp add: w)
  show thesis
  proof (cases "r = Inr True \<and> pending_events s \<noteq> []")
    case True
    then obtain x xs where x: "pending_events s = x # xs" "m = Some (message_of x)" "pending_events u = xs"
      using round by (cases "pending_events s") auto
    moreover obtain ms' where "run_connection rounds u = (ms', t)" "ms = message_of x # ms'"
      using assms(2) True x(2) by (auto simp: w split: prod.splits)
    ultimately show ?thesis using deliver [OF \<open>wf_db u\<close>, of "message_of x"] by (simp add: queue_of_def)
  next
    case False
    then have "u = s" and m: "m = None \<or> (\<exists>x xs. pending_events s = x # xs \<and> m = Some (message_of x))"
      and none: "r = Inr d \<Longrightarrow> m = None" for d
      using round by (auto split: list.splits if_splits)
    show ?thesis
    proof (cases r)
      case (Inl err)
      then show ?thesis using assms(2) stop m \<open>u = s\<close> by (auto simp: w queue_of_def)
    next
      case (Inr d)
      then show ?thesis using assms(2) idle none \<open>u = s\<close> by (auto simp: w split: prod.splits)
    qed
  qed
qed

lemma connection_refines:
  assumes "wf_db s" "run_connection rounds s = (ms, t)"
  shows "\<exists>delivered. queue_of s = delivered @ queue_of t \<and>
     (ms = delivered \<or> (\<exists>x rest. queue_of t = x # rest \<and> ms = delivered @ [x]))"
  using assms
proof (induction rounds arbitrary: s ms)
  case Nil
  then show ?case by simp
next
  case (Cons round rounds)
  obtain b c outcome where "round = (b, c, outcome)" by (cases round)
  with Cons.prems(2) have "run_connection ((b, c, outcome) # rounds) s = (ms, t)" by simp
  with Cons.prems(1) show ?case
  proof (cases rule: connection_round)
    case stop
    then show ?thesis by auto
  next
    case idle
    then show ?thesis using Cons.IH Cons.prems(1) by blast
  next
    case (deliver x u ms')
    from Cons.IH [OF deliver(1,3)] show ?thesis using deliver(2,4) by (metis append_Cons)
  qed
qed

text \<open>
  C16: The outbox worker refines a queue that delivers at least once and in order. On one
  connection, whatever the broker and the database answer, what leaves the outbox is a
  prefix of the queue in the order of creation; exactly this prefix has been published,
  followed at most by one more publication of the event that is then at the head and that
  will be published again.
\<close>

theorem outbox_refines_queue:
  assumes "wf_db s" "run_connection rounds s = (ms, t)"
  shows "\<exists>delivered. queue_of s = delivered @ queue_of t \<and>
     (ms = delivered \<or> (\<exists>x rest. queue_of t = x # rest \<and> ms = delivered @ [x]))"
  using assms by (rule connection_refines)

text \<open>An example: two mails and a profile event, created out of order.\<close>

definition demo_event :: "uuid \<Rightarrow> string \<Rightarrow> time \<Rightarrow> outbox_row" where
  "demo_event i exchange created = \<lparr>obx_id = i, obx_exchange = exchange, obx_type = ''t'', obx_body = ProfileCreated i, obx_created = created\<rparr>"

definition demo_outbox :: db where
  "demo_outbox = Initial\<lparr>outbox := [demo_event 1 ''mail'' 7, demo_event 2 ''auth.profiles'' 3, demo_event 3 ''mail'' 5]\<rparr>"

lemma demo_outbox_wf: "wf_db demo_outbox"
  by code_simp

theorem outbox_refines_queue_witness:
  "\<exists>delivered. queue_of demo_outbox = delivered @ queue_of (snd (run_connection [(True, True, Ack False), (True, True, Nack)] demo_outbox))"
  using outbox_refines_queue [OF demo_outbox_wf prod.collapse [symmetric]] by blast

subsection \<open>No event is lost, every event is delivered\<close>

interpretation kept: statement_closed "\<lambda>s. r \<in> set (outbox s)" e v for r e v
  by unfold_locales (rule tripleI; auto simp: insert_defs statement_defs complete_auth_def set_account_def tx_inv Let_def
      split: if_splits option.splits)+

text \<open>
  C17: No event is lost. Whatever call is made, an event leaves the outbox only in a round of
  the worker that published it and in which the broker confirmed it and did not return it.
\<close>

theorem event_kept_until_delivered:
  assumes "wf_db s" "engine_step e v s t" "r \<in> set (outbox s)" "r \<notin> set (outbox t)"
  shows "worker_one True True (Ack False) s = (Inr True, Some (message_of r), t)"
proof -
  obtain b c outcome where t: "t = snd (snd (worker_one b c outcome s))"
    using kept.keep_call [OF assms(2,3)] assms(4) by blast
  then obtain q where q: "oldest_event s = Some q" "b" "c" "outcome = Ack False" "routing_key (obx_exchange q) \<noteq> None"
      "t = delete_outbox (\<lambda>x. obx_id x = obx_id q) s"
    using assms(3,4) by (auto simp: worker_one_def Let_def split: if_splits option.splits publish_outcome.splits bool.splits)
  have "q \<in> set (outbox s)" using q(1) by (cases "pending_events s") (auto simp: oldest_event_pending pending_events_def dest: arg_cong [where f = set])
  moreover have "obx_id r = obx_id q" using assms(3,4) q(6) by (auto simp: delete_outbox_def table_simps)
  ultimately have "r = q"
    using assms(1,3) outbox_tab.row_unique [of _ "outbox s" q r] by (auto simp: wf_db_def outbox_unique_def)
  then show ?thesis using q by (auto simp: worker_one_def Let_def message_of_def)
qed

lemma reached_orderly:
  assumes "reach (some_step e) s0 s" "s0 = Initial \<or> wf_db s0 \<and> orderly e s0"
  shows "wf_db s" "orderly e s"
  using service.inv_reach_from [OF assms(1)] order.inv_reach_from [OF assms(1)] assms(2) Initial_wf Initial_orderly by blast+

lemma length_pending: "length (pending_events s) = length (outbox s)"
  by (simp add: pending_events_def)

lemma drain_round:
  assumes "wf_db s" "orderly e s" "outbox s \<noteq> []"
  obtains x u where "worker_one True True (Ack False) s = (Inr True, Some x, u)" "queue_of s = x # queue_of u"
    "wf_db u" "orderly e u" "length (outbox s) = Suc (length (outbox u))"
proof -
  obtain x xs where x: "pending_events s = x # xs"
    using assms(3) length_pending [of s] by (cases "pending_events s") auto
  then have "x \<in> set (outbox s)" by (metis list.set_intros(1) pending_events_def set_sort)
  then obtain u where u: "worker_one True True (Ack False) s = (Inr True, Some (message_of x), u)"
    using assms(2) x by (auto simp: worker_one_def oldest_event_pending message_of_def orderly_def Let_def split: option.splits)
  have "pending_events u = xs" using worker_round [OF assms(1) u] x by simp
  moreover have "length (outbox s) = Suc (length (outbox u))"
    using x \<open>pending_events u = xs\<close> length_pending [of s] length_pending [of u] by simp
  ultimately show ?thesis
    using that [OF u] x wf.keep_worker [OF assms(1), of True True "Ack False"]
      orderly.keep_worker [OF assms(2), of True True "Ack False"] by (simp add: u queue_of_def)
qed

lemma idle_rounds: "outbox s = [] \<Longrightarrow> run_connection (replicate n (True, True, Ack False)) s = ([], s)"
  by (induction n) (simp_all add: worker_one_def oldest_event_def)

lemma drain:
  "wf_db s \<Longrightarrow> orderly e s \<Longrightarrow> length (outbox s) \<le> n \<Longrightarrow>
   \<exists>t. run_connection (replicate n (True, True, Ack False)) s = (queue_of s, t) \<and> outbox t = []"
proof (induction n arbitrary: s)
  case 0
  then show ?case by (simp add: queue_of_def pending_events_def)
next
  case (Suc n)
  show ?case
  proof (cases "outbox s = []")
    case True
    then show ?thesis using idle_rounds [OF True, of "Suc n"] by (simp add: queue_of_def pending_events_def del: replicate.simps)
  next
    case False
    then obtain x u where x: "worker_one True True (Ack False) s = (Inr True, Some x, u)" "queue_of s = x # queue_of u"
        "wf_db u" "orderly e u" "length (outbox s) = Suc (length (outbox u))"
      using drain_round [OF Suc.prems(1,2)] by metis
    obtain t where "run_connection (replicate n (True, True, Ack False)) u = (queue_of u, t)" "outbox t = []"
      using Suc.IH [OF x(3,4)] x(5) Suc.prems(3) by auto
    then show ?thesis using x(1,2) by simp
  qed
qed

text \<open>
  C18: Every event is delivered. In every state the service reaches from the empty database,
  or from any well-formed one whose events have known exchanges and whose usernames are
  valid: when the broker confirms and the database answers, as many rounds as there are
  events publish each exactly once, in the order of creation, and leave the outbox empty.
\<close>

theorem outbox_drains:
  assumes "reach (some_step e) s0 s" "s0 = Initial \<or> wf_db s0 \<and> orderly e s0" "length (outbox s) \<le> n"
  shows "\<exists>t. run_connection (replicate n (True, True, Ack False)) s = (queue_of s, t) \<and> outbox t = []"
  by (rule drain [OF reached_orderly [OF assms(1,2)] assms(3)])

theorem event_kept_until_delivered_witness:
  "worker_one True True (Ack False) demo_outbox =
     (Inr True, Some (message_of (demo_event 2 ''auth.profiles'' 3)), snd (snd (worker_one True True (Ack False) demo_outbox)))"
proof (rule event_kept_until_delivered [OF demo_outbox_wf step_worker])
  show "demo_event 2 ''auth.profiles'' 3 \<in> set (outbox demo_outbox)" by (simp add: demo_outbox_def)
  show "demo_event 2 ''auth.profiles'' 3 \<notin> set (outbox (snd (snd (worker_one True True (Ack False) demo_outbox))))"
    by (simp add: run_defs demo_outbox_def demo_event_def delete_outbox_def)
qed

theorem outbox_drains_witness:
  "\<exists>t. run_connection (replicate 3 (True, True, Ack False)) demo_outbox = (queue_of demo_outbox, t) \<and> outbox t = []"
proof (rule outbox_drains [OF reach_init])
  show "demo_outbox = Initial \<or> wf_db demo_outbox \<and> orderly demo_engine demo_outbox"
    using demo_outbox_wf by (simp add: orderly_def demo_outbox_def demo_event_def routing_key_def Initial_def)
qed (simp add: demo_outbox_def)

subsection \<open>Logins\<close>

lemma validUsername_at: "validUsername e n \<Longrightarrow> CHR ''@'' \<notin> set n"
  by (auto simp: validUsername_def list_all_iff username_char_def is_lower_def is_digit_def byte_def)

text \<open>
  C19: An email address signs in its own account. In every state the service reaches from the
  empty database, or from any well-formed one with valid usernames, no username looks like
  an address, so a login with the address of an account finds this account, never one that
  took the address as its username.
\<close>

theorem address_login_finds_account:
  assumes "reach (some_step e) s0 s" "s0 = Initial \<or> wf_db s0 \<and> orderly e s0"
    and "a \<in> set (accounts s)" "CHR ''@'' \<in> set (acc_email a)"
    and "\<not> sensitive (prc_Purpose p)" "e_lower e (prf_Login proof) = acc_email a"
  shows "login_row e p proof s = Some a"
proof -
  note ok = reached_orderly [OF assms(1,2)]
  have "account_unique q a" if "q \<in> set (accounts s)" "acc_email q = acc_email a \<or> acc_username q = Some (acc_email a)" for q
    using that ok(2) assms(4) validUsername_at [of e "acc_email a"] by (auto simp: orderly_def account_unique_def)
  then have "find (\<lambda>q. acc_email q = acc_email a \<or> acc_username q = Some (acc_email a)) (accounts s) = Some a"
    using ok(1) assms(3) by (intro account_tab.find_by_key) (auto simp: wf_db_def)
  then show ?thesis using assms(5,6) by (simp add: login_row_def Let_def)
qed

definition demo_named :: db where
  "demo_named = demo_db\<lparr>accounts := [demo_account\<lparr>acc_username := Some ''cooking''\<rparr>]\<rparr>"

theorem address_login_finds_account_witness:
  "login_row demo_engine (process_of (demo_process ''signIn'' None None)) (no_proof\<lparr>prf_Login := ''a@b''\<rparr>) demo_named =
     Some (demo_account\<lparr>acc_username := Some ''cooking''\<rparr>)"
proof (rule address_login_finds_account [OF reach_init])
  have "wf_db demo_named" by code_simp
  moreover have "validUsername demo_engine ''cooking''" by code_simp
  then have "orderly demo_engine demo_named" by (simp add: orderly_def demo_named_def demo_db_def Initial_def)
  ultimately show "demo_named = Initial \<or> wf_db demo_named \<and> orderly demo_engine demo_named" by blast
qed (simp_all add: demo_named_def demo_account_def sensitive_def process_of_def demo_process_def no_proof_def e_lower_def
      demo_engine_def New_def demo_libs_def ToLower_def TrimSpace_def trim_right_def byte_defs)

end
