(* ===== verification/Auth_Background.thy ===== *)
theory Auth_Background
  imports Auth_App Auth_Outbox
begin

section \<open>Work in the background\<close>

text \<open>
  The loops that run beside the calls: the deletions, the cleanups and the outbox worker with
  its reconnections. Whatever fails in them, they take the database only where steps of the
  service take it, so that every property of runs holds of them too; and the worker, over
  all its connections, publishes the queue in order.
\<close>

subsection \<open>The loops are runs of the service\<close>

lemma delete_batch_run: "\<exists>ws. run_of e ws s (delete_batch vs s)"
proof (induction vs arbitrary: s)
  case Nil
  show ?case by (auto intro: run_Nil)
next
  case (Cons v vs)
  have step: "engine_step e v s (snd (DeleteDueAccount v s))" by (rule step_DeleteDueAccount)
  show ?case
    using Cons [of "snd (DeleteDueAccount v s)"] run_single [OF step] run_Cons [OF step]
    by (cases "DeleteDueAccount v s") (auto split: sum.splits)
qed

lemma run_connection_run: "\<exists>ws. run_of e ws s (snd (run_connection rounds s))"
proof (induction rounds arbitrary: s)
  case Nil
  show ?case by (auto intro: run_Nil)
next
  case (Cons round rounds)
  obtain b c q where round: "round = (b, c, q)" by (cases round) auto
  have step: "engine_step e v s (snd (snd (worker_one b c q s)))" for v by (rule step_worker)
  show ?case
    using Cons [of "snd (snd (worker_one b c q s))"] run_single [OF step] run_Cons [OF step] unfolding round
    by (cases "worker_one b c q s") (fastforce split: sum.splits prod.splits)
qed

lemma run_fold:
  assumes "\<And>x s. \<exists>ws. run_of e ws s (f x s)"
  shows "\<exists>ws. run_of e ws s (fold f xs s)"
proof (induction xs arbitrary: s)
  case Nil
  show ?case by (auto intro: run_Nil)
next
  case (Cons x xs)
  obtain ws us where "run_of e ws s (f x s)" "run_of e us (f x s) (fold f xs (f x s))" using assms Cons by blast
  then show ?case by (auto intro: run_append)
qed

lemma runConnection_run: "\<exists>ws. run_of e ws s (snd (runConnection c s))"
  by (cases c) (auto simp: runConnection_def run_connection_run intro: run_Nil)

lemma worker_Run_fold: "snd (worker_Run cs s) = fold (\<lambda>c s. snd (runConnection c s)) cs s"
  by (induction cs arbitrary: s) (auto split: prod.splits, metis snd_conv)

lemma background_runs:
  "(\<exists>ws. run_of e ws s (runDeletions batches s)) \<and> (\<exists>ws. run_of e ws s (run_cleanups e vs s)) \<and>
   (\<exists>ws. run_of e ws s (snd (worker_Run connections s)))"
  unfolding runDeletions_def run_cleanups_def worker_Run_fold
  by (intro conjI run_fold delete_batch_run runConnection_run) (auto intro: run_single step_Cleanup)

lemma runConnection_wf: "wf_db s \<Longrightarrow> wf_db (snd (runConnection c s))"
  using runConnection_run run_wf by blast

subsection \<open>The outbox worker over all its connections\<close>

text \<open>
  \<open>published q q' ms\<close>: the worker took the queue from \<open>q\<close> to \<open>q'\<close> and published \<open>ms\<close>. What left the
  queue is a prefix of it; repeats apart it was published once and in order, followed at
  most by the event now at the head.
\<close>

definition published :: "publication list \<Rightarrow> publication list \<Rightarrow> publication list \<Rightarrow> bool" where
  "published q q' ms \<longleftrightarrow> (\<exists>delivered. q = delivered @ q' \<and>
     (remdups_adj ms = delivered \<or> (\<exists>x rest. q' = x # rest \<and> remdups_adj ms = delivered @ [x])))"

lemma connection_published:
  assumes "wf_db s" "runConnection c s = (ms, t)"
  shows "\<exists>delivered. queue_of s = delivered @ queue_of t \<and>
     (ms = delivered \<or> (\<exists>x rest. queue_of t = x # rest \<and> ms = delivered @ [x]))"
  using assms connection_refines [OF assms(1)] by (cases c) (auto simp: runConnection_def)

lemma queue_distinct: "wf_db s \<Longrightarrow> distinct (queue_of s)"
  using wf_outbox_distinct [of s] unfolding queue_of_def distinct_map
  by (auto simp: message_of_def publication_of_def inj_on_def)

text \<open>A connection that published the head of the next one's queue leaves a repeat, not a new event.\<close>

lemma remdups_adj_front:
  assumes "distinct xs" "xs = [] \<or> ys = [] \<or> last xs \<noteq> hd ys"
  shows "remdups_adj (xs @ ys) = xs @ remdups_adj ys"
  using assms by (simp add: remdups_adj_append' remdups_adj_distinct)

lemma published_append:
  assumes "distinct q" "q = delivered @ q'" "ms = delivered \<or> (\<exists>x rest. q' = x # rest \<and> ms = delivered @ [x])" "published q' q'' ns"
  shows "published q q'' (ms @ ns)"
proof -
  obtain more where q': "q' = more @ q''" and more: "remdups_adj ns = more \<or> (\<exists>x rest. q'' = x # rest \<and> remdups_adj ns = more @ [x])"
    using assms(4) by (auto simp: published_def)
  have first: "hd ns = x" if "ns \<noteq> []" "q' = x # rest" for x rest
  proof -
    have "\<exists>l. remdups_adj ns = x # l" using more that q' by (cases more) auto
    then show ?thesis by (metis hd_remdups_adj list.sel(1))
  qed
  have "q' \<noteq> []" if "ns \<noteq> []" using more that q' by auto
  then have new: "delivered = [] \<or> ns = [] \<or> last delivered \<noteq> hd ns"
    using first assms(1,2) by (cases q') (auto dest: last_in_set)
  have d: "distinct delivered" using assms(1,2) by simp
  show ?thesis
  proof (cases "ms = delivered")
    case True
    then show ?thesis
      using remdups_adj_front [OF d new] more assms(2) q' unfolding published_def by (intro exI [of _ "delivered @ more"]) auto
  next
    case False
    then obtain x rest where x: "q' = x # rest" "ms = delivered @ [x]" using assms(3) by blast
    show ?thesis
    proof (cases ns)
      case Nil
      then have "more = []" using more by auto
      moreover have "remdups_adj (delivered @ [x]) = delivered @ [x]" using assms(1,2) x(1) by (simp add: remdups_adj_distinct)
      ultimately show ?thesis
        using Nil x q' assms(2) unfolding published_def by (intro exI [of _ delivered]) auto
    next
      case (Cons y zs)
      then have "y = x" using first x(1) by auto
      then have "remdups_adj (ms @ ns) = delivered @ remdups_adj ns"
        using remdups_adj_front [OF d, of "x # ns"] new Cons x(2) by simp
      then show ?thesis
        using more assms(2) q' unfolding published_def by (intro exI [of _ "delivered @ more"]) auto
    qed
  qed
qed

text \<open>
  C35: Over all its connections the outbox worker delivers the queue in order, and repeats
  little. Whatever connections fail to be set up, break off after any round, or are refused by
  the broker or the database, what leaves the outbox is a prefix of the queue in the order of
  creation; counting adjacent repeats once, exactly this prefix was published, in order,
  followed at most by the event now at the head; and there are at most as many repeats and
  unfinished publications as connections, since a connection ends with its first failure.
\<close>

theorem worker_delivers_in_order:
  assumes "wf_db s" "worker_Run connections s = (ms, t)"
  shows "published (queue_of s) (queue_of t) ms \<and> length ms + length (queue_of t) \<le> length (queue_of s) + length connections"
  using assms
proof (induction connections arbitrary: s ms)
  case Nil
  then show ?case by (auto simp: published_def)
next
  case (Cons c cs)
  obtain ms1 u ms2 where u: "runConnection c s = (ms1, u)" "worker_Run cs u = (ms2, t)" "ms = ms1 @ ms2"
    using Cons.prems(2) by (auto split: prod.splits)
  obtain delivered where d: "queue_of s = delivered @ queue_of u" "ms1 = delivered \<or> (\<exists>x rest. queue_of u = x # rest \<and> ms1 = delivered @ [x])"
    using connection_published [OF Cons.prems(1) u(1)] by blast
  have "wf_db u" using runConnection_wf [OF Cons.prems(1), of c] u(1) by simp
  note IH = Cons.IH [OF this u(2)]
  show ?case
    using published_append [OF queue_distinct [OF Cons.prems(1)] d] IH d u(3) by auto
qed

text \<open>An example: the second event is not confirmed, and published again on the next connection.\<close>

theorem worker_delivers_in_order_witness:
  "published (queue_of demo_outbox) (queue_of (snd (worker_Run [Connected [(True, True, Ack False), (True, True, Nack)], DialFailed,
       Connected [(True, True, Ack False)]] demo_outbox)))
     (fst (worker_Run [Connected [(True, True, Ack False), (True, True, Nack)], DialFailed, Connected [(True, True, Ack False)]] demo_outbox))"
  using worker_delivers_in_order [OF demo_outbox_wf prod.collapse [symmetric]] by blast

end
