(* ===== verification/Auth_Tokens.thy ===== *)
theory Auth_Tokens
  imports Auth_Trace Auth_Policy
begin

section \<open>One-time tokens\<close>

text \<open>
  Grants, refresh tokens, password-reset links, email-change links and OAuth states are
  redeemed at most once: redeeming one needs its hash in the database and removes it, and
  by \<open>run_stored\<close> no later call brings it back. The locale \<open>one_time\<close> is the contract of
  such a token; it is interpreted for each of them on the operations that redeem it.
\<close>

locale one_time =
  fixes redeem :: "engine \<Rightarrow> env \<Rightarrow> string \<Rightarrow> db \<Rightarrow> db \<Rightarrow> bool"
    and kind :: string
  assumes redeem_stored: "redeem e v token s t \<Longrightarrow> (kind, e_hash e kind '''' token) \<in> stored s"
    and redeem_spends: "redeem e v token s t \<Longrightarrow> wf_db s \<Longrightarrow>
      (kind, e_hash e kind '''' token) \<in> stored t \<Longrightarrow> drawn e v kind (e_hash e kind '''' token)"
begin

lemma never_again:
  assumes "wf_db s" "redeem e v token s t" "run_of e vs t u"
    and "\<forall>w \<in> insert v (set vs). \<not> drawn e w kind (e_hash e kind '''' token)"
  shows "\<not> redeem e w token u u'"
proof -
  have "(kind, e_hash e kind '''' token) \<notin> stored t" using redeem_spends assms(1,2,4) by blast
  then have "(kind, e_hash e kind '''' token) \<notin> stored u" using run_stored [OF assms(3)] assms(4) by blast
  then show ?thesis using redeem_stored by blast
qed

end

subsection \<open>Spending a hash\<close>

text \<open>What follows the statement that removed a hash does not bring it back.\<close>

lemma spent_after:
  assumes "keeps (stored_from (stored s) e v) m" "m s = Inr (y, t)" "(k, h) \<notin> stored s" "(k, h) \<in> stored t"
  shows "drawn e v k h"
proof -
  have "stored_from (stored s) e v s" by (auto simp: stored_from_def allowed_def)
  then have "stored_from (stored s) e v t" using assms(1,2) by (blast dest: tripleD)
  then show ?thesis using assms(3,4) by (auto simp: stored_from_def allowed_def)
qed

lemma grant_stored_iff: "(''grant'', h) \<in> stored s \<longleftrightarrow> (\<exists>r \<in> set (authentications s). aut_grant r = Some h)"
  by (auto simp: stored_def auth_secrets_def)

lemma grant_row_D:
  "grant_row e v token purpose s = Some r \<Longrightarrow> r \<in> set (authentications s) \<and>
     aut_grant r = Some (e_hash e ''grant'' '''' token) \<and> aut_purpose r = purpose \<and> aut_status r = Completed \<and>
     aut_invalidation r = None \<and> (\<exists>x. aut_grant_expiry r = Some x \<and> ev_now v < x)"
  by (auto simp: grant_row_def dest!: find_Some_D split: option.splits)

lemma ConsumeGrant_spends:
  assumes "ConsumeGrant e v token purpose who s = Inr (a, t)" "wf_db s"
  shows "(''grant'', e_hash e ''grant'' '''' token) \<in> stored s" "(''grant'', e_hash e ''grant'' '''' token) \<notin> stored t"
proof -
  obtain r where r: "r \<in> set (authentications s)" "aut_grant r = Some (e_hash e ''grant'' '''' token)"
    and t: "t = update_auths (\<lambda>q. aut_id q = aut_id r) clear_grant s"
    using assms(1) by (auto simp: op_inv dest!: grant_row_D)
  show "(''grant'', e_hash e ''grant'' '''' token) \<in> stored s" using r by (auto simp: grant_stored_iff)
  have "q = r" if "q \<in> set (authentications s)" "aut_grant q = Some (e_hash e ''grant'' '''' token)" for q
    using wf_auth_unique [OF assms(2) that(1) r(1)] that(2) r(2) by (simp add: auth_unique_def)
  then show "(''grant'', e_hash e ''grant'' '''' token) \<notin> stored t"
    by (auto simp: t grant_stored_iff update_auths_def clear_grant_def table_simps split: if_splits)
qed

subsection \<open>Grants\<close>

text \<open>
  The calls that redeem a grant, with the purpose and the principal they redeem it for: a
  session is created for nobody in particular, every other action for the signed-in
  principal. Setting a password redeems a grant where the account already has one.
\<close>

inductive redeems :: "engine \<Rightarrow> env \<Rightarrow> string \<Rightarrow> string \<Rightarrow> Principal \<Rightarrow> db \<Rightarrow> db \<Rightarrow> bool"
  for e :: engine and v :: env and g :: string where
  redeem_session: "CreateSession e v g ip ua issuer accessTTL refreshTTL s = (Inr tokens, t) \<Longrightarrow>
     grant_purpose e g s = Some purpose \<Longrightarrow>
     redeems e v g purpose \<lparr>who_AccountID = uuid_Nil, who_SessionID = 0\<rparr> s t"
| redeem_password: "SetPassword e v who g password s = (Inr (), t) \<Longrightarrow>
     account_row_of (who_AccountID who) s = Some a \<Longrightarrow> acc_password a \<noteq> None \<Longrightarrow>
     redeems e v g ''passwordChange'' who s t"
| redeem_email: "ChangeEmail e v who g address baseURL s = (Inr (), t) \<Longrightarrow> redeems e v g ''emailChange'' who s t"
| redeem_deletion: "RequestDeletion e v who g shared delay s = (Inr deletion, t) \<Longrightarrow>
     redeems e v g ''accountDeletion'' who s t"
| redeem_totp: "StartTotp e v who g s = (Inr activation, t) \<Longrightarrow> redeems e v g ''totpEnrollment'' who s t"
| redeem_totp_removal: "DeleteTotp e v who g s = (Inr (), t) \<Longrightarrow> redeems e v g ''totpRemoval'' who s t"
| redeem_codes: "RotateBackupCodes e v who g s = (Inr codes, t) \<Longrightarrow> redeems e v g ''backupCodesRotation'' who s t"
| redeem_passkey: "StartPasskey e v who g s = (Inr request, t) \<Longrightarrow> redeems e v g ''passkeyEnrollment'' who s t"
| redeem_passkey_removal: "DeletePasskey e v who g k s = (Inr (), t) \<Longrightarrow> redeems e v g ''passkeyRemoval'' who s t"
| redeem_link: "e_run v (tx_done (link_finish_tx e v who g provider identity)) s = (Inr linked, t) \<Longrightarrow>
     redeems e v g ''identityLink'' who s t"
| redeem_unlink: "UnlinkIdentity e v who g provider s = (Inr (), t) \<Longrightarrow> redeems e v g ''identityUnlink'' who s t"

text \<open>Every such call consumes the grant first; what it does afterwards keeps the origin of secrets.\<close>

definition spends :: "engine \<Rightarrow> env \<Rightarrow> string \<Rightarrow> string \<Rightarrow> Principal \<Rightarrow> db \<Rightarrow> db \<Rightarrow> bool" where
  "spends e v g purpose who s t \<longleftrightarrow>
     (\<exists>a u. ConsumeGrant e v g purpose who s = Inr (a, u) \<and>
        (\<forall>G. stored_from G e v u \<longrightarrow> stored_from G e v t))"

lemma spendsI:
  assumes "tx_then (ConsumeGrant e v g purpose who) m s = Inr (y, t)" "\<And>G. keeps (stored_from G e v) m"
  shows "spends e v g purpose who s t"
  using assms unfolding spends_def triple_def by (fastforce simp: tx_inv)

lemma spendsI_bind:
  assumes "tx_bind (ConsumeGrant e v g purpose who) m s = Inr (y, t)" "\<And>G a. keeps (stored_from G e v) (m a)"
  shows "spends e v g purpose who s t"
  using assms unfolding spends_def triple_def by (fastforce simp: tx_inv)

lemma committed: "e_run v (tx_done m) s = (Inr x, t) \<Longrightarrow> m s = Inr (x, t)"
  by (simp add: e_run_def run_tx_done_Inr)

lemma past_row: "tx_bind (tx_row f err) m s = Inr r \<Longrightarrow> f s = Some x \<Longrightarrow> m x s = Inr r"
  by (simp add: tx_simps)

lemma past_assert: "tx_then (tx_assert b err) m s = Inr r \<Longrightarrow> b \<and> m s = Inr r"
  by (simp add: tx_simps split: if_splits)

lemma spends_session:
  assumes "CreateSession e v g ip ua issuer accessTTL refreshTTL s = (Inr tokens, t)" "grant_purpose e g s = Some purpose"
  shows "spends e v g purpose \<lparr>who_AccountID = uuid_Nil, who_SessionID = 0\<rparr> s t" "\<not> sensitive purpose"
proof -
  note body = past_assert [OF past_row [OF committed [OF assms(1) [unfolded CreateSession_def],
    unfolded create_session_tx_def] assms(2)]]
  show "\<not> sensitive purpose" using body by (auto simp: sensitive_def)
  show "spends e v g purpose \<lparr>who_AccountID = uuid_Nil, who_SessionID = 0\<rparr> s t"
    by (rule spendsI_bind [OF conjunct2 [OF body]]) (intro triples ops stmts, auto intro: drawnI)
qed

lemma spends_password:
  assumes "SetPassword e v who g password s = (Inr (), t)"
    and "account_row_of (who_AccountID who) s = Some a" "acc_password a \<noteq> None"
  shows "spends e v g ''passwordChange'' who s t"
proof -
  obtain old h where old: "acc_password a = Some old"
    and "set_password_tx e v who g password h s = Inr ((), t)"
    using assms by (auto simp: SetPassword_def dest: committed split: if_splits sum.splits)
  then obtain u same where u: "tx_then (ConsumeGrant e v g ''passwordChange'' who) (tx_return (e_compare e old password)) s = Inr (same, u)"
    and rest: "(if same then tx_return () else tx_then (change_password v (who_AccountID who) h)
      (tx_exec (delete_sessions (\<lambda>q. ses_account q = who_AccountID who \<and> ses_id q \<noteq> who_SessionID who)))) u = Inr ((), t)"
    using assms(2) unfolding set_password_tx_def by (auto simp: tx_inv op_inv)
  have "keeps (stored_from G e v) (if same then tx_return () else tx_then (change_password v (who_AccountID who) h)
      (tx_exec (delete_sessions (\<lambda>q. ses_account q = who_AccountID who \<and> ses_id q \<noteq> who_SessionID who))))" for G
    by (intro triples ops stmts)
  then show ?thesis using u rest unfolding spends_def triple_def by (fastforce simp: tx_inv)
qed

lemmas grant_bodies = change_email_tx_def request_deletion_tx_def start_totp_tx_def delete_totp_tx_def rotate_backup_tx_def
  start_passkey_tx_def delete_passkey_tx_def link_finish_tx_def unlink_tx_def

lemma spends_bodies:
  "change_email_tx e v who g email baseURL s = Inr (y1, t) \<Longrightarrow> spends e v g ''emailChange'' who s t"
  "request_deletion_tx e v who g shared delay s = Inr (y2, t) \<Longrightarrow> spends e v g ''accountDeletion'' who s t"
  "start_totp_tx e v who g s = Inr (y3, t) \<Longrightarrow> spends e v g ''totpEnrollment'' who s t"
  "delete_totp_tx e v who g s = Inr (y4, t) \<Longrightarrow> spends e v g ''totpRemoval'' who s t"
  "rotate_backup_tx e v who g s = Inr (y5, t) \<Longrightarrow> spends e v g ''backupCodesRotation'' who s t"
  "start_passkey_tx e v pk who g s = Inr (y6, t) \<Longrightarrow> spends e v g ''passkeyEnrollment'' who s t"
  "delete_passkey_tx e v who g k s = Inr (y7, t) \<Longrightarrow> spends e v g ''passkeyRemoval'' who s t"
  "link_finish_tx e v who g provider identity s = Inr (y8, t) \<Longrightarrow> spends e v g ''identityLink'' who s t"
  "unlink_tx e v who g provider s = Inr (y9, t) \<Longrightarrow> spends e v g ''identityUnlink'' who s t"
  unfolding grant_bodies by (erule spendsI, intro triples ops stmts; auto intro: drawnI)+

lemma redeems_spends:
  assumes "redeems e v g purpose who s t"
  shows "spends e v g purpose who s t"
  using assms
proof cases
  case (redeem_session ip ua issuer accessTTL refreshTTL tokens)
  then show ?thesis using spends_session(1) by simp
next
  case (redeem_password password a)
  then show ?thesis using spends_password by simp
qed (auto simp: ChangeEmail_def RequestDeletion_def StartTotp_def DeleteTotp_def RotateBackupCodes_def StartPasskey_def
    DeletePasskey_def UnlinkIdentity_def Let_def split: if_splits option.splits
    dest!: committed intro: spends_bodies)

lemma spends_grant:
  assumes "spends e v g purpose who s t" "wf_db s" "(''grant'', e_hash e ''grant'' '''' g) \<in> stored t"
  shows "drawn e v ''grant'' (e_hash e ''grant'' '''' g)"
proof -
  obtain a u where u: "ConsumeGrant e v g purpose who s = Inr (a, u)" "stored_from (stored u) e v u \<longrightarrow> stored_from (stored u) e v t"
    using assms(1) by (auto simp: spends_def)
  then have "stored_from (stored u) e v t" by (simp add: stored_from_def allowed_def)
  then show ?thesis
    using ConsumeGrant_spends(2) [OF u(1) assms(2)] assms(3) by (auto simp: stored_from_def allowed_def)
qed

interpretation grant: one_time "\<lambda>e v g s t. \<exists>purpose who. redeems e v g purpose who s t" "''grant''"
proof
  fix e v g s t
  assume "\<exists>purpose who. redeems e v g purpose who s t"
  then show "(''grant'', e_hash e ''grant'' '''' g) \<in> stored s"
    by (auto simp: spends_def op_inv grant_stored_iff dest!: redeems_spends grant_row_D)
qed (auto dest: redeems_spends spends_grant)

subsection \<open>Refresh tokens\<close>

lemma refresh_stored_iff: "(''refresh'', h) \<in> stored s \<longleftrightarrow> (\<exists>r \<in> set (sessions s). ses_refresh r = h)"
  by (auto simp: stored_def auth_secrets_def)

lemma issue_state: "issue v account sid refresh expiry issuer accessTTL s = Inr (tokens, t) \<Longrightarrow> t = s"
  by (auto simp: issue_def tx_inv)

lemma refresh_success:
  assumes "Refresh e v sid refresh ip ua issuer accessTTL refreshTTL s = (Inr tokens, t)"
  obtains r fresh addr where "refresh_row e v sid refresh s = Some r" "draw_token v 0 = Inr fresh"
    "issue v (ses_account r) sid fresh (ev_now v + refreshTTL) issuer accessTTL t = Inr (tokens, t)"
    "t = s\<lparr>sessions := update_rows (\<lambda>q. ses_id q = sid) (\<lambda>q. q\<lparr>ses_refresh := e_hash e ''refresh'' '''' fresh,
       ses_ip := addr, ses_user_agent := ua, ses_last_refresh := ev_now v, ses_expiry := ev_now v + refreshTTL\<rparr>)
       (sessions s)\<rparr>"
proof -
  have "refresh_tx e v sid refresh ip ua issuer accessTTL refreshTTL s = Inr (tokens, t)"
    using assms by (auto simp: Refresh_def dest: committed)
  then obtain r fresh addr u where "refresh_row e v sid refresh s = Some r" "draw_token v 0 = Inr fresh"
    and u: "update_session_key sid (\<lambda>q. q\<lparr>ses_refresh := e_hash e ''refresh'' '''' fresh, ses_ip := addr,
      ses_user_agent := ua, ses_last_refresh := ev_now v, ses_expiry := ev_now v + refreshTTL\<rparr>) s = Inr u"
    and i: "issue v (ses_account r) sid fresh (ev_now v + refreshTTL) issuer accessTTL u = Inr (tokens, t)"
    by (auto simp: refresh_tx_def tx_inv)
  with that issue_state [OF i] show ?thesis by (auto simp: update_session_key_def tx_inv)
qed

lemma refresh_row_D:
  "refresh_row e v sid refresh s = Some r \<Longrightarrow> r \<in> set (sessions s) \<and> ses_id r = sid \<and>
     ses_refresh r = e_hash e ''refresh'' '''' refresh \<and> ev_now v < ses_expiry r"
  by (auto simp: refresh_row_def dest: find_Some_D)

interpretation rotation: one_time
  "\<lambda>e v refresh s t. \<exists>sid ip ua issuer accessTTL refreshTTL tokens.
     Refresh e v sid refresh ip ua issuer accessTTL refreshTTL s = (Inr tokens, t)" "''refresh''"
proof
  fix e v refresh s t
  assume "\<exists>sid ip ua issuer accessTTL refreshTTL tokens.
     Refresh e v sid refresh ip ua issuer accessTTL refreshTTL s = (Inr tokens, t)"
  then obtain sid r fresh f where r: "refresh_row e v sid refresh s = Some r" "draw_token v 0 = Inr fresh"
    and t: "t = s\<lparr>sessions := update_rows (\<lambda>q. ses_id q = sid) f (sessions s)\<rparr>"
    and f: "\<And>q. ses_refresh (f q) = e_hash e ''refresh'' '''' fresh"
    by (elim exE refresh_success) simp
  show "(''refresh'', e_hash e ''refresh'' '''' refresh) \<in> stored s"
    using refresh_row_D [OF r(1)] by (auto simp: refresh_stored_iff)
  assume wf: "wf_db s" and "(''refresh'', e_hash e ''refresh'' '''' refresh) \<in> stored t"
  then obtain q where q: "q \<in> set (sessions s)"
      "ses_refresh (if ses_id q = sid then f q else q) = e_hash e ''refresh'' '''' refresh"
    by (auto simp: refresh_stored_iff t table_simps)
  have "ses_id q = sid"
    using q wf_session_unique [OF wf q(1), of r] refresh_row_D [OF r(1)] by (auto simp: session_unique_def split: if_splits)
  then show "drawn e v ''refresh'' (e_hash e ''refresh'' '''' refresh)"
    using q(2) f drawnI [OF r(2), of e "''refresh''" "''''"] by simp
qed

subsection \<open>Password-reset links\<close>

lemma reset_stored_iff: "(''reset'', h) \<in> stored s \<longleftrightarrow> (\<exists>r \<in> set (password_reset_requests s). rst_token r = h)"
  by (auto simp: stored_def auth_secrets_def)

lemma reset_success:
  assumes "ConfirmPasswordReset e v token password s = (Inr (), t)"
  obtains h r where "valid_password password" "e_bcrypt e v password = Inr h"
    "r \<in> set (password_reset_requests s)" "reset_match e v token r"
    "tx_then (change_password v (rst_account r) h) (tx_exec (delete_sessions (\<lambda>q. ses_account q = rst_account r)))
       (delete_resets (reset_match e v token) s) = Inr ((), t)"
  using assms
  by (auto simp: ConfirmPasswordReset_def confirm_reset_tx_def tx_inv split: if_splits sum.splits
      dest!: committed find_Some_D)

interpretation reset: one_time
  "\<lambda>e v token s t. \<exists>password. ConfirmPasswordReset e v token password s = (Inr (), t)" "''reset''"
proof
  fix e v token s t
  assume "\<exists>password. ConfirmPasswordReset e v token password s = (Inr (), t)"
  then obtain h r where r: "r \<in> set (password_reset_requests s)" "reset_match e v token r"
    and rest: "tx_then (change_password v (rst_account r) h) (tx_exec (delete_sessions (\<lambda>q. ses_account q = rst_account r)))
       (delete_resets (reset_match e v token) s) = Inr ((), t)"
    by (elim exE reset_success) blast
  show "(''reset'', e_hash e ''reset'' '''' token) \<in> stored s"
    using r by (auto simp: reset_stored_iff reset_match_def)
  assume wf: "wf_db s" and in_t: "(''reset'', e_hash e ''reset'' '''' token) \<in> stored t"
  have "q = r" if "q \<in> set (password_reset_requests s)" "rst_token q = e_hash e ''reset'' '''' token" for q
    using reset_tab.row_unique [OF _ that(1) r(1)] wf that(2) r(2) by (auto simp: wf_db_def reset_unique_def reset_match_def)
  then have "(''reset'', e_hash e ''reset'' '''' token) \<notin> stored (delete_resets (reset_match e v token) s)"
    using r(2) by (auto simp: reset_stored_iff delete_resets_def table_simps)
  moreover have k: "keeps (stored_from G e v) (tx_then (change_password v (rst_account r) h)
      (tx_exec (delete_sessions (\<lambda>q. ses_account q = rst_account r))))" for G
    by (intro triples ops stmts)
  ultimately show "drawn e v ''reset'' (e_hash e ''reset'' '''' token)"
    using spent_after [OF k rest] in_t by blast
qed

subsection \<open>Email-change links\<close>

lemma change_stored_iff: "(''email-change'', h) \<in> stored s \<longleftrightarrow> (\<exists>r \<in> set (email_change_requests s). emc_token r = h)"
  by (auto simp: stored_def auth_secrets_def)

lemma email_change_row_D:
  "email_change_row_of e v token s = Some r \<Longrightarrow> r \<in> set (email_change_requests s) \<and>
     emc_token r = e_hash e ''email-change'' '''' token \<and> ev_now v < emc_expiry r"
  by (auto simp: email_change_row_of_def dest: find_Some_D)

lemma confirm_email_cases:
  assumes "ConfirmEmail e v token baseURL s = (Inr stage, t)"
  obtains (previous) r where "email_change_row_of e v token s = Some r" "emc_stage r = AwaitingPreviousEmail"
      "confirm_previous_tx e v r baseURL s = Inr (stage, t)"
    | (new) r where "email_change_row_of e v token s = Some r" "emc_stage r = AwaitingNewEmail"
      "confirm_new_tx v r s = Inr (stage, t)"
proof -
  obtain r where r: "email_change_row_of e v token s = Some r"
    and "(if emc_stage r = AwaitingPreviousEmail then confirm_previous_tx e v r baseURL else confirm_new_tx v r) s = Inr (stage, t)"
    using assms by (auto simp: ConfirmEmail_def confirm_email_tx_def tx_inv dest!: committed)
  then show ?thesis using previous new by (cases "emc_stage r") auto
qed

lemma confirm_previous_spends:
  assumes "confirm_previous_tx e v r baseURL s = Inr (stage, t)" "wf_db s" "r \<in> set (email_change_requests s)"
    and "(''email-change'', emc_token r) \<in> stored t"
  shows "drawn e v ''email-change'' (emc_token r)"
proof (rule ccontr)
  assume not: "\<not> ?thesis"
  obtain fresh link u where fresh: "draw_token v 0 = Inr fresh"
    and u: "update_email_change (emc_account r) (\<lambda>q. q\<lparr>emc_stage := AwaitingNewEmail,
        emc_token := e_hash e ''email-change'' '''' fresh, emc_expiry := ev_now v + 30 * Minute\<rparr>) s = Inr u"
    and m: "queueMail v 0 ((mail_template ''email_change_new'')\<lparr>ml_To := emc_email r, ml_URL := link,
        ml_ExpirationTimestamp := ev_now v + 30 * Minute\<rparr>) u = Inr ((), t)"
    using assms(1) by (auto simp: confirm_previous_tx_def tx_inv)
  have "q = r" if "q \<in> set (email_change_requests s)" "emc_token q = emc_token r" for q
    using email_change_tab.row_unique [OF _ that(1) assms(3)] assms(2) that(2)
    by (auto simp: wf_db_def email_change_unique_def)
  then have "(''email-change'', emc_token r) \<notin> stored u"
    using u not drawnI [OF fresh, of e "''email-change''" "''''"]
    by (auto simp: change_stored_iff update_email_change_def tx_inv table_simps split: if_splits)
  then show False using spent_after [OF origin.keep_queueMail m _ assms(4)] not by blast
qed

lemma confirm_new_spends:
  assumes "confirm_new_tx v r s = Inr (stage, t)" "wf_db s" "r \<in> set (email_change_requests s)"
    and "(''email-change'', emc_token r) \<in> stored t"
  shows "drawn e v ''email-change'' (emc_token r)"
proof -
  obtain u where u: "update_account_key (emc_account r) (\<lambda>a. acc_email a = emc_previous r)
      (\<lambda>a. a\<lparr>acc_email := emc_email r, acc_email_verified := Some (ev_now v)\<rparr>) s = Inr u"
    and m: "invalidate v (emc_account r) (delete_email_changes (\<lambda>q. emc_account q = emc_account r) u) = Inr ((), t)"
    using assms(1) by (auto simp: confirm_new_tx_def tx_inv)
  have same: "email_change_requests u = email_change_requests s"
    using u by (auto simp: update_account_key_def tx_inv)
  have "q = r" if "q \<in> set (email_change_requests s)" "emc_token q = emc_token r" for q
    using email_change_tab.row_unique [OF _ that(1) assms(3)] assms(2) that(2)
    by (auto simp: wf_db_def email_change_unique_def)
  then have "(''email-change'', emc_token r) \<notin> stored (delete_email_changes (\<lambda>q. emc_account q = emc_account r) u)"
    using same by (auto simp: change_stored_iff delete_email_changes_def table_simps)
  then show ?thesis using spent_after [OF origin.keep_invalidate m _ assms(4)] by blast
qed

interpretation email_link: one_time
  "\<lambda>e v token s t. \<exists>baseURL stage. ConfirmEmail e v token baseURL s = (Inr stage, t)" "''email-change''"
proof
  fix e v token s t
  assume "\<exists>baseURL stage. ConfirmEmail e v token baseURL s = (Inr stage, t)"
  then obtain baseURL stage where c: "ConfirmEmail e v token baseURL s = (Inr stage, t)" by blast
  show "(''email-change'', e_hash e ''email-change'' '''' token) \<in> stored s"
    using c by (rule confirm_email_cases) (auto simp: change_stored_iff dest!: email_change_row_D)
  assume "wf_db s" "(''email-change'', e_hash e ''email-change'' '''' token) \<in> stored t"
  with c show "drawn e v ''email-change'' (e_hash e ''email-change'' '''' token)"
    by (auto elim!: confirm_email_cases dest!: email_change_row_D
        dest: confirm_previous_spends confirm_new_spends [where e = e])
qed

subsection \<open>OAuth states\<close>

lemma state_stored_iff: "(''state'', h) \<in> stored s \<longleftrightarrow> (\<exists>r \<in> set (oauth_requests s). oar_state r = h)"
  by (auto simp: stored_def auth_secrets_def)

text \<open>The first transaction of a sign-in step with an authorization code, or of linking an identity.\<close>

inductive redeems_state :: "engine \<Rightarrow> env \<Rightarrow> string \<Rightarrow> db \<Rightarrow> db \<Rightarrow> bool" for e :: engine and v :: env where
  state_step: "e_run v (tx_done (provider_begin_tx e v aid cid flow who proof)) s = (Inr x, t) \<Longrightarrow>
     prf_IDToken proof = '''' \<Longrightarrow> redeems_state e v (prf_State proof) s t"
| state_link: "e_run v (tx_done (link_begin_tx e v who provider state)) s = (Inr r, t) \<Longrightarrow> redeems_state e v state s t"

lemma redeems_state_D:
  assumes "redeems_state e v token s t"
  obtains M r where "r \<in> set (oauth_requests s)" "M r" "t = delete_oauth_requests M s"
    "\<And>q. M q \<Longrightarrow> oar_state q = e_hash e ''state'' '''' token"
  using assms
proof cases
  case (state_step aid cid flow who pf x)
  then have "\<exists>r. find (oauth_match e v cid flow pf) (oauth_requests s) = Some r \<and>
      t = delete_oauth_requests (oauth_match e v cid flow pf) s"
    by (auto simp: provider_begin_tx_def tx_inv op_inv dest!: committed)
  then obtain r where r: "find (oauth_match e v cid flow pf) (oauth_requests s) = Some r"
      "t = delete_oauth_requests (oauth_match e v cid flow pf) s" by blast
  then show ?thesis
    using that [of r "oauth_match e v cid flow pf"] find_Some_D [OF r(1)] state_step(1)
    by (auto simp: oauth_match_def)
next
  case (state_link who provider q)
  then have "find (link_match e v who provider token) (oauth_requests s) = Some q \<and>
      t = delete_oauth_requests (link_match e v who provider token) s"
    by (auto simp: link_begin_tx_def tx_inv op_inv dest!: committed)
  then show ?thesis
    using that [of q "link_match e v who provider token"] find_Some_D by (fastforce simp: link_match_def)
qed

interpretation oauth_state: one_time redeems_state "''state''"
proof
  fix e v token s t
  assume "redeems_state e v token s t"
  then obtain M r where r: "r \<in> set (oauth_requests s)" "M r" and t: "t = delete_oauth_requests M s"
    and M: "\<And>q. M q \<Longrightarrow> oar_state q = e_hash e ''state'' '''' token"
    by (rule redeems_state_D) blast
  show "(''state'', e_hash e ''state'' '''' token) \<in> stored s" using r M by (auto simp: state_stored_iff)
  assume wf: "wf_db s" and "(''state'', e_hash e ''state'' '''' token) \<in> stored t"
  then obtain q where q: "q \<in> set (oauth_requests s)" "\<not> M q" "oar_state q = e_hash e ''state'' '''' token"
    by (auto simp: state_stored_iff t delete_oauth_requests_def table_simps)
  then have "q = r"
    using oauth_request_tab.row_unique [OF _ q(1) r(1)] wf M [OF r(2)] by (auto simp: wf_db_def oauth_request_unique_def)
  then show "drawn e v ''state'' (e_hash e ''state'' '''' token)" using q(2) r(2) by simp
qed

subsection \<open>Tokens on the example world\<close>

definition demo_issuer :: TokenIssuer where
  "demo_issuer p ttl = Inr ''jwt''"

lemma demo_not_drawn:
  assumes "CHR 0x00 \<notin> set g" "length g mod 4 = 1"
  shows "\<not> drawn demo_engine (demo_env now seed) k (e_hash demo_engine k '''' g)"
proof
  assume "drawn demo_engine (demo_env now seed) k (e_hash demo_engine k '''' g)"
  then obtain c b where "c @ CHR 0x00 # randomToken b = CHR 0x00 # g"
    by (auto simp: drawn_def draw_token_def demo_env_def e_hash_def demo_engine_def New_def demo_libs_def demo_crypto_def
        Hash_def hash_frame_def)
  then have "randomToken b = g" using assms(1) by (cases c) auto
  then show False using assms(2) length_RawURLEncoding_mod [of b] by (simp add: randomToken_def)
qed

lemma demo_session_created:
  "\<not> isl (fst (CreateSession demo_engine (demo_env 0 1) ''g'' ''ip'' ''ua'' demo_issuer 1 Hour (demo_grant_db ''signIn'' None)))"
  "grant_purpose demo_engine ''g'' (demo_grant_db ''signIn'' None) = Some ''signIn''"
  by (simp_all add: run_defs tx_simps demo_issuer_def Let_def cong: tx_weak)

lemma demo_grant_wf: "wf_db (demo_grant_db ''signIn'' None)"
  by code_simp

lemma demo_redeems:
  "redeems demo_engine (demo_env 0 1) ''g'' ''signIn'' \<lparr>who_AccountID = uuid_Nil, who_SessionID = 0\<rparr> (demo_grant_db ''signIn'' None)
     (snd (CreateSession demo_engine (demo_env 0 1) ''g'' ''ip'' ''ua'' demo_issuer 1 Hour (demo_grant_db ''signIn'' None)))"
  by (rule redeem_session [OF answered [OF demo_session_created(1)] demo_session_created(2)])

subsection \<open>Properties\<close>

text \<open>
  C3: A grant is redeemed at most once. After any of the operations that take a grant
  (creating a session, changing the password or email, requesting deletion, enrolling or
  removing TOTP, rotating backup codes, enrolling or removing a passkey, linking or
  unlinking an identity) has accepted it, no operation accepts it again, for no purpose
  and no principal, after any run of the service in which no call happens to draw a token
  with the same hash.
\<close>

theorem grant_single_use:
  assumes "wf_db s" "redeems e v g purpose who s t" "run_of e vs t u"
    and "\<forall>w \<in> insert v (set vs). \<not> drawn e w ''grant'' (e_hash e ''grant'' '''' g)"
  shows "\<not> redeems e w g purpose' who' u u'"
  using grant.never_again [OF assms(1) _ assms(3,4)] assms(2) by blast

theorem grant_single_use_witness:
  "\<not> redeems demo_engine (demo_env 1 2) ''g'' ''totpRemoval'' demo_who
     (snd (CreateSession demo_engine (demo_env 0 1) ''g'' ''ip'' ''ua'' demo_issuer 1 Hour (demo_grant_db ''signIn'' None)))
     demo_db"
  by (rule grant_single_use [OF demo_grant_wf demo_redeems run_Nil]) (simp add: demo_not_drawn)

text \<open>
  C4: A grant is only accepted for what it was issued for. The operation that accepts it
  finds a completed, not invalidated process with exactly that purpose whose grant has
  not expired; for every purpose but signing in and signing up the process belongs to the
  calling account and session, the session is alive, its account is not blocked, and,
  unless the purpose is the deletion itself, the account is not pending deletion.
\<close>

theorem grant_binding:
  assumes "wf_db s" "redeems e v g purpose who s t"
  shows "\<exists>r \<in> set (authentications s). aut_grant r = Some (e_hash e ''grant'' '''' g) \<and> aut_purpose r = purpose \<and>
     aut_status r = Completed \<and> aut_invalidation r = None \<and> (\<exists>x. aut_grant_expiry r = Some x \<and> ev_now v < x) \<and>
     (sensitive purpose \<longrightarrow> aut_account r = Some (who_AccountID who) \<and> aut_session r = Some (who_SessionID who) \<and>
        live_principal (ev_now v) who s \<and> (purpose \<noteq> ''accountDeletion'' \<longrightarrow> \<not> deleting (who_AccountID who) s))"
proof -
  obtain r where r: "grant_row e v g purpose s = Some r"
    and bound: "sensitive purpose \<longrightarrow> account_or_nil (aut_account r) = who_AccountID who \<and>
        aut_session r = Some (who_SessionID who) \<and> live_principal (ev_now v) who s \<and>
        (purpose \<noteq> ''accountDeletion'' \<longrightarrow> \<not> deleting (who_AccountID who) s)"
    using redeems_spends [OF assms(2)] by (auto simp: spends_def op_inv)
  have "aut_account r \<noteq> None"
    using wf_auth_ok [OF assms(1), of r] grant_row_D [OF r] by (auto simp: auth_check_def)
  then show ?thesis
    using grant_row_D [OF r] bound by (intro bexI [of _ r]) (auto simp: account_or_nil_def)
qed

theorem grant_binding_witness:
  "\<exists>r \<in> set (authentications (demo_grant_db ''signIn'' None)). aut_purpose r = ''signIn'' \<and> aut_status r = Completed"
  using grant_binding [OF demo_grant_wf demo_redeems] by blast

text \<open>
  C12: Refreshing rotates the refresh token. An accepted token is never accepted again,
  after any run in which no call draws a token with the same hash.
\<close>

theorem refresh_single_use:
  assumes "wf_db s" "Refresh e v sid refresh ip ua issuer accessTTL refreshTTL s = (Inr tokens, t)" "run_of e vs t u"
    and "\<forall>w \<in> insert v (set vs). \<not> drawn e w ''refresh'' (e_hash e ''refresh'' '''' refresh)"
  shows "isl (fst (Refresh e w sid' refresh ip' ua' issuer' accessTTL' refreshTTL' u))"
proof (rule ccontr)
  assume "\<not> ?thesis"
  from answered [OF this] show False
    using rotation.never_again [OF assms(1) _ assms(3,4)] assms(2) by blast
qed

definition demo_sessions :: db where
  "demo_sessions = demo_db\<lparr>sessions := [demo_session\<lparr>ses_refresh := e_hash demo_engine ''refresh'' '''' ''r''\<rparr>]\<rparr>"

lemma demo_refreshed:
  "\<not> isl (fst (Refresh demo_engine (demo_env 0 1) 1 ''r'' ''ip'' ''ua'' demo_issuer 1 Hour demo_sessions))"
  by (simp add: run_defs tx_simps demo_issuer_def demo_sessions_def Let_def cong: tx_weak)

lemma demo_sessions_wf: "wf_db demo_sessions"
  by code_simp

theorem refresh_single_use_witness:
  "isl (fst (Refresh demo_engine (demo_env 1 2) 1 ''r'' ''ip'' ''ua'' demo_issuer 1 Hour
      (snd (Refresh demo_engine (demo_env 0 1) 1 ''r'' ''ip'' ''ua'' demo_issuer 1 Hour demo_sessions))))"
  by (rule refresh_single_use [OF demo_sessions_wf answered [OF demo_refreshed] run_Nil]) (simp add: demo_not_drawn)

text \<open>
  C13: A password-reset link works once: after it has set a password it never works again,
  in any run in which no call draws a token with the same hash.
\<close>

theorem reset_single_use:
  assumes "wf_db s" "ConfirmPasswordReset e v token password s = (Inr (), t)" "run_of e vs t u"
    and "\<forall>w \<in> insert v (set vs). \<not> drawn e w ''reset'' (e_hash e ''reset'' '''' token)"
  shows "ConfirmPasswordReset e w token password' u \<noteq> (Inr (), u')"
  using reset.never_again [OF assms(1) _ assms(3,4)] assms(2) by blast

definition demo_reset :: db where
  "demo_reset = demo_db\<lparr>password_reset_requests :=
     [\<lparr>rst_account = 5, rst_token = e_hash demo_engine ''reset'' '''' ''r'', rst_expiry = Hour\<rparr>]\<rparr>"

lemma demo_reset_confirmed: "\<not> isl (fst (ConfirmPasswordReset demo_engine (demo_env 0 1) ''r'' ''new-password'' demo_reset))"
  by (simp add: run_defs tx_simps demo_reset_def Let_def cong: tx_weak)

lemma demo_reset_wf: "wf_db demo_reset"
  by code_simp

theorem reset_single_use_witness:
  "ConfirmPasswordReset demo_engine (demo_env 1 2) ''r'' ''other-password''
      (snd (ConfirmPasswordReset demo_engine (demo_env 0 1) ''r'' ''new-password'' demo_reset)) \<noteq> (Inr (), demo_db)"
  by (rule reset_single_use [OF demo_reset_wf _ run_Nil, where v = "demo_env 0 1" and password = "''new-password''"])
    (use answered [OF demo_reset_confirmed] in auto, simp add: demo_not_drawn)

text \<open>
  C14: An email-change link works once: neither the link sent to the previous address nor
  the one sent to the new address is accepted again after it was accepted, in any run in
  which no call draws a token with the same hash.
\<close>

theorem email_link_single_use:
  assumes "wf_db s" "ConfirmEmail e v token baseURL s = (Inr stage, t)" "run_of e vs t u"
    and "\<forall>w \<in> insert v (set vs). \<not> drawn e w ''email-change'' (e_hash e ''email-change'' '''' token)"
  shows "ConfirmEmail e w token baseURL' u \<noteq> (Inr stage', u')"
  using email_link.never_again [OF assms(1) _ assms(3,4)] assms(2) by blast

definition demo_change :: "email_stage \<Rightarrow> db" where
  "demo_change stage = demo_db\<lparr>email_change_requests :=
     [\<lparr>emc_account = 5, emc_previous = ''a@b'', emc_email = ''c@d'', emc_stage = stage,
       emc_token = e_hash demo_engine ''email-change'' '''' ''r'', emc_expiry = Hour\<rparr>]\<rparr>"

lemma demo_change_confirmed:
  "\<not> isl (fst (ConfirmEmail demo_engine (demo_env 0 1) ''r'' ''u'' (demo_change AwaitingPreviousEmail)))"
  by (simp add: run_defs tx_simps demo_change_def Let_def cong: tx_weak)

lemma demo_change_wf: "wf_db (demo_change AwaitingPreviousEmail)"
  by code_simp

theorem email_link_single_use_witness:
  "ConfirmEmail demo_engine (demo_env 1 2) ''r'' ''u''
      (snd (ConfirmEmail demo_engine (demo_env 0 1) ''r'' ''u'' (demo_change AwaitingPreviousEmail))) \<noteq> (Inr ''changed'', demo_db)"
  by (rule email_link_single_use [OF demo_change_wf answered [OF demo_change_confirmed] run_Nil]) (simp add: demo_not_drawn)

text \<open>
  C15: The state of an OAuth flow is used once, by a sign-in step or by the linking of an
  identity: after either has accepted it, neither accepts it again, in any run in which no
  call draws a token with the same hash.
\<close>

theorem oauth_state_single_use:
  assumes "wf_db s" "redeems_state e v token s t" "run_of e vs t u"
    and "\<forall>w \<in> insert v (set vs). \<not> drawn e w ''state'' (e_hash e ''state'' '''' token)"
  shows "\<not> redeems_state e w token u u'"
  using oauth_state.never_again [OF assms] .

definition demo_state :: db where
  "demo_state = demo_db\<lparr>oauth_requests :=
     [\<lparr>oar_state = e_hash demo_engine ''state'' '''' ''r'', oar_provider = ''vk'', oar_step = None, oar_session = Some 1,
       oar_binding = e_hash demo_engine ''binding'' '''' (FormatInt 1), oar_redirect = ''app'', oar_nonce = ''n'',
       oar_verifier = ''x'', oar_expiry = Hour\<rparr>]\<rparr>"

lemma demo_state_taken:
  "\<not> isl (fst (e_run (demo_env 0 1) (tx_done (link_begin_tx demo_engine (demo_env 0 1) demo_who ''vk'' ''r'')) demo_state))"
  by (simp add: run_defs tx_simps demo_state_def Let_def cong: tx_weak)

lemma demo_state_wf: "wf_db demo_state"
  by code_simp

theorem oauth_state_single_use_witness:
  "\<not> redeems_state demo_engine (demo_env 1 2) ''r''
     (snd (e_run (demo_env 0 1) (tx_done (link_begin_tx demo_engine (demo_env 0 1) demo_who ''vk'' ''r'')) demo_state)) demo_db"
  by (rule oauth_state_single_use [OF demo_state_wf state_link [OF answered [OF demo_state_taken]] run_Nil])
    (simp add: demo_not_drawn)

end
