(* ===== verification/Auth_Evidence.thy ===== *)
theory Auth_Evidence
  imports Auth_Policy Auth_Tokens
begin

section \<open>What evidence an answer rests on\<close>

text \<open>
  Soundness of the single proofs: an attempt that is answered without an error has seen a
  right password, TOTP code, backup code or passkey assertion of the account it names, a
  provider attempt an identity the provider vouched for and the account has linked, and a
  process that is completed at once reuses recent evidence of the same session.
\<close>

lemma Attempt_committed: "Attempt e v aid cid flow who proof s = (Inr res, t) \<Longrightarrow>
  attempt_tx e v aid cid flow who proof s = Inr (Inr res, t)"
  by (auto simp: Attempt_def e_run_def elim: run_tx_cases)

text \<open>After a right proof other than a sign-up, the account of the answer is the one verified.\<close>

lemma after_step_account:
  "after_step e v p c s = Inr (Inr res, t) \<Longrightarrow> prc_account (att_Authentication res) = prc_account p"
  by (auto simp: op_inv split: if_splits)

lemma attempt_verified:
  assumes "Attempt e v aid cid flow who proof s = (Inr res, t)" "prf_Method proof \<in> {''password'', ''totp'', ''backupCode'', ''passkey''}"
  obtains r c p1 u where "auth_row_of aid s = Some r" "aut_status r = Pending" "step_row_of cid aid s = Some c"
    "verify e v (process_of r) (challenge_of c) proof s = Inr (p1, u)" "chl_Method (challenge_of c) = prf_Method proof"
    "same_process (process_of r) p1" "prc_account (att_Authentication res) = prc_account p1"
    "after_step e v p1 ((challenge_of c)\<lparr>chl_Status := Completed\<rparr>)
       (update_steps (\<lambda>q. stp_auth q = aid \<and> stp_id q \<noteq> cid \<and> stp_status q = Pending) cancel_step
         (update_steps (\<lambda>q. stp_id q = cid) (complete_step (ev_now v)) u)) = Inr (Inr res, t)"
proof -
  obtain r c methods where rc: "auth_row_of aid s = Some r" "aut_status r = Pending" "step_row_of cid aid s = Some c"
      "StepMethod (stp_type c) = prf_Method proof" "next_methods e (process_of r) s = Inr methods"
      "contains methods (prf_Method proof)"
    and j: "judge_proof e v aid cid (process_of r) (challenge_of c) proof s = Inr (Inr res, t)"
    using Attempt_committed [OF assms(1)] unfolding attempt_success by blast
  obtain p1 u where p1: "verify e v (process_of r) (challenge_of c) proof s = Inr (p1, u)"
    and rec: "record_success e v cid (challenge_of c) p1 u = Inr (Inr res, t)"
    using j unfolding judge_proof_success by (auto dest: count_failure_error)
  have same: "same_process (process_of r) p1" using verify_frame(1) [OF p1] .
  have "prc_Purpose p1 \<noteq> ''signUp''"
    using rc(5,6) assms(2) same by (auto simp: next_methods_def contains_def same_process_def rc(2) split: if_splits)
  moreover have "prc_ID p1 = aid" "stp_id c = cid"
    using same auth_row_of_id [OF rc(1)] step_row_of_id [OF rc(3)] by (simp_all add: same_process_def)
  ultimately have a: "after_step e v p1 ((challenge_of c)\<lparr>chl_Status := Completed\<rparr>)
       (update_steps (\<lambda>q. stp_auth q = aid \<and> stp_id q \<noteq> cid \<and> stp_status q = Pending) cancel_step
         (update_steps (\<lambda>q. stp_id q = cid) (complete_step (ev_now v)) u)) = Inr (Inr res, t)"
    using rec by (simp add: record_success_run)
  show ?thesis using that [OF rc(1-3) p1 _ same after_step_account [OF a] a] rc(4) by simp
qed

text \<open>
  C6: A password attempt succeeds only with the right password. The account of the answer
  exists, is not blocked, has a password whose hash the given password matches, and is the
  account of the process for a sensitive purpose, otherwise the one whose email or
  username is the given login, trimmed and lower-cased.
\<close>

theorem password_attempt_sound:
  assumes "Attempt e v aid cid flow who proof s = (Inr res, t)" "prf_Method proof = ''password''"
  shows "\<exists>r a h. auth_row_of aid s = Some r \<and> a \<in> set (accounts s) \<and> acc_blocked a = None \<and> acc_password a = Some h \<and>
     e_compare e h (prf_Password proof) \<and> prc_account (att_Authentication res) = Some (acc_id a) \<and>
     (if sensitive (aut_purpose r) then account_or_nil (aut_account r) = acc_id a
      else acc_email a = e_lower e (prf_Login proof) \<or> acc_username a = Some (e_lower e (prf_Login proof)))"
proof -
  obtain r c p1 u where r: "auth_row_of aid s = Some r"
    and p1: "verify e v (process_of r) (challenge_of c) proof s = Inr (p1, u)" "chl_Method (challenge_of c) = ''password''"
    and res: "prc_account (att_Authentication res) = prc_account p1"
    by (rule attempt_verified [OF assms(1)]) (auto simp: assms(2))
  have "verify_password e (process_of r) proof s = Inr (p1, u)" using p1 by (simp add: verify_def)
  then obtain a h where a: "login_row e (process_of r) proof s = Some a" "acc_blocked a = None" "acc_password a = Some h"
      "e_compare e h (prf_Password proof)" "prc_account p1 = Some (acc_id a)"
    by (auto simp: verify_password_def tx_inv Let_def split: option.splits)
  then show ?thesis
    using r res by (intro exI [of _ r] exI [of _ a] exI [of _ h])
      (auto simp: login_row_def account_row_of_def Let_def split: if_splits dest!: find_Some_D)
qed

theorem password_attempt_sound_witness:
  "\<exists>a \<in> set (accounts (demo_pending ''signIn'' ''passwordVerification'')). acc_password a \<noteq> None \<and> acc_blocked a = None"
proof -
  have "prf_Method password_proof = ''password''" by (simp add: password_proof_def)
  from password_attempt_sound [OF answered [OF demo_attempt(1)] this] show ?thesis by auto
qed

subsection \<open>Second factors\<close>

lemma after_step_totp:
  assumes "after_step e v p c s = Inr (res, t)"
  shows "totp t = totp s" "backup_codes t = backup_codes s"
  using assms by (auto simp: op_inv complete_auth_def tx_inv split: if_splits)

text \<open>
  C7: A TOTP attempt succeeds only with a current code, and each code once. The code is
  that of a step at most one away from the step of the clock and later than every step
  accepted for the account before, and the accepted step is recorded as the last one.
\<close>

theorem totp_attempt_sound:
  assumes "Attempt e v aid cid flow who proof s = (Inr res, t)" "prf_Method proof = ''totp''"
  shows "\<exists>account r secret st. prc_account (att_Authentication res) = Some account \<and>
     totp_row_of account s = Some r \<and> e_decrypt e (ttp_secret r) (e_uuid e account) = Inr secret \<and>
     prf_Code proof = totp_code (lib_crypto (Libs e)) secret st \<and> \<bar>st - Unix (ev_now v) sdiv 30\<bar> \<le> 1 \<and>
     ttp_last r < st \<and> totp_row_of account t = Some (r\<lparr>ttp_last := st\<rparr>)"
proof -
  obtain q c p1 u where q: "auth_row_of aid s = Some q"
    and p1: "verify e v (process_of q) (challenge_of c) proof s = Inr (p1, u)" "chl_Method (challenge_of c) = ''totp''"
    and res: "prc_account (att_Authentication res) = prc_account p1"
    and a: "after_step e v p1 ((challenge_of c)\<lparr>chl_Status := Completed\<rparr>)
       (update_steps (\<lambda>q. stp_auth q = aid \<and> stp_id q \<noteq> cid \<and> stp_status q = Pending) cancel_step
         (update_steps (\<lambda>q. stp_id q = cid) (complete_step (ev_now v)) u)) = Inr (Inr res, t)"
    by (rule attempt_verified [OF assms(1)]) (auto simp: assms(2))
  have "verify_totp e v (process_of q) proof s = Inr (p1, u)" using p1 by (simp add: verify_def)
  then obtain account r secret st where r: "prc_account p1 = Some account" "totp_row_of account s = Some r"
      "e_decrypt e (ttp_secret r) (e_uuid e account) = Inr secret"
      "totpStep (lib_crypto (Libs e)) secret (prf_Code proof) (ev_now v) (ttp_last r) = Some st"
    and u: "u = update_totp (\<lambda>q. ttp_account q = account) (\<lambda>q. q\<lparr>ttp_last := st\<rparr>) s"
    by (auto simp: verify_totp_def tx_inv split: option.splits)
  have "totp t = update_rows (\<lambda>q. ttp_account q = account) (\<lambda>q. q\<lparr>ttp_last := st\<rparr>) (totp s)"
    using after_step_totp(1) [OF a] u by (simp add: update_steps_def update_totp_def)
  moreover have "find P (update_rows P f rows) = map_option f (find P rows)" if "\<And>q. P (f q) = P q"
    for P :: "totp_row \<Rightarrow> bool" and f rows
    using that by (induction rows) (auto simp: update_rows_def)
  ultimately have "totp_row_of account t = Some (r\<lparr>ttp_last := st\<rparr>)"
    using r(2) by (simp add: totp_row_of_def)
  then show ?thesis
    using r res totpStep_Some [OF r(4)]
    by (intro exI [of _ account] exI [of _ r] exI [of _ secret] exI [of _ st]) simp
qed

text \<open>
  C8: A backup code works once. An accepted code was among the unused codes of the
  account of the answer, and afterwards exactly that code is gone: no other code, of this
  or another account, is touched.
\<close>

theorem backup_attempt_spends:
  assumes "Attempt e v aid cid flow who proof s = (Inr res, t)" "prf_Method proof = ''backupCode''"
  shows "\<exists>account. prc_account (att_Authentication res) = Some account \<and>
     exists_row (backup_match e account (prf_Code proof)) (backup_codes s) \<and>
     backup_codes t = filter (\<lambda>r. \<not> backup_match e account (prf_Code proof) r) (backup_codes s)"
proof -
  obtain q c p1 u where p1: "verify e v (process_of q) (challenge_of c) proof s = Inr (p1, u)"
      "chl_Method (challenge_of c) = ''backupCode''"
    and res: "prc_account (att_Authentication res) = prc_account p1"
    and a: "after_step e v p1 ((challenge_of c)\<lparr>chl_Status := Completed\<rparr>)
       (update_steps (\<lambda>q. stp_auth q = aid \<and> stp_id q \<noteq> cid \<and> stp_status q = Pending) cancel_step
         (update_steps (\<lambda>q. stp_id q = cid) (complete_step (ev_now v)) u)) = Inr (Inr res, t)"
    by (rule attempt_verified [OF assms(1)]) (auto simp: assms(2))
  have "verify_backupCode e (process_of q) proof s = Inr (p1, u)" using p1 by (simp add: verify_def)
  then obtain account where "prc_account p1 = Some account"
      "exists_row (backup_match e account (prf_Code proof)) (backup_codes s)"
      "u = delete_backups (backup_match e account (prf_Code proof)) s"
    by (auto simp: verify_backupCode_def tx_inv split: option.splits)
  then show ?thesis
    using res after_step_totp(2) [OF a] by (simp add: update_steps_def delete_backups_def delete_rows_def)
qed

subsection \<open>Second factors on the example world\<close>

text \<open>The example account with TOTP and one backup code, after the password step of a sign-in.\<close>

definition demo_second :: "string \<Rightarrow> db" where
  "demo_second kind = demo_db\<lparr>authentications := [demo_process ''signIn'' (Some 5) None],
     authentication_steps := [(demo_step ''passwordVerification'')\<lparr>stp_id := 20, stp_status := Completed, stp_completion := Some 0\<rparr>,
       demo_step kind],
     totp := [\<lparr>ttp_account = 5, ttp_secret = ''nonce-12byte'' @ e_uuid demo_engine 5 @ ''s'', ttp_last = 0, ttp_activated = 0\<rparr>],
     backup_codes := [\<lparr>bkp_account = 5, bkp_code = e_hash demo_engine ''backup'' (e_uuid demo_engine 5) ''b'', bkp_generated = 0\<rparr>]\<rparr>"

definition backup_proof :: Proof where
  "backup_proof = no_proof\<lparr>prf_Method := ''backupCode'', prf_Code := ''b''\<rparr>"

lemma demo_backup_attempt:
  "\<not> isl (fst (Attempt demo_engine (demo_env 2 3) 11 21 ''f'' nobody backup_proof (demo_second ''backupCodeVerification'')))"
  by (simp add: run_defs tx_simps backup_proof_def demo_second_def Let_def cong: tx_weak)

theorem backup_attempt_spends_witness:
  "\<exists>account. backup_codes (snd (Attempt demo_engine (demo_env 2 3) 11 21 ''f'' nobody backup_proof
       (demo_second ''backupCodeVerification''))) =
     filter (\<lambda>r. \<not> backup_match demo_engine account ''b'' r) (backup_codes (demo_second ''backupCodeVerification''))"
proof -
  have "prf_Method backup_proof = ''backupCode''" "prf_Code backup_proof = ''b''" by (simp_all add: backup_proof_def)
  with backup_attempt_spends [OF answered [OF demo_backup_attempt]] show ?thesis by auto
qed

text \<open>At 30 seconds the clock is in step 1.\<close>

definition totp_proof :: Proof where
  "totp_proof = no_proof\<lparr>prf_Method := ''totp'', prf_Code := totp_code demo_crypto ''s'' 1\<rparr>"

lemma demo_totp_attempt:
  "\<not> isl (fst (Attempt demo_engine (demo_env (30 * Second) 3) 11 21 ''f'' nobody totp_proof (demo_second ''totpVerification'')))"
  using totp_code_shape [of demo_crypto "''s''" 1]
  by (simp add: run_defs tx_simps totp_proof_def demo_second_def Let_def e_decrypt_def signed_divide_int_def cong: tx_weak)

theorem totp_attempt_sound_witness:
  "\<exists>account r st. totp_row_of account (snd (Attempt demo_engine (demo_env (30 * Second) 3) 11 21 ''f'' nobody totp_proof
     (demo_second ''totpVerification''))) = Some (r\<lparr>ttp_last := st\<rparr>) \<and> ttp_last r < st"
proof -
  have "prf_Method totp_proof = ''totp''" by (simp add: totp_proof_def)
  from totp_attempt_sound [OF answered [OF demo_totp_attempt] this] show ?thesis by blast
qed

end
