(* ===== verification/Auth_Vouching.thy ===== *)
theory Auth_Vouching
  imports Auth_Evidence
begin

section \<open>Evidence vouched for elsewhere\<close>

text \<open>
  Soundness of the attempts whose evidence comes from outside the database: an identity
  provider, a passkey, or an earlier process whose evidence is recent enough to be reused.
\<close>

subsection \<open>Identity providers\<close>

lemma set_account_frame:
  "set_account aid account s = Inr t \<Longrightarrow> totp t = totp s \<and> accounts t = accounts s \<and> identities t = identities s"
  by (auto simp: set_account_def split: if_splits)

lemma complete_frame:
  "complete e v i p s = Inr (q, t) \<Longrightarrow> authentication_steps t = authentication_steps s \<and> totp t = totp s \<and>
     accounts t = accounts s \<and> identities t = identities s"
  by (auto simp: op_inv complete_auth_def tx_inv split: if_splits)

text \<open>The end of the second transaction is that of an attempt, but for the challenge of the answer.\<close>

definition provider_answer :: "engine \<Rightarrow> env \<Rightarrow> Process \<Rightarrow> Challenge \<Rightarrow> (db, AttemptResult) tx" where
  "provider_answer e v p c =
     tx_bind (tx_query (next_methods e p)) (\<lambda>methods.
       tx_bind (if methods = [] then complete e v 0 (p\<lparr>prc_Next := methods\<rparr>) else tx_return (p\<lparr>prc_Next := methods\<rparr>)) (\<lambda>p3.
         tx_bind (tx_query (steps e v p3)) (\<lambda>ss.
           tx_return \<lparr>att_Challenge = c\<lparr>chl_Status := Completed\<rparr>, att_Authentication = p3\<lparr>prc_Steps := ss\<rparr>\<rparr>)))"

lemma provider_answer_success:
  assumes "provider_answer e v p c s = Inr (res, t)" "prc_Status p = Pending"
  shows "prc_account (att_Authentication res) = prc_account p" "prc_Purpose (att_Authentication res) = prc_Purpose p"
    "identities t = identities s" "accounts t = accounts s" "authentication_steps t = authentication_steps s" "totp t = totp s"
    "prc_Status (att_Authentication res) = Completed \<Longrightarrow> next_methods e p s = Inr []"
  using assms unfolding provider_answer_def
  by (auto simp: tx_inv dest: complete_frame split: if_splits) (auto simp: complete_success)

lemma provider_answer_completed:
  assumes "provider_answer e v p c s = Inr (res, t)" "prc_Status p = Pending"
    and "prc_Status (att_Authentication res) = Completed" "prc_Purpose p \<noteq> ''signUp''" "prc_account p = Some account"
  shows "step_done (prc_ID p) first_factors t \<and> (has_totp account t \<longrightarrow> step_done (prc_ID p) second_factors t)"
  using next_methods_done [OF provider_answer_success(7) [OF assms(1-3)] assms(2,4)] assms(5)
    policy_frame [OF provider_answer_success(5,6) [OF assms(1,2)]]
  by (metis option.inject)

lemma provider_finish_run:
  "provider_finish_tx e v aid cid flow who proof identity s = Inr (res, t) \<longleftrightarrow>
    (\<exists>r c account u methods. load e v aid flow who s = Inr (process_of r, s) \<and> auth_row_of aid s = Some r \<and> aut_status r = Pending \<and>
       step_row_of cid aid s = Some c \<and> stp_status c = Pending \<and> ev_now v < stp_expiry c \<and>
       next_methods e (process_of r) s = Inr methods \<and> contains methods (StepMethod (stp_type c)) \<and>
       identity_account (prf_Method proof) (pid_Subject identity) s = Some account \<and>
       (sensitive (aut_purpose r) \<longrightarrow> account_or_nil (aut_account r) = account) \<and>
       set_account aid account s = Inr u \<and>
       provider_answer e v ((process_of r)\<lparr>prc_account := Some account\<rparr>) (challenge_of c)
         (update_steps (\<lambda>q. stp_auth q = aut_id r \<and> stp_id q \<noteq> stp_id c \<and> stp_status q = Pending) cancel_step
           (update_steps (\<lambda>q. stp_id q = cid) (complete_step (ev_now v)) u)) = Inr (res, t))"
  unfolding provider_finish_tx_def Let_def cancelAlternatives_def provider_answer_def [symmetric]
  by (simp add: tx_inv op_inv) (auto; metis)

text \<open>
  What the second half of a provider attempt was given for the step \<open>cid\<close>: for a native login
  the nonce of the Google step, for a redirect flow the request stored under the state, bound
  to the step and the flow token and not expired, with its redirect URI, nonce and encrypted
  PKCE verifier.
\<close>

definition issued_for :: "engine \<Rightarrow> env \<Rightarrow> uuid \<Rightarrow> string \<Rightarrow> Proof \<Rightarrow> string \<Rightarrow> string \<Rightarrow> string \<Rightarrow> db \<Rightarrow> bool" where
  "issued_for e v cid flow proof redirect nonce enc s \<longleftrightarrow>
     (if prf_IDToken proof \<noteq> ''''
      then prf_Method proof = ''google'' \<and> (\<exists>r \<in> set (google_authentication_steps s). gst_id r = cid \<and> gst_nonce r = nonce)
      else \<exists>r \<in> set (oauth_requests s). oauth_match e v cid flow proof r \<and>
        redirect = oar_redirect r \<and> nonce = oar_nonce r \<and> enc = oar_verifier r)"

text \<open>
  The provider vouched for \<open>identity\<close>: it accepted the ID token of the proof, or the code of
  the proof together with the given redirect URI and the decrypted verifier; the subject is
  not empty, and Google's token carries the nonce with the given hash.
\<close>

definition vouched_for :: "engine \<Rightarrow> network \<Rightarrow> Provider \<Rightarrow> Proof \<Rightarrow> string \<Rightarrow> string \<Rightarrow> string \<Rightarrow> ProviderIdentity \<Rightarrow> bool" where
  "vouched_for e net provider proof redirect nonce enc identity \<longleftrightarrow>
     (if prf_IDToken proof \<noteq> '''' then prv_Native provider net (prf_IDToken proof) = Inr identity
      else \<exists>verifier. e_decrypt e enc (''oauth:'' @ prf_State proof) = Inr verifier \<and>
        prv_Exchange provider net (prf_Code proof) redirect verifier = Inr identity) \<and>
     pid_Subject identity \<noteq> '''' \<and>
     (prf_Method proof = ''google'' \<longrightarrow> pid_Nonce identity \<noteq> '''' \<and> e_hash e ''nonce'' '''' (pid_Nonce identity) = nonce)"

lemma provider_identity_success:
  assumes "provider_identity e v provider p redirect nonce enc proof = Inr identity"
  shows "vouched_for e (ev_net v) provider proof redirect nonce enc identity"
    "sensitive (prc_Purpose p) \<Longrightarrow> ev_now v - ReuseTTL e \<le> pid_AuthenticatedAt identity \<and> pid_AuthenticatedAt identity \<le> ev_now v + Minute"
  using assms by (auto simp: provider_identity_def vouched_for_def split: if_splits sum.splits)

lemma provider_begin_success:
  assumes "provider_begin_tx e v aid cid flow who proof s = Inr ((p, redirect, nonce, enc), t)"
  shows "\<exists>r c. auth_row_of aid s = Some r \<and> p = process_of r \<and> aut_status r = Pending \<and> step_row_of cid aid s = Some c \<and>
      stp_status c = Pending \<and> StepMethod (stp_type c) = prf_Method proof \<and> ev_now v < stp_expiry c"
    "issued_for e v cid flow proof redirect nonce enc s"
proof -
  show "\<exists>r c. auth_row_of aid s = Some r \<and> p = process_of r \<and> aut_status r = Pending \<and> step_row_of cid aid s = Some c \<and>
      stp_status c = Pending \<and> StepMethod (stp_type c) = prf_Method proof \<and> ev_now v < stp_expiry c"
    using assms unfolding provider_begin_tx_def by (cases "prf_IDToken proof = []") (auto simp: tx_inv op_inv)
  show "issued_for e v cid flow proof redirect nonce enc s"
    using assms unfolding provider_begin_tx_def issued_for_def
    by (cases "prf_IDToken proof = []") (auto simp: tx_inv op_inv dest!: find_Some_D)
qed

lemma AttemptProvider_success:
  assumes "AttemptProvider e v v2 v3 between after aid cid flow who proof s = (Inr res, t)"
  obtains provider p redirect nonce enc db1 identity where "Providers e (prf_Method proof) = Some provider"
    "provider_begin_tx e v aid cid flow who proof s = Inr ((p, redirect, nonce, enc), db1)"
    "provider_identity e v2 provider p redirect nonce enc proof = Inr identity"
    "provider_finish_tx e v2 aid cid flow who proof identity (between db1) = Inr (res, t)"
proof -
  have "attemptProvider e v v2 between aid cid flow who proof s = (Inr res, t)"
    using assms by (auto simp: AttemptProvider_def provider_failure_tx_def e_run_def tx_inv split: prod.splits if_splits
        elim!: run_tx_cases dest!: count_failure_error)
  then show ?thesis
    using that unfolding attemptProvider_def Let_def e_run_def
    by (auto simp: run_tx_done_Inr split: option.splits prod.splits sum.splits)
qed

text \<open>
  C9: A provider attempt succeeds only for a linked identity that the provider vouched for on
  the terms stored for this very step. The step was pending, of the method of the proof and
  not expired. A redirect flow was answered by the provider for the code given, with the
  redirect URI and the PKCE verifier of the unexpired request stored under the state and
  bound to the step and the flow token; a native login is only possible with Google. For
  Google, and only there, the vouched nonce is not empty and its hash is the one stored for
  the step. The account of the answer has an identity of that provider with the vouched
  subject and is not blocked; for a sensitive purpose it is the account of the principal,
  and the user logged in at the provider within the reuse window; a completed process
  has its first factor and, with TOTP enabled, its second. Whatever other calls did between
  the two transactions.
\<close>

theorem provider_attempt_sound:
  assumes "AttemptProvider e v v2 v3 between after aid cid flow who proof s = (Inr res, t)"
  shows "\<exists>provider identity account r c redirect nonce enc. Providers e (prf_Method proof) = Some provider \<and>
     auth_row_of aid s = Some r \<and> aut_status r = Pending \<and> step_row_of cid aid s = Some c \<and> stp_status c = Pending \<and>
     StepMethod (stp_type c) = prf_Method proof \<and> ev_now v < stp_expiry c \<and>
     issued_for e v cid flow proof redirect nonce enc s \<and>
     vouched_for e (ev_net v2) provider proof redirect nonce enc identity \<and>
     prc_account (att_Authentication res) = Some account \<and>
     (\<exists>i \<in> set (identities t). idn_provider i = prf_Method proof \<and> idn_subject i = pid_Subject identity \<and> idn_account i = account) \<and>
     (\<exists>a \<in> set (accounts t). acc_id a = account \<and> acc_blocked a = None) \<and>
     (sensitive (aut_purpose r) \<longrightarrow> ev_now v2 - ReuseTTL e \<le> pid_AuthenticatedAt identity \<and>
        pid_AuthenticatedAt identity \<le> ev_now v2 + Minute) \<and>
     (sensitive (prc_Purpose (att_Authentication res)) \<longrightarrow> account = who_AccountID who) \<and>
     (prc_Status (att_Authentication res) = Completed \<longrightarrow> prc_Purpose (att_Authentication res) \<noteq> ''signUp'' \<longrightarrow>
        step_done aid first_factors t \<and> (has_totp account t \<longrightarrow> step_done aid second_factors t))"
proof -
  obtain provider p redirect nonce enc db1 identity where *: "Providers e (prf_Method proof) = Some provider"
    "provider_begin_tx e v aid cid flow who proof s = Inr ((p, redirect, nonce, enc), db1)"
    "provider_identity e v2 provider p redirect nonce enc proof = Inr identity"
    "provider_finish_tx e v2 aid cid flow who proof identity (between db1) = Inr (res, t)"
    using AttemptProvider_success [OF assms] .
  obtain r k where r: "auth_row_of aid s = Some r" "p = process_of r" "aut_status r = Pending" "step_row_of cid aid s = Some k"
      "stp_status k = Pending" "StepMethod (stp_type k) = prf_Method proof" "ev_now v < stp_expiry k"
    using provider_begin_success(1) [OF *(2)] by blast
  obtain q c account u where q: "load e v2 aid flow who (between db1) = Inr (process_of q, between db1)"
      "auth_row_of aid (between db1) = Some q" "aut_status q = Pending"
    and account: "identity_account (prf_Method proof) (pid_Subject identity) (between db1) = Some account"
      "sensitive (aut_purpose q) \<longrightarrow> account_or_nil (aut_account q) = account"
    and u: "set_account aid account (between db1) = Inr u"
    and a: "provider_answer e v2 ((process_of q)\<lparr>prc_account := Some account\<rparr>) (challenge_of c)
         (update_steps (\<lambda>x. stp_auth x = aut_id q \<and> stp_id x \<noteq> stp_id c \<and> stp_status x = Pending) cancel_step
           (update_steps (\<lambda>x. stp_id x = cid) (complete_step (ev_now v2)) u)) = Inr (res, t)"
    using *(4) unfolding provider_finish_run by blast
  note ans = provider_answer_success [OF a]
  have same: "identities t = identities (between db1)" "accounts t = accounts (between db1)"
    "prc_account (att_Authentication res) = Some account" "prc_Purpose (att_Authentication res) = aut_purpose q"
    using ans(1-4) q(3) set_account_frame [OF u] by (simp_all add: update_steps_def)
  moreover have "sensitive (aut_purpose q) \<longrightarrow> account = who_AccountID who"
    using account(2) q(1) q(2) by (auto simp: load_success account_or_nil_def)
  moreover have "step_done aid first_factors t \<and> (has_totp account t \<longrightarrow> step_done aid second_factors t)"
    if "prc_Status (att_Authentication res) = Completed" "aut_purpose q \<noteq> ''signUp''"
    using provider_answer_completed [OF a _ that(1)] that(2) q(3) auth_row_of_id [OF q(2)] by simp
  moreover have "(\<exists>i \<in> set (identities t). idn_provider i = prf_Method proof \<and> idn_subject i = pid_Subject identity \<and> idn_account i = account) \<and>
     (\<exists>a \<in> set (accounts t). acc_id a = account \<and> acc_blocked a = None)"
    using account(1) same(1,2) by (auto simp: identity_account_def exists_row_iff dest!: find_Some_D)
  moreover have "sensitive (aut_purpose r) \<longrightarrow> ev_now v2 - ReuseTTL e \<le> pid_AuthenticatedAt identity \<and>
        pid_AuthenticatedAt identity \<le> ev_now v2 + Minute"
    using provider_identity_success(2) [OF *(3)] r(2) by simp
  ultimately show ?thesis
    using *(1) r provider_begin_success(2) [OF *(2)] provider_identity_success(1) [OF *(3)]
    by (intro exI [of _ provider] exI [of _ identity] exI [of _ account] exI [of _ r] exI [of _ k]
        exI [of _ redirect] exI [of _ nonce] exI [of _ enc] conjI) simp_all
qed

text \<open>
  An engine that knows Google, and a sign-in waiting for the redirect from it. Google accepts
  the code only with the stored redirect URI and verifier, and puts the nonce into its token.
\<close>

definition google_network :: network where
  "google_network = demo_network\<lparr>net_Now := 0,
     net_Exchange := (\<lambda>client secret redirect code verifier.
       Inr (if redirect = ''app'' \<and> code = ''c'' \<and> verifier = ''x'' then Some ''jwt'' else None)),
     net_Validate := (\<lambda>raw client. Inr \<lparr>tok_Issuer = ''accounts.google.com'', tok_Subject = ''7'', tok_Expires = 9,
       tok_Claims = [''nonce'' \<mapsto> ClString ''n'']\<rparr>)\<rparr>"

definition demo_google_engine :: engine where
  "demo_google_engine = demo_engine\<lparr>Providers := [''google'' \<mapsto> Google \<lparr>ggl_ClientID = ''c'', ggl_ClientSecret = ''s''\<rparr>]\<rparr>"

definition demo_google :: db where
  "demo_google = demo_db\<lparr>authentications := [demo_process ''signIn'' None None],
     authentication_steps := [demo_step ''googleVerification''],
     identities := [\<lparr>idn_account = 5, idn_provider = ''google'', idn_subject = ''7''\<rparr>],
     oauth_requests := [\<lparr>oar_state = e_hash demo_engine ''state'' '''' ''r'', oar_provider = ''google'', oar_step = Some 21,
       oar_session = None, oar_binding = e_hash demo_engine ''binding'' '''' ''f'', oar_redirect = ''app'',
       oar_nonce = e_hash demo_engine ''nonce'' '''' ''n'', oar_verifier = ''nonce-12byteoauth:rx'', oar_expiry = Hour\<rparr>]\<rparr>"

definition google_proof :: Proof where
  "google_proof = no_proof\<lparr>prf_Method := ''google'', prf_Code := ''c'', prf_State := ''r''\<rparr>"

definition google_env :: env where
  "google_env = (demo_env 1 2)\<lparr>ev_net := google_network\<rparr>"

lemma demo_google_attempt:
  "\<not> isl (fst (AttemptProvider demo_google_engine (demo_env 0 1) google_env (demo_env 2 3) id id 11 21 ''f'' nobody google_proof demo_google))"
  by (simp add: run_defs tx_simps demo_google_engine_def demo_google_def google_proof_def google_env_def google_network_def Let_def
      cong: tx_weak)

theorem provider_attempt_sound_witness:
  "\<exists>redirect nonce enc identity provider. issued_for demo_google_engine (demo_env 0 1) 21 ''f'' google_proof redirect nonce enc demo_google \<and>
     vouched_for demo_google_engine google_network provider google_proof redirect nonce enc identity \<and>
     redirect = ''app'' \<and> nonce = e_hash demo_google_engine ''nonce'' '''' (pid_Nonce identity)"
proof -
  have "ev_net google_env = google_network" "prf_Method google_proof = ''google''" by (simp_all add: google_env_def google_proof_def)
  moreover have "redirect = ''app''" if "issued_for demo_google_engine (demo_env 0 1) 21 ''f'' google_proof redirect nonce enc demo_google"
    for redirect nonce enc
    using that by (auto simp: issued_for_def google_proof_def no_proof_def demo_google_def)
  ultimately show ?thesis
    using provider_attempt_sound [OF answered [OF demo_google_attempt]] by (fastforce simp: vouched_for_def)
qed

subsection \<open>Passkeys\<close>

lemma after_step_passkeys: "after_step e v p c s = Inr (res, t) \<Longrightarrow> passkeys t = passkeys s"
  by (auto simp: op_inv complete_auth_def tx_inv split: if_splits)

lemma passkeyAccount_success:
  assumes "passkeyAccount account s = Inr a"
  shows "\<exists>r \<in> set (accounts s). acc_id r = account \<and> acc_blocked r = None"
    "crd_ID ` set (pka_Credentials a) = psk_credential ` {r \<in> set (passkeys s). psk_account r = account}"
    "pka_ID a = account"
    "map (\<lambda>x. (crd_ID x, crd_PublicKey x, uint (crd_SignCount x), crd_BackupEligible x, crd_BackupState x)) (pka_Credentials a) =
       map (\<lambda>x. (psk_credential x, psk_public_key x, psk_sign_count x, psk_eligible x, psk_state x))
         (filter (\<lambda>x. psk_account x = account) (passkeys s))"
  using assms by (auto simp: passkeyAccount_def account_row_of_def Let_def image_image list_ex_iff take_bit_int_eq_self not_le not_less
      unsigned_of_int dest!: find_Some_D split: option.splits if_splits)

lemma verifyPasskey_success:
  assumes "verifyPasskey e v p c proof s = Inr (q, t)"
  obtains pk account a st cred where "Passkeys e = Some pk" "prc_account q = Some account"
    "sensitive (prc_Purpose p) \<longrightarrow> account = account_or_nil (prc_account p)" "passkeyAccount account s = Inr a"
    "st \<in> set (passkey_authentication_steps s)" "pst_id st = chl_ID c"
    "VerifyAuthentication (lib_uuid (Libs e)) pk (ev_wall v) a (pst_challenge st) (chl_Expiration c) (prf_Credential proof) = Some cred"
    "passkeys t = update_rows (\<lambda>r. psk_credential r = crd_ID cred \<and> psk_account r = account)
       (\<lambda>r. r\<lparr>psk_sign_count := uint (crd_SignCount cred), psk_state := crd_BackupState cred, psk_last_use := Some (ev_now v)\<rparr>) (passkeys s)"
proof -
  obtain pk x account a st cred u w where *: "Passkeys e = Some pk"
      "AssertionIdentity (lib_uuid (Libs e)) pk (prf_Credential proof) = Some (x, account)"
      "sensitive (prc_Purpose p) \<longrightarrow> account = account_or_nil (prc_account p)" "passkeyAccount account s = Inr a"
      "find (\<lambda>r. pst_id r = chl_ID c) (passkey_authentication_steps s) = Some st"
      "VerifyAuthentication (lib_uuid (Libs e)) pk (ev_wall v) a (pst_challenge st) (chl_Expiration c) (prf_Credential proof) = Some cred"
      "update_passkeys (\<lambda>r. psk_credential r = crd_ID cred \<and> psk_account r = account)
         (\<lambda>r. r\<lparr>psk_sign_count := uint (crd_SignCount cred), psk_state := crd_BackupState cred, psk_last_use := Some (ev_now v)\<rparr>) s = Inr u"
      "set_account (prc_ID p) account u = Inr t" "q = p\<lparr>prc_account := Some account\<rparr>"
    using assms unfolding verifyPasskey_def
    by (simp add: tx_inv split: option.splits prod.splits if_splits) blast+
  have "passkeys t = passkeys u" using *(8) by (auto simp: set_account_def split: if_splits)
  moreover have "passkeys u = update_rows (\<lambda>r. psk_credential r = crd_ID cred \<and> psk_account r = account)
       (\<lambda>r. r\<lparr>psk_sign_count := uint (crd_SignCount cred), psk_state := crd_BackupState cred, psk_last_use := Some (ev_now v)\<rparr>) (passkeys s)"
    using *(7) by (auto simp: update_passkeys_def split: if_splits)
  ultimately show ?thesis
    using that [of pk account a st cred] * find_Some_D [OF *(5)] by simp
qed

text \<open>
  C10: A passkey attempt succeeds only with a passkey of the account. The account of the
  answer is not blocked and is that of the process for a sensitive purpose. The assertion
  was validated against the public keys, counters and backup flags of exactly the passkeys
  stored for this account, with the challenge and the expiry stored for this very step, which
  has not passed; the credential that signed is one of them. A signature counter that went
  backwards is only accepted from a passkey that may be backed up. Afterwards exactly the
  signing passkey has the new counter and time of use. It is assumed that the WebAuthn
  library returns the credential of the assertion it validated and asks for the user that
  owns it.
\<close>

theorem passkey_attempt_sound:
  assumes "Attempt e v aid cid flow who proof s = (Inr res, t)" "prf_Method proof = ''passkey''"
    and "Passkeys e = Some pk" "validates_logins (ver_web pk)"
  shows "\<exists>r c account a k st cred. auth_row_of aid s = Some r \<and> step_row_of cid aid s = Some c \<and>
     prc_account (att_Authentication res) = Some account \<and>
     (sensitive (aut_purpose r) \<longrightarrow> account = account_or_nil (aut_account r)) \<and>
     (\<exists>b \<in> set (accounts s). acc_id b = account \<and> acc_blocked b = None) \<and>
     passkeyAccount account s = Inr a \<and> pka_ID a = account \<and>
     map (\<lambda>x. (crd_ID x, crd_PublicKey x, uint (crd_SignCount x), crd_BackupEligible x, crd_BackupState x)) (pka_Credentials a) =
       map (\<lambda>x. (psk_credential x, psk_public_key x, psk_sign_count x, psk_eligible x, psk_state x))
         (filter (\<lambda>x. psk_account x = account) (passkeys s)) \<and>
     st \<in> set (passkey_authentication_steps s) \<and> pst_id st = cid \<and> 32 \<le> length (pst_challenge st) \<and>
     VerifyAuthentication (lib_uuid (Libs e)) pk (ev_wall v) a (pst_challenge st) (stp_expiry c) (prf_Credential proof) = Some cred \<and>
     ev_wall v < stp_expiry c \<and>
     k \<in> set (passkeys s) \<and> psk_account k = account \<and> psk_credential k = crd_ID cred \<and>
     (crd_CounterWarning cred \<longrightarrow> crd_BackupEligible cred) \<and>
     passkeys t = update_rows (\<lambda>r. psk_credential r = crd_ID cred \<and> psk_account r = account)
       (\<lambda>r. r\<lparr>psk_sign_count := uint (crd_SignCount cred), psk_state := crd_BackupState cred, psk_last_use := Some (ev_now v)\<rparr>) (passkeys s)"
proof -
  obtain r c p1 u where r: "auth_row_of aid s = Some r" "step_row_of cid aid s = Some c"
    and p1: "verify e v (process_of r) (challenge_of c) proof s = Inr (p1, u)" "chl_Method (challenge_of c) = ''passkey''"
    and res: "prc_account (att_Authentication res) = prc_account p1"
    and a: "after_step e v p1 ((challenge_of c)\<lparr>chl_Status := Completed\<rparr>)
       (update_steps (\<lambda>q. stp_auth q = aid \<and> stp_id q \<noteq> cid \<and> stp_status q = Pending) cancel_step
         (update_steps (\<lambda>q. stp_id q = cid) (complete_step (ev_now v)) u)) = Inr (Inr res, t)"
    by (rule attempt_verified [OF assms(1)]) (auto simp: assms(2))
  have "verifyPasskey e v (process_of r) (challenge_of c) proof s = Inr (p1, u)" using p1 by (simp add: verify_def)
  then obtain account b st cred where ac: "prc_account p1 = Some account"
      "sensitive (aut_purpose r) \<longrightarrow> account = account_or_nil (aut_account r)" "passkeyAccount account s = Inr b"
    and st: "st \<in> set (passkey_authentication_steps s)" "pst_id st = stp_id c"
    and cred: "VerifyAuthentication (lib_uuid (Libs e)) pk (ev_wall v) b (pst_challenge st) (stp_expiry c) (prf_Credential proof) = Some cred"
    and u: "passkeys u = update_rows (\<lambda>r. psk_credential r = crd_ID cred \<and> psk_account r = account)
       (\<lambda>r. r\<lparr>psk_sign_count := uint (crd_SignCount cred), psk_state := crd_BackupState cred, psk_last_use := Some (ev_now v)\<rparr>) (passkeys s)"
    by (rule verifyPasskey_success) (simp add: assms(3))
  note own = VerifyAuthentication_owner [OF assms(4) cred]
  obtain k where k: "k \<in> set (passkeys s)" "psk_account k = account" "psk_credential k = crd_ID cred"
    using own(1) passkeyAccount_success(2) [OF ac(3)] by auto
  have "passkeys t = passkeys u" using after_step_passkeys [OF a] by (simp add: update_steps_def)
  then show ?thesis
    using r res ac passkeyAccount_success(1,3,4) [OF ac(3)] st step_row_of_id [OF r(2)] cred own(2-4) k u
    by (intro exI [of _ r] exI [of _ c] exI [of _ account] exI [of _ b] exI [of _ k] exI [of _ st] exI [of _ cred] conjI) simp_all
qed

text \<open>A library that validates every assertion of a known credential.\<close>

definition demo_web :: webauthn where
  "demo_web = \<lparr>web_Valid = (\<lambda>_ _ _. True), web_BeginRegistration = (\<lambda>x u ps. Some (x, Some x)),
     web_BeginDiscoverableLogin = (\<lambda>x. Some (x, Some x)), web_ParseCreation = Some, web_CreateCredential = (\<lambda>u s p. None),
     web_ParseAssertion = (\<lambda>r. Some \<lparr>asr_RawID = ''k'', asr_UserHandle = r, asr_Rest = ''''\<rparr>),
     web_ValidatePasskeyLogin = (\<lambda>find_user s p. case find_user (asr_RawID p) (asr_UserHandle p) of None \<Rightarrow> None
        | Some u \<Rightarrow> Some \<lparr>wac_ID = asr_RawID p, wac_PublicKey = '''', wac_Transport = [], wac_UserPresent = True, wac_UserVerified = True,
            wac_BackupEligible = False, wac_BackupState = False, wac_SignCount = 2, wac_CloneWarning = False\<rparr>)\<rparr>"

lemma demo_web_validates: "validates_logins demo_web"
  by (auto simp: validates_logins_def demo_web_def split: option.splits)

definition demo_verifier :: Verifier where
  "demo_verifier = \<lparr>ver_web = demo_web, ver_RPID = ''example.org'', ver_DisplayName = ''ChefBook''\<rparr>"

definition demo_key_engine :: engine where
  "demo_key_engine = demo_engine\<lparr>Passkeys := Some demo_verifier\<rparr>"

definition demo_key :: passkey_row where
  "demo_key = \<lparr>psk_id = 31, psk_account = 5, psk_credential = ''k'', psk_public_key = ''p'', psk_name = ''phone'', psk_sign_count = 1,
     psk_eligible = False, psk_state = False, psk_created = 0, psk_last_use = None\<rparr>"

definition demo_keys :: db where
  "demo_keys = demo_db\<lparr>authentications := [demo_process ''signIn'' None None], authentication_steps := [demo_step ''passkeyVerification''],
     passkeys := [demo_key], passkey_authentication_steps := [\<lparr>pst_id = 21, pst_challenge = replicate 32 CHR ''x''\<rparr>]\<rparr>"

definition key_proof :: Proof where
  "key_proof = no_proof\<lparr>prf_Method := ''passkey'', prf_Credential := replicate 5 CHR ''u''\<rparr>"

lemma demo_key_attempt:
  "\<not> isl (fst (Attempt demo_key_engine (demo_env 2 3) 11 21 ''f'' nobody key_proof demo_keys))"
  by (simp add: run_defs tx_simps demo_key_engine_def demo_verifier_def demo_web_def demo_keys_def demo_key_def key_proof_def
      Let_def cong: tx_weak)

theorem passkey_attempt_sound_witness:
  "\<exists>k \<in> set (passkeys demo_keys). psk_credential k = ''k'' \<and> psk_account k = 5 \<and> 
     (\<exists>b \<in> set (accounts demo_keys). acc_id b = psk_account k \<and> acc_blocked b = None)"
proof -
  have "prf_Method key_proof = ''passkey''" "Passkeys demo_key_engine = Some demo_verifier" "validates_logins (ver_web demo_verifier)"
    using demo_web_validates by (simp_all add: key_proof_def demo_key_engine_def demo_verifier_def)
  from passkey_attempt_sound [OF answered [OF demo_key_attempt] this] show ?thesis
    by (auto simp: demo_keys_def demo_key_def)
qed

subsection \<open>Reused evidence\<close>

text \<open>
  C11: A process is completed on the spot only by recent evidence. When starting a process
  answers with a completed one, its purpose is sensitive, the session is alive and not
  restricted by a pending deletion (unless the purpose is the deletion), and an earlier
  process of the same account and session, completed and not invalidated, has a first
  factor younger than the reuse window and, with TOTP enabled, a second factor as young.
\<close>

theorem start_reuse_sound:
  assumes "Start e v purpose who s = (Inr p, t)" "prc_Status p = Completed"
  shows "sensitive purpose \<and> live_principal (ev_now v) who s \<and>
     (purpose \<noteq> ''accountDeletion'' \<longrightarrow> \<not> deleting (who_AccountID who) s) \<and>
     (\<exists>a \<in> set (authentications s). aut_account a = Some (who_AccountID who) \<and> aut_session a = Some (who_SessionID who) \<and>
        aut_status a = Completed \<and> aut_invalidation a = None \<and>
        recent_step (aut_id a) first_factors (ev_now v - ReuseTTL e) s \<and>
        (has_totp (who_AccountID who) s \<longrightarrow> recent_step (aut_id a) second_factors (ev_now v - ReuseTTL e) s))"
proof -
  obtain flow where tx: "start_tx e v purpose who flow s = Inr (p, t)"
    using assms(1) by (auto simp: Start_def e_run_def run_tx_done_Inr split: if_splits sum.splits)
  have sens: "sensitive purpose"
    using tx assms(2) by (auto simp: start_tx_def Let_def tx_inv start_row_def process_of_def split: if_splits)
  have row: "aut_account (start_row e v purpose who flow) = Some (who_AccountID who)"
    "aut_session (start_row e v purpose who flow) = Some (who_SessionID who)" "aut_status (start_row e v purpose who flow) = Pending"
    using sens by (simp_all add: start_row_def)
  obtain u methods where u: "live_principal (ev_now v) who s" "purpose \<noteq> ''accountDeletion'' \<longrightarrow> \<not> deleting (who_AccountID who) s"
      "insert_auth (start_row e v purpose who flow) s = Inr u"
    and q: "reusable e v ((process_of (start_row e v purpose who flow))\<lparr>prc_FlowToken := flow, prc_Next := methods\<rparr>) u"
    using tx assms(2) sens row unfolding start_tx_def Let_def
    by (auto simp: tx_inv op_inv split: if_splits dest: arg_cong [where f = prc_Status])
  have frame: "authentications u = authentications s @ [start_row e v purpose who flow]" "authentication_steps u = authentication_steps s"
    "totp u = totp s"
    using u(3) by (auto simp: insert_auth_def tx_inv)
  have "\<And>aid types since. recent_step aid types since u = recent_step aid types since s" "\<And>a. has_totp a u = has_totp a s"
    using frame by (simp_all add: recent_step_def has_totp_def)
  then show ?thesis
    using q sens u(1,2) frame(1) row by (auto simp: reusable_def exists_row_iff)
qed

lemma randomToken_not_single: "[c] \<noteq> randomToken b"
proof
  assume "[c] = randomToken b"
  then have "length (RawURLEncoding b) = 1" by (metis length_Cons list.size(3) One_nat_def randomToken_def)
  then show False using length_RawURLEncoding_mod [of b] by simp
qed

text \<open>The example session, which completed a password step two nanoseconds ago.\<close>

definition demo_recent :: db where
  "demo_recent = demo_db\<lparr>authentications := [demo_granted ''signIn'' (Some 1)],
     authentication_steps := [(demo_step ''passwordVerification'')\<lparr>stp_status := Completed, stp_completion := Some 0\<rparr>]\<rparr>"

lemma demo_reused:
  "\<not> isl (fst (Start demo_engine (demo_env 2 4) ''passwordChange'' demo_who demo_recent))"
  "prc_Status (projr (fst (Start demo_engine (demo_env 2 4) ''passwordChange'' demo_who demo_recent))) = Completed"
  using randomToken_not_single [of _ "replicate 4 CHR ''a''"] randomToken_not_single [of _ "replicate 4 CHR ''a'' @ ''b''"]
  by (simp_all add: run_defs tx_simps demo_recent_def Let_def cong: tx_weak)

theorem start_reuse_sound_witness:
  "\<exists>a \<in> set (authentications demo_recent). aut_account a = Some 5 \<and>
     recent_step (aut_id a) first_factors (2 - ReuseTTL demo_engine) demo_recent"
proof -
  have "ev_now (demo_env 2 4) = 2" "who_AccountID demo_who = 5" by (simp_all add: demo_env_def demo_who_def)
  with start_reuse_sound [OF answered [OF demo_reused(1)] demo_reused(2)] show ?thesis by auto
qed

end
