(* ===== verification/Auth_Lockout.thy ===== *)
theory Auth_Lockout
  imports Auth_Tokens
begin

section \<open>Failed attempts\<close>

text \<open>
  A predicate on the rows of \<open>authentications\<close> that new rows satisfy and every update of a
  row keeps holds throughout a run: the locale \<open>auth_row_closed\<close>, a special case of
  \<open>statement_closed\<close>. It is interpreted for the two facts that bound the wrong proofs one
  process accepts: a pending process has fewer failures than the limit, and the count of a
  process never decreases.
\<close>

definition all_auths :: "(auth_row \<Rightarrow> bool) \<Rightarrow> db \<Rightarrow> bool" where
  "all_auths R s \<longleftrightarrow> (\<forall>r \<in> set (authentications s). R r)"

locale auth_row_closed =
  fixes R :: "auth_row \<Rightarrow> bool" and e :: engine and v :: env
  assumes row_new: "aut_grant r = None \<Longrightarrow> aut_id r = ev_uuid v 0 \<Longrightarrow> aut_status r = Pending \<Longrightarrow> aut_failed r = 0 \<Longrightarrow> R r"
    and row_complete: "R r \<Longrightarrow> R (r\<lparr>aut_status := Completed, aut_account := Some account, aut_completion := Some now,
      aut_grant := Some h, aut_grant_expiry := Some x\<rparr>)"
    and row_account: "R r \<Longrightarrow> R (r\<lparr>aut_account := Some account\<rparr>)"
    and row_clear: "R r \<Longrightarrow> R (clear_grant r)"
    and row_fail_process: "R r \<Longrightarrow> R (fail_process r)"
    and row_fail: "R r \<Longrightarrow> R (fail_auth (MaxAttempts e) r)"
    and row_invalidate: "R r \<Longrightarrow> R (invalidate_row now r)"

lemma auths_delete_steps: "authentications (delete_steps D s) = authentications s"
  by (simp add: delete_steps_def Let_def)

lemma auths_delete_auths: "set (authentications (delete_auths D s)) \<subseteq> set (authentications s)"
  by (simp add: delete_auths_def Let_def auths_delete_steps table_simps)

lemma auths_delete_sessions: "set (authentications (delete_sessions D s)) \<subseteq> set (authentications s)"
  unfolding delete_sessions_def Let_def by (rule order_trans [OF auths_delete_auths]) simp

lemma auths_delete_passkeys: "authentications (delete_passkeys D s) = authentications s"
  by (simp add: delete_passkeys_def Let_def)

lemma auths_delete_accounts: "set (authentications (delete_accounts D s)) \<subseteq> set (authentications s)"
  using order_trans [OF auths_delete_auths auths_delete_sessions]
  by (simp add: delete_accounts_def Let_def auths_delete_passkeys)

lemma keep_auths:
  assumes "\<And>s y t. m s = Inr (y, t) \<Longrightarrow> set (authentications t) \<subseteq> set (authentications s)"
  shows "keeps (all_auths R) m"
  using assms unfolding triple_def all_auths_def by blast

lemma auths_untouched:
  "keeps (all_auths R) (tx_stmt (insert_step r1))"
  "keeps (all_auths R) (tx_stmt (insert_email_step r2))"
  "keeps (all_auths R) (tx_stmt (insert_passkey_step r3))"
  "keeps (all_auths R) (tx_stmt (insert_google_step r4))"
  "keeps (all_auths R) (tx_stmt (insert_oauth_request r5))"
  "keeps (all_auths R) (tx_stmt (insert_registration r6))"
  "keeps (all_auths R) (tx_stmt (insert_account r7))"
  "keeps (all_auths R) (tx_stmt (insert_outbox r8))"
  "keeps (all_auths R) (tx_stmt (insert_totp r10))"
  "keeps (all_auths R) (tx_stmt (upsert_totp_request r11))"
  "keeps (all_auths R) (tx_stmt (insert_backup r12))"
  "keeps (all_auths R) (tx_stmt (upsert_reset r18))"
  "keeps (all_auths R) (tx_stmt (insert_email_change r19))"
  "keeps (all_auths R) (tx_stmt (insert_identity r21))"
  "keeps (all_auths R) (tx_stmt (insert_passkey r22))"
  "keeps (all_auths R) (tx_stmt (insert_transport r23))"
  "keeps (all_auths R) (tx_stmt (insert_passkey_request r24))"
  "keeps (all_auths R) (insert_session mk)"
  "keeps (all_auths R) (upsert_deletion r16 now16)"
  by (rule keep_auths; auto simp: insert_defs tx_inv Let_def split: if_splits option.splits)+

lemma auths_untouched_updates:
  "keeps (all_auths R) (tx_exec (update_steps Q2 g))"
  "keeps (all_auths R) (tx_exec (update_registrations Q6 f6))"
  "keeps (all_auths R) (tx_exec (update_totp Q9 f9))"
  "keeps (all_auths R) (tx_exec (update_accounts Q14 f14))"
  "keeps (all_auths R) (tx_exec (update_deletions Q17 f17))"
  "keeps (all_auths R) (tx_stmt (update_session_key i13 f13))"
  "keeps (all_auths R) (tx_stmt (update_account_key a15 Q15 f15))"
  "keeps (all_auths R) (tx_stmt (update_email_change a20 f20))"
  "keeps (all_auths R) (tx_stmt (update_passkeys Q25 f25))"
  by (rule keep_auths; auto simp: statement_defs tx_inv split: if_splits)+

lemma auths_untouched_deletes:
  "keeps (all_auths R) (tx_exec (delete_identities D1))"
  "keeps (all_auths R) (tx_exec (delete_registrations D2))"
  "keeps (all_auths R) (tx_exec (delete_oauth_requests D3))"
  "keeps (all_auths R) (tx_exec (delete_email_changes D4))"
  "keeps (all_auths R) (tx_exec (delete_resets D5))"
  "keeps (all_auths R) (tx_exec (delete_deletions D6))"
  "keeps (all_auths R) (tx_exec (delete_totp D7))"
  "keeps (all_auths R) (tx_exec (delete_totp_requests D8))"
  "keeps (all_auths R) (tx_exec (delete_passkey_requests D9))"
  "keeps (all_auths R) (tx_exec (delete_backups D10))"
  "keeps (all_auths R) (tx_exec (delete_passkeys D11))"
  "keeps (all_auths R) (tx_exec (delete_auths D12))"
  "keeps (all_auths R) (tx_exec (delete_sessions D13))"
  "keeps (all_auths R) (tx_exec (delete_accounts D14))"
  "keeps (all_auths R) (tx_exec (delete_outbox D15))"
  by (rule keep_auths, simp add: statement_defs tx_inv auths_delete_passkeys auths_delete_auths
      auths_delete_sessions auths_delete_accounts)+

lemma auths_updated:
  assumes "\<And>r. R r \<Longrightarrow> R (f r)" "all_auths R s"
  shows "all_auths R (s\<lparr>authentications := update_rows Q f (authentications s)\<rparr>)"
  using assms by (auto simp: all_auths_def table_simps)

sublocale auth_row_closed \<subseteq> rows: step_closed "all_auths R" e v
proof unfold_locales
  show "keeps (all_auths R) (tx_stmt (insert_auth r))"
    if "aut_grant r = None" "aut_id r = ev_uuid v 0" "aut_status r = Pending" "aut_failed r = 0" for r
    using row_new [OF that] by (intro keeps_stmt) (auto simp: all_auths_def insert_auth_def tx_inv)
  show "keeps (all_auths R) (tx_stmt (complete_auth aid account now h x))" for aid account now h x
    by (rule keeps_stmt) (auto simp: complete_auth_def tx_inv split: if_splits intro!: auths_updated row_complete)
  show "keeps (all_auths R) (tx_stmt (set_account aid account))" for aid account
    by (rule keeps_stmt) (auto simp: set_account_def split: if_splits intro!: auths_updated row_account)
  show "keeps (all_auths R) (tx_exec (update_auths Q clear_grant))" for Q
    by (rule keeps_exec) (auto simp: update_auths_def intro!: auths_updated row_clear)
  show "keeps (all_auths R) (tx_exec (update_auths Q fail_process))" for Q
    by (rule keeps_exec) (auto simp: update_auths_def intro!: auths_updated row_fail_process)
  show "keeps (all_auths R) (tx_exec (update_auths Q (fail_auth (MaxAttempts e))))" for Q
    by (rule keeps_exec) (auto simp: update_auths_def intro!: auths_updated row_fail)
  show "keeps (all_auths R) (tx_exec (update_auths Q (invalidate_row now)))" for Q now
    by (rule keeps_exec) (auto simp: update_auths_def intro!: auths_updated row_invalidate)
qed (rule auths_untouched auths_untouched_updates auths_untouched_deletes)+

interpretation limit: auth_row_closed
  "\<lambda>r. 0 < MaxAttempts e \<longrightarrow> aut_status r = Pending \<longrightarrow> aut_failed r < MaxAttempts e" e v for e v
  by unfold_locales (auto simp: clear_grant_def fail_process_def fail_auth_def invalidate_row_def)

interpretation count: auth_row_closed "\<lambda>r. ev_uuid v 0 \<noteq> aid \<longrightarrow> aut_id r = aid \<longrightarrow> n \<le> aut_failed r" e v for aid n e v
  by unfold_locales (auto simp: clear_grant_def fail_process_def fail_auth_def invalidate_row_def)

subsection \<open>Which errors a body avoids\<close>

text \<open>\<open>avoids E m\<close>: the body never fails with an error of \<open>E\<close>.\<close>

definition avoids :: "error set \<Rightarrow> ('s, 'a) tx \<Rightarrow> bool" where
  "avoids E m \<longleftrightarrow> (\<forall>s err. m s = Inl err \<longrightarrow> err \<notin> E)"

named_theorems error_rules \<open>bodies that avoid some errors\<close>

lemma avoids_monad [error_rules]:
  "avoids E (tx_return x)"
  "avoids E (tx_read g)"
  "avoids E (tx_exec k)"
  "err \<notin> E \<Longrightarrow> avoids E (tx_fail err)"
  "err \<notin> E \<Longrightarrow> avoids E (tx_assert b err)"
  "err \<notin> E \<Longrightarrow> avoids E (tx_row h err)"
  "avoids E m \<Longrightarrow> (\<And>x. avoids E (f x)) \<Longrightarrow> avoids E (tx_bind m f)"
  "avoids E m1 \<Longrightarrow> avoids E m2 \<Longrightarrow> avoids E (tx_then m1 m2)"
  "(\<And>s err. l s = Inl err \<Longrightarrow> err \<notin> E) \<Longrightarrow> avoids E (tx_stmt l)"
  "(\<And>s err. q s = Inl err \<Longrightarrow> err \<notin> E) \<Longrightarrow> avoids E (tx_query q)"
  "(\<And>err. r = Inl err \<Longrightarrow> err \<notin> E) \<Longrightarrow> avoids E (tx_lift r)"
  "(b \<Longrightarrow> avoids E m3) \<Longrightarrow> (\<not> b \<Longrightarrow> avoids E m4) \<Longrightarrow> avoids E (if b then m3 else m4)"
  unfolding avoids_def by (auto simp: tx_simps split: if_splits option.splits sum.splits)

lemma avoids_try:
  "(\<And>s err. m s = Inl err \<Longrightarrow> avoids E (f err)) \<Longrightarrow> (\<And>x. avoids E (g x)) \<Longrightarrow>
   avoids E (tx_bind (tx_try m) (\<lambda>r. case r of Inl err \<Rightarrow> f err | Inr x \<Rightarrow> g x))"
  unfolding avoids_def by (auto simp: tx_simps split: sum.splits)

definition wrong :: "error set" where
  "wrong = {ErrCredentials, ErrAttempts}"

lemma query_errors:
  "next_methods e p s = Inl err \<Longrightarrow> err \<notin> wrong"
  "draw_token v i = Inl err \<Longrightarrow> err \<notin> wrong"
  "complete_auth aid account now h x s = Inl err \<Longrightarrow> err \<notin> wrong"
  "hydrateStep e v c s = Inl err \<Longrightarrow> err \<notin> wrong"
  by (auto simp: wrong_def next_methods_def draw_token_def complete_auth_def update_unique_def hydrateStep_def
      split: if_splits option.splits)

lemma steps_errors: "steps e v p s = Inl err \<Longrightarrow> err \<notin> wrong"
proof -
  have "hydrate_all e v s cs = Inl err \<Longrightarrow> err \<notin> wrong" for cs
    by (induction cs) (auto split: sum.splits dest: query_errors(4))
  then show "steps e v p s = Inl err \<Longrightarrow> err \<notin> wrong" by (simp add: steps_def)
qed

lemma avoids_principal [error_rules]: "avoids wrong (checkPurposePrincipal v who purpose)"
  unfolding checkPurposePrincipal_def checkPrincipal_def checkRecoveryPrincipal_def
  by (intro error_rules) (auto simp: wrong_def)

lemma avoids_load [error_rules]: "avoids wrong (load e v aid flow who)" "avoids wrong (loadChallenge cid aid)"
  unfolding load_def loadChallenge_def by (intro error_rules; simp add: wrong_def)+

lemma avoids_complete [error_rules]: "avoids wrong (complete e v i p)"
  unfolding complete_def by (intro error_rules) (auto dest: query_errors)

lemma avoids_answer [error_rules]: "avoids wrong (attempt_answer e v c p)"
  unfolding attempt_answer_def by (intro error_rules) (auto dest: query_errors steps_errors)

lemma avoids_register: "register e v p s = Inl err \<Longrightarrow> err \<notin> wrong"
  by (auto simp: register_def wrong_def tx_simps register_error_def conflict_def insert_account_def insert_row_def
      queue_event_def insert_outbox_def split: if_splits option.splits sum.splits)

lemma avoids_fail_registration [error_rules]: "avoids wrong (failRegistration aid reason)"
  unfolding failRegistration_def cancelAlternatives_def by (intro error_rules)

lemma avoids_continue_signUp [error_rules]: "avoids wrong (continue_signUp e v p c)"
  unfolding continue_signUp_def Let_def
  by (intro avoids_try error_rules) (auto dest: query_errors steps_errors avoids_register)

lemma avoids_record_success [error_rules]: "avoids wrong (record_success e v cid c p)"
proof -
  have "avoids wrong (after_signUp e v p c)" for c
    unfolding after_signUp_def by (intro error_rules) (auto split: option.split intro: error_rules)
  moreover have "avoids wrong (after_step e v p c)" for c
    unfolding after_step_def Let_def by (intro error_rules) (auto dest: query_errors)
  ultimately show ?thesis
    unfolding record_success_def cancelAlternatives_def by (intro error_rules) auto
qed

lemma avoids_count_failure [error_rules]: "avoids E (count_failure e aid cid p)"
  unfolding count_failure_def by (intro error_rules)

lemma verify_error: "verify e v p c proof s \<noteq> Inl ErrAttempts"
proof -
  have "avoids {ErrAttempts} (verify e v p c proof)"
    unfolding verify_def verify_defs Let_def
    by (intro error_rules; auto simp: avoids_def insert_registration_def insert_row_def e_bcrypt_def dummyPassword_def
        set_account_def e_decrypt_def Decrypt_def passkeyAccount_def update_passkeys_def Let_def tx_simps
        split: if_splits option.splits sum.splits)
  then show ?thesis by (auto simp: avoids_def)
qed

lemma avoids_attempt: "avoids wrong (attempt_tx e v aid cid flow who proof)"
proof -
  have "avoids wrong (judge_proof e v aid cid p c proof)" for p c
    unfolding judge_proof_def by (intro avoids_try error_rules) (auto simp: wrong_def verify_error)
  then show ?thesis
    unfolding attempt_tx_def by (intro error_rules) (auto simp: wrong_def dest: query_errors)
qed

subsection \<open>Wrong proofs are counted\<close>

lemma record_success_error:
  assumes "record_success e v cid c p s = Inr (Inl err, t)"
  shows "err = ErrAccountExists"
proof -
  have "err = ErrAccountExists" if "after_signUp e v p c' u = Inr (Inl err, t)" for c' u
    using that
  proof (cases rule: after_signUp_cases)
    case free
    from free(1) show ?thesis by (cases rule: continue_signUp_cases) (auto simp: op_inv)
  qed (auto simp: op_inv)
  then show ?thesis
    using assms by (auto simp: record_success_run after_step_success attempt_answer_success split: if_splits)
qed

definition counted :: "engine \<Rightarrow> uuid \<Rightarrow> db \<Rightarrow> db \<Rightarrow> bool" where
  "counted e aid s t \<longleftrightarrow>
     (\<exists>r. auth_row_of aid s = Some r \<and> aut_status r = Pending) \<and>
     authentications t = update_rows (\<lambda>q. aut_id q = aid) (fail_auth (MaxAttempts e)) (authentications s)"

lemma count_failure_counts:
  "count_failure e aid cid p s = Inr (res, t) \<Longrightarrow>
   authentications t = update_rows (\<lambda>q. aut_id q = aid) (fail_auth (MaxAttempts e)) (authentications s)"
  by (auto simp: count_failure_def tx_inv statement_defs)

lemma run_error_committed:
  assumes "e_run v m s = (Inl err, t)" "avoids wrong m" "err \<in> wrong"
  shows "m s = Inr (Inl err, t)"
proof -
  have "begin_tx (ev_begin v) = None" using assms(1,3) by (cases "ev_begin v") (auto simp: e_run_def run_tx_def wrong_def)
  then show ?thesis
    using assms by (auto simp: e_run_def run_tx_def avoids_def wrong_def split: sum.splits if_splits)
qed

lemma attempt_wrong:
  assumes "Attempt e v aid cid flow who proof s = (Inl err, t)" "err \<in> wrong"
  shows "counted e aid s t"
proof -
  have "attempt_tx e v aid cid flow who proof s = Inr (Inl err, t)"
    using assms by (auto simp: Attempt_def intro: run_error_committed avoids_attempt)
  then obtain r c where r: "auth_row_of aid s = Some r" "aut_status r = Pending"
    and j: "judge_proof e v aid cid (process_of r) (challenge_of c) proof s = Inr (Inl err, t)"
    unfolding attempt_success by blast
  have "err \<noteq> ErrAccountExists" using assms(2) by (auto simp: wrong_def)
  then have "authentications t = update_rows (\<lambda>q. aut_id q = aid) (fail_auth (MaxAttempts e)) (authentications s)"
    using j record_success_error count_failure_counts unfolding judge_proof_success by blast
  then show ?thesis using r by (auto simp: counted_def)
qed

lemma provider_failure_counted:
  assumes "e_run v (provider_failure_tx e v aid cid flow who) s = (Inl err, t)" "err \<in> wrong"
  shows "counted e aid s t"
proof -
  have "avoids wrong (provider_failure_tx e v aid cid flow who)"
    unfolding provider_failure_tx_def by (intro error_rules) (simp add: wrong_def)
  then have "provider_failure_tx e v aid cid flow who s = Inr (Inl err, t)"
    using assms by (auto intro: run_error_committed)
  then show ?thesis
    by (auto simp: provider_failure_tx_def tx_inv op_inv counted_def process_of_def dest: count_failure_counts)
qed

text \<open>
  A run of the service in which \<open>n\<close> proofs for the process \<open>aid\<close> were refused as wrong, by
  an attempt or by the failure transaction of a provider attempt.
\<close>

inductive wrong_run :: "engine \<Rightarrow> uuid \<Rightarrow> nat \<Rightarrow> env list \<Rightarrow> db \<Rightarrow> db \<Rightarrow> bool" for e :: engine and aid :: uuid where
  wrong_Nil: "wrong_run e aid 0 [] s s"
| wrong_other: "engine_step e v s t \<Longrightarrow> wrong_run e aid n vs t u \<Longrightarrow> wrong_run e aid n (v # vs) s u"
| wrong_attempt: "Attempt e v aid cid flow who proof s = (Inl err, t) \<Longrightarrow> err = ErrCredentials \<or> err = ErrAttempts \<Longrightarrow>
     wrong_run e aid n vs t u \<Longrightarrow> wrong_run e aid (Suc n) (v # vs) s u"
| wrong_provider: "e_run v (provider_failure_tx e v aid cid flow who) s = (Inl err, t) \<Longrightarrow>
     err = ErrCredentials \<or> err = ErrAttempts \<Longrightarrow> wrong_run e aid n vs t u \<Longrightarrow> wrong_run e aid (Suc n) (v # vs) s u"

definition below_limit :: "engine \<Rightarrow> db \<Rightarrow> bool" where
  "below_limit e = all_auths (\<lambda>r. 0 < MaxAttempts e \<longrightarrow> aut_status r = Pending \<longrightarrow> aut_failed r < MaxAttempts e)"

definition failures_of :: "uuid \<Rightarrow> int \<Rightarrow> db \<Rightarrow> bool" where
  "failures_of aid n = all_auths (\<lambda>r. aut_id r = aid \<longrightarrow> n \<le> aut_failed r)"

lemma step_limit: "engine_step e v s t \<Longrightarrow> below_limit e s \<Longrightarrow> below_limit e t"
  unfolding below_limit_def by (rule limit.rows.keep_step)

lemma step_count: "engine_step e v s t \<Longrightarrow> ev_uuid v 0 \<noteq> aid \<Longrightarrow> failures_of aid n s \<Longrightarrow> failures_of aid n t"
  using count.rows.keep_step [of e v s t aid n] by (simp add: failures_of_def)

lemma all_auths_update:
  assumes "authentications t = update_rows Q f (authentications s)" "all_auths R s" "\<And>r. R r \<Longrightarrow> R (f r)"
  shows "all_auths R t"
  using assms by (auto simp: all_auths_def table_simps)

lemma counted_step:
  assumes "counted e aid s t" "0 < MaxAttempts e" "below_limit e s" "failures_of aid n s"
  shows "n < MaxAttempts e" "below_limit e t" "failures_of aid (n + 1) t"
proof -
  obtain r where r: "r \<in> set (authentications s)" "aut_id r = aid" "aut_status r = Pending"
    using assms(1) auth_row_of_id by (auto simp: counted_def)
  then show "n < MaxAttempts e"
    using assms(2,3,4) by (fastforce simp: below_limit_def failures_of_def all_auths_def)
  have t: "authentications t = update_rows (\<lambda>q. aut_id q = aid) (fail_auth (MaxAttempts e)) (authentications s)"
    using assms(1) by (simp add: counted_def)
  show "below_limit e t"
    using assms(3) unfolding below_limit_def
    by (intro all_auths_update [OF t]) (auto simp: fail_auth_def split: if_splits)
  show "failures_of aid (n + 1) t"
    unfolding failures_of_def all_auths_def
  proof
    fix q assume "q \<in> set (authentications t)"
    then obtain p where p: "p \<in> set (authentications s)" "q = (if aut_id p = aid then fail_auth (MaxAttempts e) p else p)"
      by (auto simp: t table_simps)
    have "aut_id p = aid \<longrightarrow> n \<le> aut_failed p" using assms(4) p(1) by (simp add: failures_of_def all_auths_def)
    then show "aut_id q = aid \<longrightarrow> n + 1 \<le> aut_failed q" using p(2) by (simp add: fail_auth_def)
  qed
qed

lemma wrong_run_bound:
  assumes "wrong_run e aid n vs s t" "0 < MaxAttempts e" "below_limit e s" "failures_of aid k s" "0 \<le> k" "k \<le> MaxAttempts e"
    and "\<forall>v \<in> set vs. ev_uuid v 0 \<noteq> aid"
  shows "int n \<le> MaxAttempts e - k \<and> below_limit e t \<and> failures_of aid (k + int n) t"
  using assms
proof (induction arbitrary: k rule: wrong_run.induct)
  case wrong_Nil
  then show ?case by simp
next
  case (wrong_other v s t n vs u)
  then show ?case
    using step_limit [OF wrong_other.hyps(1)] step_count [OF wrong_other.hyps(1)] by auto
next
  case (wrong_attempt v cid flow who pf s err t n vs u)
  then have c: "counted e aid s t" by (auto simp: wrong_def intro: attempt_wrong)
  show ?case
    using wrong_attempt.IH [of "k + 1"] counted_step [OF c wrong_attempt.prems(1,2,3)] wrong_attempt.prems by (auto simp: ac_simps)
next
  case (wrong_provider v cid flow who s err t n vs u)
  then have c: "counted e aid s t" by (auto simp: wrong_def intro: provider_failure_counted)
  show ?case
    using wrong_provider.IH [of "k + 1"] counted_step [OF c wrong_provider.prems(1,2,3)] wrong_provider.prems by (auto simp: ac_simps)
qed

subsection \<open>No attempt on an ended process\<close>

definition ended :: "uuid \<Rightarrow> db \<Rightarrow> bool" where
  "ended aid = all_auths (\<lambda>r. aut_id r = aid \<longrightarrow> aut_status r \<noteq> Pending)"

lemma limit_ended: "below_limit e s \<Longrightarrow> failures_of aid (MaxAttempts e) s \<Longrightarrow> 0 < MaxAttempts e \<Longrightarrow> ended aid s"
  by (fastforce simp: ended_def below_limit_def failures_of_def all_auths_def)

lemma ended_row: "ended aid s \<Longrightarrow> auth_row_of aid s = Some r \<Longrightarrow> aut_status r \<noteq> Pending"
  using auth_row_of_id by (fastforce simp: ended_def all_auths_def)

lemma run_count:
  "run_of e ws s t \<Longrightarrow> below_limit e s \<Longrightarrow> failures_of aid n s \<Longrightarrow> \<forall>w \<in> set ws. ev_uuid w 0 \<noteq> aid \<Longrightarrow>
     below_limit e t \<and> failures_of aid n t"
  by (induction rule: run_of.induct) (auto dest: step_limit step_count)

lemma run_failing: "(\<And>y t. m s \<noteq> Inr (y, t)) \<Longrightarrow> \<exists>err. e_run v m s = (Inl err, s)"
  by (cases "e_run v m s") (metis e_run_def run_tx_cases)

lemma ended_attempt: "ended aid s \<Longrightarrow> \<exists>err. Attempt e v aid cid flow who proof s = (Inl err, s)"
  unfolding Attempt_def by (rule run_failing) (auto simp: attempt_success dest: ended_row)

lemma ended_finish:
  "ended aid s \<Longrightarrow> \<exists>err. e_run v (tx_done (provider_finish_tx e v aid cid flow who proof identity)) s = (Inl err, s)"
  by (rule run_failing) (auto simp: provider_finish_tx_def Let_def tx_inv op_inv tx_simps split: sum.splits dest: ended_row)

lemma ended_begin:
  assumes "ended aid s"
  shows "\<exists>err. err \<notin> wrong \<and> e_run v (tx_done (provider_begin_tx e v aid cid flow who proof)) s = (Inl err, s)"
proof -
  let ?m = "provider_begin_tx e v aid cid flow who proof"
  note row = ended_row [OF assms]
  have "?m s = Inl err \<Longrightarrow> err \<notin> wrong" for err
    using avoids_load(1) [of e v aid flow who] avoids_load(2) [of cid aid]
    by (auto simp: provider_begin_tx_def tx_simps avoids_def op_inv row wrong_def split: sum.splits if_splits)
  moreover have "?m s \<noteq> Inr (y, t)" for y t
    using assms by (auto simp: provider_begin_tx_def tx_inv op_inv dest: ended_row)
  then obtain err where "?m s = Inl err" by (metis sum.exhaust surj_pair)
  ultimately show ?thesis
    by (cases "ev_begin v") (auto simp: e_run_def run_tx_def tx_simps wrong_def)
qed

lemma ended_provider:
  assumes "ended aid s"
  shows "\<exists>err. AttemptProvider e v v2 v3 between after aid cid flow who proof s = (Inl err, s)"
proof -
  obtain err where "err \<notin> wrong" "e_run v (tx_done (provider_begin_tx e v aid cid flow who proof)) s = (Inl err, s)"
    using ended_begin [OF assms] by blast
  then show ?thesis
    by (auto simp: AttemptProvider_def attemptProvider_def wrong_def split: option.splits)
qed

interpretation lockout: invariant_of "some_step e" "\<lambda>s. s = Initial" "below_limit e" for e
  by unfold_locales (auto simp: some_step_def below_limit_def all_auths_def Initial_def dest: limit.rows.keep_step [unfolded all_auths_def])

subsection \<open>Properties\<close>

text \<open>
  C5: At most \<open>MaxAttempts\<close> wrong proofs are counted for one process, and then it is closed.
  From any reachable state, in any run of the service in which no call draws the identifier
  of the process again, the attempts (with a password, code, passkey or provider) for that
  process that are answered with wrong credentials or too many attempts number at most the
  limit, whatever steps they are spread over and whatever happens in between. Once they have
  reached the limit, then at once and after any further run every attempt on the process
  fails without touching the database, with the right proof too: an attempt, a provider
  attempt, and the second transaction of a provider attempt that was under way. (The answer
  to a provider's refusal that arrives when the process has ended is a conflict; it is not
  among the counted ones.)
\<close>

theorem wrong_attempts_bounded:
  assumes "reach (some_step e) Initial s" "0 < MaxAttempts e"
    and "wrong_run e aid n vs s t" "\<forall>v \<in> set vs. ev_uuid v 0 \<noteq> aid"
    and "run_of e ws t u" "\<forall>w \<in> set ws. ev_uuid w 0 \<noteq> aid"
  shows "int n \<le> MaxAttempts e \<and>
     (int n = MaxAttempts e \<longrightarrow>
        (\<exists>err. Attempt e v aid cid flow who proof u = (Inl err, u)) \<and>
        (\<exists>err. AttemptProvider e v v2 v3 between after aid cid flow who proof u = (Inl err, u)) \<and>
        (\<exists>err. e_run v (tx_done (provider_finish_tx e v aid cid flow who proof identity)) u = (Inl err, u)))"
proof -
  have "below_limit e s" using lockout.inv_reach [OF refl assms(1)] .
  moreover have "failures_of aid 0 s"
    using service.inv_reach [OF refl assms(1)] wf_auth_ok by (auto simp: failures_of_def all_auths_def auth_check_def)
  ultimately have t: "int n \<le> MaxAttempts e" "below_limit e t" "failures_of aid (int n) t"
    using wrong_run_bound [OF assms(3,2), of 0] assms(2,4) by simp_all
  have "ended aid u" if "int n = MaxAttempts e"
    using run_count [OF assms(5) t(2,3) assms(6)] that limit_ended assms(2) by auto
  then show ?thesis using t(1) ended_attempt ended_provider ended_finish by auto
qed

definition wrong_password :: Proof where
  "wrong_password = no_proof\<lparr>prf_Method := ''password'', prf_Login := ''a@b'', prf_Password := ''guess''\<rparr>"

text \<open>A service that allows a single wrong proof, and a process that has a password step.\<close>

definition strict_engine :: engine where
  "strict_engine = demo_engine\<lparr>MaxAttempts := 1\<rparr>"

definition demo_started :: db where
  "demo_started = snd (Start strict_engine (demo_env 0 1) ''signIn'' nobody Initial)"

definition demo_challenged :: db where
  "demo_challenged = snd (CreateChallenge strict_engine (demo_env 1 2) 11 (demo_token 1 0) ''password'' nobody
     \<lparr>oop_CredentialType = '''', oop_RedirectURI = ''''\<rparr> demo_started)"

definition demo_closed :: db where
  "demo_closed = snd (Attempt strict_engine (demo_env 2 3) 11 21 (demo_token 1 0) nobody wrong_password demo_challenged)"

lemma demo_challenged_reached: "reach (some_step strict_engine) Initial demo_challenged"
  unfolding demo_challenged_def demo_started_def
  by (rule run_reach [OF run_single [OF step_CreateChallenge] run_reach [OF run_single [OF step_Start] reach_init]])

lemma demo_wrong_password:
  "\<exists>err. fst (Attempt strict_engine (demo_env 2 3) 11 21 (demo_token 1 0) nobody wrong_password demo_challenged) = Inl err \<and>
     (err = ErrCredentials \<or> err = ErrAttempts)"
  by (simp add: run_defs tx_simps demo_challenged_def demo_started_def wrong_password_def strict_engine_def byte_defs ToLower_def
      TrimSpace_def trim_right_def Let_def cong: tx_weak)

theorem wrong_attempts_bounded_witness:
  "wrong_run strict_engine 11 1 [demo_env 2 3] demo_challenged demo_closed \<and>
   (\<exists>err. Attempt strict_engine (demo_env 3 4) 11 21 (demo_token 1 0) nobody wrong_password demo_closed = (Inl err, demo_closed))"
proof -
  obtain err where "Attempt strict_engine (demo_env 2 3) 11 21 (demo_token 1 0) nobody wrong_password demo_challenged = (Inl err, demo_closed)"
      "err = ErrCredentials \<or> err = ErrAttempts"
    using demo_wrong_password unfolding demo_closed_def by (metis prod.collapse)
  then have w: "wrong_run strict_engine 11 1 [demo_env 2 3] demo_challenged demo_closed"
    using wrong_attempt [OF _ _ wrong_Nil] by simp
  have "0 < MaxAttempts strict_engine" "int 1 = MaxAttempts strict_engine" "list_all (\<lambda>v. ev_uuid v 0 \<noteq> 11) [demo_env 2 3]"
    by (simp_all add: strict_engine_def demo_env_def)
  then show ?thesis
    using wrong_attempts_bounded [OF demo_challenged_reached _ w _ run_Nil] w by (simp add: list_all_iff)
qed

end
