(* ===== verification/Auth_Registration.thy ===== *)
theory Auth_Registration
  imports Auth_Lockout Auth_Evidence
begin

section \<open>Signing up\<close>

text \<open>
  What the attempts of a sign-up do to the accounts: the last one creates exactly one
  account with a verified address and a password and announces it; one that meets an
  existing account ends the process for good. The errors of an attempt are exactly of three
  kinds: nothing happened, a wrong proof was counted, or a sign-up met an existing account.
\<close>

lemma continue_signUp_registered:
  assumes "continue_signUp e v p c s = Inr (Inr res, t)" "prc_Status (att_Authentication res) = Completed" "prc_Status p = Pending"
  obtains reg u w where "find (\<lambda>r. reg_auth r = prc_ID p) (registrations s) = Some reg" "reg_password reg \<noteq> None"
    "\<not> exists_row (\<lambda>a. acc_email a = reg_email reg) (accounts s)" "insert_account (new_account v reg) s = Inr u"
    "queue_event v 1 ''auth.profiles'' ''profile.created'' (ProfileCreated (ev_uuid v 0)) u = Inr ((), w)"
    "accounts t = accounts w" "outbox t = outbox w" "registrations t = delete_rows (\<lambda>r. reg_auth r = prc_ID p) (registrations w)"
    "prc_account (att_Authentication res) = Some (ev_uuid v 0)"
  using assms(1)
proof (cases rule: continue_signUp_cases)
  case (more methods ss)
  then show ?thesis using assms(2,3) by simp
next
  case exists
  then show ?thesis by (simp add: op_inv)
next
  case (registered p2 u q)
  obtain reg a w where reg: "find (\<lambda>r. reg_auth r = prc_ID p) (registrations s) = Some reg" "reg_password reg \<noteq> None"
      "\<not> exists_row (\<lambda>a. acc_email a = reg_email reg) (accounts s)" "insert_account (new_account v reg) s = Inr a"
      "queue_event v 1 ''auth.profiles'' ''profile.created'' (ProfileCreated (ev_uuid v 0)) a = Inr ((), w)"
      "u = delete_registrations (\<lambda>r. reg_auth r = prc_ID p) w" "prc_account p2 = Some (ev_uuid v 0)"
    using registered(2) by (auto simp: register_success)
  obtain g x where "complete_auth (prc_ID p2) (account_or_nil (prc_account p2)) (ev_now v) g x u = Inr t"
      "prc_account q = prc_account p2"
    using registered(3) by (auto simp: complete_success)
  then have "accounts t = accounts u" "outbox t = outbox u" "registrations t = registrations u"
    by (auto simp: complete_auth_def tx_inv split: if_splits)
  moreover have "prc_account (att_Authentication res) = Some (ev_uuid v 0)"
    using registered(4) \<open>prc_account q = prc_account p2\<close> reg(7) by (auto simp: attempt_answer_success)
  ultimately show ?thesis
    using that [OF reg(1-5)] reg(6) by (simp add: delete_registrations_def)
qed

lemma continue_signUp_steps:
  assumes "continue_signUp e v p c s = Inr (Inr res, t)" "prc_Status (att_Authentication res) = Completed" "prc_Status p = Pending"
    and "prc_Purpose p = ''signUp''"
  shows "step_done (prc_ID p) [''emailVerification''] t" "step_done (prc_ID p) [''passwordSetup''] t"
  using assms(1)
proof (atomize (full), cases rule: continue_signUp_cases)
  case (registered p2 u q)
  have "authentication_steps t = authentication_steps u" using registered(3) by (auto simp: complete_success dest: complete_auth_frame(1))
  also have "authentication_steps u = authentication_steps s"
    using registered(2) by (auto simp: register_success queue_event_def insert_outbox_def insert_account_def delete_registrations_def tx_inv
        split: if_splits)
  finally show "step_done (prc_ID p) [''emailVerification''] t \<and> step_done (prc_ID p) [''passwordSetup''] t"
    using registered(1) assms(3,4) by (simp add: next_methods_def step_done_def split: if_splits)
qed (use assms(2,3) in \<open>auto simp: op_inv\<close>)

lemma find_updated: "(\<And>r. P (f r) = P r) \<Longrightarrow> find P (update_rows P f rows) = map_option f (find P rows)"
  by (induction rows) (simp_all add: update_rows_def)

text \<open>
  What is kept for a sign-up after a right proof: the address is the one kept before, and the
  password hash is that of the password just set or the one kept before.
\<close>

lemma verify_registration_row:
  assumes "verify e v p c proof s = Inr (q, t)" "find (\<lambda>r. reg_auth r = prc_ID p) (registrations t) = Some reg" "reg_password reg = Some h"
  obtains kept where "find (\<lambda>r. reg_auth r = prc_ID p) (registrations s) = Some kept" "reg_email kept = reg_email reg"
    "if chl_Method c = ''passwordSetup'' then e_bcrypt e v (prf_Password proof) = Inr h \<and>
       8 \<le> length (prf_Password proof) \<and> length (prf_Password proof) \<le> 72
     else reg_password kept = Some h"
proof -
  consider (registration) "verify_registration e p proof s = Inr (q, t)"
    | (password) "chl_Method c = ''passwordSetup''" "verify_passwordSetup e v p proof s = Inr (q, t)"
    | (other) "registrations t = registrations s" "chl_Method c \<noteq> ''passwordSetup''"
    using assms(1) unfolding verify_def verify_defs(3-) Let_def
    by (auto simp: tx_inv statement_defs set_account_def split: if_splits option.splits prod.splits)
  then show thesis
  proof cases
    case registration
    then obtain email where new: "insert_registration \<lparr>reg_auth = prc_ID p, reg_email = email, reg_password = None\<rparr> s = Inr t"
      by (auto simp: verify_registration_def Let_def tx_inv)
    then have "registrations t = registrations s @ [\<lparr>reg_auth = prc_ID p, reg_email = email, reg_password = None\<rparr>]"
      "find (\<lambda>r. reg_auth r = prc_ID p) (registrations s) = None"
      by (auto simp: insert_registration_def tx_inv registration_unique_def find_None_iff)
    then have "reg = \<lparr>reg_auth = prc_ID p, reg_email = email, reg_password = None\<rparr>"
      using assms(2) by (auto simp: find_None_iff find_Some_iff nth_append split: if_splits)
    with assms(3) show ?thesis by simp
  next
    case password
    then obtain h' where h': "e_bcrypt e v (prf_Password proof) = Inr h'" "8 \<le> length (prf_Password proof)" "length (prf_Password proof) \<le> 72"
      and t: "registrations t = update_rows (\<lambda>r. reg_auth r = prc_ID p) (\<lambda>r. r\<lparr>reg_password := Some h'\<rparr>) (registrations s)"
      by (auto simp: verify_passwordSetup_def tx_inv update_registrations_def)
    have "find (\<lambda>r. reg_auth r = prc_ID p) (registrations t) =
      map_option (\<lambda>r. r\<lparr>reg_password := Some h'\<rparr>) (find (\<lambda>r. reg_auth r = prc_ID p) (registrations s))"
      unfolding t by (rule find_updated) simp
    then obtain kept where "find (\<lambda>r. reg_auth r = prc_ID p) (registrations s) = Some kept" "reg = kept\<lparr>reg_password := Some h'\<rparr>"
      unfolding assms(2) by (cases "find (\<lambda>r. reg_auth r = prc_ID p) (registrations s)") simp_all
    then show ?thesis using that [of kept] h' password(1) assms(3) by simp
  next
    case other
    then show ?thesis using that [of reg] assms by simp
  qed
qed

lemma after_step_purpose: "after_step e v p c s = Inr (Inr res, t) \<Longrightarrow> prc_Purpose (att_Authentication res) = prc_Purpose p"
  by (auto simp: op_inv split: if_splits)

lemma verify_accounts:
  assumes "verify e v p c proof s = Inr (q, t)"
  shows "accounts t = accounts s" "outbox t = outbox s"
  using assms unfolding verify_def verify_defs Let_def
  by (auto simp: tx_inv statement_defs set_account_def insert_registration_def split: if_splits option.splits prod.splits)

lemma steps_frame [simp]:
  "accounts (update_steps Q f s) = accounts s" "outbox (update_steps Q f s) = outbox s"
  "registrations (update_steps Q f s) = registrations s"
  by (simp_all add: update_steps_def)

text \<open>
  C20: A finished sign-up creates exactly one account. When an attempt completes a sign-up,
  an address was kept for the process and had no account; afterwards the accounts are those
  from before and one new, unblocked account with this very address, verified now. Its
  password hash is that of the password given in this attempt, of 8 to 72 bytes, when the
  attempt sets the password, and the one kept for the process otherwise. The process has
  completed the verification of the address and the setting of the password. The event
  announcing the account is queued in the same commit, the kept address is dropped, and
  the answer names the new account.
\<close>

theorem signup_creates_account:
  assumes "Attempt e v aid cid flow who proof s = (Inr res, t)"
    and "prc_Purpose (att_Authentication res) = ''signUp''" "prc_Status (att_Authentication res) = Completed"
  shows "\<exists>kept h. find (\<lambda>r. reg_auth r = aid) (registrations s) = Some kept \<and>
     (if prf_Method proof = ''passwordSetup'' then e_bcrypt e v (prf_Password proof) = Inr h \<and>
        8 \<le> length (prf_Password proof) \<and> length (prf_Password proof) \<le> 72
      else reg_password kept = Some h) \<and>
     step_done aid [''emailVerification''] t \<and> step_done aid [''passwordSetup''] t \<and>
     \<not> exists_row (\<lambda>a. acc_email a = reg_email kept) (accounts s) \<and>
     accounts t = accounts s @ [\<lparr>acc_id = ev_uuid v 0, acc_email = reg_email kept, acc_email_verified = Some (ev_now v),
       acc_username = None, acc_password = Some h, acc_password_changed = Some (ev_now v), acc_blocked = None, acc_created = ev_dbnow v\<rparr>] \<and>
     \<not> exists_row (\<lambda>a. acc_id a = ev_uuid v 0) (accounts s) \<and>
     outbox t = outbox s @ [\<lparr>obx_id = ev_uuid v 1, obx_exchange = ''auth.profiles'', obx_type = ''profile.created'',
       obx_body = ProfileCreated (ev_uuid v 0), obx_created = ev_dbnow v\<rparr>] \<and>
     \<not> exists_row (\<lambda>r. reg_auth r = aid) (registrations t) \<and>
     prc_account (att_Authentication res) = Some (ev_uuid v 0)"
proof -
  obtain r c p1 u where r: "auth_row_of aid s = Some r" "aut_status r = Pending" and c: "StepMethod (stp_type c) = prf_Method proof"
    and v: "verify e v (process_of r) (challenge_of c) proof s = Inr (p1, u)" and p1: "same_process (process_of r) p1"
    and rec: "record_success e v cid (challenge_of c) p1 u = Inr (Inr res, t)"
    using attempt_right [OF Attempt_committed [OF assms(1)]] by metis
  define w where "w = update_steps (\<lambda>q. stp_auth q = prc_ID p1 \<and> stp_id q \<noteq> stp_id c \<and> stp_status q = Pending) cancel_step
    (update_steps (\<lambda>q. stp_id q = cid) (complete_step (ev_now v)) u)"
  have p1: "prc_ID p1 = aid" "prc_Status p1 = Pending"
    using p1 r auth_row_of_id [OF r(1)] by (simp_all add: same_process_def)
  have w: "accounts w = accounts s" "outbox w = outbox s" "registrations w = registrations u"
    using verify_accounts [OF v] by (simp_all add: w_def)
  have signUp: "prc_Purpose p1 = ''signUp''"
    using rec assms(2) after_step_purpose by (auto simp: record_success_run split: if_splits)
  then have "after_signUp e v p1 ((challenge_of c)\<lparr>chl_Status := Completed\<rparr>) w = Inr (Inr res, t)"
    using rec by (simp add: record_success_run w_def)
  then have cont: "continue_signUp e v p1 ((challenge_of c)\<lparr>chl_Status := Completed\<rparr>) w = Inr (Inr res, t)"
    by (cases rule: after_signUp_cases) (simp_all add: op_inv)
  then obtain reg a b where kept: "find (\<lambda>r. reg_auth r = prc_ID p1) (registrations w) = Some reg" and reg: "reg_password reg \<noteq> None" "\<not> exists_row (\<lambda>a. acc_email a = reg_email reg) (accounts w)"
      "insert_account (new_account v reg) w = Inr a"
      "queue_event v 1 ''auth.profiles'' ''profile.created'' (ProfileCreated (ev_uuid v 0)) a = Inr ((), b)"
      "accounts t = accounts b" "outbox t = outbox b" "registrations t = delete_rows (\<lambda>r. reg_auth r = prc_ID p1) (registrations b)"
      "prc_account (att_Authentication res) = Some (ev_uuid v 0)"
    by (rule continue_signUp_registered [OF _ assms(3) p1(2)])
  obtain h where h: "reg_password reg = Some h" using reg(1) by auto
  have aid: "aut_id r = aid" using auth_row_of_id [OF r(1)] by simp
  obtain k where k: "find (\<lambda>r. reg_auth r = aid) (registrations s) = Some k" "reg_email k = reg_email reg"
    "if prf_Method proof = ''passwordSetup'' then e_bcrypt e v (prf_Password proof) = Inr h \<and>
       8 \<le> length (prf_Password proof) \<and> length (prf_Password proof) \<le> 72 else reg_password k = Some h"
    by (rule verify_registration_row [OF v _ h]) (use kept in \<open>auto simp: w(3) p1(1) aid c\<close>)
  have "accounts a = accounts w @ [new_account v reg]" "outbox a = outbox w" "\<not> exists_row (\<lambda>x. acc_id x = ev_uuid v 0) (accounts w)"
    using reg(3) by (auto simp: insert_account_def tx_inv account_unique_def new_account_def exists_row_iff split: if_splits)
  moreover have "accounts b = accounts a" "outbox b = outbox a @ [\<lparr>obx_id = ev_uuid v 1, obx_exchange = ''auth.profiles'',
       obx_type = ''profile.created'', obx_body = ProfileCreated (ev_uuid v 0), obx_created = ev_dbnow v\<rparr>]"
    using reg(4) by (auto simp: queue_event_def insert_outbox_def tx_inv)
  ultimately show ?thesis
    using reg w h p1(1) k continue_signUp_steps [OF cont assms(3) p1(2) signUp] by (intro exI [of _ k] exI [of _ h])
      (simp add: new_account_def exists_row_iff table_simps)
qed

subsection \<open>The errors of an attempt\<close>

text \<open>
  The end of a sign-up that met an existing account: the process has failed, none of its
  steps is pending, no password is kept for it, and nothing is done to any account.
\<close>

definition registration_failed :: "uuid \<Rightarrow> db \<Rightarrow> db \<Rightarrow> bool" where
  "registration_failed aid s t \<longleftrightarrow> accounts t = accounts s \<and> sessions t = sessions s \<and> outbox t = outbox s \<and>
     (\<forall>r \<in> set (authentications t). aut_id r = aid \<longrightarrow> aut_status r = Failed) \<and>
     (\<forall>c \<in> set (authentication_steps t). stp_auth c = aid \<longrightarrow> stp_id c \<noteq> uuid_Nil \<longrightarrow> stp_status c \<noteq> Pending) \<and>
     (\<forall>r \<in> set (registrations t). reg_auth r = aid \<longrightarrow> reg_password r = None)"

lemma failRegistration_failed:
  assumes "failRegistration aid reason s = Inr (res, t)"
  shows "registration_failed aid s t"
  using assms unfolding failRegistration_success
  by (elim conjE, hypsubst) (simp add: registration_failed_def fail_process_def cancel_step_def update_registrations_def
      update_steps_def update_auths_def table_simps ball_Un; intro conjI ballI impI; simp)

lemma registration_failed_frame:
  "registration_failed aid u t \<Longrightarrow> accounts u = accounts s \<Longrightarrow> sessions u = sessions s \<Longrightarrow> outbox u = outbox s \<Longrightarrow>
   registration_failed aid s t"
  by (simp add: registration_failed_def)

lemma verify_sessions: "verify e v p c proof s = Inr (q, t) \<Longrightarrow> sessions t = sessions s"
  unfolding verify_def verify_defs Let_def
  by (auto simp: tx_inv statement_defs set_account_def insert_registration_def split: if_splits option.splits prod.splits)

lemma record_success_failed:
  assumes "record_success e v cid c p s = Inr (Inl err, t)"
  shows "registration_failed (prc_ID p) s t"
proof -
  define w where "w = update_steps (\<lambda>r. stp_auth r = prc_ID p \<and> stp_id r \<noteq> chl_ID c \<and> stp_status r = Pending)
         cancel_step (update_steps (\<lambda>r. stp_id r = cid) (complete_step (ev_now v)) s)"
  have "after_signUp e v p (c\<lparr>chl_Status := Completed\<rparr>) w = Inr (Inl err, t)"
    using assms by (auto simp: record_success_run w_def after_step_success attempt_answer_success split: if_splits)
  then have "failRegistration (prc_ID p) ErrAccountExists w = Inr (Inl err :: error + AttemptResult, t)"
  proof (cases rule: after_signUp_cases)
    case free
    from free(1) show ?thesis by (cases rule: continue_signUp_cases) (auto simp: op_inv)
  qed
  from failRegistration_failed [OF this] show ?thesis
    by (rule registration_failed_frame) (simp_all add: w_def update_steps_def)
qed

text \<open>
  C21: What an attempt that fails leaves behind. It has changed nothing, unless the proof was
  wrong, and then exactly the failure counts of the process and the step have gone up (and
  their status changed where the limit is reached), or the sign-up met an existing account,
  and then the process has failed for good, none of its steps is pending, the password it
  kept is gone and accounts, sessions and events are untouched.
\<close>

theorem attempt_error_effects:
  assumes "Attempt e v aid cid flow who proof s = (Inl err, t)"
  shows "if err = ErrCredentials \<or> err = ErrAttempts
     then (\<exists>r. auth_row_of aid s = Some r \<and> aut_status r = Pending) \<and>
       t = update_steps (\<lambda>r. stp_id r = cid) (fail_step (MaxAttempts e)) (update_auths (\<lambda>r. aut_id r = aid) (fail_auth (MaxAttempts e)) s)
     else t = s \<or> err = ErrAccountExists \<and> registration_failed aid s t"
proof (cases "attempt_tx e v aid cid flow who proof s = Inr (Inl err, t)")
  case True
  then obtain r c where r: "auth_row_of aid s = Some r" "aut_status r = Pending"
    and j: "judge_proof e v aid cid (process_of r) (challenge_of c) proof s = Inr (Inl err, t)"
    unfolding attempt_success by blast
  from j consider (count) "count_failure e aid cid (process_of r) s = Inr (Inl err :: error + AttemptResult, t)"
    | (exists) p u where "verify e v (process_of r) (challenge_of c) proof s = Inr (p, u)"
        "record_success e v cid (challenge_of c) p u = Inr (Inl err, t)"
    unfolding judge_proof_success by blast
  then show ?thesis
  proof cases
    case count
    then show ?thesis using r by (auto simp: count_failure_def tx_inv)
  next
    case exists
    have "prc_ID p = aid" using verify_frame(1) [OF exists(1)] auth_row_of_id [OF r(1)] by (simp add: same_process_def)
    then have "registration_failed aid s t"
      using registration_failed_frame [OF record_success_failed [OF exists(2)]] verify_accounts [OF exists(1)] verify_sessions [OF exists(1)]
      by simp
    then show ?thesis using record_success_error [OF exists(2)] by simp
  qed
next
  case False
  have run: "e_run v (attempt_tx e v aid cid flow who proof) s = (Inl err, t)" using assms by (simp add: Attempt_def)
  then have "err \<notin> wrong" using run_error_committed [OF run avoids_attempt] False by blast
  moreover have "t = s" using run False by (auto simp: e_run_def elim: run_tx_cases)
  ultimately show ?thesis by (auto simp: wrong_def)
qed

subsection \<open>Sign-ups on the example world\<close>

text \<open>A sign-up for \<open>x@y\<close> whose password is being set, and one whose address got an account meanwhile.\<close>

definition demo_signup :: "string \<Rightarrow> db" where
  "demo_signup email = demo_db\<lparr>authentications := [demo_process ''signUp'' None None],
     registrations := [\<lparr>reg_auth = 11, reg_email = email, reg_password = None\<rparr>],
     authentication_steps := [(demo_step ''registration'')\<lparr>stp_id := 19, stp_status := Completed, stp_completion := Some 0\<rparr>,
       (demo_step ''emailVerification'')\<lparr>stp_id := 20, stp_status := Completed, stp_completion := Some 0\<rparr>, demo_step ''passwordSetup'']\<rparr>"

definition setup_proof :: Proof where
  "setup_proof = no_proof\<lparr>prf_Method := ''passwordSetup'', prf_Password := ''new-password''\<rparr>"

lemma demo_signup_done:
  "\<not> isl (fst (Attempt demo_engine (demo_env 2 3) 11 21 ''f'' nobody setup_proof (demo_signup ''x@y'')))"
  "prc_Purpose (att_Authentication (projr (fst (Attempt demo_engine (demo_env 2 3) 11 21 ''f'' nobody setup_proof (demo_signup ''x@y''))))) = ''signUp''"
  "prc_Status (att_Authentication (projr (fst (Attempt demo_engine (demo_env 2 3) 11 21 ''f'' nobody setup_proof (demo_signup ''x@y''))))) = Completed"
  by (simp_all add: run_defs tx_simps setup_proof_def demo_signup_def Let_def cong: tx_weak)

theorem signup_creates_account_witness:
  "\<exists>a h. accounts (snd (Attempt demo_engine (demo_env 2 3) 11 21 ''f'' nobody setup_proof (demo_signup ''x@y''))) =
     accounts (demo_signup ''x@y'') @ [a] \<and> acc_email a = ''x@y'' \<and> acc_password a = Some h \<and>
     e_bcrypt demo_engine (demo_env 2 3) ''new-password'' = Inr h"
proof -
  have "prf_Method setup_proof = ''passwordSetup''" "prf_Password setup_proof = ''new-password''"
    "find (\<lambda>r. reg_auth r = 11) (registrations (demo_signup ''x@y'')) = Some \<lparr>reg_auth = 11, reg_email = ''x@y'', reg_password = None\<rparr>"
    by (simp_all add: setup_proof_def demo_signup_def)
  with signup_creates_account [OF answered [OF demo_signup_done(1)] demo_signup_done(2,3)] show ?thesis by auto
qed

lemma demo_signup_taken:
  "fst (Attempt demo_engine (demo_env 2 3) 11 21 ''f'' nobody setup_proof (demo_signup ''a@b'')) = Inl ErrAccountExists"
  "snd (Attempt demo_engine (demo_env 2 3) 11 21 ''f'' nobody setup_proof (demo_signup ''a@b'')) \<noteq> demo_signup ''a@b''"
  by (simp_all add: run_defs tx_simps setup_proof_def demo_signup_def fail_process_def Let_def cong: tx_weak)

theorem attempt_error_effects_witness:
  "registration_failed 11 (demo_signup ''a@b'')
     (snd (Attempt demo_engine (demo_env 2 3) 11 21 ''f'' nobody setup_proof (demo_signup ''a@b'')))"
proof -
  let ?x = "Attempt demo_engine (demo_env 2 3) 11 21 ''f'' nobody setup_proof (demo_signup ''a@b'')"
  have "?x = (Inl ErrAccountExists, snd ?x)" using demo_signup_taken(1) by (simp add: prod_eq_iff)
  from attempt_error_effects [OF this] demo_signup_taken(2) show ?thesis by simp
qed

end
