(* ===== verification/Auth_Lifecycle.thy ===== *)
theory Auth_Lifecycle
  imports Auth_Cascade Auth_Lockout Auth_Evidence
begin

section \<open>Changes of credentials\<close>

text \<open>
  The operations that change how an account is signed in: its password, address, TOTP,
  backup codes, identities or passkeys. Each invalidates the evidence gathered so far: no
  grant of the account is accepted and no earlier process reused. Some also end sessions,
  and those that remove a way to sign in leave another.
\<close>

definition evidence_void :: "uuid \<Rightarrow> db \<Rightarrow> bool" where
  "evidence_void account = all_auths (\<lambda>r. aut_account r = Some account \<longrightarrow> aut_invalidation r \<noteq> None)"

lemmas keeps_void [triples] = auths_untouched auths_untouched_updates auths_untouched_deletes

lemma invalidate_void:
  assumes "invalidate v account s = Inr (x, t)"
  shows "evidence_void account t"
  using assms by (auto simp: invalidate_def tx_inv update_auths_def evidence_void_def all_auths_def invalidate_row_def table_simps)

lemma triple_invalidate: "triple P (invalidate v account) (\<lambda>_. evidence_void account)"
  by (rule tripleI) (rule invalidate_void)

lemma keeps_insert_codes: "keeps (all_auths R) (insert_codes e v account i n)"
proof (induction n arbitrary: i)
  case 0
  show ?case by (simp, intro triples)
next
  case (Suc n)
  show ?case by (simp, intro triples Suc)
qed

lemma void_after:
  assumes "m s = Inr (x, t)" "evidence_void account s" "\<And>R. keeps (all_auths R) m"
  shows "evidence_void account t"
  using tripleD [OF assms(3) _ assms(1)] assms(2) unfolding evidence_void_def by blast

lemma keeps_notify: "keeps (all_auths R) (notifyAccount v i account m)"
  unfolding notifyAccount_def queueMail_def queue_event_def by (intro triples)

lemma keeps_replace: "keeps (all_auths R) (replaceBackupCodes e v who)"
  unfolding replaceBackupCodes_def by (intro triples keeps_insert_codes)

text \<open>A successful change of the credentials of an account.\<close>

inductive credential_change :: "engine \<Rightarrow> env \<Rightarrow> uuid \<Rightarrow> db \<Rightarrow> db \<Rightarrow> bool" for e :: engine and v :: env where
  change_set_password: "SetPassword e v who grant password s = (Inr (), t) \<Longrightarrow>
     account_row_of (who_AccountID who) s = Some a \<Longrightarrow> \<not> (\<exists>h. acc_password a = Some h \<and> e_compare e h password) \<Longrightarrow>
     credential_change e v (who_AccountID who) s t"
| change_reset: "ConfirmPasswordReset e v token password s = (Inr (), t) \<Longrightarrow>
     find (reset_match e v token) (password_reset_requests s) = Some r \<Longrightarrow> credential_change e v (rst_account r) s t"
| change_email: "ConfirmEmail e v token baseURL s = (Inr stage, t) \<Longrightarrow> email_change_row_of e v token s = Some r \<Longrightarrow>
     emc_stage r = AwaitingNewEmail \<Longrightarrow> credential_change e v (emc_account r) s t"
| change_confirm_totp: "ConfirmTotp e v who code (l, s) = (Inr codes, l', t) \<Longrightarrow> credential_change e v (who_AccountID who) s t"
| change_delete_totp: "DeleteTotp e v who grant s = (Inr (), t) \<Longrightarrow> credential_change e v (who_AccountID who) s t"
| change_rotate: "RotateBackupCodes e v who grant s = (Inr codes, t) \<Longrightarrow> credential_change e v (who_AccountID who) s t"
| change_link: "e_run v (tx_done (link_finish_tx e v who grant provider identity)) s = (Inr True, t) \<Longrightarrow>
     credential_change e v (who_AccountID who) s t"
| change_unlink: "UnlinkIdentity e v who grant provider s = (Inr (), t) \<Longrightarrow> credential_change e v (who_AccountID who) s t"
| change_register: "RegisterPasskey e v who k name response s = (Inr key, t) \<Longrightarrow> credential_change e v (who_AccountID who) s t"
| change_delete_key: "DeletePasskey e v who grant k s = (Inr (), t) \<Longrightarrow> credential_change e v (who_AccountID who) s t"

lemma change_password_void: "change_password v account h s = Inr (x, t) \<Longrightarrow> evidence_void account t"
  by (auto simp: change_password_def tx_inv dest!: invalidate_void intro: void_after [OF _ _ keeps_notify])

lemma delete_sessions_void: "evidence_void account s \<Longrightarrow> evidence_void account (delete_sessions D s)"
  using void_after [of "tx_exec (delete_sessions D)" s "()" "delete_sessions D s" account] auths_untouched_deletes(13)
  by (simp add: tx_simps)

lemma set_password_changed:
  assumes "set_password_tx e v who grant password h s = Inr ((), t)"
    and "account_row_of (who_AccountID who) s = Some a" "\<not> (\<exists>h. acc_password a = Some h \<and> e_compare e h password)"
  shows "\<exists>u w. change_password v (who_AccountID who) h u = Inr ((), w) \<and>
     t = delete_sessions (\<lambda>x. ses_account x = who_AccountID who \<and> ses_id x \<noteq> who_SessionID who) w"
proof -
  obtain same u where same: "(case acc_password a of None \<Rightarrow> tx_return False
        | Some old \<Rightarrow> tx_then (ConsumeGrant e v grant ''passwordChange'' who) (tx_return (e_compare e old password))) s = Inr (same, u)"
    and rest: "(if same then tx_return () else tx_then (change_password v (who_AccountID who) h)
        (tx_exec (delete_sessions (\<lambda>s. ses_account s = who_AccountID who \<and> ses_id s \<noteq> who_SessionID who)))) u = Inr ((), t)"
    using assms(1,2) unfolding set_password_tx_def tx_success checkPrincipal_success by auto
  have "\<not> same" using same assms(3) by (auto simp: tx_inv split: option.splits)
  then show ?thesis using rest by (auto simp: tx_inv)
qed

lemma confirm_totp_changed:
  assumes "confirm_totp_tx e v who code s = Inr (codes, t)"
  shows "\<exists>u w. invalidate v (who_AccountID who) u = Inr ((), w) \<and>
     replaceBackupCodes e v who (delete_sessions (\<lambda>x. ses_account x = who_AccountID who \<and> ses_id x \<noteq> who_SessionID who) w) = Inr (codes, t)"
  using assms unfolding confirm_totp_tx_def by (auto simp: tx_inv split: option.splits) blast

lemma credential_change_void:
  assumes "credential_change e v account s t"
  shows "evidence_void account t"
  using assms
proof cases
  case (change_set_password who grant password a)
  then obtain h where tx: "set_password_tx e v who grant password h s = Inr ((), t)"
    by (auto simp: SetPassword_def split: if_splits sum.splits dest!: committed)
  obtain u w where "change_password v (who_AccountID who) h u = Inr ((), w)"
      "t = delete_sessions (\<lambda>x. ses_account x = who_AccountID who \<and> ses_id x \<noteq> who_SessionID who) w"
    using set_password_changed [OF tx change_set_password(3,4)] by blast
  then show ?thesis using change_set_password(1) delete_sessions_void [OF change_password_void] by blast
next
  case (change_reset token password r)
  then show ?thesis
    by (auto simp: ConfirmPasswordReset_def confirm_reset_tx_def tx_inv split: if_splits sum.splits dest!: committed change_password_void
        intro: delete_sessions_void)
next
  case (change_email token baseURL stage r)
  then show ?thesis
    by (auto elim!: confirm_email_cases simp: confirm_new_tx_def tx_inv dest!: invalidate_void)
next
  case (change_confirm_totp who code l codes l')
  then have "confirm_totp_tx e v who code s = Inr (codes, t)"
    by (auto simp: ConfirmTotp_def split: prod.splits if_splits dest!: committed)
  from confirm_totp_changed [OF this] obtain u w where "invalidate v (who_AccountID who) u = Inr ((), w)"
      "replaceBackupCodes e v who (delete_sessions (\<lambda>x. ses_account x = who_AccountID who \<and> ses_id x \<noteq> who_SessionID who) w) = Inr (codes, t)"
    by blast
  then show ?thesis
    using change_confirm_totp(1) void_after [OF _ delete_sessions_void [OF invalidate_void] keeps_replace] by blast
next
  case (change_rotate who grant codes)
  then show ?thesis
    by (auto simp: RotateBackupCodes_def rotate_backup_tx_def tx_inv dest!: committed invalidate_void)
next
  case (change_link who grant provider identity)
  then show ?thesis
    by (auto simp: link_finish_tx_def tx_inv split: option.splits dest!: committed invalidate_void)
next
  case (change_register who k name response key)
  then show ?thesis
    by (auto simp: RegisterPasskey_def register_passkey_tx_def tx_inv split: option.splits if_splits dest!: committed invalidate_void)
qed (auto simp: DeleteTotp_def delete_totp_tx_def UnlinkIdentity_def unlink_tx_def DeletePasskey_def delete_passkey_tx_def tx_inv
      split: if_splits dest!: committed invalidate_void)

text \<open>
  C22: A change of credentials voids earlier evidence. After a successful change of the
  password, the address, TOTP, the backup codes, the identities or the passkeys of an
  account, no grant issued to the account before is accepted by any operation at any time,
  and no earlier process of the account completes a new one.
\<close>

theorem credential_change_voids_evidence:
  assumes "credential_change e v account s t" "account \<noteq> uuid_Nil"
  shows "(\<forall>w g purpose who u. ConsumeGrant e w g purpose who t \<noteq> Inr (account, u)) \<and>
     (\<forall>w p. prc_account p = Some account \<longrightarrow> \<not> reusable e w p t)"
proof (intro conjI allI impI notI)
  have void: "\<forall>r \<in> set (authentications t). aut_account r = Some account \<longrightarrow> aut_invalidation r \<noteq> None"
    using credential_change_void [OF assms(1)] by (auto simp: evidence_void_def all_auths_def)
  show False if consumed: "ConsumeGrant e w g purpose who t = Inr (account, u)" for w g purpose who u
  proof -
    obtain r where "r \<in> set (authentications t)" "aut_invalidation r = None" "account_or_nil (aut_account r) = account"
      using consumed by (auto simp: ConsumeGrant_success grant_row_def dest!: find_Some_D)
    then show False using void assms(2) by (auto simp: account_or_nil_def split: option.splits)
  qed
  show False if "reusable e w p t" "prc_account p = Some account" for w p
    using that void by (auto simp: reusable_def exists_row_iff split: option.splits)
qed

subsection \<open>New passwords end sessions\<close>

lemma change_password_effects:
  assumes "change_password v account h s = Inr (x, t)"
  shows "sessions t = sessions s" "accounts t = update_rows (\<lambda>r. acc_id r = account) (set_hash v h) (accounts s)"
  using assms by (auto simp: change_password_def invalidate_def notifyAccount_def queueMail_def queue_event_def insert_outbox_def
      update_accounts_def update_auths_def tx_inv)

text \<open>
  C23: A password reset takes the account over. A successful one had a reset request that was
  not expired, for a password of 8 to 72 bytes; afterwards the account of the request has
  the new hash, every other account is as before, all sessions of the account are over and
  no other session is touched.
\<close>

theorem password_reset_effects:
  assumes "ConfirmPasswordReset e v token password s = (Inr (), t)"
  shows "\<exists>r h. r \<in> set (password_reset_requests s) \<and> rst_token r = e_hash e ''reset'' '''' token \<and> ev_now v < rst_expiry r \<and>
     8 \<le> length password \<and> length password \<le> 72 \<and> e_bcrypt e v password = Inr h \<and>
     accounts t = update_rows (\<lambda>a. acc_id a = rst_account r) (set_hash v h) (accounts s) \<and>
     sessions t = filter (\<lambda>x. ses_account x \<noteq> rst_account r) (sessions s)"
proof -
  obtain h r u where "valid_password password" and h: "e_bcrypt e v password = Inr h"
    and r: "find (reset_match e v token) (password_reset_requests s) = Some r"
    and c: "change_password v (rst_account r) h (delete_resets (reset_match e v token) s) = Inr ((), u)"
    and t: "t = delete_sessions (\<lambda>x. ses_account x = rst_account r) u"
    using assms by (auto simp: ConfirmPasswordReset_def confirm_reset_tx_def tx_inv split: if_splits sum.splits dest!: committed)
  have "sessions t = filter (\<lambda>x. ses_account x \<noteq> rst_account r) (sessions s)"
      "accounts t = update_rows (\<lambda>a. acc_id a = rst_account r) (set_hash v h) (accounts s)"
    using change_password_effects [OF c]
    by (simp_all add: t frames delete_resets_def delete_rows_def)
  then show ?thesis
    using h find_Some_D [OF r] \<open>valid_password password\<close> by (auto simp: reset_match_def valid_password_def)
qed

theorem password_reset_effects_witness:
  "\<exists>r \<in> set (password_reset_requests demo_reset). 
     sessions (snd (ConfirmPasswordReset demo_engine (demo_env 0 1) ''r'' ''new-password'' demo_reset)) =
     filter (\<lambda>x. ses_account x \<noteq> rst_account r) (sessions demo_reset)"
proof -
  have "ConfirmPasswordReset demo_engine (demo_env 0 1) ''r'' ''new-password'' demo_reset =
      (Inr (), snd (ConfirmPasswordReset demo_engine (demo_env 0 1) ''r'' ''new-password'' demo_reset))"
    using answered [OF demo_reset_confirmed] by simp
  from password_reset_effects [OF this] show ?thesis by blast
qed

theorem credential_change_voids_evidence_witness:
  "\<not> reusable demo_engine (demo_env 1 2) (process_of (demo_process ''emailChange'' (Some 5) (Some 1)))
     (snd (ConfirmPasswordReset demo_engine (demo_env 0 1) ''r'' ''new-password'' demo_reset))"
proof -
  have "ConfirmPasswordReset demo_engine (demo_env 0 1) ''r'' ''new-password'' demo_reset =
      (Inr (), snd (ConfirmPasswordReset demo_engine (demo_env 0 1) ''r'' ''new-password'' demo_reset))"
    using answered [OF demo_reset_confirmed] by simp
  moreover obtain r where "find (reset_match demo_engine (demo_env 0 1) ''r'') (password_reset_requests demo_reset) = Some r" "rst_account r = 5"
    by (simp add: demo_reset_def reset_match_def demo_env_def Hour_def Minute_def Second_def)
  ultimately have "credential_change demo_engine (demo_env 0 1) 5 demo_reset
      (snd (ConfirmPasswordReset demo_engine (demo_env 0 1) ''r'' ''new-password'' demo_reset))"
    using change_reset by metis
  from credential_change_voids_evidence [OF this] show ?thesis by (simp add: uuid_Nil_def demo_process_def)
qed

text \<open>
  C24: A new password ends the other sessions. Setting a password succeeds only for a live
  principal and a password of 8 to 72 bytes and, where the account already has a password,
  with a grant for a password change of this account and session. If the password is the
  current one, the only change to the database is that the grant is used up. Otherwise the
  account has the new hash, its sessions are over but for the calling one, and nothing
  else changed among accounts and sessions. An account without a password needs no grant.
\<close>

theorem set_password_effects:
  assumes "SetPassword e v who grant password s = (Inr (), t)"
  shows "\<exists>a h. account_row_of (who_AccountID who) s = Some a \<and> e_bcrypt e v password = Inr h \<and> live_principal (ev_now v) who s \<and>
     8 \<le> length password \<and> length password \<le> 72 \<and>
     (\<forall>old. acc_password a = Some old \<longrightarrow> (\<exists>r. grant_row e v grant ''passwordChange'' s = Some r \<and>
        account_or_nil (aut_account r) = who_AccountID who \<and> aut_session r = Some (who_SessionID who) \<and>
        (e_compare e old password \<longrightarrow>
           t = s\<lparr>authentications := update_rows (\<lambda>q. aut_id q = aut_id r) clear_grant (authentications s)\<rparr>))) \<and>
     ((\<forall>old. acc_password a = Some old \<longrightarrow> \<not> e_compare e old password) \<longrightarrow>
        accounts t = update_rows (\<lambda>x. acc_id x = who_AccountID who) (set_hash v h) (accounts s) \<and>
        sessions t = filter (\<lambda>x. ses_account x = who_AccountID who \<longrightarrow> ses_id x = who_SessionID who) (sessions s))"
proof -
  obtain h where h: "e_bcrypt e v password = Inr h" "valid_password password"
    and tx: "set_password_tx e v who grant password h s = Inr ((), t)"
    using assms by (auto simp: SetPassword_def split: if_splits sum.splits dest!: committed)
  obtain a same u where a: "live_principal (ev_now v) who s" "account_row_of (who_AccountID who) s = Some a"
    and same: "(case acc_password a of None \<Rightarrow> tx_return False
        | Some old \<Rightarrow> tx_then (ConsumeGrant e v grant ''passwordChange'' who) (tx_return (e_compare e old password))) s = Inr (same, u)"
    and rest: "(if same then tx_return () else tx_then (change_password v (who_AccountID who) h)
        (tx_exec (delete_sessions (\<lambda>s. ses_account s = who_AccountID who \<and> ses_id s \<noteq> who_SessionID who)))) u = Inr ((), t)"
    using tx unfolding set_password_tx_def tx_success checkPrincipal_success by auto
  have u: "accounts u = accounts s" "sessions u = sessions s" "same \<longleftrightarrow> (\<exists>old. acc_password a = Some old \<and> e_compare e old password)"
    using same by (auto simp: tx_inv ConsumeGrant_success update_auths_def split: option.splits)
  have grant: "\<exists>r. grant_row e v grant ''passwordChange'' s = Some r \<and> account_or_nil (aut_account r) = who_AccountID who \<and>
      aut_session r = Some (who_SessionID who) \<and>
      u = s\<lparr>authentications := update_rows (\<lambda>q. aut_id q = aut_id r) clear_grant (authentications s)\<rparr>"
    if "acc_password a = Some old" for old
    using same that by (auto simp: tx_inv ConsumeGrant_success update_auths_def sensitive_def)
  have "accounts t = update_rows (\<lambda>x. acc_id x = who_AccountID who) (set_hash v h) (accounts s) \<and>
      sessions t = filter (\<lambda>x. ses_account x = who_AccountID who \<longrightarrow> ses_id x = who_SessionID who) (sessions s)" if "\<not> same"
  proof -
    obtain w where w: "change_password v (who_AccountID who) h u = Inr ((), w)"
        "t = delete_sessions (\<lambda>s. ses_account s = who_AccountID who \<and> ses_id s \<noteq> who_SessionID who) w"
      using rest \<open>\<not> same\<close> by (auto simp: tx_inv)
    then show ?thesis using u change_password_effects [OF w(1)] by (simp add: frames delete_rows_def)
  qed
  moreover have "t = u" if same using rest that by (simp add: tx_inv)
  ultimately show ?thesis
    using a h u(3) grant by (intro exI [of _ a] exI [of _ h]) (auto simp: valid_password_def)
qed

lemma demo_password_set:
  "\<not> isl (fst (SetPassword demo_engine (demo_env 0 1) demo_who ''g'' ''new-password'' (demo_grant_db ''passwordChange'' (Some 1))))"
  by (simp add: run_defs tx_simps Let_def cong: tx_weak)

lemma demo_password_kept:
  "\<not> isl (fst (SetPassword demo_engine (demo_env 0 1) demo_who ''g'' ''password'' (demo_grant_db ''passwordChange'' (Some 1))))"
  by (simp add: run_defs tx_simps Let_def cong: tx_weak)

theorem set_password_effects_witness:
  "(\<exists>h. e_bcrypt demo_engine (demo_env 0 1) ''new-password'' = Inr h \<and>
     accounts (snd (SetPassword demo_engine (demo_env 0 1) demo_who ''g'' ''new-password'' (demo_grant_db ''passwordChange'' (Some 1)))) =
       [set_hash (demo_env 0 1) h demo_account]) \<and>
   snd (SetPassword demo_engine (demo_env 0 1) demo_who ''g'' ''password'' (demo_grant_db ''passwordChange'' (Some 1))) =
     (demo_grant_db ''passwordChange'' (Some 1))\<lparr>authentications := [clear_grant (demo_granted ''passwordChange'' (Some 1))]\<rparr>"
proof -
  have run: "SetPassword demo_engine (demo_env 0 1) demo_who ''g'' pw (demo_grant_db ''passwordChange'' (Some 1)) =
      (Inr (), snd (SetPassword demo_engine (demo_env 0 1) demo_who ''g'' pw (demo_grant_db ''passwordChange'' (Some 1))))"
    if "\<not> isl (fst (SetPassword demo_engine (demo_env 0 1) demo_who ''g'' pw (demo_grant_db ''passwordChange'' (Some 1))))" for pw
    using answered [OF that] by simp
  have a: "account_row_of (who_AccountID demo_who) (demo_grant_db ''passwordChange'' (Some 1)) = Some demo_account"
    "acc_password demo_account = Some ''password''" "accounts (demo_grant_db ''passwordChange'' (Some 1)) = [demo_account]"
    "acc_id demo_account = who_AccountID demo_who" "authentications (demo_grant_db ''passwordChange'' (Some 1)) = [demo_granted ''passwordChange'' (Some 1)]"
    "grant_row demo_engine (demo_env 0 1) ''g'' ''passwordChange'' (demo_grant_db ''passwordChange'' (Some 1)) =
       Some (demo_granted ''passwordChange'' (Some 1))"
    "e_compare demo_engine ''password'' ''password''" "\<not> e_compare demo_engine ''password'' ''new-password''"
    by (simp_all add: run_defs tx_simps)
  show ?thesis
    using set_password_effects [OF run [OF demo_password_set]] set_password_effects [OF run [OF demo_password_kept]] a
    by (auto simp: update_rows_def)
qed

subsection \<open>A way to sign in remains\<close>

text \<open>
  The contract of an operation that takes a way to sign in away from the calling account: the
  count of the ways that remain is not zero. Then the account can still be signed in.
\<close>

definition can_sign_in :: "uuid \<Rightarrow> db \<Rightarrow> bool" where
  "can_sign_in account s \<longleftrightarrow> (\<exists>a \<in> set (accounts s). acc_id a = account \<and> acc_password a \<noteq> None) \<or>
     (\<exists>i \<in> set (identities s). idn_account i = account) \<or> (\<exists>k \<in> set (passkeys s). psk_account k = account)"

locale removal =
  fixes removes :: "engine \<Rightarrow> env \<Rightarrow> Principal \<Rightarrow> db \<Rightarrow> db \<Rightarrow> bool"
  assumes remaining: "removes e v who s t \<Longrightarrow>
    \<exists>n. sign_in_methods (who_AccountID who) (\<lambda>_. True) (\<lambda>_. True) t = Some n \<and> 0 < n"
begin

lemma still_signs_in: "removes e v who s t \<Longrightarrow> can_sign_in (who_AccountID who) t"
  using remaining [of e v who s t]
  by (auto simp: sign_in_methods_def can_sign_in_def account_row_of_def filter_empty_conv dest: find_Some_D split: if_splits)

end

lemma filter_delete: "filter P (delete_rows Q rows) = filter (\<lambda>r. P r \<and> \<not> Q r) rows"
  by (simp add: delete_rows_def conj_commute)

lemma ConsumeGrant_frame:
  "ConsumeGrant e v g purpose who s = Inr (a, t) \<Longrightarrow> accounts t = accounts s \<and> identities t = identities s \<and> passkeys t = passkeys s"
  by (auto simp: ConsumeGrant_success update_auths_def)

interpretation unlink: removal "\<lambda>e v who s t. \<exists>grant provider. UnlinkIdentity e v who grant provider s = (Inr (), t)"
proof
  fix e v who s t
  assume "\<exists>grant provider. UnlinkIdentity e v who grant provider s = (Inr (), t)"
  then obtain grant provider where "unlink_tx e v who grant provider s = Inr ((), t)"
    by (auto simp: UnlinkIdentity_def split: if_splits dest!: committed)
  then obtain u n where n: "sign_in_methods (who_AccountID who) (\<lambda>r. idn_provider r \<noteq> provider) (\<lambda>_. True) u = Some n" "n \<noteq> 0"
    and t: "invalidate v (who_AccountID who) (delete_identities (\<lambda>r. idn_account r = who_AccountID who \<and> idn_provider r = provider) u) = Inr ((), t)"
    by (auto simp: unlink_tx_def tx_inv)
  then have "sign_in_methods (who_AccountID who) (\<lambda>_. True) (\<lambda>_. True) t = Some n"
    by (auto simp: sign_in_methods_def account_row_of_def invalidate_def update_auths_def delete_identities_def tx_inv filter_delete
        intro!: arg_cong [where f = length] filter_cong)
  then show "\<exists>n. sign_in_methods (who_AccountID who) (\<lambda>_. True) (\<lambda>_. True) t = Some n \<and> 0 < n" using n(2) by simp
qed

interpretation remove_key: removal "\<lambda>e v who s t. \<exists>grant k. DeletePasskey e v who grant k s = (Inr (), t)"
proof
  fix e v who s t
  assume "\<exists>grant k. DeletePasskey e v who grant k s = (Inr (), t)"
  then obtain grant k where "delete_passkey_tx e v who grant k s = Inr ((), t)"
    by (auto simp: DeletePasskey_def dest!: committed)
  then obtain u n where n: "sign_in_methods (who_AccountID who) (\<lambda>_. True) (\<lambda>r. psk_id r \<noteq> k) u = Some n" "n \<noteq> 0"
    and t: "invalidate v (who_AccountID who) (delete_passkeys (\<lambda>r. psk_account r = who_AccountID who \<and> psk_id r = k) u) = Inr ((), t)"
    by (auto simp: delete_passkey_tx_def tx_inv)
  then have "sign_in_methods (who_AccountID who) (\<lambda>_. True) (\<lambda>_. True) t = Some n"
    by (auto simp: sign_in_methods_def account_row_of_def invalidate_def update_auths_def delete_passkeys_def tx_inv filter_delete Let_def
        intro!: arg_cong [where f = length] filter_cong)
  then show "\<exists>n. sign_in_methods (who_AccountID who) (\<lambda>_. True) (\<lambda>_. True) t = Some n \<and> 0 < n" using n(2) by simp
qed

text \<open>
  C25: The last way to sign in is never taken away. After a successful unlinking of an
  identity or removal of a passkey the account still has a password, an identity or a
  passkey.
\<close>

theorem sign_in_method_remains:
  assumes "UnlinkIdentity e v who grant provider s = (Inr (), t) \<or> DeletePasskey e v who grant k s = (Inr (), t)"
  shows "can_sign_in (who_AccountID who) t"
  using assms unlink.still_signs_in [of e v who s t] remove_key.still_signs_in [of e v who s t] by blast

definition demo_linked :: db where
  "demo_linked = (demo_grant_db ''identityUnlink'' (Some 1))\<lparr>identities := [\<lparr>idn_account = 5, idn_provider = ''vk'', idn_subject = ''7''\<rparr>]\<rparr>"

lemma demo_unlinked: "\<not> isl (fst (UnlinkIdentity demo_engine (demo_env 0 1) demo_who ''g'' ''vk'' demo_linked))"
  by (simp add: run_defs tx_simps demo_linked_def Let_def cong: tx_weak)

theorem sign_in_method_remains_witness:
  "can_sign_in (who_AccountID demo_who) (snd (UnlinkIdentity demo_engine (demo_env 0 1) demo_who ''g'' ''vk'' demo_linked))"
proof -
  have "UnlinkIdentity demo_engine (demo_env 0 1) demo_who ''g'' ''vk'' demo_linked =
      (Inr (), snd (UnlinkIdentity demo_engine (demo_env 0 1) demo_who ''g'' ''vk'' demo_linked))"
    using answered [OF demo_unlinked] by simp
  then show ?thesis by (rule sign_in_method_remains [OF disjI1])
qed

subsection \<open>Backup codes\<close>

definition code_row :: "engine \<Rightarrow> env \<Rightarrow> uuid \<Rightarrow> string \<Rightarrow> backup_row" where
  "code_row e v account code =
     \<lparr>bkp_account = account, bkp_code = e_hash e ''backup'' (e_uuid e account) code, bkp_generated = ev_now v\<rparr>"

lemma insert_codes_rows:
  assumes "insert_codes e v account i n s = Inr (codes, t)"
  shows "length codes = n \<and> t = s\<lparr>backup_codes := backup_codes s @ map (code_row e v account) codes\<rparr> \<and> distinct codes \<and>
     (\<forall>code \<in> set codes. \<not> exists_row (\<lambda>r. backup_unique r (code_row e v account code)) (backup_codes s))"
  using assms
proof (induction n arbitrary: i s codes)
  case 0
  then show ?case by (simp add: tx_inv)
next
  case (Suc n)
  obtain token u rest where token: "codes = token # rest"
    and u: "insert_backup (code_row e v account token) s = Inr u" and rest: "insert_codes e v account (Suc i) n u = Inr (rest, t)"
    using Suc.prems by (auto simp: tx_inv code_row_def)
  have "u = s\<lparr>backup_codes := backup_codes s @ [code_row e v account token]\<rparr>"
      "\<not> exists_row (\<lambda>r. backup_unique r (code_row e v account token)) (backup_codes s)"
    using u by (auto simp: insert_backup_def tx_inv exists_row_iff)
  then show ?case
    using Suc.IH [OF rest] token by (auto simp: table_simps backup_unique_def)
qed

text \<open>
  C26: New backup codes replace the old ones. A successful rotation answers with ten distinct
  codes; afterwards the codes stored for the account are exactly their hashes, every answered
  code is accepted for the account, and the codes of other accounts are untouched.
\<close>

theorem rotation_replaces_codes:
  assumes "RotateBackupCodes e v who grant s = (Inr result, t)"
  shows "length (bco_Codes result) = 10 \<and> distinct (bco_Codes result) \<and>
     backup_codes t = filter (\<lambda>r. bkp_account r \<noteq> who_AccountID who) (backup_codes s) @
       map (code_row e v (who_AccountID who)) (bco_Codes result) \<and>
     (\<forall>code \<in> set (bco_Codes result). exists_row (backup_match e (who_AccountID who) code) (backup_codes t))"
proof -
  obtain u codes w where u: "ConsumeGrant e v grant ''backupCodesRotation'' who s = Inr (who_AccountID who, u)"
    and codes: "insert_codes e v (who_AccountID who) 0 10 (delete_backups (\<lambda>r. bkp_account r = who_AccountID who) u) = Inr (codes, w)"
    and t: "invalidate v (who_AccountID who) w = Inr ((), t)" "bco_Codes result = codes"
    using assms by (auto simp: RotateBackupCodes_def rotate_backup_tx_def replaceBackupCodes_def tx_inv ConsumeGrant_success
        sensitive_def dest!: committed)
  have "backup_codes u = backup_codes s" "backup_codes t = backup_codes w"
    using u t(1) by (auto simp: ConsumeGrant_success invalidate_def update_auths_def tx_inv)
  then have rows: "length codes = 10" "distinct codes" "backup_codes t = filter (\<lambda>r. bkp_account r \<noteq> who_AccountID who) (backup_codes s) @
       map (code_row e v (who_AccountID who)) codes"
    using insert_codes_rows [OF codes] by (simp_all add: delete_backups_def delete_rows_def)
  moreover have "backup_match e (who_AccountID who) code (code_row e v (who_AccountID who) code)" for code
    by (simp add: backup_match_def code_row_def)
  ultimately show ?thesis using t(2) by (auto simp: exists_row_iff)
qed

text \<open>The tokens of a call are distinct as long as the bytes drawn are.\<close>

lemma demo_rotated: "\<not> isl (fst (RotateBackupCodes demo_engine (demo_env 0 1) demo_who ''g'' (demo_grant_db ''backupCodesRotation'' (Some 1))))"
  by (simp add: run_defs tx_simps backup_unique_def backup_refs_def has_account_def numeral_eq_Suc randomToken_inject Let_def cong: tx_weak)

theorem rotation_replaces_codes_witness:
  "length (bco_Codes (projr (fst (RotateBackupCodes demo_engine (demo_env 0 1) demo_who ''g'' (demo_grant_db ''backupCodesRotation'' (Some 1)))))) = 10"
  using rotation_replaces_codes [OF answered [OF demo_rotated]] by blast

end
