(* ===== verification/Auth_Closing.thy ===== *)
theory Auth_Closing
  imports Auth_Cascade Auth_Tokens Auth_Evidence
begin

section \<open>Sessions and the end of accounts\<close>

text \<open>
  What the session operations promise of the tokens they hand out and of the sessions they
  end, and what happens to an account whose deletion is due: the loop deletes every one,
  with all that belongs to it, and announces each deletion.
\<close>

subsection \<open>Issuing tokens\<close>

text \<open>The answer names an account that may be used, and says so where it is about to be deleted.\<close>

definition tokens_for :: "env \<Rightarrow> TokenIssuer \<Rightarrow> duration \<Rightarrow> Tokens \<Rightarrow> db \<Rightarrow> bool" where
  "tokens_for v issuer accessTTL k s \<longleftrightarrow>
     (\<exists>a \<in> set (accounts s). acc_id a = tkn_UserID k \<and> acc_blocked a = None \<and>
        issuer \<lparr>apl_UserId = tkn_UserID k, apl_SessionID = tkn_SessionID k, apl_Email = acc_email a, apl_Username = acc_username a,
          apl_Deleted = deleting (tkn_UserID k) s\<rparr> accessTTL = Inr (tkn_AccessToken k)) \<and>
     (tkn_Restrictions k = [] \<longleftrightarrow> \<not> deleting (tkn_UserID k) s) \<and>
     (\<forall>d. deletion_row_of (tkn_UserID k) s = Some d \<longrightarrow> ev_now v < del_at d \<and>
        tkn_Restrictions k = [\<lparr>rsn_Type = ''pendingDeletion'', rsn_DeletionTimestamp = del_at d, rsn_DeleteSharedData = del_shared d\<rparr>])"

lemma deleting_iff: "deleting account s \<longleftrightarrow> deletion_row_of account s \<noteq> None"
  by (auto simp: deleting_def deletion_row_of_def exists_row_iff find_None_iff find_Some_iff)

lemma issue_tokens:
  assumes "issue v account sid refresh expiry issuer accessTTL s = Inr (k, t)"
  shows "t = s" "tokens_for v issuer accessTTL k s" "tkn_UserID k = account" "tkn_SessionID k = sid" "tkn_RefreshToken k = refresh"
    "tkn_Expiration k = expiry"
  using assms unfolding issue_def tokens_for_def
  by (auto simp: tx_inv account_row_of_def deleting_iff dest!: find_Some_D split: option.splits)

text \<open>
  C27: Signing in opens exactly one session, for the account of the grant. When a grant is
  exchanged for tokens, its hash is stored for a completed sign-in or sign-up that is not
  invalidated, and it has not expired; afterwards exactly this process has no grant any more.
  The sessions are those from before and one new one under the next identifier, for the
  account of that process, storing only the hash of the refresh token handed out; the account
  is not blocked and its deletion, if requested, is not due and reported as a restriction;
  the access token was issued for that account and session.
\<close>

theorem session_opened:
  assumes "CreateSession e v grant ip ua issuer accessTTL refreshTTL s = (Inr k, t)"
  shows "\<exists>r addr. r \<in> set (authentications s) \<and> aut_grant r = Some (e_hash e ''grant'' '''' grant) \<and>
     (aut_purpose r = ''signIn'' \<or> aut_purpose r = ''signUp'') \<and> aut_status r = Completed \<and> aut_invalidation r = None \<and>
     (\<exists>x. aut_grant_expiry r = Some x \<and> ev_now v < x) \<and> account_or_nil (aut_account r) = tkn_UserID k \<and>
     authentications t = update_rows (\<lambda>q. aut_id q = aut_id r) clear_grant (authentications s) \<and>
     sessions t = sessions s @ [\<lparr>ses_id = tkn_SessionID k, ses_account = tkn_UserID k,
       ses_refresh = e_hash e ''refresh'' '''' (tkn_RefreshToken k), ses_ip = addr, ses_user_agent = ua,
       ses_last_refresh = ev_dbnow v, ses_expiry = ev_now v + refreshTTL\<rparr>] \<and>
     tkn_SessionID k = next_session s \<and> next_session t = next_session s + 1 \<and>
     lib_Inet (Libs e) ip = Some addr \<and> tokens_for v issuer accessTTL k s"
proof -
  have tx: "create_session_tx e v grant ip ua issuer accessTTL refreshTTL s = Inr (k, t)"
    using assms by (auto simp: CreateSession_def dest: committed)
  obtain purpose account u refresh addr sid w x where u: "ConsumeGrant e v grant purpose \<lparr>who_AccountID = uuid_Nil, who_SessionID = 0\<rparr> s = Inr (account, u)"
    and purpose: "purpose = ''signIn'' \<or> purpose = ''signUp''"
    and addr: "inet e ip = Inr addr"
    and w: "insert_session (\<lambda>sid. \<lparr>ses_id = sid, ses_account = account, ses_refresh = e_hash e ''refresh'' '''' refresh, ses_ip = addr,
       ses_user_agent = ua, ses_last_refresh = ev_dbnow v, ses_expiry = ev_now v + refreshTTL\<rparr>) u = Inr (sid, w)"
    and i: "issue v account sid refresh (ev_now v + refreshTTL) issuer accessTTL w = Inr (k, x)"
    and n: "notifyAccount v 0 account ((mail_template ''new_login'')\<lparr>ml_Client := ua\<rparr>) x = Inr ((), t)"
    using tx unfolding create_session_tx_def by (auto simp: tx_inv)
  have s: "sessions u = sessions s" "next_session u = next_session s" "accounts u = accounts s"
      "account_deletion_requests u = account_deletion_requests s"
    using u by (auto simp: ConsumeGrant_success update_auths_def)
  obtain r where r: "grant_row e v grant purpose s = Some r" "account = account_or_nil (aut_account r)"
      "u = update_auths (\<lambda>q. aut_id q = aut_id r) clear_grant s"
    using u by (auto simp: ConsumeGrant_success)
  have t: "sessions t = sessions w" "next_session t = next_session w" "authentications t = authentications w"
    using n issue_tokens(1) [OF i] by (auto simp: notifyAccount_def queueMail_def queue_event_def insert_outbox_def tx_inv)
  have w': "sessions w = sessions u @ [\<lparr>ses_id = sid, ses_account = account, ses_refresh = e_hash e ''refresh'' '''' refresh, ses_ip = addr,
       ses_user_agent = ua, ses_last_refresh = ev_dbnow v, ses_expiry = ev_now v + refreshTTL\<rparr>]" "sid = next_session u"
      "next_session w = next_session u + 1" "accounts w = accounts u" "account_deletion_requests w = account_deletion_requests u"
      "authentications w = authentications u"
    using w by (auto simp: insert_session_def tx_inv Let_def)
  have "tokens_for v issuer accessTTL k w = tokens_for v issuer accessTTL k s"
    using w'(4,5) s(3,4) by (simp add: tokens_for_def deleting_def deletion_row_of_def)
  moreover have "lib_Inet (Libs e) ip = Some addr" using addr by (auto simp: inet_def split: option.splits)
  ultimately show ?thesis
    using issue_tokens [OF i] s t w' grant_row_D [OF r(1)] purpose r(2,3)
    by (intro exI [of _ r] exI [of _ addr]) (auto simp: update_auths_def)
qed

theorem session_opened_witness:
  "\<exists>k. tokens_for (demo_env 0 1) demo_issuer 1 k (demo_grant_db ''signIn'' None) \<and> tkn_SessionID k = 2 \<and> tkn_UserID k = 5"
proof -
  have "next_session (demo_grant_db ''signIn'' None) = 2"
    "authentications (demo_grant_db ''signIn'' None) = [demo_granted ''signIn'' None]" "aut_account (demo_granted ''signIn'' None) = Some 5"
    by (simp_all add: demo_grant_db_def demo_db_def demo_granted_def demo_process_def)
  with session_opened [OF answered [OF demo_session_created(1)]] show ?thesis by (auto simp: account_or_nil_def)
qed

text \<open>
  C28: Refreshing replaces the tokens of one session. The session had not expired and its
  stored hash was that of the token given; afterwards exactly this session has the hash of
  the new token, the new expiry and client, every other session is unchanged, and the new
  tokens are for the account of the session, under the same conditions as at sign-in.
\<close>

theorem refresh_effects:
  assumes "Refresh e v sid refresh ip ua issuer accessTTL refreshTTL s = (Inr k, t)"
  shows "\<exists>r addr. r \<in> set (sessions s) \<and> ses_id r = sid \<and> ses_refresh r = e_hash e ''refresh'' '''' refresh \<and> ev_now v < ses_expiry r \<and>
     sessions t = update_rows (\<lambda>q. ses_id q = sid) (\<lambda>q. q\<lparr>ses_refresh := e_hash e ''refresh'' '''' (tkn_RefreshToken k),
       ses_ip := addr, ses_user_agent := ua, ses_last_refresh := ev_now v, ses_expiry := ev_now v + refreshTTL\<rparr>) (sessions s) \<and>
     tkn_UserID k = ses_account r \<and> tkn_SessionID k = sid \<and> tokens_for v issuer accessTTL k s"
proof -
  obtain r fresh addr where r: "refresh_row e v sid refresh s = Some r"
    and i: "issue v (ses_account r) sid fresh (ev_now v + refreshTTL) issuer accessTTL t = Inr (k, t)"
    and t: "t = s\<lparr>sessions := update_rows (\<lambda>q. ses_id q = sid) (\<lambda>q. q\<lparr>ses_refresh := e_hash e ''refresh'' '''' fresh,
       ses_ip := addr, ses_user_agent := ua, ses_last_refresh := ev_now v, ses_expiry := ev_now v + refreshTTL\<rparr>) (sessions s)\<rparr>"
    by (rule refresh_success [OF assms])
  have "tokens_for v issuer accessTTL k t = tokens_for v issuer accessTTL k s"
    by (simp add: tokens_for_def deleting_def deletion_row_of_def t)
  then show ?thesis
    using issue_tokens [OF i] refresh_row_D [OF r] t by (intro exI [of _ r] exI [of _ addr]) auto
qed

theorem refresh_effects_witness:
  "\<exists>k. tokens_for (demo_env 0 1) demo_issuer 1 k demo_sessions \<and> tkn_UserID k = 5"
  using refresh_effects [OF answered [OF demo_refreshed]] by (auto simp: demo_sessions_def demo_session_def)

subsection \<open>Ending sessions\<close>

text \<open>
  C29: A revoked session is over at once. After revoking one session or all sessions of the
  calling account, no principal with such a session passes any check again, at any time,
  while every other session is as alive as before.
\<close>

theorem revoked_sessions_end:
  assumes "RevokeSessions v who sid s = (Inr (), t)"
  shows "live_session now p t \<longleftrightarrow> live_session now p s \<and>
     \<not> (who_AccountID p = who_AccountID who \<and> (sid = None \<or> sid = Some (who_SessionID p)))"
proof -
  have t: "t = delete_sessions (\<lambda>x. ses_account x = who_AccountID who \<and> (case sid of None \<Rightarrow> True | Some i \<Rightarrow> ses_id x = i)) s"
    using assms by (auto simp: RevokeSessions_def revoke_sessions_tx_def checkSession_def tx_inv dest!: committed)
  show ?thesis unfolding t live_session_def exists_row_iff delete_sessions_frame delete_rows_def by (cases sid) auto
qed

lemma demo_revoked: "\<not> isl (fst (RevokeSessions (demo_env 0 1) demo_who None demo_db))"
  by (simp add: run_defs tx_simps Let_def cong: tx_weak)

theorem revoked_sessions_end_witness:
  "\<not> live_session 0 demo_who (snd (RevokeSessions (demo_env 0 1) demo_who None demo_db))"
proof -
  have "RevokeSessions (demo_env 0 1) demo_who None demo_db = (Inr (), snd (RevokeSessions (demo_env 0 1) demo_who None demo_db))"
    using answered [OF demo_revoked] by simp
  from revoked_sessions_end [OF this] show ?thesis by simp
qed

subsection \<open>Deleting accounts\<close>

lemma sort_key_head:
  assumes "sort_key f rows = x # xs"
  shows "x \<in> set rows" "y \<in> set rows \<Longrightarrow> f x \<le> f y"
proof -
  have sort: "sorted (map f (x # xs))" "set (x # xs) = set rows"
    using assms by (metis sorted_sort_key, metis set_sort)
  then show "x \<in> set rows" "y \<in> set rows \<Longrightarrow> f x \<le> f y" by auto
qed

lemma due_deletion_Some:
  assumes "due_deletion now s = Some d"
  shows "d \<in> set (account_deletion_requests s)" "del_at d \<le> now" "has_account s (del_account d)"
    "d' \<in> set (account_deletion_requests s) \<Longrightarrow> has_account s (del_account d') \<Longrightarrow> del_at d \<le> del_at d'"
proof -
  obtain ds where "sort_key del_at (filter (\<lambda>d. del_at d \<le> now \<and> has_account s (del_account d)) (account_deletion_requests s)) = d # ds"
    using assms by (auto simp: due_deletion_def split: list.splits)
  note head = sort_key_head [OF this]
  show d: "d \<in> set (account_deletion_requests s)" "del_at d \<le> now" "has_account s (del_account d)" using head(1) by simp_all
  show "del_at d \<le> del_at d'" if "d' \<in> set (account_deletion_requests s)" "has_account s (del_account d')"
    using head(2) [of d'] that d(2) by (cases "del_at d' \<le> now") auto
qed

lemma sort_key_Nil: "sort_key f xs = [] \<longleftrightarrow> xs = []"
  using set_sort [of f xs] by (metis set_empty)

lemma due_deletion_None:
  "due_deletion now s = None \<longleftrightarrow> (\<forall>d \<in> set (account_deletion_requests s). has_account s (del_account d) \<longrightarrow> now < del_at d)"
proof -
  have "due_deletion now s = None \<longleftrightarrow> filter (\<lambda>d. del_at d \<le> now \<and> has_account s (del_account d)) (account_deletion_requests s) = []"
    unfolding due_deletion_def by (subst sort_key_Nil [of del_at, symmetric]) (simp split: list.split)
  then show ?thesis by (auto simp: filter_empty_conv)
qed

lemma deleted_rows:
  "accounts (delete_accounts P s) = filter (\<lambda>a. \<not> P a) (accounts s)"
  "account_deletion_requests (delete_accounts P s) = filter (\<lambda>d. del_account d \<notin> acc_id ` {a \<in> set (accounts s). P a}) (account_deletion_requests s)"
  "sessions (delete_accounts P s) = filter (\<lambda>x. ses_account x \<notin> acc_id ` {a \<in> set (accounts s). P a}) (sessions s)"
  "identities (delete_accounts P s) = filter (\<lambda>x. idn_account x \<notin> acc_id ` {a \<in> set (accounts s). P a}) (identities s)"
  "passkeys (delete_accounts P s) = filter (\<lambda>x. psk_account x \<notin> acc_id ` {a \<in> set (accounts s). P a}) (passkeys s)"
  "outbox (delete_accounts P s) = outbox s"
  by (simp_all add: delete_accounts_frame delete_rows_def)

lemma wf_deletion_account: "wf_db s \<Longrightarrow> d \<in> set (account_deletion_requests s) \<Longrightarrow> has_account s (del_account d)"
  by (auto simp: wf_db_def wf_table_def deletion_refs_def)

definition deletion_events :: "env \<Rightarrow> deletion_row \<Rightarrow> string \<Rightarrow> outbox_row list" where
  "deletion_events v d email =
     [\<lparr>obx_id = ev_uuid v 0, obx_exchange = ''auth.profiles'', obx_type = ''profile.deleted'',
       obx_body = ProfileDeleted (del_account d) (del_shared d), obx_created = ev_dbnow v\<rparr>,
      \<lparr>obx_id = ev_uuid v 1, obx_exchange = ''mail'', obx_type = ''mail.send.v1'',
       obx_body = MailSend ((mail_template ''account_deleted'')\<lparr>ml_To := email, ml_ExpirationTimestamp := ev_now v + 24 * Hour\<rparr>),
       obx_created = ev_dbnow v\<rparr>]"

text \<open>The transaction of a deletion succeeds exactly when its events can be queued.\<close>

lemma delete_due_run:
  "delete_due_tx v d s = Inr (x, t) \<longleftrightarrow>
     (\<exists>a. account_row_of (del_account d) s = Some a \<and> x = True \<and> ev_uuid v 0 \<noteq> ev_uuid v 1 \<and>
        (\<forall>q \<in> set (outbox s). obx_id q \<noteq> ev_uuid v 0 \<and> obx_id q \<noteq> ev_uuid v 1) \<and>
        t = delete_accounts (\<lambda>b. acc_id b = del_account d) (s\<lparr>outbox := outbox s @ deletion_events v d (acc_email a)\<rparr>))"
  by (auto simp: delete_due_tx_def notifyAccount_def queueMail_def queue_event_def insert_outbox_def tx_inv outbox_unique_def
      deletion_events_def account_row_of_def mail_template_def)

text \<open>
  C30: An account is deleted when its time has come, and completely. A round of the deletion
  loop that reports a removal has deleted the account whose request was due first. The
  database is the one from before without everything that belongs to this account: its
  identities, passkeys with their transports, TOTP secret and backup codes, its sessions, its
  processes and those of its sessions with their steps, kept registrations and OAuth requests,
  its pending requests for an activation, a passkey, a reset, a change of address and the
  deletion itself; no other row of any table is touched, but for the event for the other
  services and the mail to the owner, queued in the same commit. A round that reports none has
  changed nothing, and no request is due.
\<close>

theorem due_account_deleted:
  assumes "wf_db s" "DeleteDueAccount v s = (Inr removed, t)"
  shows "if removed
     then \<exists>d a. d \<in> set (account_deletion_requests s) \<and> del_at d \<le> ev_now v \<and>
       (\<forall>d' \<in> set (account_deletion_requests s). del_at d \<le> del_at d') \<and> a \<in> set (accounts s) \<and> acc_id a = del_account d \<and>
       t = (without_account (del_account d) s)\<lparr>outbox := outbox s @ deletion_events v d (acc_email a)\<rparr>
     else t = s \<and> (\<forall>d \<in> set (account_deletion_requests s). ev_now v < del_at d)"
proof (cases "due_deletion (ev_now v) s")
  case None
  then have "\<not> removed" "t = s"
    using assms(2) by (auto simp: DeleteDueAccount_def e_query_def run_query_Inr tx_inv)
  then show ?thesis using None wf_deletion_account [OF assms(1)] by (auto simp: due_deletion_None)
next
  case (Some d)
  note due = due_deletion_Some [OF Some]
  have "delete_due_tx v d s = Inr (removed, t)" using assms(2) Some by (auto simp: DeleteDueAccount_def dest: committed)
  then obtain a where a: "account_row_of (del_account d) s = Some a" "removed"
    and t: "t = delete_accounts (\<lambda>b. acc_id b = del_account d) (s\<lparr>outbox := outbox s @ deletion_events v d (acc_email a)\<rparr>)"
    unfolding delete_due_run by auto
  have acc: "a \<in> set (accounts s)" "acc_id a = del_account d"
    using a(1) by (auto simp: account_row_of_def dest: find_Some_D)
  then have "t = (without_account (del_account d) s)\<lparr>outbox := outbox s @ deletion_events v d (acc_email a)\<rparr>"
    unfolding t by (subst delete_account_cut [of a]) (simp_all add: without_account_outbox)
  then show ?thesis
    unfolding if_P [OF a(2)] using acc due wf_deletion_account [OF assms(1)]
    by (intro exI [of _ d] exI [of _ a]) simp
qed

text \<open>Rounds that meet no failure: the database answers and the events get fresh identifiers.\<close>

definition fresh_rounds :: "env list \<Rightarrow> db \<Rightarrow> bool" where
  "fresh_rounds vs s \<longleftrightarrow> (\<forall>v \<in> set vs. ev_begin v = BeginOk \<and> ev_commit v) \<and>
     distinct (concat (map (\<lambda>v. [ev_uuid v 0, ev_uuid v 1]) vs)) \<and>
     (\<forall>q \<in> set (outbox s). \<forall>v \<in> set vs. obx_id q \<noteq> ev_uuid v 0 \<and> obx_id q \<noteq> ev_uuid v 1)"

lemma deletion_round:
  assumes "wf_db s" "fresh_rounds (v # vs) s" "due_deletion (ev_now v) s = Some d"
  obtains t where "DeleteDueAccount v s = (Inr True, t)" "wf_db t" "fresh_rounds vs t"
    "account_deletion_requests t = filter (\<lambda>x. del_account x \<noteq> del_account d) (account_deletion_requests s)"
proof -
  note due = due_deletion_Some [OF assms(3)]
  obtain a where a: "account_row_of (del_account d) s = Some a"
    using due(3) by (cases "account_row_of (del_account d) s") (auto simp: has_account_def account_row_of_def exists_row_iff find_None_iff)
  have acc: "acc_id a = del_account d" "a \<in> set (accounts s)" using a by (auto simp: account_row_of_def dest: find_Some_D)
  define t where "t = delete_accounts (\<lambda>b. acc_id b = del_account d) (s\<lparr>outbox := outbox s @ deletion_events v d (acc_email a)\<rparr>)"
  have "delete_due_tx v d s = Inr (True, t)"
    unfolding delete_due_run using assms(2) a by (auto simp: fresh_rounds_def t_def)
  then have run: "DeleteDueAccount v s = (Inr True, t)"
    using assms(2,3) by (simp add: DeleteDueAccount_def e_run_def run_tx_done_Inr fresh_rounds_def)
  moreover have "wf_db t" using wf.keep_DeleteDueAccount [OF assms(1), of v] by (simp add: run)
  moreover have "fresh_rounds vs t"
    using assms(2) by (auto simp: fresh_rounds_def t_def deleted_rows deletion_events_def)
  moreover have "account_deletion_requests t = filter (\<lambda>x. del_account x \<noteq> del_account d) (account_deletion_requests s)"
  proof -
    have "acc_id ` {b \<in> set (accounts s). acc_id b = del_account d} = {del_account d}" using acc by force
    then show ?thesis by (simp add: t_def deleted_rows)
  qed
  ultimately show ?thesis by (rule that)
qed

text \<open>
  C31: Every deletion that is due is carried out. One batch of the deletion loop, whose rounds
  meet no failure and are at least as many as there are requests, ends with no request left
  that was due when the batch began.
\<close>

theorem due_deletions_finish:
  assumes "wf_db s" "fresh_rounds vs s" "length (account_deletion_requests s) \<le> length vs" "\<forall>v \<in> set vs. now \<le> ev_now v"
  shows "\<forall>d \<in> set (account_deletion_requests (delete_batch vs s)). now < del_at d"
  using assms
proof (induction vs arbitrary: s)
  case Nil
  then show ?case by simp
next
  case (Cons v vs)
  show ?case
  proof (cases "due_deletion (ev_now v) s")
    case None
    then have "DeleteDueAccount v s = (Inr False, s)"
      using Cons.prems(2) by (simp add: DeleteDueAccount_def e_query_def run_query_def fresh_rounds_def tx_simps)
    moreover have "now < del_at d" if "d \<in> set (account_deletion_requests s)" for d
      using None that wf_deletion_account [OF Cons.prems(1)] Cons.prems(4) by (fastforce simp: due_deletion_None)
    ultimately show ?thesis by simp
  next
    case (Some d)
    obtain t where t: "DeleteDueAccount v s = (Inr True, t)" "wf_db t" "fresh_rounds vs t"
        "account_deletion_requests t = filter (\<lambda>x. del_account x \<noteq> del_account d) (account_deletion_requests s)"
      by (rule deletion_round [OF Cons.prems(1,2) Some])
    have "length (account_deletion_requests t) < length (account_deletion_requests s)"
      unfolding t(4) using due_deletion_Some(1) [OF Some] by (intro length_filter_less) auto
    then show ?thesis using Cons.IH [OF t(2,3)] Cons.prems(3,4) t(1) by simp
  qed
qed

definition demo_due :: db where
  "demo_due = demo_db\<lparr>account_deletion_requests := [\<lparr>del_account = 5, del_shared = True, del_at = 0\<rparr>]\<rparr>"

lemma demo_due_wf: "wf_db demo_due"
  by code_simp

lemma demo_due_deleted: "fst (DeleteDueAccount (demo_env 1 2) demo_due) = Inr True"
  by (simp add: run_defs tx_simps demo_due_def Let_def cong: tx_weak)

theorem due_account_deleted_witness:
  "accounts (snd (DeleteDueAccount (demo_env 1 2) demo_due)) = [] \<and> sessions (snd (DeleteDueAccount (demo_env 1 2) demo_due)) = [] \<and>
   length (outbox (snd (DeleteDueAccount (demo_env 1 2) demo_due))) = 2"
proof -
  have "DeleteDueAccount (demo_env 1 2) demo_due = (Inr True, snd (DeleteDueAccount (demo_env 1 2) demo_due))"
    using demo_due_deleted by (simp add: prod_eq_iff)
  from due_account_deleted [OF demo_due_wf this] show ?thesis
    by (auto simp: demo_due_def demo_db_def demo_account_def demo_session_def without_account_def cut_def deletion_events_def Initial_def)
qed

theorem due_deletions_finish_witness:
  "list_all (\<lambda>d. 1 < del_at d) (account_deletion_requests (delete_batch [demo_env 1 2, demo_env 2 3] demo_due))"
  unfolding list_all_iff by (rule due_deletions_finish [OF demo_due_wf])
    (simp_all add: fresh_rounds_def demo_due_def demo_db_def Initial_def demo_env_def)

lemma deletion_round_shrinks:
  assumes "DeleteDueAccount v s = (Inr True, t)"
  shows "length (account_deletion_requests t) < length (account_deletion_requests s)"
proof (cases "due_deletion (ev_now v) s")
  case None
  then show ?thesis using assms by (auto simp: DeleteDueAccount_def e_query_def run_query_Inr tx_inv)
next
  case (Some d)
  note due = due_deletion_Some [OF Some]
  have "delete_due_tx v d s = Inr (True, t)" using assms Some by (auto simp: DeleteDueAccount_def dest: committed)
  then obtain a where a: "account_row_of (del_account d) s = Some a"
    and t: "t = delete_accounts (\<lambda>b. acc_id b = del_account d) (s\<lparr>outbox := outbox s @ deletion_events v d (acc_email a)\<rparr>)"
    unfolding delete_due_run by auto
  have "acc_id a = del_account d" "a \<in> set (accounts s)" using a by (auto simp: account_row_of_def dest: find_Some_D)
  then have "acc_id ` {b \<in> set (accounts s). acc_id b = del_account d} = {del_account d}" by force
  then have "account_deletion_requests t = filter (\<lambda>x. del_account x \<noteq> del_account d) (account_deletion_requests s)"
    by (simp add: t deleted_rows)
  then show ?thesis using due(1) by (auto intro: length_filter_less)
qed

text \<open>
  C38: The deletion loop stops by itself. It goes on only after a round that has deleted an
  account, and every such round takes a request away; so of any number of rounds the context
  would allow, some round among the first \<open>n\<close> fails or finds nothing due, where \<open>n\<close> exceeds the
  number of requests, and the rounds after it are never run.
\<close>

theorem deletion_loop_stops:
  assumes "length (account_deletion_requests s) < n"
  shows "delete_batch (take n vs) s = delete_batch vs s \<and>
     (n \<le> length vs \<longrightarrow> (\<exists>k < n. fst (DeleteDueAccount (vs ! k) (delete_batch (take k vs) s)) \<noteq> Inr True))"
  using assms
proof (induction vs arbitrary: s n)
  case (Cons v vs)
  obtain m where n: "n = Suc m" using Cons.prems by (cases n) auto
  obtain r t where run: "DeleteDueAccount v s = (r, t)" by fastforce
  show ?case
  proof (cases "r = Inr True")
    case True
    then have "length (account_deletion_requests t) < m"
      using deletion_round_shrinks [of v s t] run Cons.prems n by simp
    note IH = Cons.IH [OF this]
    have "\<exists>k < n. fst (DeleteDueAccount ((v # vs) ! k) (delete_batch (take k (v # vs)) s)) \<noteq> Inr True" if "n \<le> length (v # vs)"
    proof -
      have "m \<le> length vs" using that n by simp
      then obtain k where "k < m" "fst (DeleteDueAccount (vs ! k) (delete_batch (take k vs) t)) \<noteq> Inr True" using IH by auto
      then show ?thesis by (intro exI [of _ "Suc k"]) (simp add: n run True)
    qed
    then show ?thesis using IH by (simp add: n run True)
  next
    case False
    then have "\<exists>k < n. fst (DeleteDueAccount ((v # vs) ! k) (delete_batch (take k (v # vs)) s)) \<noteq> Inr True"
      by (intro exI [of _ 0]) (simp add: n run)
    then show ?thesis using False by (auto simp: n run split: sum.splits)
  qed
qed simp

theorem deletion_loop_stops_witness:
  "delete_batch (take 2 (replicate 9 (demo_env 1 2))) demo_due = delete_batch (replicate 9 (demo_env 1 2)) demo_due"
  using deletion_loop_stops [of demo_due 2 "replicate 9 (demo_env 1 2)"] by (simp add: demo_due_def)

subsection \<open>Cleanup\<close>

lemma find_delete:
  "(\<And>r. P r \<Longrightarrow> \<not> Q r) \<Longrightarrow> find P (delete_rows Q rows) = find P rows"
  by (induction rows) (auto simp: delete_rows_def)

lemma exists_delete: "(\<And>r. P r \<Longrightarrow> \<not> Q r) \<Longrightarrow> exists_row P (delete_rows Q rows) = exists_row P rows"
  by (auto simp: exists_row_iff delete_rows_def)

lemma find_delete_Some: "find P rows = Some r \<Longrightarrow> \<not> Q r \<Longrightarrow> find P (delete_rows Q rows) = Some r"
  by (induction rows) (auto simp: delete_rows_def split: if_splits)

text \<open>What a cleanup leaves: the rows that have not expired, and of these what is not cut off.\<close>

definition unexpired :: "time \<Rightarrow> db \<Rightarrow> db" where
  "unexpired now s = s\<lparr>oauth_requests := delete_rows (\<lambda>r. oar_expiry r < now) (oauth_requests s),
     email_change_requests := delete_rows (\<lambda>r. emc_expiry r < now) (email_change_requests s),
     password_reset_requests := delete_rows (\<lambda>r. rst_expiry r < now) (password_reset_requests s),
     totp_activation_requests := delete_rows (\<lambda>r. ttr_expiry r < now) (totp_activation_requests s),
     passkey_registration_requests := delete_rows (\<lambda>r. pkr_expiry r < now) (passkey_registration_requests s)\<rparr>"

lemma cleanup_cut:
  "Cleanup e v s = (Inr (), t) \<Longrightarrow>
   t = cut (\<lambda>r. ses_expiry r < ev_now v) (stale_auth (ev_now v) (ev_now v - ReuseTTL e)) (unexpired (ev_now v) s)"
  by (auto simp: Cleanup_def cleanup_tx_def tx_inv cut_cascades unexpired_def delete_oauth_requests_def delete_email_changes_def
      delete_resets_def delete_totp_requests_def delete_passkey_requests_def dest!: committed)

lemma unexpired_rows:
  "oauth_requests (unexpired now s) = filter (\<lambda>r. now \<le> oar_expiry r) (oauth_requests s)"
  "email_change_requests (unexpired now s) = filter (\<lambda>r. now \<le> emc_expiry r) (email_change_requests s)"
  "password_reset_requests (unexpired now s) = filter (\<lambda>r. now \<le> rst_expiry r) (password_reset_requests s)"
  "totp_activation_requests (unexpired now s) = filter (\<lambda>r. now \<le> ttr_expiry r) (totp_activation_requests s)"
  "passkey_registration_requests (unexpired now s) = filter (\<lambda>r. now \<le> pkr_expiry r) (passkey_registration_requests s)"
  "accounts (unexpired now s) = accounts s" "identities (unexpired now s) = identities s" "sessions (unexpired now s) = sessions s"
  "next_session (unexpired now s) = next_session s" "authentications (unexpired now s) = authentications s"
  "registrations (unexpired now s) = registrations s" "authentication_steps (unexpired now s) = authentication_steps s"
  "email_authentication_steps (unexpired now s) = email_authentication_steps s"
  "passkey_authentication_steps (unexpired now s) = passkey_authentication_steps s"
  "google_authentication_steps (unexpired now s) = google_authentication_steps s"
  "account_deletion_requests (unexpired now s) = account_deletion_requests s" "totp (unexpired now s) = totp s"
  "passkeys (unexpired now s) = passkeys s" "passkey_transports (unexpired now s) = passkey_transports s"
  "backup_codes (unexpired now s) = backup_codes s" "outbox (unexpired now s) = outbox s"
  by (simp_all add: unexpired_def delete_rows_def not_less)

lemma cut_unexpired [simp]:
  "cut_session S (unexpired now s) sid = cut_session S s sid" "cut_auth S A (unexpired now s) r = cut_auth S A s r"
  "cut_process S A (unexpired now s) aid = cut_process S A s aid" "cut_step S A (unexpired now s) cid = cut_step S A s cid"
  by (simp_all add: cut_defs unexpired_def)

text \<open>A process that is open at a time: neither it nor the session it is bound to has expired.\<close>

definition session_current :: "time \<Rightarrow> auth_row \<Rightarrow> db \<Rightarrow> bool" where
  "session_current now r s \<longleftrightarrow>
     aut_session r = None \<or> (\<exists>x \<in> set (sessions s). aut_session r = Some (ses_id x) \<and> now < ses_expiry x)"

lemma live_not_cut:
  assumes "wf_db s" "live_principal now p s" "now' \<le> now"
  shows "\<not> cut_session (\<lambda>r. ses_expiry r < now') s (who_SessionID p)"
proof
  assume "cut_session (\<lambda>r. ses_expiry r < now') s (who_SessionID p)"
  then obtain x where x: "x \<in> set (sessions s)" "ses_expiry x < now'" "ses_id x = who_SessionID p" by (auto simp: cut_session_def)
  obtain y where y: "y \<in> set (sessions s)" "ses_id y = who_SessionID p" "now < ses_expiry y"
    using assms(2) by (auto simp: live_principal_def exists_row_iff)
  have "x = y" using wf_session_unique [OF assms(1) x(1) y(1)] x(3) y(2) by (simp add: session_unique_def)
  then show False using x(2) y(3) assms(3) by simp
qed

lemma current_not_cut:
  assumes "wf_db s" "session_current now r s" "now' \<le> now" "\<not> A r"
  shows "\<not> cut_auth (\<lambda>x. ses_expiry x < now') A s r"
proof
  assume "cut_auth (\<lambda>x. ses_expiry x < now') A s r"
  then obtain x where x: "x \<in> set (sessions s)" "ses_expiry x < now'" "aut_session r = Some (ses_id x)"
    using assms(4) by (auto simp: cut_auth_def)
  then obtain y where y: "y \<in> set (sessions s)" "ses_id y = ses_id x" "now < ses_expiry y"
    using assms(2) by (auto simp: session_current_def)
  have "x = y" using wf_session_unique [OF assms(1) x(1) y(1)] y(2) by (simp add: session_unique_def)
  then show False using x(2) y(3) assms(3) by simp
qed

lemma process_not_cut:
  assumes "wf_db s" "r \<in> set (authentications s)" "\<not> cut_auth S A s r"
  shows "\<not> cut_process S A s (aut_id r)"
  using assms(2,3) wf_auth_unique [OF assms(1) _ assms(2)] unfolding cut_process_def auth_unique_def by metis

lemma step_not_cut:
  assumes "wf_db s" "step_row_of cid aid s = Some c" "\<not> cut_process S A s aid"
  shows "\<not> cut_step S A s cid"
  using step_row_of_id [OF assms(2)] assms(3) wf_step_unique [OF assms(1)] unfolding cut_step_def by metis

lemma find_filter: "(\<And>r. r \<in> set rows \<Longrightarrow> P r \<Longrightarrow> Q r) \<Longrightarrow> find P (filter Q rows) = find P rows"
  by (induction rows) auto

lemma wf_oauth_target: "wf_db s \<Longrightarrow> r \<in> set (oauth_requests s) \<Longrightarrow> oar_step r = None \<or> oar_session r = None"
  by (auto simp: wf_db_def oauth_request_check_def dest: wf_table_ok)

text \<open>What a live principal asked for is kept.\<close>

lemma cleanup_live:
  assumes "wf_db s" "Cleanup e v s = (Inr (), t)" "ev_now v \<le> ev_now w" "live_principal (ev_now w) p s"
  shows "activation_row w p t = activation_row w p s" "passkey_request_of w p k t = passkey_request_of w p k s"
    "find (link_match e w p provider state) (oauth_requests t) = find (link_match e w p provider state) (oauth_requests s)"
proof -
  note live = live_not_cut [OF assms(1,4,3)]
  note t = cleanup_cut [OF assms(2)]
  show "activation_row w p t = activation_row w p s"
    unfolding activation_row_def t cut_def using live assms(3) by (auto simp: unexpired_rows intro!: find_filter)
  show "passkey_request_of w p k t = passkey_request_of w p k s"
    unfolding passkey_request_of_def t cut_def using live assms(3) by (auto simp: unexpired_rows intro!: find_filter)
  show "find (link_match e w p provider state) (oauth_requests t) = find (link_match e w p provider state) (oauth_requests s)"
    unfolding t cut_def using live assms(3)
    by (auto simp: unexpired_rows link_match_def intro!: find_filter dest: wf_oauth_target [OF assms(1)])
qed

text \<open>An open process is kept with everything it needs to go on.\<close>

lemma cleanup_process:
  assumes "wf_db s" "Cleanup e v s = (Inr (), t)" "ev_now v \<le> ev_now w"
    and "auth_row_of aid s = Some r" "ev_now w < aut_expiry r" "session_current (ev_now w) r s"
  shows "auth_row_of aid t = Some r" "step_row_of cid aid t = step_row_of cid aid s"
    "find (\<lambda>q. reg_auth q = aid) (registrations t) = find (\<lambda>q. reg_auth q = aid) (registrations s)"
    "step_row_of cid aid s = Some c \<Longrightarrow>
       find (\<lambda>q. est_id q = cid) (email_authentication_steps t) = find (\<lambda>q. est_id q = cid) (email_authentication_steps s) \<and>
       find (\<lambda>q. pst_id q = cid) (passkey_authentication_steps t) = find (\<lambda>q. pst_id q = cid) (passkey_authentication_steps s) \<and>
       find (\<lambda>q. gst_id q = cid) (google_authentication_steps t) = find (\<lambda>q. gst_id q = cid) (google_authentication_steps s) \<and>
       find (oauth_match e w cid flow proof) (oauth_requests t) = find (oauth_match e w cid flow proof) (oauth_requests s)"
proof -
  let ?S = "\<lambda>x. ses_expiry x < ev_now v" and ?A = "stale_auth (ev_now v) (ev_now v - ReuseTTL e)"
  note t = cleanup_cut [OF assms(2)]
  have r: "aut_id r = aid" "r \<in> set (authentications s)" using auth_row_of_id [OF assms(4)] by simp_all
  have "\<not> ?A r" using assms(3,5) by (simp add: stale_auth_def)
  then have auth: "\<not> cut_auth ?S ?A s r" by (rule current_not_cut [OF assms(1,6,3)])
  then have process: "\<not> cut_process ?S ?A s aid" using process_not_cut [OF assms(1) r(2)] r(1) by blast
  show "auth_row_of aid t = Some r"
    using assms(4) auth find_delete_Some [of _ _ r "cut_auth ?S ?A s"] by (simp add: t auth_row_of_def cut_def unexpired_rows delete_rows_def)
  show "step_row_of cid aid t = step_row_of cid aid s"
    unfolding step_row_of_def t cut_def using process by (auto simp: unexpired_rows intro!: find_filter)
  show "find (\<lambda>q. reg_auth q = aid) (registrations t) = find (\<lambda>q. reg_auth q = aid) (registrations s)"
    unfolding t cut_def using process by (auto simp: unexpired_rows intro!: find_filter)
  assume "step_row_of cid aid s = Some c"
  then have step: "\<not> cut_step ?S ?A s cid" using step_not_cut [OF assms(1) _ process] by blast
  show "find (\<lambda>q. est_id q = cid) (email_authentication_steps t) = find (\<lambda>q. est_id q = cid) (email_authentication_steps s) \<and>
       find (\<lambda>q. pst_id q = cid) (passkey_authentication_steps t) = find (\<lambda>q. pst_id q = cid) (passkey_authentication_steps s) \<and>
       find (\<lambda>q. gst_id q = cid) (google_authentication_steps t) = find (\<lambda>q. gst_id q = cid) (google_authentication_steps s) \<and>
       find (oauth_match e w cid flow proof) (oauth_requests t) = find (oauth_match e w cid flow proof) (oauth_requests s)"
    unfolding t cut_def using step assms(3)
    by (auto simp: unexpired_rows oauth_match_def intro!: find_filter dest: wf_oauth_target [OF assms(1)])
qed

text \<open>Tokens that are looked up under their own expiry.\<close>

lemma cleanup_tokens:
  assumes "Cleanup e v s = (Inr (), t)" "ev_now v \<le> ev_now w"
  shows "live_principal (ev_now w) p t = live_principal (ev_now w) p s"
    "refresh_row e w sid refresh t = refresh_row e w sid refresh s"
    "find (reset_match e w token) (password_reset_requests t) = find (reset_match e w token) (password_reset_requests s)"
    "email_change_row_of e w token t = email_change_row_of e w token s"
  unfolding cleanup_cut [OF assms(1)] cut_def live_principal_def refresh_row_def email_change_row_of_def using assms(2)
  by (auto simp: unexpired_rows exists_row_iff reset_match_def intro!: find_filter)

lemma cleanup_grant:
  assumes "wf_db s" "Cleanup e v s = (Inr (), t)" "ev_now v \<le> ev_now w"
    and "grant_row e w g purpose s = Some r" "session_current (ev_now w) r s"
  shows "grant_row e w g purpose t = Some r"
proof -
  let ?S = "\<lambda>x. ses_expiry x < ev_now v" and ?A = "stale_auth (ev_now v) (ev_now v - ReuseTTL e)"
  have "\<not> ?A r" using grant_row_D [OF assms(4)] assms(3) by (auto simp: stale_auth_def split: option.splits)
  then have "\<not> cut_auth ?S ?A s r" by (rule current_not_cut [OF assms(1,5,3)])
  then show ?thesis
    using find_delete_Some [OF assms(4) [unfolded grant_row_def], of "cut_auth ?S ?A s"]
    by (simp add: cleanup_cut [OF assms(2)] grant_row_def cut_def unexpired_rows delete_rows_def)
qed

text \<open>
  C32: Cleanup takes away what has lapsed, and nothing that is still valid. The accounts,
  identities, passkeys, TOTP secrets, backup codes, deletion requests and the outbox are as
  before. At its own or any later time: the same principals are alive; a refresh token, a reset
  link and an email link find the same row or none as before; a live principal finds the same
  pending TOTP activation, passkey registration and linking of an identity; a grant that
  would have been found still is, and a process that has not expired is found with its
  steps, its kept registration, the codes and challenges of its steps and their OAuth
  requests, in both cases if the process is bound to no session or to an unexpired one. No
  session and no request that had expired is left, nor a process that has expired, has no
  usable grant and was completed, if ever, before the reuse window. (An expired request for a
  change of address does show before it is cleaned up: see \<open>email_change_blocked\<close>.)
\<close>

theorem cleanup_removes_lapsed:
  assumes "wf_db s" "Cleanup e v s = (Inr (), t)" "ev_now v \<le> ev_now w"
  shows "accounts t = accounts s \<and> identities t = identities s \<and> passkeys t = passkeys s \<and> passkey_transports t = passkey_transports s \<and>
     totp t = totp s \<and> backup_codes t = backup_codes s \<and> account_deletion_requests t = account_deletion_requests s \<and> outbox t = outbox s \<and>
     live_principal (ev_now w) p t = live_principal (ev_now w) p s \<and>
     refresh_row e w sid refresh t = refresh_row e w sid refresh s \<and>
     find (reset_match e w token) (password_reset_requests t) = find (reset_match e w token) (password_reset_requests s) \<and>
     email_change_row_of e w token t = email_change_row_of e w token s \<and>
     (live_principal (ev_now w) p s \<longrightarrow> activation_row w p t = activation_row w p s \<and> passkey_request_of w p k t = passkey_request_of w p k s \<and>
        find (link_match e w p provider state) (oauth_requests t) = find (link_match e w p provider state) (oauth_requests s)) \<and>
     (\<forall>r. grant_row e w g purpose s = Some r \<and> session_current (ev_now w) r s \<longrightarrow> grant_row e w g purpose t = Some r) \<and>
     (\<forall>r. auth_row_of aid s = Some r \<and> ev_now w < aut_expiry r \<and> session_current (ev_now w) r s \<longrightarrow>
        auth_row_of aid t = Some r \<and> step_row_of cid aid t = step_row_of cid aid s \<and>
        find (\<lambda>q. reg_auth q = aid) (registrations t) = find (\<lambda>q. reg_auth q = aid) (registrations s) \<and>
        (step_row_of cid aid s \<noteq> None \<longrightarrow>
          find (\<lambda>q. est_id q = cid) (email_authentication_steps t) = find (\<lambda>q. est_id q = cid) (email_authentication_steps s) \<and>
          find (\<lambda>q. pst_id q = cid) (passkey_authentication_steps t) = find (\<lambda>q. pst_id q = cid) (passkey_authentication_steps s) \<and>
          find (\<lambda>q. gst_id q = cid) (google_authentication_steps t) = find (\<lambda>q. gst_id q = cid) (google_authentication_steps s) \<and>
          find (oauth_match e w cid flow proof) (oauth_requests t) = find (oauth_match e w cid flow proof) (oauth_requests s))) \<and>
     (\<forall>x \<in> set (sessions t). ev_now v \<le> ses_expiry x) \<and> (\<forall>x \<in> set (password_reset_requests t). ev_now v \<le> rst_expiry x) \<and>
     (\<forall>x \<in> set (email_change_requests t). ev_now v \<le> emc_expiry x) \<and> (\<forall>x \<in> set (oauth_requests t). ev_now v \<le> oar_expiry x) \<and>
     (\<forall>x \<in> set (totp_activation_requests t). ev_now v \<le> ttr_expiry x) \<and>
     (\<forall>x \<in> set (passkey_registration_requests t). ev_now v \<le> pkr_expiry x) \<and>
     (\<forall>r \<in> set (authentications t). \<not> stale_auth (ev_now v) (ev_now v - ReuseTTL e) r)"
proof -
  have rows: "accounts t = accounts s" "identities t = identities s" "passkeys t = passkeys s" "passkey_transports t = passkey_transports s"
      "totp t = totp s" "backup_codes t = backup_codes s" "account_deletion_requests t = account_deletion_requests s" "outbox t = outbox s"
    by (simp_all add: cleanup_cut [OF assms(2)] cut_def unexpired_rows)
  have gone: "\<forall>x \<in> set (sessions t). ev_now v \<le> ses_expiry x" "\<forall>x \<in> set (password_reset_requests t). ev_now v \<le> rst_expiry x"
      "\<forall>x \<in> set (email_change_requests t). ev_now v \<le> emc_expiry x" "\<forall>x \<in> set (oauth_requests t). ev_now v \<le> oar_expiry x"
      "\<forall>x \<in> set (totp_activation_requests t). ev_now v \<le> ttr_expiry x"
      "\<forall>x \<in> set (passkey_registration_requests t). ev_now v \<le> pkr_expiry x"
      "\<forall>r \<in> set (authentications t). \<not> stale_auth (ev_now v) (ev_now v - ReuseTTL e) r"
    by (auto simp: cleanup_cut [OF assms(2)] cut_def cut_auth_def unexpired_rows)
  have step: "find (\<lambda>q. est_id q = cid) (email_authentication_steps t) = find (\<lambda>q. est_id q = cid) (email_authentication_steps s)"
      "find (\<lambda>q. pst_id q = cid) (passkey_authentication_steps t) = find (\<lambda>q. pst_id q = cid) (passkey_authentication_steps s)"
      "find (\<lambda>q. gst_id q = cid) (google_authentication_steps t) = find (\<lambda>q. gst_id q = cid) (google_authentication_steps s)"
      "find (oauth_match e w cid flow proof) (oauth_requests t) = find (oauth_match e w cid flow proof) (oauth_requests s)"
    if "auth_row_of aid s = Some r \<and> ev_now w < aut_expiry r \<and> session_current (ev_now w) r s" "step_row_of cid aid s \<noteq> None" for r
    using that cleanup_process(4) [OF assms] by auto
  show ?thesis
    by (intro conjI allI impI; (elim conjE)?;
        (rule rows gone cleanup_tokens [OF assms(2,3)] cleanup_live [OF assms] cleanup_grant [OF assms] cleanup_process(1-3) [OF assms];
          assumption)?)
      (blast intro: step)+
qed

lemma demo_cleaned: "\<not> isl (fst (Cleanup demo_engine (demo_env 1 2) demo_reset))"
  by (simp add: run_defs tx_simps cong: tx_weak)

theorem cleanup_removes_lapsed_witness:
  "find (reset_match demo_engine (demo_env 1 2) ''r'') (password_reset_requests (snd (Cleanup demo_engine (demo_env 1 2) demo_reset))) =
   find (reset_match demo_engine (demo_env 1 2) ''r'') (password_reset_requests demo_reset)"
proof -
  have "Cleanup demo_engine (demo_env 1 2) demo_reset = (Inr (), snd (Cleanup demo_engine (demo_env 1 2) demo_reset))"
    using answered [OF demo_cleaned] by simp
  from cleanup_removes_lapsed [OF demo_reset_wf this, of "demo_env 1 2"] show ?thesis by blast
qed

text \<open>
  A change of address is only started when no request for one is stored, expired or not: until
  the next cleanup an expired request makes it fail.
\<close>

lemma email_change_blocked:
  assumes "ChangeEmail e v who grant email base s = (Inr x, t)"
  shows "\<not> exists_row (\<lambda>r. emc_account r = who_AccountID who) (email_change_requests s)"
  using assms
  by (auto simp: ChangeEmail_def Let_def change_email_tx_def tx_inv ConsumeGrant_success update_auths_def insert_email_change_def
      email_change_unique_def exists_row_iff split: if_splits dest!: committed)

end
