(* ===== verification/Auth_Enrolment.thy ===== *)
theory Auth_Enrolment
  imports Auth_Tokens Auth_Examples
begin

section \<open>Sealed secrets\<close>

text \<open>
  Secrets at rest: what \<open>Encrypt\<close> stores is what \<open>Decrypt\<close> gives back, and with it the secret
  a two-factor enrolment shows is the one its confirmation and every later code are judged by.
\<close>

text \<open>What AES-GCM promises of the two functions of the cipher: opening undoes sealing, under the same key, nonce and context.\<close>

definition opens_sealed :: "crypto \<Rightarrow> bool" where
  "opens_sealed cr \<longleftrightarrow> (\<forall>key nonce plain context. aead_open cr key nonce (aead_seal cr key nonce plain context) context = Some plain)"

lemma Decrypt_Encrypt:
  "opens_sealed cr \<Longrightarrow> length nonce = NonceSize \<Longrightarrow> Decrypt cr s (Encrypt cr s nonce value context) context = Inr value"
  by (simp add: Decrypt_def Encrypt_def opens_sealed_def)

lemma e_decrypt_encrypt:
  assumes "opens_sealed (lib_crypto (Libs e))" "\<And>nonce. ev_nonce v = Some nonce \<Longrightarrow> length nonce = NonceSize"
    "e_encrypt e v value context = Inr sealed"
  shows "e_decrypt e sealed context = Inr value"
  using assms by (auto simp: e_encrypt_def e_decrypt_def Decrypt_Encrypt split: option.splits)

lemma totpStep_current:
  assumes "0 \<le> Unix now sdiv 30"
  shows "totpStep cr secret (totp_code cr secret (Unix now sdiv 30)) now (- 1) = Some (Unix now sdiv 30)"
  using assms totp_code_shape [of cr secret "Unix now sdiv 30"] by (simp add: totpStep_def Let_def)

lemma Unix_sdiv: "0 \<le> now \<Longrightarrow> 0 \<le> Unix now sdiv 30"
  by (simp add: Unix_def Second_def signed_divide_int_def sgn_if pos_imp_zdiv_nonneg_iff)

lemma upsert_totp_request_find:
  assumes "upsert_totp_request r s = Inr t" "ttr_expiry r > now"
  shows "find (\<lambda>q. ttr_account q = ttr_account r \<and> ttr_session q = ttr_session r \<and> ttr_expiry q > now) (totp_activation_requests t) = Some r"
proof (cases "exists_row (\<lambda>q. ttr_account q = ttr_account r) (totp_activation_requests s)")
  case True
  then have t: "totp_activation_requests t = update_rows (\<lambda>q. ttr_account q = ttr_account r)
      (\<lambda>q. q\<lparr>ttr_session := ttr_session r, ttr_secret := ttr_secret r, ttr_expiry := ttr_expiry r\<rparr>) (totp_activation_requests s)"
    using assms(1) by (auto simp: upsert_totp_request_def split: if_splits)
  have "find (\<lambda>q. ttr_account q = ttr_account r \<and> ttr_session q = ttr_session r \<and> ttr_expiry q > now)
      (update_rows (\<lambda>q. ttr_account q = ttr_account r)
        (\<lambda>q. q\<lparr>ttr_session := ttr_session r, ttr_secret := ttr_secret r, ttr_expiry := ttr_expiry r\<rparr>) rows) = Some r"
    if "exists_row (\<lambda>q. ttr_account q = ttr_account r) rows" for rows
    using that assms(2) by (induction rows) (auto simp: update_rows_def exists_row_iff)
  then show ?thesis using True unfolding t by blast
next
  case False
  then have t: "totp_activation_requests t = totp_activation_requests s @ [r]"
    using assms(1) by (auto simp: upsert_totp_request_def insert_row_def split: if_splits)
  have "find (\<lambda>q. ttr_account q = ttr_account r \<and> ttr_session q = ttr_session r \<and> ttr_expiry q > now) (rows @ [r]) = Some r"
    if "\<not> exists_row (\<lambda>q. ttr_account q = ttr_account r) rows" for rows
    using that assms(2) by (induction rows) (auto simp: exists_row_iff)
  then show ?thesis using False unfolding t by blast
qed

text \<open>
  C37: The secret shown at enrolment is the one stored. After two-factor enrolment has been
  started, and until its five minutes are over, the request of that account and session is
  found, its sealed secret opens under the account's context, the text shown is the base-32
  form of exactly this secret, and its code of the current half minute is accepted. The
  cipher is assumed to open what it has sealed, with nonces of its size.
\<close>

theorem totp_enrolment_roundtrip:
  assumes "opens_sealed (lib_crypto (Libs e))" "\<forall>nonce. ev_nonce v = Some nonce \<longrightarrow> length nonce = NonceSize"
    "StartTotp e v who grant s = (Inr act, t)" "ev_now w < ev_now v + 5 * Minute" "0 \<le> ev_now w"
  shows "\<exists>r secret. activation_row w who t = Some r \<and> e_decrypt e (ttr_secret r) (e_uuid e (who_AccountID who)) = Inr secret \<and>
     tac_Secret act = Base32 secret \<and> uri_Secret (tac_URI act) = Base32 secret \<and>
     totpStep (lib_crypto (Libs e)) secret (totp_code (lib_crypto (Libs e)) secret (Unix (ev_now w) sdiv 30)) (ev_now w) (- 1)
       = Some (Unix (ev_now w) sdiv 30)"
proof -
  obtain secret sealed u where secret: "e_encrypt e v secret (e_uuid e (who_AccountID who)) = Inr sealed"
    and up: "upsert_totp_request \<lparr>ttr_account = who_AccountID who, ttr_session = who_SessionID who, ttr_secret = sealed,
        ttr_expiry = ev_now v + 5 * Minute\<rparr> u = Inr t"
    and act: "tac_Secret act = Base32 secret" "uri_Secret (tac_URI act) = Base32 secret"
    using assms(3) by (auto simp: StartTotp_def start_totp_tx_def tx_inv dest!: committed)
  have "activation_row w who t = Some \<lparr>ttr_account = who_AccountID who, ttr_session = who_SessionID who, ttr_secret = sealed,
      ttr_expiry = ev_now v + 5 * Minute\<rparr>"
    using upsert_totp_request_find [OF up, of "ev_now w"] assms(4) by (simp add: activation_row_def)
  moreover have "e_decrypt e sealed (e_uuid e (who_AccountID who)) = Inr secret"
    using assms(1,2) secret by (intro e_decrypt_encrypt) auto
  ultimately show ?thesis using act totpStep_current [OF Unix_sdiv [OF assms(5)]] by auto
qed

lemma demo_opens: "opens_sealed (lib_crypto (Libs demo_engine))"
  by (simp add: opens_sealed_def run_defs)

lemma demo_enrolled: "\<not> isl (fst (StartTotp demo_engine (demo_env 0 1) demo_who ''g'' (demo_grant_db ''totpEnrollment'' (Some 1))))"
  by (simp add: run_defs tx_simps StartTotp_def start_totp_tx_def Let_def cong: tx_weak)

theorem totp_enrolment_roundtrip_witness:
  "\<exists>r. activation_row (demo_env 60 2) demo_who
     (snd (StartTotp demo_engine (demo_env 0 1) demo_who ''g'' (demo_grant_db ''totpEnrollment'' (Some 1)))) = Some r"
proof -
  have "\<forall>nonce. ev_nonce (demo_env 0 1) = Some nonce \<longrightarrow> length nonce = NonceSize" by (simp add: demo_env_def NonceSize_def)
  from totp_enrolment_roundtrip [OF demo_opens this answered [OF demo_enrolled], of "demo_env 60 2"] show ?thesis
    by (auto simp: demo_env_def Minute_def Second_def)
qed

end
