(* ===== verification/Auth_LegacyRepo.thy ===== *)
theory Auth_LegacyRepo
  imports Auth_Secrets
begin

section \<open>The former repository\<close>

text \<open>
  \<open>internal/entity\<close> and \<open>internal/repository/postgres\<close>: the tables of \<open>migrations/sql\<close> and the
  repository the former services are written against. The state is one record of tables, a
  table a list of rows. An operation is a state function that answers with a value or one of
  the errors of \<open>internal/entity/fail\<close>; a transaction keeps the old state when it fails. What
  a call meets is its argument of type \<open>call_env\<close>: the clocks, the random draws and the point
  where the database fails, the start of the transaction, the \<open>k\<close>-th statement or the
  commit. Column lengths are not modelled.
\<close>

subsection \<open>Entities\<close>

datatype lfail =
    GrpcUnknown | GrpcInvalidBody | GrpcNotFound | GrpcUnableCreateProfile
  | GrpcInvalidEmail | GrpcPasswordTooShort | GrpcPasswordTooLong | GrpcPasswordForbiddenSymbols
  | GrpcPasswordNoLower | GrpcPasswordNoUpper | GrpcPasswordNoNumber
  | GrpcProfileNotActivated | GrpcInvalidActivationCode | GrpcInvalidCredentials
  | GrpcFewSignInMethods | GrpcInvalidCode | GrpcAccountOccupied | GrpcEmailRequired
  | GrpcProfileIsBlocked | GrpcInvalidRefreshToken | GrpcReauthentication | GrpcAccountDeleting
  | GrpcDeletionExpired | GrpcDeletionNotFound | GrpcUserNotFound | GrpcActivationLinkNotFound
  | GrpcInvalidResetPasswordCode
  | GrpcUsernameTooShort | GrpcUsernameTooLong | GrpcUsernameId | GrpcUsernameStartLetter | GrpcUsernameEndLetter
  | GrpcUsernameForbiddenSymbols | GrpcUsernameForbiddenWord | GrpcUsernameDoubleUnderscore | GrpcUsernameOccupied
  | GrpcConflict string | GrpcUnavailable string | PlainError string

record lg_OAuth =
  lgo_GoogleId :: "string option"
  lgo_VkId :: "int option"

record lg_AuthInfo =
  lgi_Id :: uuid
  lgi_Email :: string
  lgi_Username :: "string option"
  lgi_PasswordHash :: string
  lgi_Role :: string
  lgi_Registration :: time
  lgi_IsActivated :: bool
  lgi_IsBlocked :: bool
  lgi_DeletionTimestamp :: "time option"
  lgi_DeleteSharedData :: bool
  lgi_OAuth :: lg_OAuth

record CredentialsHash =
  crh_Id :: "uuid option"
  crh_Email :: string
  crh_PasswordHash :: "string option"

record UserIdentifiers =
  uid_UserId :: "uuid option"
  uid_Email :: "string option"
  uid_Username :: "string option"

record SessionInput =
  sin_UserId :: uuid
  sin_RefreshToken :: string
  sin_Ip :: string
  sin_UserAgent :: string
  sin_ExpiresAt :: time

record SessionRawInfo =
  sri_SessionId :: int
  sri_UserId :: uuid
  sri_Ip :: string
  sri_UserAgent :: string
  sri_AccessTime :: time

record DeleteProfileRequest =
  dpr_UserId :: uuid
  dpr_WithSharedData :: bool
  dpr_Timestamp :: time

record EmailBinding =
  ebn_UserId :: uuid
  ebn_Purpose :: string
  ebn_Stage :: string
  ebn_OldEmail :: string
  ebn_Email :: string
  ebn_Token :: string
  ebn_LinkPattern :: string
  ebn_PasswordHash :: "string option"
  ebn_ExpiresAt :: time

record EmailDelivery =
  edl_UserId :: uuid
  edl_Email :: string
  edl_Token :: string
  edl_LinkPattern :: string
  edl_Purpose :: string
  edl_Stage :: string

text \<open>The bodies of \<open>api/mq\<close>, kept structured, and the message that carries one.\<close>

datatype lg_body = MsgBodyProfileCreated uuid | MsgBodyProfileFirebaseImport uuid string | MsgBodyProfileDeleted uuid bool

record MessageData =
  msd_Id :: uuid
  msd_Exchange :: string
  msd_Type :: string
  msd_Body :: lg_body

definition ExchangeProfiles :: string where
  "ExchangeProfiles = ''auth.profiles''"

definition profile_message :: "uuid \<Rightarrow> lg_body \<Rightarrow> MessageData" where
  "profile_message i body = \<lparr>msd_Id = i, msd_Exchange = ExchangeProfiles,
     msd_Type = (case body of MsgBodyProfileCreated _ \<Rightarrow> ''profile.created''
       | MsgBodyProfileFirebaseImport _ _ \<Rightarrow> ''profile.firebase.import'' | MsgBodyProfileDeleted _ _ \<Rightarrow> ''profile.deleted''),
     msd_Body = body\<rparr>"

subsection \<open>Tables\<close>

record lg_user =
  usr_id :: uuid
  usr_email :: string
  usr_username :: "string option"
  usr_password :: "string option"
  usr_role :: string
  usr_registered :: time
  usr_activated :: bool
  usr_blocked :: bool

record lg_code =
  lgc_user :: uuid
  lgc_code :: string

record lg_session =
  lgs_id :: int
  lgs_user :: uuid
  lgs_refresh :: string
  lgs_ip :: string
  lgs_agent :: string
  lgs_access :: time
  lgs_expires :: time
  lgs_created :: time

record lg_reset =
  lgr_user :: uuid
  lgr_code :: string
  lgr_used :: bool
  lgr_expires :: time

record lg_oauth =
  lga_user :: uuid
  lga_google :: "string option"
  lga_vk :: "int option"

record lg_firebase =
  lgf_user :: uuid
  lgf_id :: string

record lg_deletion =
  lgd_user :: uuid
  lgd_shared :: bool
  lgd_at :: time

record lg_state =
  lgt_hash :: string
  lgt_provider :: string
  lgt_redirect :: string
  lgt_binding :: string
  lgt_expires :: time

record lg_binding =
  lgb_hash :: string
  lgb_user :: uuid
  lgb_purpose :: string
  lgb_stage :: string
  lgb_old :: string
  lgb_email :: string
  lgb_password :: "string option"
  lgb_expires :: time

record lg_delivery =
  lgv_id :: int
  lgv_mail :: EmailDelivery
  lgv_expires :: time
  lgv_next :: time
  lgv_attempts :: int

record lg_proof =
  lgp_hash :: string
  lgp_user :: uuid
  lgp_expires :: time

record legacy_db =
  lg_users :: "lg_user list"
  lg_codes :: "lg_code list"
  lg_sessions :: "lg_session list"
  lg_resets :: "lg_reset list"
  lg_oauths :: "lg_oauth list"
  lg_firebases :: "lg_firebase list"
  lg_deletions :: "lg_deletion list"
  lg_states :: "lg_state list"
  lg_bindings :: "lg_binding list"
  lg_deliveries :: "lg_delivery list"
  lg_proofs :: "lg_proof list"
  lg_outbox :: "MessageData list"
  lg_next_session :: int
  lg_next_delivery :: int

subsection \<open>Calls\<close>

datatype fault = Fine | BeginFault | StatementFault nat | CommitFault

record call_env =
  cl_fault :: fault
  cl_now :: time
  cl_dbnow :: time
  cl_uuid :: "nat \<Rightarrow> uuid"
  cl_token :: "string option"

record Repository =
  rep_crypto :: crypto
  rep_uuid_String :: "uuid \<Rightarrow> string"
  rep_cidr :: "string \<Rightarrow> string option"
  rep_Offset :: duration

type_synonym ('s, 'a) fallible = "'s \<Rightarrow> (lfail + 'a) \<times> 's"
type_synonym 'a repo = "(legacy_db, 'a) fallible"

definition lg_return :: "'a \<Rightarrow> ('s, 'a) fallible" where
  "lg_return x s = (Inr x, s)"

definition lg_fail :: "lfail \<Rightarrow> ('s, 'a) fallible" where
  "lg_fail err s = (Inl err, s)"

definition lg_bind :: "('s, 'a) fallible \<Rightarrow> ('a \<Rightarrow> ('s, 'b) fallible) \<Rightarrow> ('s, 'b) fallible" where
  "lg_bind m f s = (case m s of (Inl err, t) \<Rightarrow> (Inl err, t) | (Inr x, t) \<Rightarrow> f x t)"

definition lg_then :: "('s, unit) fallible \<Rightarrow> ('s, 'a) fallible \<Rightarrow> ('s, 'a) fallible" where
  "lg_then m n = lg_bind m (\<lambda>_. n)"

definition lg_catch :: "('s, 'a) fallible \<Rightarrow> (lfail \<Rightarrow> ('s, 'a) fallible) \<Rightarrow> ('s, 'a) fallible" where
  "lg_catch m h s = (case m s of (Inl err, t) \<Rightarrow> h err t | (Inr x, t) \<Rightarrow> (Inr x, t))"

definition lg_read :: "('s \<Rightarrow> 'a) \<Rightarrow> ('s, 'a) fallible" where
  "lg_read f s = (Inr (f s), s)"

definition lg_row :: "('s \<Rightarrow> 'a option) \<Rightarrow> lfail \<Rightarrow> ('s, 'a) fallible" where
  "lg_row f err s = (case f s of None \<Rightarrow> (Inl err, s) | Some x \<Rightarrow> (Inr x, s))"

definition lg_guard :: "bool \<Rightarrow> lfail \<Rightarrow> ('s, unit) fallible" where
  "lg_guard b err s = (if b then Inr () else Inl err, s)"

definition lg_exec :: "('s \<Rightarrow> 's) \<Rightarrow> ('s, unit) fallible" where
  "lg_exec f s = (Inr (), f s)"

text \<open>The \<open>k\<close>-th statement of a call, failing with the error the code gives for it.\<close>

definition lg_stmt :: "call_env \<Rightarrow> nat \<Rightarrow> lfail \<Rightarrow> 'a repo \<Rightarrow> 'a repo" where
  "lg_stmt c k err m s = (if cl_fault c = StatementFault k then (Inl err, s) else m s)"

text \<open>
  A transaction: its body says with its value whether it ends in a commit. Without one, and
  after a failure, the deferred rollback leaves the old state.
\<close>

definition lg_tx :: "call_env \<Rightarrow> ('a \<times> bool) repo \<Rightarrow> 'a repo" where
  "lg_tx c m s =
     (if cl_fault c = BeginFault then (Inl GrpcUnknown, s)
      else case m s of
        (Inl err, _) \<Rightarrow> (Inl err, s)
      | (Inr (x, commits), t) \<Rightarrow>
          if \<not> commits then (Inr x, s)
          else if cl_fault c = CommitFault then (Inl GrpcUnknown, s) else (Inr x, t))"

definition lg_commit :: "'a \<Rightarrow> ('a \<times> bool) repo" where
  "lg_commit x = lg_return (x, True)"

definition lg_rollback :: "'a \<Rightarrow> ('a \<times> bool) repo" where
  "lg_rollback x = lg_return (x, False)"

subsection \<open>Users\<close>

definition user_of :: "uuid \<Rightarrow> legacy_db \<Rightarrow> lg_user option" where
  "user_of i s = find (\<lambda>u. usr_id u = i) (lg_users s)"

definition oauth_of :: "uuid \<Rightarrow> legacy_db \<Rightarrow> lg_oauth option" where
  "oauth_of i s = find (\<lambda>r. lga_user r = i) (lg_oauths s)"

definition lg_deletion_of :: "uuid \<Rightarrow> legacy_db \<Rightarrow> lg_deletion option" where
  "lg_deletion_of i s = find (\<lambda>r. lgd_user r = i) (lg_deletions s)"

definition lg_deleting :: "uuid \<Rightarrow> legacy_db \<Rightarrow> bool" where
  "lg_deleting i s = list_ex (\<lambda>r. lgd_user r = i) (lg_deletions s)"

text \<open>An insertion that violates a unique key or a reference fails like any other statement.\<close>

definition lg_insert_user :: "lg_user \<Rightarrow> lfail \<Rightarrow> unit repo" where
  "lg_insert_user r err s =
     (if list_ex (\<lambda>u. usr_id u = usr_id r \<or> usr_email u = usr_email r) (lg_users s) then (Inl err, s)
      else (Inr (), s\<lparr>lg_users := lg_users s @ [r]\<rparr>))"

definition lg_insert_oauth :: "lg_oauth \<Rightarrow> lfail \<Rightarrow> unit repo" where
  "lg_insert_oauth r err s =
     (if list_ex (\<lambda>q. lga_user q = lga_user r \<or> lga_google r \<noteq> None \<and> lga_google q = lga_google r \<or>
            lga_vk r \<noteq> None \<and> lga_vk q = lga_vk r) (lg_oauths s) \<or> user_of (lga_user r) s = None
      then (Inl err, s) else (Inr (), s\<lparr>lg_oauths := lg_oauths s @ [r]\<rparr>))"

definition lg_insert_code :: "lg_code \<Rightarrow> lfail \<Rightarrow> unit repo" where
  "lg_insert_code r err s =
     (if list_ex (\<lambda>q. lgc_user q = lgc_user r) (lg_codes s) \<or> user_of (lgc_user r) s = None
      then (Inl err, s) else (Inr (), s\<lparr>lg_codes := lg_codes s @ [r]\<rparr>))"

definition createOutboxMsg :: "call_env \<Rightarrow> nat \<Rightarrow> MessageData \<Rightarrow> unit repo" where
  "createOutboxMsg c k msg =
     lg_stmt c k GrpcUnknown (\<lambda>s.
       if list_ex (\<lambda>q. msd_Id q = msd_Id msg) (lg_outbox s) then (Inl GrpcUnknown, s)
       else (Inr (), s\<lparr>lg_outbox := lg_outbox s @ [msg]\<rparr>))"

definition lg_CreateUser :: "call_env \<Rightarrow> CredentialsHash \<Rightarrow> string option \<Rightarrow> lg_OAuth \<Rightarrow> (uuid \<times> MessageData) repo" where
  "lg_CreateUser c cred activationCode oauth =
     (let i = (case crh_Id cred of Some x \<Rightarrow> x | None \<Rightarrow> cl_uuid c 0);
          msg = profile_message (cl_uuid c 1) (MsgBodyProfileCreated i)
      in lg_tx c
        (lg_then (lg_stmt c 0 GrpcUnableCreateProfile (lg_insert_user
            \<lparr>usr_id = i, usr_email = crh_Email cred, usr_username = None, usr_password = crh_PasswordHash cred, usr_role = ''member'',
             usr_registered = cl_dbnow c, usr_activated = (activationCode = None), usr_blocked = False\<rparr> GrpcUnableCreateProfile))
          (lg_then (lg_stmt c 1 GrpcUnableCreateProfile (lg_insert_oauth
              \<lparr>lga_user = i, lga_google = lgo_GoogleId oauth, lga_vk = lgo_VkId oauth\<rparr> GrpcUnableCreateProfile))
            (lg_then (case activationCode of None \<Rightarrow> lg_return ()
                | Some code \<Rightarrow> lg_stmt c 2 GrpcUnableCreateProfile (lg_insert_code \<lparr>lgc_user = i, lgc_code = code\<rparr> GrpcUnableCreateProfile))
              (lg_then (createOutboxMsg c 3 msg) (lg_commit (i, msg)))))))"

definition lg_info_of :: "legacy_db \<Rightarrow> lg_user \<Rightarrow> lg_AuthInfo" where
  "lg_info_of s u =
     \<lparr>lgi_Id = usr_id u, lgi_Email = usr_email u, lgi_Username = usr_username u,
      lgi_PasswordHash = (case usr_password u of None \<Rightarrow> '''' | Some h \<Rightarrow> h), lgi_Role = usr_role u,
      lgi_Registration = usr_registered u, lgi_IsActivated = usr_activated u, lgi_IsBlocked = usr_blocked u,
      lgi_DeletionTimestamp = map_option lgd_at (lg_deletion_of (usr_id u) s),
      lgi_DeleteSharedData = (case lg_deletion_of (usr_id u) s of None \<Rightarrow> False | Some d \<Rightarrow> lgd_shared d),
      lgi_OAuth = (case oauth_of (usr_id u) s of None \<Rightarrow> \<lparr>lgo_GoogleId = None, lgo_VkId = None\<rparr>
        | Some r \<Rightarrow> \<lparr>lgo_GoogleId = lga_google r, lgo_VkId = lga_vk r\<rparr>)\<rparr>"

definition getAuthInfoByCondition :: "call_env \<Rightarrow> (lg_user \<Rightarrow> lg_oauth option \<Rightarrow> bool) \<Rightarrow> lg_AuthInfo repo" where
  "getAuthInfoByCondition c P =
     lg_stmt c 0 GrpcUnknown
       (lg_row (\<lambda>s. map_option (lg_info_of s) (find (\<lambda>u. P u (oauth_of (usr_id u) s)) (lg_users s))) GrpcUserNotFound)"

definition GetAuthInfoById :: "call_env \<Rightarrow> uuid \<Rightarrow> lg_AuthInfo repo" where
  "GetAuthInfoById c i = getAuthInfoByCondition c (\<lambda>u r. usr_id u = i)"

definition GetAuthInfoByEmail :: "call_env \<Rightarrow> string \<Rightarrow> lg_AuthInfo repo" where
  "GetAuthInfoByEmail c email = getAuthInfoByCondition c (\<lambda>u r. usr_email u = email)"

definition GetAuthInfoByUsername :: "call_env \<Rightarrow> string \<Rightarrow> lg_AuthInfo repo" where
  "GetAuthInfoByUsername c name = getAuthInfoByCondition c (\<lambda>u r. usr_username u = Some name)"

definition GetAuthInfoByGoogleId :: "call_env \<Rightarrow> string \<Rightarrow> lg_AuthInfo repo" where
  "GetAuthInfoByGoogleId c g = getAuthInfoByCondition c (\<lambda>u r. case r of None \<Rightarrow> False | Some q \<Rightarrow> lga_google q = Some g)"

definition GetAuthInfoByVkId :: "call_env \<Rightarrow> int \<Rightarrow> lg_AuthInfo repo" where
  "GetAuthInfoByVkId c v = getAuthInfoByCondition c (\<lambda>u r. case r of None \<Rightarrow> False | Some q \<Rightarrow> lga_vk q = Some v)"

text \<open>The three lookups, each tried when the one before has failed, with a fault per lookup.\<close>

definition GetAuthInfoByIdentifiers :: "(nat \<Rightarrow> call_env) \<Rightarrow> UserIdentifiers \<Rightarrow> lg_AuthInfo repo" where
  "GetAuthInfoByIdentifiers cs ids =
     lg_catch (lg_catch
       (case uid_UserId ids of None \<Rightarrow> lg_fail GrpcUserNotFound | Some i \<Rightarrow> GetAuthInfoById (cs 0) i)
       (\<lambda>err. case uid_Email ids of None \<Rightarrow> lg_fail err | Some email \<Rightarrow> GetAuthInfoByEmail (cs 1) email))
       (\<lambda>err. case uid_Username ids of None \<Rightarrow> lg_fail err | Some name \<Rightarrow> GetAuthInfoByUsername (cs 2) name)"

definition lg_delete_sessions :: "(lg_session \<Rightarrow> bool) \<Rightarrow> legacy_db \<Rightarrow> legacy_db" where
  "lg_delete_sessions D s = s\<lparr>lg_sessions := filter (\<lambda>r. \<not> D r) (lg_sessions s)\<rparr>"

definition lg_DeleteSession :: "call_env \<Rightarrow> string \<Rightarrow> unit repo" where
  "lg_DeleteSession c token = lg_stmt c 0 GrpcUnknown (lg_exec (lg_delete_sessions (\<lambda>r. lgs_refresh r = token)))"

definition GetAuthInfoByRefreshToken :: "(nat \<Rightarrow> call_env) \<Rightarrow> string \<Rightarrow> lg_AuthInfo repo" where
  "GetAuthInfoByRefreshToken cs token =
     lg_bind (lg_stmt (cs 0) 0 GrpcUnknown (lg_row (\<lambda>s. find (\<lambda>r. lgs_refresh r = token) (lg_sessions s)) GrpcInvalidRefreshToken)) (\<lambda>r.
       if lgs_expires r < cl_now (cs 0)
       then lg_then (lg_catch (lg_DeleteSession (cs 1) token) (\<lambda>_. lg_return ())) (lg_fail GrpcInvalidRefreshToken)
       else lg_catch (GetAuthInfoById (cs 1) (lgs_user r))
              (\<lambda>err. lg_fail (if err = GrpcUserNotFound then GrpcInvalidRefreshToken else err)))"

definition GetAuthInfoByFirebaseId :: "(nat \<Rightarrow> call_env) \<Rightarrow> string \<Rightarrow> lg_AuthInfo repo" where
  "GetAuthInfoByFirebaseId cs f =
     lg_bind (lg_stmt (cs 0) 0 GrpcUserNotFound (lg_row (\<lambda>s. find (\<lambda>r. lgf_id r = f) (lg_firebases s)) GrpcUserNotFound))
       (\<lambda>r. GetAuthInfoById (cs 1) (lgf_user r))"

text \<open>\<open>GetUsernames\<close> answers with a map, the last row of a user winning.\<close>

definition GetUsernames :: "call_env \<Rightarrow> uuid list \<Rightarrow> (uuid \<rightharpoonup> string) repo" where
  "GetUsernames c ids =
     lg_stmt c 0 GrpcNotFound (lg_read (\<lambda>s.
       foldl (\<lambda>m u. case usr_username u of None \<Rightarrow> m | Some n \<Rightarrow> m(usr_id u \<mapsto> n)) (\<lambda>_. None)
         (filter (\<lambda>u. usr_id u \<in> set ids) (lg_users s))))"

definition lg_update_users :: "(lg_user \<Rightarrow> bool) \<Rightarrow> (lg_user \<Rightarrow> lg_user) \<Rightarrow> legacy_db \<Rightarrow> legacy_db" where
  "lg_update_users P f s = s\<lparr>lg_users := map (\<lambda>u. if P u then f u else u) (lg_users s)\<rparr>"

definition lg_SetUsername :: "call_env \<Rightarrow> uuid \<Rightarrow> string \<Rightarrow> string repo" where
  "lg_SetUsername c i name =
     lg_stmt c 0 GrpcUnknown (\<lambda>s.
       case user_of i s of None \<Rightarrow> (Inl GrpcUnknown, s)
       | Some u \<Rightarrow>
           if list_ex (\<lambda>q. usr_id q \<noteq> i \<and> usr_username q = Some name) (lg_users s) then (Inl GrpcUsernameOccupied, s)
           else (Inr (usr_email u), lg_update_users (\<lambda>q. usr_id q = i) (\<lambda>q. q\<lparr>usr_username := Some name\<rparr>) s))"

subsection \<open>Sessions\<close>

definition lg_CreateSession :: "Repository \<Rightarrow> call_env \<Rightarrow> SessionInput \<Rightarrow> int repo" where
  "lg_CreateSession r c x =
     lg_stmt c 0 GrpcUnknown (\<lambda>s.
       case rep_cidr r (sin_Ip x) of None \<Rightarrow> (Inl GrpcUnknown, s)
       | Some ip \<Rightarrow>
           if list_ex (\<lambda>q. lgs_refresh q = sin_RefreshToken x) (lg_sessions s) \<or> user_of (sin_UserId x) s = None
           then (Inl GrpcUnknown, s\<lparr>lg_next_session := lg_next_session s + 1\<rparr>)
           else (Inr (lg_next_session s), s\<lparr>lg_next_session := lg_next_session s + 1,
             lg_sessions := lg_sessions s @ [\<lparr>lgs_id = lg_next_session s, lgs_user = sin_UserId x, lgs_refresh = sin_RefreshToken x,
               lgs_ip = ip, lgs_agent = sin_UserAgent x, lgs_access = cl_dbnow c, lgs_expires = sin_ExpiresAt x,
               lgs_created = cl_dbnow c\<rparr>]\<rparr>))"

definition raw_info :: "lg_session \<Rightarrow> SessionRawInfo" where
  "raw_info r = \<lparr>sri_SessionId = lgs_id r, sri_UserId = lgs_user r, sri_Ip = lgs_ip r, sri_UserAgent = lgs_agent r,
     sri_AccessTime = lgs_access r\<rparr>"

definition lg_GetSessions :: "call_env \<Rightarrow> uuid \<Rightarrow> SessionRawInfo list repo" where
  "lg_GetSessions c i =
     lg_stmt c 0 GrpcUnknown (lg_read (\<lambda>s. map raw_info (filter (\<lambda>r. lgs_user r = i \<and> lgs_expires r > cl_dbnow c) (lg_sessions s))))"

definition UpdateSession :: "Repository \<Rightarrow> call_env \<Rightarrow> SessionInput \<Rightarrow> string \<Rightarrow> int repo" where
  "UpdateSession r c x old =
     lg_stmt c 0 GrpcUnknown (\<lambda>s.
       case rep_cidr r (sin_Ip x) of None \<Rightarrow> (Inl GrpcUnknown, s)
       | Some ip \<Rightarrow>
           (case find (\<lambda>q. lgs_refresh q = old \<and> lgs_expires q > cl_dbnow c) (lg_sessions s) of
              None \<Rightarrow> (Inl GrpcInvalidRefreshToken, s)
            | Some q \<Rightarrow>
                if list_ex (\<lambda>p. lgs_id p \<noteq> lgs_id q \<and> lgs_refresh p = sin_RefreshToken x) (lg_sessions s) then (Inl GrpcUnknown, s)
                else (Inr (lgs_id q), s\<lparr>lg_sessions := map (\<lambda>p. if lgs_refresh p = old \<and> lgs_expires p > cl_dbnow c
                  then p\<lparr>lgs_refresh := sin_RefreshToken x, lgs_ip := ip, lgs_agent := sin_UserAgent x, lgs_access := cl_dbnow c,
                         lgs_expires := sin_ExpiresAt x\<rparr> else p) (lg_sessions s)\<rparr>)))"

definition lg_DeleteSessions :: "call_env \<Rightarrow> uuid \<Rightarrow> int list \<Rightarrow> unit repo" where
  "lg_DeleteSessions c i ids =
     lg_stmt c 0 GrpcUnknown (lg_exec (lg_delete_sessions (\<lambda>r. lgs_user r = i \<and> lgs_id r \<in> set ids)))"

definition DeleteAllSessions :: "call_env \<Rightarrow> uuid \<Rightarrow> unit repo" where
  "DeleteAllSessions c i = lg_stmt c 0 GrpcUnknown (lg_exec (lg_delete_sessions (\<lambda>r. lgs_user r = i)))"

text \<open>The newest sessions of a user by their creation; the failure of the statement is only logged.\<close>

definition newest_sessions :: "nat \<Rightarrow> uuid \<Rightarrow> legacy_db \<Rightarrow> int list" where
  "newest_sessions n i s = map lgs_id (take n (rev (sort_key lgs_created (rev (filter (\<lambda>r. lgs_user r = i) (lg_sessions s))))))"

definition DeleteOutdatedSessions :: "call_env \<Rightarrow> uuid \<Rightarrow> nat \<Rightarrow> legacy_db \<Rightarrow> legacy_db" where
  "DeleteOutdatedSessions c i n s =
     (if cl_fault c = StatementFault 0 then s
      else lg_delete_sessions (\<lambda>r. lgs_user r = i \<and> lgs_id r \<notin> set (newest_sessions n i s)) s)"

end
