(* ===== verification/Auth_LegacyFlows.thy ===== *)
theory Auth_LegacyFlows
  imports Auth_LegacyRepo
begin

section \<open>Flows of the former repository\<close>

text \<open>
  The second half of \<open>internal/repository/postgres\<close>: activation codes, password resets,
  provider identities, OAuth states and reauthentication proofs, Firebase links, the outbox,
  email bindings with their deliveries, and profile deletions.
\<close>

subsection \<open>Activation codes\<close>

definition GetProfileActivationCode :: "call_env \<Rightarrow> uuid \<Rightarrow> string repo" where
  "GetProfileActivationCode c i =
     lg_stmt c 0 GrpcActivationLinkNotFound
       (lg_row (\<lambda>s. map_option lgc_code (find (\<lambda>r. lgc_user r = i) (lg_codes s))) GrpcActivationLinkNotFound)"

definition lg_ActivateProfile :: "call_env \<Rightarrow> uuid \<Rightarrow> string \<Rightarrow> unit repo" where
  "lg_ActivateProfile c i code =
     lg_stmt c 0 GrpcInvalidActivationCode (\<lambda>s.
       if list_ex (\<lambda>r. lgc_user r = i \<and> lgc_code r = code) (lg_codes s) \<and> user_of i s \<noteq> None
       then (Inr (), lg_update_users (\<lambda>u. usr_id u = i) (\<lambda>u. u\<lparr>usr_activated := True\<rparr>) s)
       else (Inl GrpcInvalidActivationCode, s))"

subsection \<open>Passwords\<close>

definition removeOutdatedPasswordResetRequests :: "call_env \<Rightarrow> uuid \<Rightarrow> legacy_db \<Rightarrow> legacy_db" where
  "removeOutdatedPasswordResetRequests c i s =
     (if cl_fault c = StatementFault 0 then s
      else s\<lparr>lg_resets := filter (\<lambda>r. \<not> (lgr_user r = i \<and> \<not> lgr_used r \<and> lgr_expires r \<le> cl_now c)) (lg_resets s)\<rparr>)"

text \<open>
  An outstanding code is given again. The code is stored as the text of its identifier; the
  read of an outstanding one fails where that text is no identifier, which is not modelled.
\<close>

definition CreatePasswordResetRequest :: "Repository \<Rightarrow> call_env \<Rightarrow> uuid \<Rightarrow> time \<Rightarrow> string repo" where
  "CreatePasswordResetRequest r c i expiration =
     lg_then (lg_exec (removeOutdatedPasswordResetRequests c i))
       (lg_bind (lg_read (\<lambda>s. if cl_fault c = StatementFault 1 then None
                  else find (\<lambda>q. lgr_user q = i \<and> \<not> lgr_used q) (lg_resets s))) (\<lambda>existing.
         case existing of Some q \<Rightarrow> lg_return (lgr_code q)
         | None \<Rightarrow>
             lg_stmt c 2 GrpcUnknown (\<lambda>s.
               let code = rep_uuid_String r (cl_uuid c 0) in
               if list_ex (\<lambda>q. lgr_code q = code) (lg_resets s) \<or> user_of i s = None then (Inl GrpcUnknown, s)
               else (Inr code, s\<lparr>lg_resets := lg_resets s @
                 [\<lparr>lgr_user = i, lgr_code = code, lgr_used = False, lgr_expires = expiration\<rparr>]\<rparr>))))"

definition reset_valid :: "uuid \<Rightarrow> string \<Rightarrow> time \<Rightarrow> lg_reset \<Rightarrow> bool" where
  "reset_valid i code now q \<longleftrightarrow> lgr_user q = i \<and> lgr_code q = code \<and> \<not> lgr_used q \<and> lgr_expires q > now"

definition lg_ResetPassword :: "call_env \<Rightarrow> uuid \<Rightarrow> string \<Rightarrow> string \<Rightarrow> unit repo" where
  "lg_ResetPassword c i code hash =
     lg_tx c
       (lg_bind (lg_stmt c 0 GrpcUnknown (lg_row (user_of i) GrpcUnknown)) (\<lambda>u.
         lg_bind (lg_stmt c 1 GrpcUnknown (lg_read (\<lambda>s. list_ex (reset_valid i code (cl_dbnow c)) (lg_resets s)))) (\<lambda>valid.
           lg_then (lg_guard valid GrpcInvalidResetPasswordCode)
             (lg_then (lg_guard (\<not> usr_blocked u) GrpcProfileIsBlocked)
               (lg_bind (lg_stmt c 2 GrpcUnknown (lg_read (lg_deleting i))) (\<lambda>deleting.
                 lg_then (lg_guard (\<not> deleting) GrpcAccountDeleting)
                   (lg_bind (lg_stmt c 3 GrpcInvalidResetPasswordCode
                       (lg_read (\<lambda>s. list_ex (reset_valid i code (cl_now c)) (lg_resets s)))) (\<lambda>found.
                     lg_then (lg_guard found GrpcInvalidResetPasswordCode)
                       (lg_then (lg_exec (\<lambda>s. s\<lparr>lg_resets :=
                            map (\<lambda>q. if reset_valid i code (cl_now c) q then q\<lparr>lgr_used := True\<rparr> else q) (lg_resets s)\<rparr>))
                         (lg_then (lg_stmt c 4 GrpcUnknown
                             (lg_exec (lg_update_users (\<lambda>q. usr_id q = i) (\<lambda>q. q\<lparr>usr_password := Some hash\<rparr>))))
                           (lg_commit ())))))))))))"

definition lg_SetPassword :: "call_env \<Rightarrow> uuid \<Rightarrow> string \<Rightarrow> unit repo" where
  "lg_SetPassword c i hash =
     lg_stmt c 0 GrpcUnknown (\<lambda>s.
       case user_of i s of None \<Rightarrow> (Inl GrpcUnknown, s)
       | Some u \<Rightarrow> (Inr (), lg_update_users (\<lambda>q. usr_id q = i) (\<lambda>q. q\<lparr>usr_password := Some hash\<rparr>) s))"

definition GetPasswordResetUser :: "call_env \<Rightarrow> string \<Rightarrow> uuid repo" where
  "GetPasswordResetUser c token =
     lg_stmt c 0 GrpcUnknown
       (lg_row (\<lambda>s. map_option lgr_user (find (\<lambda>q. lgr_code q = token \<and> \<not> lgr_used q \<and> lgr_expires q > cl_dbnow c) (lg_resets s)))
         GrpcInvalidResetPasswordCode)"

subsection \<open>Provider identities\<close>

datatype identity_column = GoogleColumn string | VkColumn int

definition column_value :: "identity_column \<Rightarrow> lg_oauth \<Rightarrow> identity_column option" where
  "column_value col r = (case col of GoogleColumn _ \<Rightarrow> map_option GoogleColumn (lga_google r) | VkColumn _ \<Rightarrow> map_option VkColumn (lga_vk r))"

definition set_column :: "identity_column \<Rightarrow> lg_oauth \<Rightarrow> lg_oauth" where
  "set_column col r = (case col of GoogleColumn g \<Rightarrow> r\<lparr>lga_google := Some g\<rparr> | VkColumn v \<Rightarrow> r\<lparr>lga_vk := Some v\<rparr>)"

definition lg_update_oauths :: "uuid \<Rightarrow> (lg_oauth \<Rightarrow> lg_oauth) \<Rightarrow> legacy_db \<Rightarrow> legacy_db" where
  "lg_update_oauths i f s = s\<lparr>lg_oauths := map (\<lambda>r. if lga_user r = i then f r else r) (lg_oauths s)\<rparr>"

text \<open>The checks both start with: the user is there, not blocked and not about to be deleted.\<close>

definition lg_usable :: "call_env \<Rightarrow> uuid \<Rightarrow> lg_user repo" where
  "lg_usable c i =
     lg_bind (lg_stmt c 0 GrpcUnknown (lg_row (user_of i) GrpcUnknown)) (\<lambda>u.
       lg_then (lg_guard (\<not> usr_blocked u) GrpcProfileIsBlocked)
         (lg_bind (lg_stmt c 1 GrpcUnknown (lg_read (lg_deleting i))) (\<lambda>deleting.
           lg_then (lg_guard (\<not> deleting) GrpcAccountDeleting) (lg_return u))))"

definition connectIdentity :: "call_env \<Rightarrow> uuid \<Rightarrow> identity_column \<Rightarrow> bool repo" where
  "connectIdentity c i value =
     lg_tx c
       (lg_bind (lg_usable c i) (\<lambda>u.
         lg_bind (lg_stmt c 2 GrpcUnknown (lg_row (oauth_of i) GrpcUnknown)) (\<lambda>row.
           case column_value value row of
             Some old \<Rightarrow> if old = value then lg_rollback False else lg_fail GrpcAccountOccupied
           | None \<Rightarrow>
               lg_then (lg_stmt c 3 GrpcUnknown (\<lambda>s.
                   if list_ex (\<lambda>q. column_value value q = Some value) (lg_oauths s) then (Inl GrpcAccountOccupied, s)
                   else (Inr (), lg_update_oauths i (set_column value) s)))
                 (lg_commit True))))"

definition lg_ConnectGoogle :: "call_env \<Rightarrow> uuid \<Rightarrow> string \<Rightarrow> bool repo" where
  "lg_ConnectGoogle c i g = connectIdentity c i (GoogleColumn g)"

definition lg_ConnectVk :: "call_env \<Rightarrow> uuid \<Rightarrow> int \<Rightarrow> bool repo" where
  "lg_ConnectVk c i v = connectIdentity c i (VkColumn v)"

definition disconnectIdentity :: "call_env \<Rightarrow> uuid \<Rightarrow> bool \<Rightarrow> unit repo" where
  "disconnectIdentity c i google =
     lg_tx c
       (lg_bind (lg_usable c i) (\<lambda>u.
         let hasPassword = (case usr_password u of None \<Rightarrow> False | Some h \<Rightarrow> h \<noteq> '''') in
         lg_bind (lg_stmt c 2 GrpcUnknown (lg_row (oauth_of i) GrpcUnknown)) (\<lambda>row.
           if google \<and> lga_google row = None \<or> \<not> google \<and> lga_vk row = None then lg_rollback ()
           else if \<not> hasPassword \<and> (lga_google row = None \<or> lga_vk row = None) then lg_fail GrpcFewSignInMethods
           else lg_then (lg_stmt c 3 GrpcUnknown (lg_exec (lg_update_oauths i
                    (\<lambda>r. if google then r\<lparr>lga_google := None\<rparr> else r\<lparr>lga_vk := None\<rparr>))))
                  (lg_commit ()))))"

definition lg_DeleteGoogleConnection :: "call_env \<Rightarrow> uuid \<Rightarrow> unit repo" where
  "lg_DeleteGoogleConnection c i = disconnectIdentity c i True"

definition lg_DeleteVkConnection :: "call_env \<Rightarrow> uuid \<Rightarrow> unit repo" where
  "lg_DeleteVkConnection c i = disconnectIdentity c i False"

subsection \<open>OAuth states and proofs\<close>

definition flow_TTL :: duration where
  "flow_TTL = 10 * Minute"

definition hex_lower :: "nat \<Rightarrow> char" where
  "hex_lower n = (if n < 10 then char_of (48 + n) else char_of (87 + n))"

definition hex_EncodeToString :: "string \<Rightarrow> string" where
  "hex_EncodeToString s = concat (map (\<lambda>c. [hex_lower (byte c div 16), hex_lower (byte c mod 16)]) s)"

definition tokenHash :: "Repository \<Rightarrow> string \<Rightarrow> string" where
  "tokenHash r token = hex_EncodeToString (sha256 (rep_crypto r) token)"

definition opaqueToken :: "call_env \<Rightarrow> string repo" where
  "opaqueToken c = (case cl_token c of None \<Rightarrow> lg_fail GrpcUnknown | Some b \<Rightarrow> lg_return (RawURLEncoding b))"

definition CreateOAuthState :: "Repository \<Rightarrow> call_env \<Rightarrow> string \<Rightarrow> string \<Rightarrow> string \<Rightarrow> string repo" where
  "CreateOAuthState r c provider redirect binding =
     (if binding = '''' \<or> redirect = '''' then lg_fail GrpcInvalidBody
      else lg_bind (opaqueToken c) (\<lambda>token.
        lg_stmt c 0 GrpcUnknown (\<lambda>s.
          if list_ex (\<lambda>q. lgt_hash q = tokenHash r token) (lg_states s) \<or> provider \<notin> set [''google'', ''vk''] then (Inl GrpcUnknown, s)
          else (Inr token, s\<lparr>lg_states := lg_states s @
            [\<lparr>lgt_hash = tokenHash r token, lgt_provider = provider, lgt_redirect = redirect, lgt_binding = tokenHash r binding,
              lgt_expires = cl_now c + flow_TTL\<rparr>]\<rparr>))))"

definition state_valid :: "Repository \<Rightarrow> time \<Rightarrow> string \<Rightarrow> string \<Rightarrow> string \<Rightarrow> string \<Rightarrow> lg_state \<Rightarrow> bool" where
  "state_valid r now provider token redirect binding q \<longleftrightarrow>
     lgt_hash q = tokenHash r token \<and> lgt_provider q = provider \<and> lgt_redirect q = redirect \<and>
     lgt_binding q = tokenHash r binding \<and> lgt_expires q > now"

definition ConsumeOAuthState :: "Repository \<Rightarrow> call_env \<Rightarrow> string \<Rightarrow> string \<Rightarrow> string \<Rightarrow> string \<Rightarrow> unit repo" where
  "ConsumeOAuthState r c provider token redirect binding =
     (if token = '''' \<or> binding = '''' then lg_fail GrpcInvalidCode
      else lg_stmt c 0 GrpcUnknown (\<lambda>s.
        let P = state_valid r (cl_dbnow c) provider token redirect binding;
            t = s\<lparr>lg_states := filter (\<lambda>q. \<not> P q) (lg_states s)\<rparr>
        in if length (filter P (lg_states s)) = 1 then (Inr (), t) else (Inl GrpcInvalidCode, t)))"

definition ConsumeReauthentication :: "Repository \<Rightarrow> call_env \<Rightarrow> uuid \<Rightarrow> string \<Rightarrow> unit repo" where
  "ConsumeReauthentication r c i token =
     lg_stmt c 0 GrpcUnknown (\<lambda>s.
       if list_ex (\<lambda>q. lgp_hash q = tokenHash r token) (lg_proofs s) then (Inl GrpcReauthentication, s)
       else if user_of i s = None then (Inl GrpcUnknown, s)
       else (Inr (), s\<lparr>lg_proofs := lg_proofs s @
         [\<lparr>lgp_hash = tokenHash r token, lgp_user = i, lgp_expires = cl_dbnow c + Hour\<rparr>]\<rparr>))"

definition CleanupAuthWorkflows :: "call_env \<Rightarrow> unit repo" where
  "CleanupAuthWorkflows c =
     lg_then (lg_stmt c 0 GrpcUnknown (lg_exec (\<lambda>s. s\<lparr>lg_states := filter (\<lambda>q. lgt_expires q > cl_dbnow c) (lg_states s)\<rparr>)))
       (lg_then (lg_stmt c 1 GrpcUnknown (lg_exec (\<lambda>s. s\<lparr>lg_deliveries := filter (\<lambda>q. lgv_expires q > cl_dbnow c) (lg_deliveries s)\<rparr>)))
         (lg_then (lg_stmt c 2 GrpcUnknown (lg_exec (\<lambda>s. s\<lparr>lg_bindings := filter (\<lambda>q. lgb_expires q > cl_dbnow c) (lg_bindings s)\<rparr>)))
           (lg_stmt c 3 GrpcUnknown (lg_exec (\<lambda>s. s\<lparr>lg_proofs := filter (\<lambda>q. lgp_expires q > cl_dbnow c) (lg_proofs s)\<rparr>)))))"

subsection \<open>Firebase and the outbox\<close>

definition IsFirebaseProfileConnected :: "call_env \<Rightarrow> string \<Rightarrow> legacy_db \<Rightarrow> bool" where
  "IsFirebaseProfileConnected c f s \<longleftrightarrow> cl_fault c \<noteq> StatementFault 0 \<and> list_ex (\<lambda>r. lgf_id r = f) (lg_firebases s)"

definition ConnectFirebase :: "call_env \<Rightarrow> uuid \<Rightarrow> string \<Rightarrow> time \<Rightarrow> MessageData repo" where
  "ConnectFirebase c i f created =
     (let msg = profile_message (cl_uuid c 0) (MsgBodyProfileFirebaseImport i f) in
      lg_tx c
        (lg_then (lg_stmt c 0 GrpcUnknown (lg_exec (lg_update_users (\<lambda>u. usr_id u = i) (\<lambda>u. u\<lparr>usr_registered := created\<rparr>))))
          (lg_then (lg_stmt c 1 GrpcUnknown (\<lambda>s.
              if list_ex (\<lambda>r. lgf_user r = i \<or> lgf_id r = f) (lg_firebases s) \<or> user_of i s = None then (Inl GrpcUnknown, s)
              else (Inr (), s\<lparr>lg_firebases := lg_firebases s @ [\<lparr>lgf_user = i, lgf_id = f\<rparr>]\<rparr>)))
            (lg_then (createOutboxMsg c 2 msg) (lg_commit msg)))))"

definition GetPendingMessages :: "call_env \<Rightarrow> MessageData list repo" where
  "GetPendingMessages c = lg_stmt c 0 (PlainError ''query'') (lg_read lg_outbox)"

definition MarkMessageSent :: "call_env \<Rightarrow> uuid \<Rightarrow> unit repo" where
  "MarkMessageSent c m =
     lg_stmt c 0 (PlainError ''exec'') (lg_exec (\<lambda>s. s\<lparr>lg_outbox := filter (\<lambda>q. msd_Id q \<noteq> m) (lg_outbox s)\<rparr>))"

text \<open>
  \<open>internal/repository/amqp\<close>: a message is marked as sent once the broker has taken it. One
  round of the observer tries the pending messages in turn and gives up after five failures.
  \<open>sent\<close> says for a message whether the broker takes it.
\<close>

definition PublishProfilesMessage :: "call_env \<Rightarrow> bool \<Rightarrow> MessageData \<Rightarrow> unit repo" where
  "PublishProfilesMessage c sent msg =
     (if sent then lg_catch (MarkMessageSent c (msd_Id msg)) (\<lambda>_. lg_return ()) else lg_fail (PlainError ''publish''))"

fun observe_messages :: "(uuid \<Rightarrow> call_env) \<Rightarrow> (uuid \<Rightarrow> bool) \<Rightarrow> nat \<Rightarrow> MessageData list \<Rightarrow> legacy_db \<Rightarrow> legacy_db" where
  "observe_messages cs sent fails [] s = s"
| "observe_messages cs sent fails (msg # msgs) s =
     (case PublishProfilesMessage (cs (msd_Id msg)) (sent (msd_Id msg)) msg s of
        (Inr _, t) \<Rightarrow> observe_messages cs sent fails msgs t
      | (Inl err, t) \<Rightarrow> if fails + 1 \<ge> 5 then t else observe_messages cs sent (fails + 1) msgs t)"

definition observe_round :: "call_env \<Rightarrow> (uuid \<Rightarrow> call_env) \<Rightarrow> (uuid \<Rightarrow> bool) \<Rightarrow> legacy_db \<Rightarrow> legacy_db" where
  "observe_round c cs sent s =
     (case GetPendingMessages c s of (Inl err, t) \<Rightarrow> t | (Inr msgs, t) \<Rightarrow> observe_messages cs sent 0 msgs t)"


subsection \<open>Email bindings\<close>

definition binding_pending :: "uuid \<Rightarrow> string \<Rightarrow> time \<Rightarrow> lg_binding \<Rightarrow> bool" where
  "binding_pending i purpose now q \<longleftrightarrow> lgb_user q = i \<and> lgb_purpose q = purpose \<and> lgb_expires q > now"

text \<open>A new mail replaces one that was not sent yet, so that no outdated token is delivered.\<close>

definition queueBindingEmail :: "call_env \<Rightarrow> nat \<Rightarrow> EmailBinding \<Rightarrow> unit repo" where
  "queueBindingEmail c k b =
     (let email = (if ebn_Stage b = ''old'' then ebn_OldEmail b else ebn_Email b) in
      lg_then (lg_stmt c k GrpcUnknown (lg_exec (\<lambda>s. s\<lparr>lg_deliveries :=
          filter (\<lambda>q. \<not> (edl_UserId (lgv_mail q) = ebn_UserId b \<and> edl_Purpose (lgv_mail q) = ebn_Purpose b)) (lg_deliveries s)\<rparr>)))
        (lg_stmt c (k + 1) GrpcUnknown (\<lambda>s.
          if user_of (ebn_UserId b) s = None then (Inl GrpcUnknown, s)
          else (Inr (), s\<lparr>lg_next_delivery := lg_next_delivery s + 1, lg_deliveries := lg_deliveries s @
            [\<lparr>lgv_id = lg_next_delivery s, lgv_mail = \<lparr>edl_UserId = ebn_UserId b, edl_Email = email, edl_Token = ebn_Token b,
                edl_LinkPattern = ebn_LinkPattern b, edl_Purpose = ebn_Purpose b, edl_Stage = ebn_Stage b\<rparr>,
              lgv_expires = ebn_ExpiresAt b, lgv_next = cl_dbnow c, lgv_attempts = 0\<rparr>]\<rparr>))))"

definition insert_binding :: "lg_binding \<Rightarrow> unit repo" where
  "insert_binding q s =
     (if list_ex (\<lambda>p. lgb_hash p = lgb_hash q \<or> lgb_user p = lgb_user q \<and> lgb_purpose p = lgb_purpose q) (lg_bindings s) \<or>
         user_of (lgb_user q) s = None \<or> lgb_purpose q \<notin> set [''verify'', ''change''] \<or> lgb_stage q \<notin> set [''verify'', ''old'', ''new'']
      then (Inl GrpcUnknown, s) else (Inr (), s\<lparr>lg_bindings := lg_bindings s @ [q]\<rparr>))"

text \<open>The checks of an email change, and the password a resent verification keeps.\<close>

definition binding_change_checks :: "call_env \<Rightarrow> EmailBinding \<Rightarrow> lg_user \<Rightarrow> unit repo" where
  "binding_change_checks c b u =
     (if ebn_Purpose b \<noteq> ''change'' then lg_return ()
      else lg_then (lg_guard (\<not> usr_blocked u) GrpcProfileIsBlocked)
        (lg_then (lg_guard (usr_email u = ebn_OldEmail b) (GrpcConflict ''email_change_conflict''))
          (lg_bind (lg_stmt c 2 GrpcUnknown (lg_read (lg_deleting (ebn_UserId b)))) (\<lambda>deleting.
            lg_then (lg_guard (\<not> deleting) GrpcAccountDeleting)
              (lg_bind (lg_stmt c 3 GrpcUnknown
                  (lg_read (\<lambda>s. list_ex (binding_pending (ebn_UserId b) ''change'' (cl_dbnow c)) (lg_bindings s)))) (\<lambda>pending.
                lg_guard (\<not> pending) (GrpcConflict ''email_change_pending'')))))))"

definition kept_password :: "call_env \<Rightarrow> EmailBinding \<Rightarrow> string option repo" where
  "kept_password c b =
     (if ebn_Purpose b = ''verify'' \<and> ebn_PasswordHash b = None
      then lg_stmt c 1 GrpcUnknown (lg_read (\<lambda>s.
             case find (binding_pending (ebn_UserId b) ''verify'' (cl_dbnow c)) (lg_bindings s) of
               None \<Rightarrow> None | Some q \<Rightarrow> lgb_password q))
      else lg_return (ebn_PasswordHash b))"

definition StartEmailBinding :: "Repository \<Rightarrow> call_env \<Rightarrow> EmailBinding \<Rightarrow> unit repo" where
  "StartEmailBinding r c b0 =
     lg_bind (opaqueToken c) (\<lambda>token.
       let b1 = b0\<lparr>ebn_Token := token\<rparr> in
       lg_tx c
         (lg_bind (lg_stmt c 0 GrpcUnknown (lg_row (user_of (ebn_UserId b1)) GrpcUnknown)) (\<lambda>u.
           if ebn_Purpose b1 = ''verify'' \<and> (usr_activated u \<or> usr_blocked u \<or> usr_email u \<noteq> ebn_Email b1) then lg_rollback ()
           else lg_bind (kept_password c b1) (\<lambda>password.
             let b = b1\<lparr>ebn_PasswordHash := password\<rparr> in
             lg_then (binding_change_checks c b u)
               (lg_then (lg_stmt c 4 GrpcUnknown (lg_exec (\<lambda>s. s\<lparr>lg_bindings :=
                    filter (\<lambda>q. \<not> (lgb_user q = ebn_UserId b \<and> lgb_purpose q = ebn_Purpose b)) (lg_bindings s)\<rparr>)))
                 (lg_then (lg_stmt c 5 GrpcUnknown (insert_binding
                      \<lparr>lgb_hash = tokenHash r token, lgb_user = ebn_UserId b, lgb_purpose = ebn_Purpose b, lgb_stage = ebn_Stage b,
                       lgb_old = usr_email u, lgb_email = ebn_Email b, lgb_password = ebn_PasswordHash b, lgb_expires = ebn_ExpiresAt b\<rparr>))
                   (lg_then (queueBindingEmail c 6 b) (lg_commit ()))))))))"

definition binding_row :: "Repository \<Rightarrow> string \<Rightarrow> time \<Rightarrow> legacy_db \<Rightarrow> lg_binding option" where
  "binding_row r token now s = find (\<lambda>q. lgb_hash q = tokenHash r token \<and> lgb_expires q > now) (lg_bindings s)"

text \<open>What a confirmed binding does to the user, by its stage.\<close>

definition confirm_verify :: "call_env \<Rightarrow> lg_binding \<Rightarrow> string repo" where
  "confirm_verify c q =
     lg_then (lg_stmt c 4 GrpcUnknown (lg_exec (lg_update_users (\<lambda>u. usr_id u = lgb_user q)
         (\<lambda>u. u\<lparr>usr_activated := True, usr_password := (case lgb_password q of None \<Rightarrow> usr_password u | Some h \<Rightarrow> Some h)\<rparr>))))
       (lg_return ''verified'')"

definition confirm_new :: "call_env \<Rightarrow> lg_binding \<Rightarrow> string repo" where
  "confirm_new c q =
     lg_then (lg_stmt c 4 GrpcUnknown (\<lambda>s.
         if list_ex (\<lambda>u. usr_id u \<noteq> lgb_user q \<and> usr_email u = lgb_email q) (lg_users s) then (Inl (GrpcConflict ''email_unavailable''), s)
         else (Inr (), lg_update_users (\<lambda>u. usr_id u = lgb_user q) (\<lambda>u. u\<lparr>usr_email := lgb_email q\<rparr>) s)))
       (lg_return ''changed'')"

definition confirm_old :: "Repository \<Rightarrow> call_env \<Rightarrow> string \<Rightarrow> string \<Rightarrow> lg_binding \<Rightarrow> ((string \<times> string) \<times> bool) repo" where
  "confirm_old r c token pattern q =
     lg_bind (opaqueToken c) (\<lambda>fresh.
       let expires = cl_now c + 24 * Hour in
       lg_then (lg_stmt c 4 GrpcUnknown (\<lambda>s.
           if list_ex (\<lambda>p. lgb_hash p \<noteq> tokenHash r token \<and> lgb_hash p = tokenHash r fresh) (lg_bindings s) then (Inl GrpcUnknown, s)
           else (Inr (), s\<lparr>lg_bindings := map (\<lambda>p. if lgb_hash p = tokenHash r token
               then p\<lparr>lgb_hash := tokenHash r fresh, lgb_stage := ''new'', lgb_expires := expires\<rparr> else p) (lg_bindings s)\<rparr>)))
         (lg_then (queueBindingEmail c 5 \<lparr>ebn_UserId = lgb_user q, ebn_Purpose = lgb_purpose q, ebn_Stage = ''new'',
              ebn_OldEmail = lgb_old q, ebn_Email = lgb_email q, ebn_Token = fresh, ebn_LinkPattern = pattern,
              ebn_PasswordHash = lgb_password q, ebn_ExpiresAt = expires\<rparr>)
           (lg_commit (lgb_purpose q, ''pendingNewEmail''))))"

definition forget_bindings :: "call_env \<Rightarrow> uuid \<Rightarrow> bool \<Rightarrow> unit repo" where
  "forget_bindings c i changed =
     lg_then (lg_stmt c 5 GrpcUnknown (lg_exec (\<lambda>s. s\<lparr>lg_bindings := filter (\<lambda>q. lgb_user q \<noteq> i) (lg_bindings s)\<rparr>)))
       (lg_then (lg_stmt c 6 GrpcUnknown (lg_exec (\<lambda>s. s\<lparr>lg_codes := filter (\<lambda>q. lgc_user q \<noteq> i) (lg_codes s)\<rparr>)))
         (lg_then (lg_stmt c 7 GrpcUnknown (lg_exec (\<lambda>s. s\<lparr>lg_deliveries :=
              filter (\<lambda>q. edl_UserId (lgv_mail q) \<noteq> i) (lg_deliveries s)\<rparr>)))
           (if changed then lg_stmt c 8 GrpcUnknown (lg_exec (\<lambda>s. s\<lparr>lg_resets := filter (\<lambda>q. lgr_user q \<noteq> i) (lg_resets s)\<rparr>))
            else lg_return ())))"

definition ConfirmEmailBinding :: "Repository \<Rightarrow> call_env \<Rightarrow> string \<Rightarrow> string \<Rightarrow> (string \<times> string) repo" where
  "ConfirmEmailBinding r c token pattern =
     lg_tx c
       (lg_bind (lg_stmt c 0 GrpcUnknown (lg_row (binding_row r token (cl_dbnow c)) GrpcInvalidActivationCode)) (\<lambda>first.
         lg_bind (lg_stmt c 1 GrpcUnknown (lg_row (user_of (lgb_user first)) GrpcUnknown)) (\<lambda>u.
           lg_bind (lg_stmt c 2 GrpcUnknown (lg_row (binding_row r token (cl_dbnow c)) GrpcInvalidActivationCode)) (\<lambda>q.
             lg_then (lg_guard (\<not> usr_blocked u) GrpcProfileIsBlocked)
               (lg_then (lg_guard (usr_email u = lgb_old q) GrpcInvalidActivationCode)
                 (lg_bind (lg_stmt c 3 GrpcUnknown (lg_read (lg_deleting (lgb_user q)))) (\<lambda>deleting.
                   lg_then (lg_guard (\<not> deleting) GrpcAccountDeleting)
                     (if lgb_stage q = ''old'' then confirm_old r c token pattern q
                      else if lgb_stage q = ''verify'' \<or> lgb_stage q = ''new'' then
                        lg_bind (if lgb_stage q = ''verify'' then confirm_verify c q else confirm_new c q) (\<lambda>status.
                          lg_then (forget_bindings c (lgb_user q) (lgb_stage q = ''new'')) (lg_commit (lgb_purpose q, status)))
                      else lg_fail GrpcInvalidActivationCode))))))))"

text \<open>One delivery: the oldest mail that is due; \<open>send\<close> says whether it can be sent.\<close>

definition due_delivery :: "time \<Rightarrow> legacy_db \<Rightarrow> lg_delivery option" where
  "due_delivery now s =
     (case sort_key lgv_id (filter (\<lambda>q. lgv_next q \<le> now \<and> lgv_expires q > now) (lg_deliveries s)) of [] \<Rightarrow> None | q # _ \<Rightarrow> Some q)"

definition DeliverEmail :: "call_env \<Rightarrow> (EmailDelivery \<Rightarrow> bool) \<Rightarrow> bool repo" where
  "DeliverEmail c send =
     lg_tx c
       (lg_bind (lg_stmt c 0 GrpcUnknown (lg_read (due_delivery (cl_dbnow c)))) (\<lambda>due.
         case due of None \<Rightarrow> lg_rollback False
         | Some q \<Rightarrow>
             lg_then (lg_stmt c 1 GrpcUnknown (lg_exec (\<lambda>s. s\<lparr>lg_deliveries :=
                 (if send (lgv_mail q) then filter (\<lambda>p. lgv_id p \<noteq> lgv_id q) (lg_deliveries s)
                  else map (\<lambda>p. if lgv_id p = lgv_id q
                         then p\<lparr>lgv_attempts := lgv_attempts p + 1, lgv_next := cl_dbnow c + Minute\<rparr> else p) (lg_deliveries s))\<rparr>)))
               (lg_commit True)))"

subsection \<open>Profile deletions\<close>

definition request_of :: "lg_deletion \<Rightarrow> DeleteProfileRequest" where
  "request_of d = \<lparr>dpr_UserId = lgd_user d, dpr_WithSharedData = lgd_shared d, dpr_Timestamp = lgd_at d\<rparr>"

definition GetProfilesToDelete :: "call_env \<Rightarrow> legacy_db \<Rightarrow> DeleteProfileRequest list" where
  "GetProfilesToDelete c s =
     (if cl_fault c = StatementFault 0 then [] else map request_of (filter (\<lambda>d. lgd_at d \<le> cl_now c) (lg_deletions s)))"

definition GetDeleteProfileRequest :: "call_env \<Rightarrow> uuid \<Rightarrow> DeleteProfileRequest repo" where
  "GetDeleteProfileRequest c i =
     lg_stmt c 0 GrpcUnknown (lg_row (\<lambda>s. map_option request_of (lg_deletion_of i s)) GrpcDeletionNotFound)"

definition lockDeletionUser :: "call_env \<Rightarrow> uuid \<Rightarrow> unit repo" where
  "lockDeletionUser c i =
     lg_bind (lg_stmt c 0 GrpcUnknown (lg_row (user_of i) GrpcUserNotFound)) (\<lambda>u. lg_guard (\<not> usr_blocked u) GrpcProfileIsBlocked)"

definition lockDeletion :: "call_env \<Rightarrow> uuid \<Rightarrow> DeleteProfileRequest repo" where
  "lockDeletion c i =
     lg_bind (lg_stmt c 1 GrpcUnknown (lg_row (lg_deletion_of i) GrpcDeletionNotFound)) (\<lambda>d.
       lg_then (lg_guard (lgd_at d > cl_now c) GrpcDeletionExpired) (lg_return (request_of d)))"

definition RequestDeleteProfile :: "Repository \<Rightarrow> call_env \<Rightarrow> uuid \<Rightarrow> bool \<Rightarrow> DeleteProfileRequest repo" where
  "RequestDeleteProfile r c i shared =
     lg_tx c
       (lg_then (lockDeletionUser c i)
         (lg_catch (lg_bind (lockDeletion c i) lg_rollback) (\<lambda>err.
           if err \<noteq> GrpcDeletionNotFound then lg_fail err
           else let d = \<lparr>lgd_user = i, lgd_shared = shared, lgd_at = cl_now c + rep_Offset r\<rparr> in
             lg_then (lg_stmt c 2 GrpcUnknown (\<lambda>s.
                 if lg_deleting i s \<or> user_of i s = None then (Inl GrpcUnknown, s)
                 else (Inr (), s\<lparr>lg_deletions := lg_deletions s @ [d]\<rparr>)))
               (lg_commit (request_of d)))))"

definition lg_UpdateProfileDeletion :: "call_env \<Rightarrow> uuid \<Rightarrow> bool \<Rightarrow> DeleteProfileRequest repo" where
  "lg_UpdateProfileDeletion c i shared =
     lg_tx c
       (lg_then (lockDeletionUser c i)
         (lg_bind (lockDeletion c i) (\<lambda>request.
           lg_then (lg_stmt c 2 GrpcUnknown (lg_exec (\<lambda>s. s\<lparr>lg_deletions :=
               map (\<lambda>d. if lgd_user d = i then d\<lparr>lgd_shared := shared\<rparr> else d) (lg_deletions s)\<rparr>)))
             (lg_commit (request\<lparr>dpr_WithSharedData := shared\<rparr>)))))"

definition lg_CancelProfileDeletion :: "call_env \<Rightarrow> uuid \<Rightarrow> unit repo" where
  "lg_CancelProfileDeletion c i =
     lg_tx c
       (lg_then (lockDeletionUser c i)
         (lg_bind (lg_catch (lg_bind (lockDeletion c i) (\<lambda>_. lg_return True))
             (\<lambda>err. if err = GrpcDeletionNotFound then lg_return False else lg_fail err)) (\<lambda>found.
           if \<not> found then lg_rollback ()
           else lg_then (lg_stmt c 2 GrpcUnknown (lg_exec (\<lambda>s. s\<lparr>lg_deletions := filter (\<lambda>d. lgd_user d \<noteq> i) (lg_deletions s)\<rparr>)))
                  (lg_commit ()))))"

text \<open>Deleting a user takes all rows that reference it along.\<close>

definition lg_delete_user :: "uuid \<Rightarrow> legacy_db \<Rightarrow> legacy_db" where
  "lg_delete_user i s =
     s\<lparr>lg_users := filter (\<lambda>q. usr_id q \<noteq> i) (lg_users s), lg_codes := filter (\<lambda>q. lgc_user q \<noteq> i) (lg_codes s),
       lg_sessions := filter (\<lambda>q. lgs_user q \<noteq> i) (lg_sessions s), lg_resets := filter (\<lambda>q. lgr_user q \<noteq> i) (lg_resets s),
       lg_oauths := filter (\<lambda>q. lga_user q \<noteq> i) (lg_oauths s), lg_firebases := filter (\<lambda>q. lgf_user q \<noteq> i) (lg_firebases s),
       lg_deletions := filter (\<lambda>q. lgd_user q \<noteq> i) (lg_deletions s), lg_bindings := filter (\<lambda>q. lgb_user q \<noteq> i) (lg_bindings s),
       lg_deliveries := filter (\<lambda>q. edl_UserId (lgv_mail q) \<noteq> i) (lg_deliveries s), lg_proofs := filter (\<lambda>q. lgp_user q \<noteq> i) (lg_proofs s)\<rparr>"

definition lg_DeleteUser :: "call_env \<Rightarrow> uuid \<Rightarrow> MessageData option repo" where
  "lg_DeleteUser c i =
     lg_tx c
       (lg_bind (lg_stmt c 0 GrpcUnknown (lg_read (user_of i))) (\<lambda>u.
         if u = None then lg_rollback None
         else lg_bind (lg_stmt c 1 GrpcUnknown (lg_read (lg_deletion_of i))) (\<lambda>d.
           case d of None \<Rightarrow> lg_rollback None
           | Some d' \<Rightarrow>
               if lgd_at d' > cl_now c then lg_rollback None
               else let msg = profile_message (cl_uuid c 0) (MsgBodyProfileDeleted i (lgd_shared d')) in
                 lg_then (lg_stmt c 2 GrpcUnknown (lg_exec (lg_delete_user i)))
                   (lg_then (createOutboxMsg c 3 msg) (lg_commit (Some msg))))))"

end
