(* ===== verification/Auth_LegacyServices.thy ===== *)
theory Auth_LegacyServices
  imports Auth_LegacyFlows Auth_Reads
begin

section \<open>The former services\<close>

text \<open>
  \<open>pkg/oauth\<close>, \<open>pkg/ip\<close> and \<open>internal/service\<close>: the provider clients, the mails and the services
  on top of the repository. The state is the database together with the goroutines a service
  has started and that have not run yet, each a value of \<open>deferred\<close> with its own
  interpretation. The password hash, the token manager, Firebase, the subscription service,
  the user-agent parser, formatting and the HTTP answers are the fields of \<open>lg_libs\<close>;
  \<open>lgl_Code\<close> is the status code the response library gives an error. A service that calls the
  repository several times takes a call environment per call.
\<close>

subsection \<open>Libraries\<close>

datatype 'a http_answer = NoAnswer | Answer int "'a option"

record user_agent =
  uag_Mobile :: bool
  uag_Model :: string
  uag_Browser :: string
  uag_Version :: string
  uag_OS :: string

record google_user =
  gus_AuthenticatedAt :: int
  gus_VerifiedEmail :: bool
  gus_UserId :: string
  gus_Email :: string

record google_claims =
  gcl_AuthTime :: int
  gcl_Sub :: string
  gcl_Audience :: string
  gcl_Issuer :: string
  gcl_Expiration :: string
  gcl_Email :: string
  gcl_EmailVerified :: string

record vk_token =
  vkt_AccessToken :: string
  vkt_UserId :: int
  vkt_Email :: string

record ip_info =
  ipi_CityName :: string
  ipi_RegionName :: string
  ipi_CountryName :: string

record lg_Payload =
  lpl_UserId :: uuid
  lpl_Email :: string
  lpl_Username :: "string option"
  lpl_Role :: string
  lpl_Plan :: string
  lpl_Deleted :: bool

record firebase_client =
  fbc_SignIn :: "string \<Rightarrow> string \<Rightarrow> bool + string"
  fbc_Profile :: "string \<Rightarrow> time option"
  fbc_ProfileByEmail :: "string \<Rightarrow> (string \<times> time) option"

record lg_libs =
  lgl_Code :: "lfail \<Rightarrow> codes"
  lgl_Unicode :: unicode
  lgl_EqualFold :: "string \<Rightarrow> string \<Rightarrow> bool"
  lgl_Hash :: "string \<Rightarrow> string option"
  lgl_Validate :: "string \<Rightarrow> string \<Rightarrow> bool"
  lgl_CreateAccess :: "lg_Payload \<Rightarrow> duration \<Rightarrow> string option"
  lgl_Plan :: "uuid \<Rightarrow> string option"
  lgl_PlanFree :: string
  lgl_Firebase :: "firebase_client option"
  lgl_UserAgent :: "string \<Rightarrow> user_agent"
  lgl_Sprintf :: "string \<Rightarrow> string \<Rightarrow> string"
  lgl_RFC1123 :: "time \<Rightarrow> string"
  lgl_IpInfo :: "string \<Rightarrow> ip_info http_answer"
  lgl_AuthCodeURL :: "string \<Rightarrow> string \<Rightarrow> string \<Rightarrow> string"
  lgl_Exchange :: "string \<Rightarrow> string \<Rightarrow> raw_error + string"
  lgl_UserInfo :: "string \<Rightarrow> google_user http_answer"
  lgl_TokenInfo :: "string \<Rightarrow> google_claims http_answer"
  lgl_VkToken :: "string \<Rightarrow> vk_token http_answer"

subsection \<open>Provider clients\<close>

text \<open>An HTTP answer as every client judges it: overload and network failures are told apart from rejections.\<close>

definition judge_answer :: "string \<Rightarrow> 'a http_answer \<Rightarrow> lfail + 'a" where
  "judge_answer who a =
     (case a of
        NoAnswer \<Rightarrow> Inl (GrpcUnavailable who)
      | Answer code body \<Rightarrow>
          if code \<ge> 500 \<or> code = 429 then Inl (GrpcUnavailable who)
          else if code \<noteq> 200 then Inl (PlainError who)
          else (case body of None \<Rightarrow> Inl (PlainError who) | Some x \<Rightarrow> Inr x))"

definition google_CreateOAuthLink :: "Repository \<Rightarrow> lg_libs \<Rightarrow> string \<Rightarrow> call_env \<Rightarrow> string \<Rightarrow> string \<Rightarrow> string repo" where
  "google_CreateOAuthLink r lb client c binding redirect =
     lg_bind (CreateOAuthState r c ''google'' redirect binding) (\<lambda>state. lg_return (lgl_AuthCodeURL lb client redirect state))"

definition google_GetAccessToken :: "Repository \<Rightarrow> lg_libs \<Rightarrow> call_env \<Rightarrow> string \<Rightarrow> string \<Rightarrow> string \<Rightarrow> string \<Rightarrow> string repo" where
  "google_GetAccessToken r lb c binding code state redirect =
     lg_then (ConsumeOAuthState r c ''google'' state redirect binding)
       (case lgl_Exchange lb code redirect of
          Inr token \<Rightarrow> lg_return token
        | Inl err \<Rightarrow> lg_fail (case err_Retrieve err of
              Some status \<Rightarrow> if status < 500 \<and> status \<noteq> 429 then PlainError ''oauth2'' else GrpcUnavailable ''google''
            | None \<Rightarrow> GrpcUnavailable ''google''))"

definition getUserInfoByRequest :: "google_user http_answer \<Rightarrow> lfail + google_user" where
  "getUserInfoByRequest a =
     (case judge_answer ''google'' a of Inl err \<Rightarrow> Inl err
      | Inr u \<Rightarrow> if gus_UserId u = '''' \<or> \<not> gus_VerifiedEmail u then Inl (PlainError ''invalid Google identity'') else Inr u)"

definition of_sum :: "lfail + 'a \<Rightarrow> ('s, 'a) fallible" where
  "of_sum x = (case x of Inl err \<Rightarrow> lg_fail err | Inr y \<Rightarrow> lg_return y)"

definition google_GetUserInfoByCode :: "Repository \<Rightarrow> lg_libs \<Rightarrow> call_env \<Rightarrow> string \<Rightarrow> string \<Rightarrow> string \<Rightarrow> string \<Rightarrow> google_user repo" where
  "google_GetUserInfoByCode r lb c binding code state redirect =
     lg_bind (google_GetAccessToken r lb c binding code state redirect) (\<lambda>token. of_sum (getUserInfoByRequest (lgl_UserInfo lb token)))"

definition google_GetUserInfoByIdToken :: "lg_libs \<Rightarrow> string \<Rightarrow> time \<Rightarrow> string \<Rightarrow> lfail + google_user" where
  "google_GetUserInfoByIdToken lb client now token =
     (if token = '''' then Inl (PlainError ''empty Google ID token'')
      else case judge_answer ''google'' (lgl_TokenInfo lb (''https://oauth2.googleapis.com/tokeninfo?'' @ values_encode [(''id_token'', token)])) of
        Inl err \<Rightarrow> Inl err
      | Inr q \<Rightarrow>
          (case ParseInt (gcl_Expiration q) of
             None \<Rightarrow> Inl (PlainError ''invalid Google ID token claims'')
           | Some expiration \<Rightarrow>
               if expiration \<le> Unix now \<or> gcl_Sub q = '''' \<or> client = '''' \<or> gcl_Audience q \<noteq> client \<or>
                  gcl_Issuer q \<notin> set [''accounts.google.com'', ''https://accounts.google.com''] \<or> gcl_EmailVerified q \<noteq> ''true''
               then Inl (PlainError ''invalid Google ID token claims'')
               else Inr \<lparr>gus_AuthenticatedAt = gcl_AuthTime q, gus_VerifiedEmail = True, gus_UserId = gcl_Sub q, gus_Email = gcl_Email q\<rparr>))"

record vk_client =
  vkl_clientId :: string
  vkl_clientSecret :: string
  vkl_scope :: string

definition vk_CreateOAuthLink :: "Repository \<Rightarrow> vk_client \<Rightarrow> call_env \<Rightarrow> string \<Rightarrow> string \<Rightarrow> string \<Rightarrow> string \<Rightarrow> string repo" where
  "vk_CreateOAuthLink r p c binding display0 responseType0 redirect =
     (let display = (if display0 \<in> set [''page'', ''popup'', ''mobile''] then display0 else ''page'');
          responseType = (if responseType0 \<in> set [''token'', ''code''] then responseType0 else ''code'')
      in lg_bind (CreateOAuthState r c ''vk'' redirect binding) (\<lambda>state.
           lg_return (''https://oauth.vk.com/authorize?'' @ values_encode
             [(''client_id'', vkl_clientId p), (''display'', display), (''redirect_uri'', redirect), (''response_type'', responseType),
              (''scope'', vkl_scope p), (''state'', state)])))"

definition createGetAccessTokenUrl :: "vk_client \<Rightarrow> string \<Rightarrow> string \<Rightarrow> string" where
  "createGetAccessTokenUrl p code redirect =
     ''https://oauth.vk.com/access_token?'' @ values_encode
       [(''client_id'', vkl_clientId p), (''client_secret'', vkl_clientSecret p), (''code'', code), (''redirect_uri'', redirect)]"

definition vk_GetAccessToken :: "Repository \<Rightarrow> lg_libs \<Rightarrow> vk_client \<Rightarrow> call_env \<Rightarrow> string \<Rightarrow> string \<Rightarrow> string \<Rightarrow> string \<Rightarrow> vk_token repo" where
  "vk_GetAccessToken r lb p c binding code state redirect =
     lg_then (ConsumeOAuthState r c ''vk'' state redirect binding)
       (of_sum (case judge_answer ''vk'' (lgl_VkToken lb (createGetAccessTokenUrl p code redirect)) of
          Inl err \<Rightarrow> Inl err
        | Inr t \<Rightarrow> if vkt_UserId t \<le> 0 \<or> vkt_AccessToken t = '''' then Inl (PlainError ''invalid VK identity'') else Inr t))"

text \<open>\<open>pkg/ip\<close>: a location in words, empty where the lookup fails.\<close>

definition addFormattedLocationInfo :: "string \<Rightarrow> string \<Rightarrow> string" where
  "addFormattedLocationInfo str info = (if info = '''' then str else if str = '''' then info else str @ '', '' @ info)"

definition createLocationStr :: "ip_info \<Rightarrow> string" where
  "createLocationStr i =
     addFormattedLocationInfo (addFormattedLocationInfo (addFormattedLocationInfo '''' (ipi_CityName i)) (ipi_RegionName i)) (ipi_CountryName i)"

definition GetLocation :: "lg_libs \<Rightarrow> string \<Rightarrow> string" where
  "GetLocation lb ip =
     (case lgl_IpInfo lb ip of Answer code (Some i) \<Rightarrow> if code = 200 then createLocationStr i else '''' | _ \<Rightarrow> '''')"

subsection \<open>Mails\<close>

record ClientData =
  cld_Ip :: string
  cld_UserAgent :: string

record mail_payload =
  mpl_To :: string
  mpl_Subject :: string
  mpl_Template :: string
  mpl_Values :: "(string \<times> string) list"
  mpl_Dev :: bool

definition sendMessage :: "bool \<Rightarrow> string \<Rightarrow> string \<Rightarrow> string \<Rightarrow> (string \<times> string) list \<Rightarrow> mail_payload" where
  "sendMessage dev email subject template values =
     \<lparr>mpl_To = email, mpl_Subject = subject, mpl_Template = ''./assets/mail/'' @ template, mpl_Values = values, mpl_Dev = dev\<rparr>"

definition access_point :: "lg_libs \<Rightarrow> string \<Rightarrow> string" where
  "access_point lb agent =
     (let ua = lgl_UserAgent lb agent in
      if uag_Mobile ua then uag_Model ua else uag_Browser ua @ '' '' @ uag_Version ua @ '', '' @ uag_OS ua)"

definition SendProfileActivationMail :: "lg_libs \<Rightarrow> bool \<Rightarrow> string \<Rightarrow> string \<Rightarrow> string \<Rightarrow> mail_payload" where
  "SendProfileActivationMail lb dev email code pattern =
     sendMessage dev email ''ChefBook Profile Activation'' ''profile_activation.html''
       [(''ActivationCode'', code), (''ActivationLink'', lgl_Sprintf lb pattern code)]"

definition SendNewLoginMail :: "lg_libs \<Rightarrow> bool \<Rightarrow> string \<Rightarrow> ClientData \<Rightarrow> time \<Rightarrow> mail_payload" where
  "SendNewLoginMail lb dev email client t =
     sendMessage dev email ''ChefBook New Profile Login'' ''new_login.html''
       [(''IP'', cld_Ip client), (''Access'', access_point lb (cld_UserAgent client)), (''Location'', GetLocation lb (cld_Ip client)),
        (''Timestamp'', lgl_RFC1123 lb t)]"

definition SendResetPasswordMail :: "lg_libs \<Rightarrow> bool \<Rightarrow> string \<Rightarrow> string \<Rightarrow> string \<Rightarrow> mail_payload" where
  "SendResetPasswordMail lb dev email code pattern =
     sendMessage dev email ''ChefBook Profile Password Reset'' ''password_reset.html'' [(''ResetLink'', lgl_Sprintf lb pattern code)]"

definition SendPasswordChangedMail :: "bool \<Rightarrow> string \<Rightarrow> mail_payload" where
  "SendPasswordChangedMail dev email = sendMessage dev email ''ChefBook Profile Password Update'' ''password_changed.html'' []"

definition SendUsernameChangedMail :: "bool \<Rightarrow> string \<Rightarrow> string \<Rightarrow> mail_payload" where
  "SendUsernameChangedMail dev email name =
     sendMessage dev email ''ChefBook Profile Username Update'' ''username_changed.html'' [(''Username'', name)]"

definition SendProfileDeletionRequestMail :: "lg_libs \<Rightarrow> bool \<Rightarrow> string \<Rightarrow> time \<Rightarrow> bool \<Rightarrow> mail_payload" where
  "SendProfileDeletionRequestMail lb dev email t shared =
     sendMessage dev email ''ChefBook Profile Deletion Request'' ''profile_deletion_request.html''
       [(''IncludeSharedData'', if shared then ''including'' else ''excluding''), (''Timestamp'', lgl_RFC1123 lb t)]"

definition SendProfileDeletedMail :: "bool \<Rightarrow> string \<Rightarrow> mail_payload" where
  "SendProfileDeletedMail dev email = sendMessage dev email ''ChefBook Profile Deleted'' ''profile_deleted.html'' []"

definition SendEmailBinding :: "lg_libs \<Rightarrow> bool \<Rightarrow> EmailDelivery \<Rightarrow> mail_payload" where
  "SendEmailBinding lb dev d =
     (let subject = (if edl_Stage d = ''old'' then ''ChefBook: approve email change'' else ''ChefBook: confirm your email'');
          instruction = (if edl_Stage d = ''old''
            then ''Approve changing your ChefBook email address. We will then send a separate confirmation to the new address.''
            else ''Confirm this email address for your ChefBook account.'')
      in sendMessage dev (edl_Email d) ((if dev then ''[DEV] '' else '''') @ subject) ''email_binding.html''
           [(''Instruction'', instruction), (''ConfirmationLink'', lgl_Sprintf lb (edl_LinkPattern d) (edl_Token d))])"

subsection \<open>The state of the services\<close>

datatype deferred =
    DeferPublish MessageData | DeferMail mail_payload | DeferTrim uuid
  | DeferFirebase uuid string time | DeferFirebaseByEmail uuid string

record world =
  wld_db :: legacy_db
  wld_pending :: "deferred list"

type_synonym 'a svc = "(world, 'a) fallible"

definition sv_repo :: "'a repo \<Rightarrow> 'a svc" where
  "sv_repo m w = (case m (wld_db w) of (x, s) \<Rightarrow> (x, w\<lparr>wld_db := s\<rparr>))"

definition sv_go :: "deferred \<Rightarrow> unit svc" where
  "sv_go d w = (Inr (), w\<lparr>wld_pending := wld_pending w @ [d]\<rparr>)"

text \<open>The service container: what every service is built from.\<close>

record services =
  srs_Repo :: Repository
  srs_Libs :: lg_libs
  srs_Dev :: bool
  srs_Google :: string
  srs_Vk :: vk_client
  srs_AccessTTL :: duration
  srs_RefreshTTL :: duration
  srs_ResetTTL :: duration

definition maxSessionsCount :: nat where
  "maxSessionsCount = 5"

text \<open>One started goroutine run to its end: \<open>cs\<close> are its calls, \<open>sent\<close> whether the broker takes a message.\<close>

definition connectFirebaseProfile :: "services \<Rightarrow> (nat \<Rightarrow> call_env) \<Rightarrow> bool \<Rightarrow> uuid \<Rightarrow> string \<Rightarrow> legacy_db \<Rightarrow> legacy_db" where
  "connectFirebaseProfile sv cs sent i email s =
     (case lgl_Firebase (srs_Libs sv) of None \<Rightarrow> s
      | Some fb \<Rightarrow> (case fbc_ProfileByEmail fb email of None \<Rightarrow> s
        | Some (fid, created) \<Rightarrow>
            (case ConnectFirebase (cs 0) i fid created s of
               (Inl err, t) \<Rightarrow> t | (Inr msg, t) \<Rightarrow> snd (PublishProfilesMessage (cs 1) sent msg t))))"

definition run_deferred :: "services \<Rightarrow> (nat \<Rightarrow> call_env) \<Rightarrow> bool \<Rightarrow> deferred \<Rightarrow> legacy_db \<Rightarrow> legacy_db" where
  "run_deferred sv cs sent d s =
     (case d of
        DeferPublish msg \<Rightarrow> snd (PublishProfilesMessage (cs 0) sent msg s)
      | DeferMail m \<Rightarrow> s
      | DeferTrim i \<Rightarrow> DeleteOutdatedSessions (cs 0) i maxSessionsCount s
      | DeferFirebase i fid created \<Rightarrow>
          (case ConnectFirebase (cs 0) i fid created s of
             (Inl err, t) \<Rightarrow> t | (Inr msg, t) \<Rightarrow> snd (PublishProfilesMessage (cs 1) sent msg t))
      | DeferFirebaseByEmail i email \<Rightarrow> connectFirebaseProfile sv cs sent i email s)"


subsection \<open>Usernames\<close>

definition svc_code :: "services \<Rightarrow> lfail \<Rightarrow> codes" where
  "svc_code sv err = lgl_Code (srs_Libs sv) err"

definition username_Get :: "call_env \<Rightarrow> uuid list \<Rightarrow> (uuid \<rightharpoonup> string) svc" where
  "username_Get c ids = sv_repo (GetUsernames c ids)"

definition username_CheckAvailability :: "services \<Rightarrow> call_env \<Rightarrow> string \<Rightarrow> bool svc" where
  "username_CheckAvailability sv c name =
     lg_catch (lg_bind (sv_repo (GetAuthInfoByUsername c name)) (\<lambda>_. lg_return False))
       (\<lambda>err. if svc_code sv err \<noteq> NotFound then lg_fail err else lg_return True)"

text \<open>The checks most services make of the user they act for.\<close>

definition unblocked :: "lg_AuthInfo \<Rightarrow> ('s, unit) fallible" where
  "unblocked info = lg_guard (\<not> lgi_IsBlocked info) GrpcProfileIsBlocked"

definition not_deleting :: "lg_AuthInfo \<Rightarrow> ('s, unit) fallible" where
  "not_deleting info = lg_guard (lgi_DeletionTimestamp info = None) GrpcAccountDeleting"

definition username_Set :: "services \<Rightarrow> (nat \<Rightarrow> call_env) \<Rightarrow> uuid \<Rightarrow> string \<Rightarrow> unit svc" where
  "username_Set sv cs i name =
     lg_bind (sv_repo (GetAuthInfoById (cs 0) i)) (\<lambda>info.
       lg_then (unblocked info)
         (lg_then (not_deleting info)
           (if lgi_Username info = Some name then lg_return ()
            else lg_bind (sv_repo (lg_SetUsername (cs 1) i name)) (\<lambda>email.
                   sv_go (DeferMail (SendUsernameChangedMail (srs_Dev sv) email name))))))"

subsection \<open>Passwords\<close>

definition password_RequestReset :: "services \<Rightarrow> (nat \<Rightarrow> call_env) \<Rightarrow> string option \<Rightarrow> string option \<Rightarrow> string \<Rightarrow> unit svc" where
  "password_RequestReset sv cs email name pattern =
     lg_bind (lg_catch (lg_bind (sv_repo (GetAuthInfoByIdentifiers cs \<lparr>uid_UserId = None, uid_Email = email, uid_Username = name\<rparr>))
                 (\<lambda>info. lg_return (Some info)))
               (\<lambda>err. if svc_code sv err = NotFound then lg_return None else lg_fail err)) (\<lambda>found.
       case found of None \<Rightarrow> lg_return ()
       | Some info \<Rightarrow>
           if \<not> lgi_IsActivated info \<or> lgi_IsBlocked info \<or> lgi_DeletionTimestamp info \<noteq> None then lg_return ()
           else lg_bind (sv_repo (CreatePasswordResetRequest (srs_Repo sv) (cs 3) (lgi_Id info) (cl_now (cs 3) + srs_ResetTTL sv))) (\<lambda>code.
                  sv_go (DeferMail (SendResetPasswordMail (srs_Libs sv) (srs_Dev sv) (lgi_Email info) code pattern))))"

definition hash_password :: "services \<Rightarrow> string \<Rightarrow> ('s, string) fallible" where
  "hash_password sv password = (case lgl_Hash (srs_Libs sv) password of None \<Rightarrow> lg_fail GrpcUnknown | Some h \<Rightarrow> lg_return h)"

definition password_Reset :: "services \<Rightarrow> (nat \<Rightarrow> call_env) \<Rightarrow> uuid \<Rightarrow> string \<Rightarrow> string \<Rightarrow> unit svc" where
  "password_Reset sv cs user0 code password =
     lg_bind (if user0 = uuid_Nil then sv_repo (GetPasswordResetUser (cs 0) code) else lg_return user0) (\<lambda>i.
       lg_bind (sv_repo (GetAuthInfoById (cs 1) i)) (\<lambda>info.
         lg_then (unblocked info)
           (lg_then (not_deleting info)
             (lg_bind (hash_password sv password) (\<lambda>h. sv_repo (lg_ResetPassword (cs 2) i code h))))))"

definition password_Change :: "services \<Rightarrow> (nat \<Rightarrow> call_env) \<Rightarrow> uuid \<Rightarrow> string \<Rightarrow> string \<Rightarrow> unit svc" where
  "password_Change sv cs i old new =
     lg_bind (lg_catch (sv_repo (GetAuthInfoById (cs 0) i)) (\<lambda>_. lg_fail GrpcUserNotFound)) (\<lambda>info.
       lg_then (unblocked info)
         (lg_then (not_deleting info)
           (if lgl_Validate (srs_Libs sv) new (lgi_PasswordHash info) then lg_return ()
            else if lgi_PasswordHash info = '''' then lg_fail GrpcReauthentication
            else if \<not> lgl_Validate (srs_Libs sv) old (lgi_PasswordHash info) then lg_fail GrpcReauthentication
            else lg_bind (hash_password sv new) (\<lambda>h.
              lg_then (sv_repo (lg_SetPassword (cs 1) i h))
                (sv_go (DeferMail (SendPasswordChangedMail (srs_Dev sv) (lgi_Email info))))))))"

subsection \<open>Reauthentication\<close>

record Reauthentication =
  rea_Method :: string
  rea_Password :: string
  rea_IdToken :: string
  rea_Code :: string
  rea_State :: string

definition freshAuthentication :: "int \<Rightarrow> time \<Rightarrow> bool" where
  "freshAuthentication timestamp now \<longleftrightarrow> timestamp > 0 \<and> timestamp \<le> Unix now + 30 \<and> Unix now - timestamp \<le> 300"

definition provider_down :: "services \<Rightarrow> lfail \<Rightarrow> bool" where
  "provider_down sv err \<longleftrightarrow> svc_code sv err = Internal \<or> svc_code sv err = Unavailable"

definition reauth_google :: "services \<Rightarrow> call_env \<Rightarrow> lg_AuthInfo \<Rightarrow> string \<Rightarrow> unit svc" where
  "reauth_google sv c info token =
     (case google_GetUserInfoByIdToken (srs_Libs sv) (srs_Google sv) (cl_now c) token of
        Inl err \<Rightarrow> lg_fail (if provider_down sv err then err else GrpcReauthentication)
      | Inr p \<Rightarrow>
          if lgo_GoogleId (lgi_OAuth info) = Some (gus_UserId p) \<and> freshAuthentication (gus_AuthenticatedAt p) (cl_now c)
          then sv_repo (ConsumeReauthentication (srs_Repo sv) c (lgi_Id info) token)
          else lg_fail GrpcReauthentication)"

definition reauth_vk :: "services \<Rightarrow> call_env \<Rightarrow> string \<Rightarrow> lg_AuthInfo \<Rightarrow> string \<Rightarrow> string \<Rightarrow> string \<Rightarrow> unit svc" where
  "reauth_vk sv c binding info code state redirect =
     lg_bind (lg_catch (sv_repo (vk_GetAccessToken (srs_Repo sv) (srs_Libs sv) (srs_Vk sv) c binding code state redirect))
         (\<lambda>err. lg_fail (if provider_down sv err then err else GrpcReauthentication))) (\<lambda>p.
       lg_guard (lgo_VkId (lgi_OAuth info) = Some (vkt_UserId p)) GrpcReauthentication)"

definition reauth_Check :: "services \<Rightarrow> (nat \<Rightarrow> call_env) \<Rightarrow> string \<Rightarrow> uuid \<Rightarrow> Reauthentication \<Rightarrow> string \<Rightarrow> unit svc" where
  "reauth_Check sv cs binding i a redirect =
     lg_bind (sv_repo (GetAuthInfoById (cs 0) i)) (\<lambda>info.
       lg_then (unblocked info)
         (if rea_Method a = ''password'' then
            lg_guard (rea_Password a \<noteq> '''' \<and> rea_IdToken a = '''' \<and> rea_Code a = '''' \<and> rea_State a = '''' \<and>
              lgl_Validate (srs_Libs sv) (rea_Password a) (lgi_PasswordHash info)) GrpcReauthentication
          else if rea_Method a = ''google'' then
            (if rea_IdToken a = '''' \<or> rea_Password a \<noteq> '''' \<or> rea_Code a \<noteq> '''' \<or> rea_State a \<noteq> '''' then lg_fail GrpcReauthentication
             else reauth_google sv (cs 1) info (rea_IdToken a))
          else if rea_Method a = ''vk'' then
            (if rea_Code a = '''' \<or> rea_State a = '''' \<or> rea_Password a \<noteq> '''' \<or> rea_IdToken a \<noteq> '''' then lg_fail GrpcReauthentication
             else reauth_vk sv (cs 1) binding info (rea_Code a) (rea_State a) redirect)
          else lg_fail GrpcReauthentication))"

subsection \<open>Email addresses\<close>

definition email_Verify :: "services \<Rightarrow> (nat \<Rightarrow> call_env) \<Rightarrow> string \<Rightarrow> string \<Rightarrow> string option \<Rightarrow> unit svc" where
  "email_Verify sv cs address pattern password =
     lg_bind (lg_catch (lg_bind (sv_repo (GetAuthInfoByEmail (cs 0) address)) (\<lambda>info. lg_return (Some info)))
         (\<lambda>err. if svc_code sv err = NotFound then lg_return None else lg_fail err)) (\<lambda>found.
       case found of None \<Rightarrow> lg_return ()
       | Some info \<Rightarrow>
           if lgi_IsActivated info \<or> lgi_IsBlocked info then lg_return ()
           else sv_repo (StartEmailBinding (srs_Repo sv) (cs 1)
             \<lparr>ebn_UserId = lgi_Id info, ebn_Purpose = ''verify'', ebn_Stage = ''verify'', ebn_OldEmail = lgi_Email info,
              ebn_Email = lgi_Email info, ebn_Token = '''', ebn_LinkPattern = pattern, ebn_PasswordHash = password,
              ebn_ExpiresAt = cl_now (cs 1) + 24 * Hour\<rparr>))"

text \<open>\<open>strings.EqualFold\<close>: ASCII texts are compared by lower case, other texts by the Unicode tables.\<close>

definition EqualFold :: "lg_libs \<Rightarrow> string \<Rightarrow> string \<Rightarrow> bool" where
  "EqualFold lb s t \<longleftrightarrow>
     (if list_all is_ascii s \<and> list_all is_ascii t then map lower_ascii s = map lower_ascii t else lgl_EqualFold lb s t)"

definition email_Change :: "services \<Rightarrow> (nat \<Rightarrow> call_env) \<Rightarrow> string \<Rightarrow> uuid \<Rightarrow> string \<Rightarrow> string \<Rightarrow> string \<Rightarrow> Reauthentication \<Rightarrow> unit svc" where
  "email_Change sv cs binding i address pattern redirect a =
     lg_then (reauth_Check sv cs binding i a redirect)
       (lg_bind (sv_repo (GetAuthInfoById (cs 2) i)) (\<lambda>info.
         lg_then (not_deleting info)
           (lg_then (lg_guard (\<not> EqualFold (srs_Libs sv) (lgi_Email info) address) (GrpcConflict ''email_unchanged''))
             (sv_repo (StartEmailBinding (srs_Repo sv) (cs 3)
               \<lparr>ebn_UserId = i, ebn_Purpose = ''change'', ebn_Stage = ''old'', ebn_OldEmail = lgi_Email info, ebn_Email = address,
                ebn_Token = '''', ebn_LinkPattern = pattern, ebn_PasswordHash = None, ebn_ExpiresAt = cl_now (cs 3) + 24 * Hour\<rparr>)))))"

definition email_Confirm :: "services \<Rightarrow> call_env \<Rightarrow> string \<Rightarrow> string \<Rightarrow> (string \<times> string) svc" where
  "email_Confirm sv c token pattern = sv_repo (ConfirmEmailBinding (srs_Repo sv) c token pattern)"

text \<open>\<open>Dispatch\<close>: after a cleanup, at most twenty-five mails, until none is due or one fails in the database.\<close>

fun dispatch_loop :: "nat \<Rightarrow> (nat \<Rightarrow> call_env) \<Rightarrow> (EmailDelivery \<Rightarrow> bool) \<Rightarrow> legacy_db \<Rightarrow> legacy_db" where
  "dispatch_loop 0 cs send s = s"
| "dispatch_loop (Suc n) cs send s =
     (case DeliverEmail (cs n) send s of (Inr True, t) \<Rightarrow> dispatch_loop n cs send t | (_, t) \<Rightarrow> t)"

definition email_Dispatch :: "call_env \<Rightarrow> (nat \<Rightarrow> call_env) \<Rightarrow> (EmailDelivery \<Rightarrow> bool) \<Rightarrow> legacy_db \<Rightarrow> legacy_db" where
  "email_Dispatch c cs send s = (case CleanupAuthWorkflows c s of (Inl err, t) \<Rightarrow> t | (Inr _, t) \<Rightarrow> dispatch_loop 25 cs send t)"

subsection \<open>Profile deletion\<close>

definition deletion_GetInfo :: "call_env \<Rightarrow> uuid \<Rightarrow> legacy_db \<Rightarrow> time option \<times> bool" where
  "deletion_GetInfo c i s =
     (case GetAuthInfoById c i s of (Inl err, _) \<Rightarrow> (None, True) | (Inr info, _) \<Rightarrow> (lgi_DeletionTimestamp info, False))"

definition deletion_Request :: "services \<Rightarrow> (nat \<Rightarrow> call_env) \<Rightarrow> string \<Rightarrow> uuid \<Rightarrow> Reauthentication \<Rightarrow> bool \<Rightarrow> string \<Rightarrow> DeleteProfileRequest svc" where
  "deletion_Request sv cs binding i a shared redirect =
     lg_then (reauth_Check sv cs binding i a redirect)
       (lg_bind (sv_repo (GetAuthInfoById (cs 2) i)) (\<lambda>info.
         lg_then (lg_guard (case lgi_DeletionTimestamp info of None \<Rightarrow> True | Some t \<Rightarrow> t > cl_now (cs 2)) GrpcDeletionExpired)
           (lg_bind (sv_repo (RequestDeleteProfile (srs_Repo sv) (cs 3) i shared)) (\<lambda>request.
             lg_then (if lgi_DeletionTimestamp info = None
                then sv_go (DeferMail (SendProfileDeletionRequestMail (srs_Libs sv) (srs_Dev sv) (lgi_Email info)
                       (dpr_Timestamp request) (dpr_WithSharedData request)))
                else lg_return ())
               (lg_return request)))))"

definition deletion_Update :: "(nat \<Rightarrow> call_env) \<Rightarrow> uuid \<Rightarrow> bool \<Rightarrow> DeleteProfileRequest svc" where
  "deletion_Update cs i shared =
     lg_bind (sv_repo (GetAuthInfoById (cs 0) i)) (\<lambda>info.
       lg_then (unblocked info) (sv_repo (lg_UpdateProfileDeletion (cs 1) i shared)))"

text \<open>\<open>Execute\<close> publishes before it returns; \<open>sent\<close> says whether the broker takes the message.\<close>

definition deletion_Execute :: "services \<Rightarrow> (nat \<Rightarrow> call_env) \<Rightarrow> bool \<Rightarrow> DeleteProfileRequest \<Rightarrow> unit svc" where
  "deletion_Execute sv cs sent request =
     lg_bind (lg_catch (sv_repo (GetAuthInfoById (cs 0) (dpr_UserId request))) (\<lambda>_. lg_fail GrpcUserNotFound)) (\<lambda>info.
       lg_bind (sv_repo (lg_DeleteUser (cs 1) (dpr_UserId request))) (\<lambda>msg.
         case msg of None \<Rightarrow> lg_return ()
         | Some m \<Rightarrow>
             lg_then (sv_go (DeferMail (SendProfileDeletedMail (srs_Dev sv) (lgi_Email info))))
               (lg_catch (sv_repo (PublishProfilesMessage (cs 2) sent m)) (\<lambda>_. lg_return ()))))"

fun execute_requests :: "services \<Rightarrow> (uuid \<Rightarrow> nat \<Rightarrow> call_env) \<Rightarrow> (uuid \<Rightarrow> bool) \<Rightarrow> DeleteProfileRequest list \<Rightarrow> world \<Rightarrow> world" where
  "execute_requests sv cs sent [] w = w"
| "execute_requests sv cs sent (request # requests) w =
     execute_requests sv cs sent requests
       (snd (deletion_Execute sv (cs (dpr_UserId request)) (sent (dpr_UserId request)) request w))"

definition deletion_ExecuteAll :: "services \<Rightarrow> call_env \<Rightarrow> (uuid \<Rightarrow> nat \<Rightarrow> call_env) \<Rightarrow> (uuid \<Rightarrow> bool) \<Rightarrow> world \<Rightarrow> world" where
  "deletion_ExecuteAll sv c cs sent w = execute_requests sv cs sent (GetProfilesToDelete c (wld_db w)) w"

definition deletion_Cancel :: "(nat \<Rightarrow> call_env) \<Rightarrow> uuid \<Rightarrow> unit svc" where
  "deletion_Cancel cs i =
     lg_bind (sv_repo (GetAuthInfoById (cs 0) i)) (\<lambda>info.
       lg_then (unblocked info) (sv_repo (lg_CancelProfileDeletion (cs 1) i)))"

subsection \<open>Provider connections\<close>

definition rejected_code :: "services \<Rightarrow> lfail \<Rightarrow> ('s, 'a) fallible" where
  "rejected_code sv err = lg_fail (if provider_down sv err then err else GrpcInvalidCode)"

definition oauth_GenerateGoogleLink :: "services \<Rightarrow> call_env \<Rightarrow> string \<Rightarrow> string \<Rightarrow> string svc" where
  "oauth_GenerateGoogleLink sv c binding redirect =
     sv_repo (google_CreateOAuthLink (srs_Repo sv) (srs_Libs sv) (srs_Google sv) c binding redirect)"

definition oauth_ConnectGoogle :: "services \<Rightarrow> (nat \<Rightarrow> call_env) \<Rightarrow> string \<Rightarrow> uuid \<Rightarrow> string \<Rightarrow> string \<Rightarrow> string \<Rightarrow> bool svc" where
  "oauth_ConnectGoogle sv cs binding i code state redirect =
     lg_bind (lg_catch (sv_repo (google_GetUserInfoByCode (srs_Repo sv) (srs_Libs sv) (cs 0) binding code state redirect)) (rejected_code sv))
       (\<lambda>info. sv_repo (lg_ConnectGoogle (cs 1) i (gus_UserId info)))"

definition oauth_ConnectGoogleToken :: "services \<Rightarrow> (nat \<Rightarrow> call_env) \<Rightarrow> uuid \<Rightarrow> string \<Rightarrow> bool svc" where
  "oauth_ConnectGoogleToken sv cs i token =
     lg_bind (lg_catch (of_sum (google_GetUserInfoByIdToken (srs_Libs sv) (srs_Google sv) (cl_now (cs 0)) token)) (rejected_code sv))
       (\<lambda>info. sv_repo (lg_ConnectGoogle (cs 1) i (gus_UserId info)))"

definition hasMultipleSignInMethods :: "lg_AuthInfo \<Rightarrow> bool" where
  "hasMultipleSignInMethods info \<longleftrightarrow>
     length (filter id [lgi_PasswordHash info \<noteq> '''', lgo_GoogleId (lgi_OAuth info) \<noteq> None, lgo_VkId (lgi_OAuth info) \<noteq> None]) > 1"

definition oauth_DeleteGoogleConnection :: "(nat \<Rightarrow> call_env) \<Rightarrow> uuid \<Rightarrow> unit svc" where
  "oauth_DeleteGoogleConnection cs i =
     lg_bind (sv_repo (GetAuthInfoById (cs 0) i)) (\<lambda>info.
       lg_then (unblocked info)
         (lg_then (not_deleting info)
           (if lgo_GoogleId (lgi_OAuth info) = None then lg_return ()
            else if \<not> hasMultipleSignInMethods info then lg_fail GrpcFewSignInMethods
            else sv_repo (lg_DeleteGoogleConnection (cs 1) i))))"

definition oauth_GenerateVkLink :: "services \<Rightarrow> call_env \<Rightarrow> string \<Rightarrow> string \<Rightarrow> string \<Rightarrow> string \<Rightarrow> string svc" where
  "oauth_GenerateVkLink sv c binding display responseType redirect =
     lg_catch (sv_repo (vk_CreateOAuthLink (srs_Repo sv) (srs_Vk sv) c binding display responseType redirect)) (\<lambda>_. lg_fail GrpcUnknown)"

definition oauth_ConnectVk :: "services \<Rightarrow> (nat \<Rightarrow> call_env) \<Rightarrow> string \<Rightarrow> uuid \<Rightarrow> string \<Rightarrow> string \<Rightarrow> string \<Rightarrow> bool svc" where
  "oauth_ConnectVk sv cs binding i code state redirect =
     lg_bind (lg_catch (sv_repo (vk_GetAccessToken (srs_Repo sv) (srs_Libs sv) (srs_Vk sv) (cs 0) binding code state redirect)) (rejected_code sv))
       (\<lambda>t. sv_repo (lg_ConnectVk (cs 1) i (vkt_UserId t)))"

definition oauth_DeleteVkConnection :: "(nat \<Rightarrow> call_env) \<Rightarrow> uuid \<Rightarrow> unit svc" where
  "oauth_DeleteVkConnection cs i =
     lg_bind (sv_repo (GetAuthInfoById (cs 0) i)) (\<lambda>info.
       lg_then (unblocked info)
         (lg_then (not_deleting info)
           (if lgo_VkId (lgi_OAuth info) = None then lg_return ()
            else if \<not> hasMultipleSignInMethods info then lg_fail GrpcFewSignInMethods
            else sv_repo (lg_DeleteVkConnection (cs 1) i))))"

end
