(* ===== verification/Auth_LegacySessions.thy ===== *)
theory Auth_LegacySessions
  imports Auth_LegacyServices
begin

section \<open>The former session service\<close>

text \<open>
  \<open>internal/service/session\<close>: signing up and in by password, Firebase import, Google and VK,
  refreshing, listing and ending sessions.
\<close>

subsection \<open>Tokens\<close>

record lg_Tokens =
  lgk_SessionId :: int
  lgk_DeleteSharedData :: bool
  lgk_ProfileId :: uuid
  lgk_AccessToken :: string
  lgk_RefreshToken :: string
  lgk_Expiration :: time
  lgk_DeletionTimestamp :: "time option"

text \<open>\<open>CreateRefresh\<close> of the token manager draws the token \<open>refresh\<close> of the environment \<open>cl_token\<close>.\<close>

definition createSessionEntity :: "services \<Rightarrow> call_env \<Rightarrow> lg_AuthInfo \<Rightarrow> string \<Rightarrow> string \<Rightarrow> lfail + (lg_Tokens \<times> SessionInput)" where
  "createSessionEntity sv c info ip agent =
     (let plan = (case lgl_Plan (srs_Libs sv) (lgi_Id info) of None \<Rightarrow> lgl_PlanFree (srs_Libs sv) | Some p \<Rightarrow> p);
          refresh = (case cl_token c of None \<Rightarrow> '''' | Some t \<Rightarrow> t);
          expires = cl_now c + srs_RefreshTTL sv
      in case lgl_CreateAccess (srs_Libs sv)
           \<lparr>lpl_UserId = lgi_Id info, lpl_Email = lgi_Email info, lpl_Username = lgi_Username info, lpl_Role = lgi_Role info,
            lpl_Plan = plan, lpl_Deleted = (lgi_DeletionTimestamp info \<noteq> None)\<rparr> (srs_AccessTTL sv) of
           None \<Rightarrow> Inl GrpcUnknown
         | Some access \<Rightarrow>
             Inr (\<lparr>lgk_SessionId = 0, lgk_DeleteSharedData = lgi_DeleteSharedData info, lgk_ProfileId = lgi_Id info,
                   lgk_AccessToken = access, lgk_RefreshToken = refresh, lgk_Expiration = expires,
                   lgk_DeletionTimestamp = lgi_DeletionTimestamp info\<rparr>,
                  \<lparr>sin_UserId = lgi_Id info, sin_RefreshToken = refresh, sin_Ip = ip, sin_UserAgent = agent, sin_ExpiresAt = expires\<rparr>))"

definition createSession :: "services \<Rightarrow> call_env \<Rightarrow> lg_AuthInfo \<Rightarrow> ClientData \<Rightarrow> lg_Tokens svc" where
  "createSession sv c info client =
     lg_bind (of_sum (createSessionEntity sv c info (cld_Ip client) (cld_UserAgent client))) (\<lambda>p.
       case p of (tokens, session) \<Rightarrow>
         lg_bind (sv_repo (lg_CreateSession (srs_Repo sv) c session)) (\<lambda>sid.
           lg_then (sv_go (DeferTrim (lgi_Id info)))
             (lg_then (sv_go (DeferMail (SendNewLoginMail (srs_Libs sv) (srs_Dev sv) (lgi_Email info) client (cl_now c))))
               (lg_return (tokens\<lparr>lgk_SessionId := sid\<rparr>)))))"

definition checkProfileAvailability :: "lg_AuthInfo \<Rightarrow> ('s, unit) fallible" where
  "checkProfileAvailability info =
     lg_then (lg_guard (lgi_IsActivated info) GrpcProfileNotActivated) (lg_guard (\<not> lgi_IsBlocked info) GrpcProfileIsBlocked)"

subsection \<open>Passwords and Firebase\<close>

text \<open>The six-digit activation code \<open>digits\<close> is drawn by the environment.\<close>

definition createNewUserData ::
  "services \<Rightarrow> string \<Rightarrow> uuid option \<Rightarrow> string \<Rightarrow> string \<Rightarrow> ('s, CredentialsHash \<times> string option) fallible" where
  "createNewUserData sv digits requested email password =
     lg_bind (hash_password sv password) (\<lambda>h.
       lg_return (\<lparr>crh_Id = requested, crh_Email = email, crh_PasswordHash = Some h\<rparr>, Some digits))"

definition session_SignUp ::
  "services \<Rightarrow> (nat \<Rightarrow> call_env) \<Rightarrow> string \<Rightarrow> uuid option \<Rightarrow> string \<Rightarrow> string \<Rightarrow> string \<Rightarrow> (uuid \<times> bool) svc" where
  "session_SignUp sv cs digits requested email password pattern =
     lg_bind (lg_catch (lg_bind (sv_repo (GetAuthInfoByEmail (cs 0) email)) (\<lambda>info. lg_return (Some info)))
         (\<lambda>err. if svc_code sv err \<noteq> NotFound then lg_fail err else lg_return None)) (\<lambda>found.
       case found of
         Some info \<Rightarrow>
           if lgi_IsActivated info \<or> lgi_IsBlocked info then lg_return (lgi_Id info, lgi_IsActivated info)
           else lg_bind (hash_password sv password) (\<lambda>h.
             lg_then (email_Verify sv (\<lambda>k. cs (k + 1)) email pattern (Some h)) (lg_return (lgi_Id info, False)))
       | None \<Rightarrow>
           lg_bind (createNewUserData sv digits requested email password) (\<lambda>new.
             lg_bind (sv_repo (lg_CreateUser (cs 3) (fst new) (snd new) \<lparr>lgo_GoogleId = None, lgo_VkId = None\<rparr>)) (\<lambda>p.
               lg_then (sv_go (DeferPublish (snd p)))
                 (lg_then (email_Verify sv (\<lambda>k. cs (k + 4)) email pattern (crh_PasswordHash (fst new))) (lg_return (fst p, False))))))"

definition session_ActivateProfile :: "call_env \<Rightarrow> uuid \<Rightarrow> string \<Rightarrow> unit svc" where
  "session_ActivateProfile c i code = sv_repo (lg_ActivateProfile c i code)"

definition importFirebaseProfile :: "services \<Rightarrow> (nat \<Rightarrow> call_env) \<Rightarrow> string \<Rightarrow> string \<Rightarrow> lg_AuthInfo svc" where
  "importFirebaseProfile sv cs email password =
     (case lgl_Firebase (srs_Libs sv) of
        None \<Rightarrow> lg_fail GrpcInvalidCredentials
      | Some fb \<Rightarrow> (case fbc_SignIn fb email password of
          Inl invalid \<Rightarrow> lg_fail (if invalid then GrpcInvalidCredentials else GrpcUnavailable ''firebase'')
        | Inr fid \<Rightarrow>
            lg_bind (lg_read (\<lambda>w. IsFirebaseProfileConnected (cs 0) fid (wld_db w))) (\<lambda>connected.
              if connected then lg_fail GrpcInvalidCredentials
              else lg_bind (hash_password sv password) (\<lambda>h.
                case fbc_Profile fb fid of None \<Rightarrow> lg_fail GrpcUnknown
                | Some created \<Rightarrow>
                    lg_bind (sv_repo (lg_CreateUser (cs 1) \<lparr>crh_Id = None, crh_Email = email, crh_PasswordHash = Some h\<rparr> None
                        \<lparr>lgo_GoogleId = None, lgo_VkId = None\<rparr>)) (\<lambda>p.
                      lg_then (sv_go (DeferPublish (snd p)))
                        (lg_then (sv_go (DeferFirebase (fst p) fid created))
                          (sv_repo (GetAuthInfoById (cs 2) (fst p)))))))))"

definition session_SignIn ::
  "services \<Rightarrow> (nat \<Rightarrow> call_env) \<Rightarrow> string option \<Rightarrow> string option \<Rightarrow> string \<Rightarrow> ClientData \<Rightarrow> lg_Tokens svc" where
  "session_SignIn sv cs email name password client =
     lg_bind (lg_catch (sv_repo (GetAuthInfoByIdentifiers cs \<lparr>uid_UserId = None, uid_Email = email, uid_Username = name\<rparr>))
         (\<lambda>err. if svc_code sv err \<noteq> NotFound then lg_fail err
            else case email of None \<Rightarrow> lg_fail GrpcInvalidCredentials
            | Some address \<Rightarrow>
                if lgl_Firebase (srs_Libs sv) = None then lg_fail GrpcInvalidCredentials
                else importFirebaseProfile sv (\<lambda>k. cs (k + 3)) address password)) (\<lambda>info.
       lg_then (lg_guard (lgl_Validate (srs_Libs sv) password (lgi_PasswordHash info)) GrpcInvalidCredentials)
         (lg_then (checkProfileAvailability info) (createSession sv (cs 6) info client)))"

definition session_SignOut :: "call_env \<Rightarrow> string \<Rightarrow> unit svc" where
  "session_SignOut c token = sv_repo (lg_DeleteSession c token)"

definition session_GetAuthInfo :: "(nat \<Rightarrow> call_env) \<Rightarrow> UserIdentifiers \<Rightarrow> lg_AuthInfo svc" where
  "session_GetAuthInfo cs ids = sv_repo (GetAuthInfoByIdentifiers cs ids)"

subsection \<open>Providers\<close>

text \<open>
  Google and VK sign in by the same steps, so what they share is written over the subject: how
  it is stored and how a user has it. The functions of the code follow for each provider.
\<close>

definition linked_subject :: "identity_column \<Rightarrow> lg_AuthInfo \<Rightarrow> identity_column option" where
  "linked_subject col info =
     (case col of GoogleColumn _ \<Rightarrow> map_option GoogleColumn (lgo_GoogleId (lgi_OAuth info))
      | VkColumn _ \<Rightarrow> map_option VkColumn (lgo_VkId (lgi_OAuth info)))"

definition subject_oauth :: "identity_column \<Rightarrow> lg_OAuth" where
  "subject_oauth col =
     (case col of GoogleColumn g \<Rightarrow> \<lparr>lgo_GoogleId = Some g, lgo_VkId = None\<rparr> | VkColumn v \<Rightarrow> \<lparr>lgo_GoogleId = None, lgo_VkId = Some v\<rparr>)"

definition info_by_subject :: "call_env \<Rightarrow> identity_column \<Rightarrow> lg_AuthInfo repo" where
  "info_by_subject c col = (case col of GoogleColumn g \<Rightarrow> GetAuthInfoByGoogleId c g | VkColumn v \<Rightarrow> GetAuthInfoByVkId c v)"

definition sign_in_existing :: "services \<Rightarrow> (nat \<Rightarrow> call_env) \<Rightarrow> lg_AuthInfo \<Rightarrow> identity_column \<Rightarrow> ClientData \<Rightarrow> lg_Tokens svc" where
  "sign_in_existing sv cs info subject client =
     lg_then (checkProfileAvailability info)
       (if linked_subject subject info = None \<and> lgi_DeletionTimestamp info \<noteq> None then lg_fail GrpcInvalidCredentials
        else lg_then (if linked_subject subject info = Some subject then lg_return ()
            else lg_bind (lg_catch (sv_repo (connectIdentity (cs 0) (lgi_Id info) subject))
                  (\<lambda>err. lg_fail (if svc_code sv err = FailedPrecondition then GrpcInvalidCredentials else err))) (\<lambda>_. lg_return ()))
          (lg_then (checkProfileAvailability info) (createSession sv (cs 1) info client)))"

definition sign_in_creating :: "services \<Rightarrow> (nat \<Rightarrow> call_env) \<Rightarrow> identity_column \<Rightarrow> string \<Rightarrow> ClientData \<Rightarrow> lg_Tokens svc" where
  "sign_in_creating sv cs subject email client =
     (if email = '''' then lg_fail GrpcEmailRequired
      else lg_bind (sv_repo (lg_CreateUser (cs 0) \<lparr>crh_Id = None, crh_Email = email, crh_PasswordHash = None\<rparr> None (subject_oauth subject))) (\<lambda>p.
        lg_then (sv_go (DeferPublish (snd p)))
          (lg_bind (sv_repo (GetAuthInfoById (cs 1) (fst p))) (\<lambda>info.
            lg_then (sv_go (DeferFirebaseByEmail (lgi_Id info) (lgi_Email info))) (createSession sv (cs 2) info client)))))"

text \<open>The profile of a subject, or else of the address the provider gives, where there is one.\<close>

definition profile_of_subject :: "services \<Rightarrow> (nat \<Rightarrow> call_env) \<Rightarrow> identity_column \<Rightarrow> string \<Rightarrow> lg_AuthInfo option svc" where
  "profile_of_subject sv cs subject email =
     lg_catch (lg_bind
         (lg_catch (sv_repo (info_by_subject (cs 0) subject))
           (\<lambda>err. if svc_code sv err \<noteq> NotFound then lg_fail err
              else if email \<noteq> '''' then sv_repo (GetAuthInfoByEmail (cs 1) email) else lg_fail err))
         (\<lambda>info. lg_return (Some info)))
       (\<lambda>err. if svc_code sv err \<noteq> NotFound then lg_fail err else lg_return None)"

definition signInGoogleWithExistingProfile ::
  "services \<Rightarrow> (nat \<Rightarrow> call_env) \<Rightarrow> lg_AuthInfo \<Rightarrow> google_user \<Rightarrow> ClientData \<Rightarrow> lg_Tokens svc" where
  "signInGoogleWithExistingProfile sv cs info g client = sign_in_existing sv cs info (GoogleColumn (gus_UserId g)) client"

definition signInGoogleWithProfileCreation :: "services \<Rightarrow> (nat \<Rightarrow> call_env) \<Rightarrow> google_user \<Rightarrow> ClientData \<Rightarrow> lg_Tokens svc" where
  "signInGoogleWithProfileCreation sv cs g client = sign_in_creating sv cs (GoogleColumn (gus_UserId g)) (gus_Email g) client"

definition handleGoogleInfoResponse :: "services \<Rightarrow> (nat \<Rightarrow> call_env) \<Rightarrow> google_user \<Rightarrow> ClientData \<Rightarrow> lg_Tokens svc" where
  "handleGoogleInfoResponse sv cs g client =
     lg_bind (profile_of_subject sv cs (GoogleColumn (gus_UserId g)) (gus_Email g)) (\<lambda>found.
       case found of
         Some info \<Rightarrow> signInGoogleWithExistingProfile sv (\<lambda>k. cs (k + 2)) info g client
       | None \<Rightarrow> signInGoogleWithProfileCreation sv (\<lambda>k. cs (k + 2)) g client)"

definition session_SignInGoogle ::
  "services \<Rightarrow> (nat \<Rightarrow> call_env) \<Rightarrow> string \<Rightarrow> string \<Rightarrow> string \<Rightarrow> ClientData \<Rightarrow> string \<Rightarrow> lg_Tokens svc" where
  "session_SignInGoogle sv cs binding code state client redirect =
     lg_bind (lg_catch (sv_repo (google_GetUserInfoByCode (srs_Repo sv) (srs_Libs sv) (cs 0) binding code state redirect)) (rejected_code sv))
       (\<lambda>g. handleGoogleInfoResponse sv (\<lambda>k. cs (k + 1)) g client)"

definition session_SignInGoogleIdToken :: "services \<Rightarrow> (nat \<Rightarrow> call_env) \<Rightarrow> string \<Rightarrow> ClientData \<Rightarrow> lg_Tokens svc" where
  "session_SignInGoogleIdToken sv cs token client =
     lg_bind (lg_catch (of_sum (google_GetUserInfoByIdToken (srs_Libs sv) (srs_Google sv) (cl_now (cs 0)) token)) (rejected_code sv))
       (\<lambda>g. handleGoogleInfoResponse sv (\<lambda>k. cs (k + 1)) g client)"

definition signInVkWithExistingProfile ::
  "services \<Rightarrow> (nat \<Rightarrow> call_env) \<Rightarrow> lg_AuthInfo \<Rightarrow> vk_token \<Rightarrow> ClientData \<Rightarrow> lg_Tokens svc" where
  "signInVkWithExistingProfile sv cs info v client = sign_in_existing sv cs info (VkColumn (vkt_UserId v)) client"

definition signInVkWithProfileCreation :: "services \<Rightarrow> (nat \<Rightarrow> call_env) \<Rightarrow> vk_token \<Rightarrow> ClientData \<Rightarrow> lg_Tokens svc" where
  "signInVkWithProfileCreation sv cs v client = sign_in_creating sv cs (VkColumn (vkt_UserId v)) (vkt_Email v) client"

definition session_SignInVk ::
  "services \<Rightarrow> (nat \<Rightarrow> call_env) \<Rightarrow> string \<Rightarrow> string \<Rightarrow> string \<Rightarrow> ClientData \<Rightarrow> string \<Rightarrow> lg_Tokens svc" where
  "session_SignInVk sv cs binding code state client redirect =
     lg_bind (lg_catch (sv_repo (vk_GetAccessToken (srs_Repo sv) (srs_Libs sv) (srs_Vk sv) (cs 0) binding code state redirect)) (rejected_code sv))
       (\<lambda>v. lg_bind (profile_of_subject sv (\<lambda>k. cs (k + 1)) (VkColumn (vkt_UserId v)) (vkt_Email v)) (\<lambda>found.
          case found of
            Some info \<Rightarrow> signInVkWithExistingProfile sv (\<lambda>k. cs (k + 3)) info v client
          | None \<Rightarrow> signInVkWithProfileCreation sv (\<lambda>k. cs (k + 3)) v client))"

subsection \<open>Sessions\<close>

definition session_Refresh :: "services \<Rightarrow> (nat \<Rightarrow> call_env) \<Rightarrow> string \<Rightarrow> string \<Rightarrow> string \<Rightarrow> lg_Tokens svc" where
  "session_Refresh sv cs token ip agent =
     lg_bind (sv_repo (GetAuthInfoByRefreshToken cs token)) (\<lambda>info.
       if lgi_IsBlocked info
       then lg_then (lg_catch (sv_repo (lg_DeleteSession (cs 2) token)) (\<lambda>_. lg_return ())) (lg_fail GrpcProfileIsBlocked)
       else lg_bind (of_sum (createSessionEntity sv (cs 2) info ip agent)) (\<lambda>p.
         lg_bind (sv_repo (UpdateSession (srs_Repo sv) (cs 3) (snd p) token)) (\<lambda>sid.
           lg_return ((fst p)\<lparr>lgk_SessionId := sid\<rparr>))))"

record SessionClient =
  scl_Name :: string
  scl_Platform :: string
  scl_Type :: string

record SessionInfo =
  sif_Client :: SessionClient
  sif_SessionId :: int
  sif_UserId :: uuid
  sif_Ip :: string
  sif_AccessPoint :: string
  sif_Mobile :: bool
  sif_AccessTime :: time
  sif_Location :: string

definition client_platform :: "string \<Rightarrow> string" where
  "client_platform value =
     (if Contains value ''android'' then ''android''
      else if Contains value ''iphone'' \<or> Contains value ''ipad'' \<or> Contains value ''ios'' then ''ios''
      else if Contains value ''windows'' then ''windows''
      else if Contains value ''macintosh'' \<or> Contains value ''mac os'' then ''macos''
      else if Contains value ''linux'' then ''linux'' else ''unknown'')"

definition parseClient :: "lg_libs \<Rightarrow> string \<Rightarrow> SessionClient" where
  "parseClient lb raw =
     (let value = ToLower (lgl_Unicode lb) raw; browser = uag_Browser (lgl_UserAgent lb raw) in
      if Contains value ''chefbook'' then \<lparr>scl_Name = ''ChefBook'', scl_Platform = client_platform value, scl_Type = ''app''\<rparr>
      else if browser \<noteq> '''' \<and> (Contains value ''mozilla/'' \<or> Contains value ''opera/'')
      then \<lparr>scl_Name = browser, scl_Platform = client_platform value, scl_Type = ''browser''\<rparr>
      else \<lparr>scl_Name = '''', scl_Platform = client_platform value, scl_Type = ''unknown''\<rparr>)"

definition humanizeSessionInfo :: "lg_libs \<Rightarrow> SessionRawInfo \<Rightarrow> string \<Rightarrow> SessionInfo" where
  "humanizeSessionInfo lb raw location =
     \<lparr>sif_Client = parseClient lb (sri_UserAgent raw), sif_SessionId = sri_SessionId raw, sif_UserId = sri_UserId raw, sif_Ip = sri_Ip raw,
      sif_AccessPoint = access_point lb (sri_UserAgent raw), sif_Mobile = uag_Mobile (lgl_UserAgent lb (sri_UserAgent raw)),
      sif_AccessTime = sri_AccessTime raw, sif_Location = location\<rparr>"

text \<open>The locations are looked up once per address, in any order.\<close>

definition getIpLocationMap :: "lg_libs \<Rightarrow> SessionRawInfo list \<Rightarrow> string \<rightharpoonup> string" where
  "getIpLocationMap lb infos = map_of (map (\<lambda>ip. (ip, GetLocation lb ip)) (remdups (map sri_Ip infos)))"

definition session_GetAll :: "services \<Rightarrow> call_env \<Rightarrow> uuid \<Rightarrow> SessionInfo list svc" where
  "session_GetAll sv c i =
     lg_bind (sv_repo (lg_GetSessions c i)) (\<lambda>raws.
       let locations = getIpLocationMap (srs_Libs sv) raws in
       lg_return (map (\<lambda>raw. humanizeSessionInfo (srs_Libs sv) raw (case locations (sri_Ip raw) of None \<Rightarrow> '''' | Some l \<Rightarrow> l)) raws))"

definition session_DeleteMultiple :: "call_env \<Rightarrow> uuid \<Rightarrow> int list \<Rightarrow> unit svc" where
  "session_DeleteMultiple c i ids = sv_repo (if ids = [] then DeleteAllSessions c i else lg_DeleteSessions c i ids)"

end
