(* ===== verification/Auth_LegacyGrpc.thy ===== *)
theory Auth_LegacyGrpc
  imports Auth_LegacySessions
begin

section \<open>The former gRPC transport\<close>

text \<open>
  \<open>internal/transport/utils\<close> and \<open>internal/transport/grpc\<close>: the validators of credentials and
  usernames and the procedures of the former \<open>AuthService\<close>, which read a request, call one
  service and write the response. The fields of a request are arguments; \<open>binding\<close> is the flow
  binding a request puts into its context. Text and identifiers are parsed by the libraries
  of the record \<open>lg_server\<close>.
\<close>

record lg_server =
  lsv_Services :: services
  lsv_uuid :: uuids
  lsv_ParseAddress :: "string \<Rightarrow> (string \<times> string) option"
  lsv_Forbidden :: "string list"

subsection \<open>Validators\<close>

text \<open>\<open>ValidateEmail\<close>: \<open>mail.ParseAddress\<close> answers with the address and the display name.\<close>

definition ValidateEmail :: "lg_server \<Rightarrow> string \<Rightarrow> lfail option" where
  "ValidateEmail sv email = (if lsv_ParseAddress sv email = Some (email, '''') then None else Some GrpcInvalidEmail)"

definition is_letter :: "char \<Rightarrow> bool" where
  "is_letter c \<longleftrightarrow> is_lower c \<or> is_upper c"

definition password_char :: "char \<Rightarrow> bool" where
  "password_char c \<longleftrightarrow> is_letter c \<or> is_digit c \<or> c \<in> set ''_!@#$%^&*''"

text \<open>
  After the regular expression has matched only ASCII is left, for which the \<open>unicode\<close>
  classes are the ranges of letters and digits. Go's \<open>$\<close> matches only at the end of the text.
\<close>

definition lg_ValidatePassword :: "string \<Rightarrow> lfail option" where
  "lg_ValidatePassword password =
     (if length password < 8 then Some GrpcPasswordTooShort
      else if length password > 64 then Some GrpcPasswordTooLong
      else if \<not> list_all password_char password then Some GrpcPasswordForbiddenSymbols
      else if \<not> list_ex is_lower password then Some GrpcPasswordNoLower
      else if \<not> list_ex is_upper password then Some GrpcPasswordNoUpper
      else if \<not> list_ex is_digit password then Some GrpcPasswordNoNumber
      else None)"

definition lg_username_char :: "char \<Rightarrow> bool" where
  "lg_username_char c \<longleftrightarrow> is_letter c \<or> is_digit c \<or> c = CHR ''_''"

fun split_lines :: "string \<Rightarrow> string \<Rightarrow> string list" where
  "split_lines acc [] = [rev acc]"
| "split_lines acc (c # s) = (if byte c = 10 then rev acc # split_lines [] s else split_lines (c # acc) s)"

text \<open>\<open>NewValidator\<close>: the lines of the file with the forbidden words, \<open>strings.Split\<close> at the newlines.\<close>

definition NewValidator :: "string \<Rightarrow> string list" where
  "NewValidator file = split_lines [] file"

definition letter_username :: "string \<Rightarrow> string" where
  "letter_username name = concat (map (\<lambda>c. if is_letter c then [lower_ascii c] else if c = CHR ''1'' then ''i'' else '''') name)"

fun double_underscore :: "string \<Rightarrow> bool" where
  "double_underscore (c # d # s) \<longleftrightarrow> c = CHR ''_'' \<and> d = CHR ''_'' \<or> double_underscore (d # s)"
| "double_underscore _ \<longleftrightarrow> False"

definition lg_ValidateUsername :: "lg_server \<Rightarrow> string \<Rightarrow> lfail option" where
  "lg_ValidateUsername sv name =
     (if length name < 5 then Some GrpcUsernameTooShort
      else if length name > 64 then Some GrpcUsernameTooLong
      else if uuid_Parse (lsv_uuid sv) name \<noteq> None then Some GrpcUsernameId
      else if \<not> is_letter (hd name) then Some GrpcUsernameStartLetter
      else if \<not> (is_letter (last name) \<or> is_digit (last name)) then Some GrpcUsernameEndLetter
      else if \<not> list_all lg_username_char name then Some GrpcUsernameForbiddenSymbols
      else if list_ex (\<lambda>word. Contains (letter_username name) word) (lsv_Forbidden sv) then Some GrpcUsernameForbiddenWord
      else if double_underscore name then Some GrpcUsernameDoubleUnderscore
      else None)"

text \<open>\<open>query.Decode\<close>: \<open>url.QueryUnescape\<close>, or the text itself where that fails.\<close>

definition unhex :: "char \<Rightarrow> nat option" where
  "unhex c = (if is_digit c then Some (byte c - 48) else if 65 \<le> byte c \<and> byte c \<le> 70 then Some (byte c - 55)
     else if 97 \<le> byte c \<and> byte c \<le> 102 then Some (byte c - 87) else None)"

fun QueryUnescape :: "string \<Rightarrow> string option" where
  "QueryUnescape [] = Some []"
| "QueryUnescape (c # s) =
     (if c = CHR ''%'' then
        (case s of a # b # rest \<Rightarrow>
           (case (unhex a, unhex b) of
              (Some x, Some y) \<Rightarrow> map_option (\<lambda>t. char_of (16 * x + y) # t) (QueryUnescape rest)
            | _ \<Rightarrow> None)
         | _ \<Rightarrow> None)
      else map_option (\<lambda>t. (if c = CHR ''+'' then CHR '' '' else c) # t) (QueryUnescape s))"

definition query_Decode :: "string \<Rightarrow> string" where
  "query_Decode q = (case QueryUnescape q of None \<Rightarrow> q | Some t \<Rightarrow> t)"

subsection \<open>Reading requests\<close>

definition lg_parse :: "lg_server \<Rightarrow> string \<Rightarrow> ('s, uuid) fallible" where
  "lg_parse sv text = (case uuid_Parse (lsv_uuid sv) text of None \<Rightarrow> lg_fail GrpcInvalidBody | Some i \<Rightarrow> lg_return i)"

definition lg_check :: "lfail option \<Rightarrow> ('s, unit) fallible" where
  "lg_check err = (case err of None \<Rightarrow> lg_return () | Some e \<Rightarrow> lg_fail e)"

definition optional_text :: "string \<Rightarrow> string option" where
  "optional_text s = (if s = '''' then None else Some s)"

definition reauthenticationInput :: "Reauthentication option \<Rightarrow> Reauthentication" where
  "reauthenticationInput c =
     (case c of None \<Rightarrow> \<lparr>rea_Method = '''', rea_Password = '''', rea_IdToken = '''', rea_Code = '''', rea_State = ''''\<rparr> | Some x \<Rightarrow> x)"

subsection \<open>Responses\<close>

record SessionResponse =
  srp_ProfileId :: string
  srp_SessionId :: int
  srp_DeleteSharedData :: bool
  srp_AccessToken :: string
  srp_RefreshToken :: string
  srp_Expiration :: time
  srp_Deletion :: "time option"

definition NewSessionResponse :: "lg_server \<Rightarrow> lg_Tokens \<Rightarrow> SessionResponse" where
  "NewSessionResponse sv t =
     \<lparr>srp_ProfileId = uuid_String (lsv_uuid sv) (lgk_ProfileId t), srp_SessionId = lgk_SessionId t,
      srp_DeleteSharedData = lgk_DeleteSharedData t, srp_AccessToken = lgk_AccessToken t, srp_RefreshToken = lgk_RefreshToken t,
      srp_Expiration = lgk_Expiration t, srp_Deletion = lgk_DeletionTimestamp t\<rparr>"

record GetAuthInfoResponse =
  gir_Id :: string
  gir_Email :: string
  gir_Username :: "string option"
  gir_Role :: string
  gir_Registration :: time
  gir_IsActivated :: bool
  gir_IsBlocked :: bool
  gir_Deletion :: "time option"
  gir_OAuth :: "lg_OAuth option"

definition NewGetAuthInfoResponse :: "lg_server \<Rightarrow> lg_AuthInfo \<Rightarrow> GetAuthInfoResponse" where
  "NewGetAuthInfoResponse sv info =
     \<lparr>gir_Id = uuid_String (lsv_uuid sv) (lgi_Id info), gir_Email = lgi_Email info, gir_Username = lgi_Username info,
      gir_Role = lgi_Role info, gir_Registration = lgi_Registration info, gir_IsActivated = lgi_IsActivated info,
      gir_IsBlocked = lgi_IsBlocked info, gir_Deletion = lgi_DeletionTimestamp info,
      gir_OAuth = (if lgo_GoogleId (lgi_OAuth info) \<noteq> None \<or> lgo_VkId (lgi_OAuth info) \<noteq> None then Some (lgi_OAuth info) else None)\<rparr>"

text \<open>
  The listing is meant to be sorted by the access time. The comparison given to \<open>sort.Slice\<close>
  looks at the text of the time of its first index on both sides; \<open>show_time\<close> is that text.
\<close>

fun text_less :: "string \<Rightarrow> string \<Rightarrow> bool" where
  "text_less s [] \<longleftrightarrow> False"
| "text_less [] (d # t) \<longleftrightarrow> True"
| "text_less (c # s) (d # t) \<longleftrightarrow> byte c < byte d \<or> c = d \<and> text_less s t"

definition sessions_less :: "(time \<Rightarrow> string) \<Rightarrow> SessionInfo list \<Rightarrow> nat \<Rightarrow> nat \<Rightarrow> bool" where
  "sessions_less show_time infos i j =
     text_less (show_time (sif_AccessTime (infos ! i))) (show_time (sif_AccessTime (infos ! i)))"

text \<open>\<open>insertionSort\<close> of Go's \<open>sort\<close> package, which \<open>sort.Slice\<close> uses for up to twelve
  elements. On more it first looks for a descent, and returns when it finds none, as is the case here.\<close>

fun bubble_down :: "('a list \<Rightarrow> nat \<Rightarrow> nat \<Rightarrow> bool) \<Rightarrow> nat \<Rightarrow> 'a list \<Rightarrow> 'a list" where
  "bubble_down lt 0 xs = xs"
| "bubble_down lt (Suc j) xs =
     (if lt xs (Suc j) j then bubble_down lt j (xs[Suc j := xs ! j, j := xs ! Suc j]) else xs)"

definition insertionSort :: "('a list \<Rightarrow> nat \<Rightarrow> nat \<Rightarrow> bool) \<Rightarrow> 'a list \<Rightarrow> 'a list" where
  "insertionSort lt xs = foldl (\<lambda>ys i. bubble_down lt i ys) xs [1..<length xs]"

definition NewGetSessionsResponse :: "(time \<Rightarrow> string) \<Rightarrow> SessionInfo list \<Rightarrow> SessionInfo list" where
  "NewGetSessionsResponse show_time infos = insertionSort (sessions_less show_time) infos"

subsection \<open>Procedures\<close>

definition lrpc_SignUp ::
  "lg_server \<Rightarrow> (nat \<Rightarrow> call_env) \<Rightarrow> string \<Rightarrow> string \<Rightarrow> string \<Rightarrow> string \<Rightarrow> string \<Rightarrow> (string \<times> bool) svc" where
  "lrpc_SignUp sv cs digits i email password pattern =
     lg_then (lg_check (ValidateEmail sv email))
       (lg_then (lg_check (lg_ValidatePassword password))
         (lg_bind (session_SignUp (lsv_Services sv) cs digits (uuid_Parse (lsv_uuid sv) i) email password pattern) (\<lambda>p.
           lg_return (uuid_String (lsv_uuid sv) (fst p), snd p))))"

definition lrpc_ActivateProfile :: "lg_server \<Rightarrow> call_env \<Rightarrow> string \<Rightarrow> string \<Rightarrow> string svc" where
  "lrpc_ActivateProfile sv c i code =
     lg_bind (lg_parse sv i) (\<lambda>u. lg_then (session_ActivateProfile c u code) (lg_return ''profile activated''))"

definition lrpc_SignIn :: "lg_server \<Rightarrow> (nat \<Rightarrow> call_env) \<Rightarrow> string \<Rightarrow> string \<Rightarrow> string \<Rightarrow> ClientData \<Rightarrow> SessionResponse svc" where
  "lrpc_SignIn sv cs email name password client =
     (if email = '''' \<and> name = '''' then lg_fail GrpcInvalidBody
      else lg_bind (session_SignIn (lsv_Services sv) cs (optional_text email) (optional_text name) password client)
        (\<lambda>t. lg_return (NewSessionResponse sv t)))"

definition lrpc_RefreshSession :: "lg_server \<Rightarrow> (nat \<Rightarrow> call_env) \<Rightarrow> string \<Rightarrow> string \<Rightarrow> string \<Rightarrow> SessionResponse svc" where
  "lrpc_RefreshSession sv cs token ip agent =
     lg_bind (session_Refresh (lsv_Services sv) cs token ip agent) (\<lambda>t. lg_return (NewSessionResponse sv t))"

definition lrpc_SignOut :: "call_env \<Rightarrow> string \<Rightarrow> string svc" where
  "lrpc_SignOut c token = lg_then (session_SignOut c token) (lg_return ''session closed'')"

definition lrpc_GetAuthInfo :: "lg_server \<Rightarrow> (nat \<Rightarrow> call_env) \<Rightarrow> string \<Rightarrow> string \<Rightarrow> string \<Rightarrow> GetAuthInfoResponse svc" where
  "lrpc_GetAuthInfo sv cs i email name =
     (if i = '''' \<and> email = '''' \<and> name = '''' then lg_fail GrpcInvalidBody
      else lg_bind (session_GetAuthInfo cs \<lparr>uid_UserId = uuid_Parse (lsv_uuid sv) i, uid_Email = optional_text email,
                      uid_Username = optional_text name\<rparr>)
        (\<lambda>info. lg_return (NewGetAuthInfoResponse sv info)))"

definition lrpc_GetSessions ::
  "lg_server \<Rightarrow> (time \<Rightarrow> string) \<Rightarrow> call_env \<Rightarrow> string \<Rightarrow> SessionInfo list svc" where
  "lrpc_GetSessions sv show_time c i =
     lg_bind (lg_parse sv i) (\<lambda>u. lg_bind (session_GetAll (lsv_Services sv) c u) (\<lambda>infos.
       lg_return (NewGetSessionsResponse show_time infos)))"

definition lrpc_EndSessions :: "lg_server \<Rightarrow> call_env \<Rightarrow> string \<Rightarrow> int list \<Rightarrow> string svc" where
  "lrpc_EndSessions sv c i ids =
     lg_bind (lg_parse sv i) (\<lambda>u. lg_then (session_DeleteMultiple c u ids) (lg_return ''sessions deleted''))"

definition lrpc_RequestPasswordReset :: "lg_server \<Rightarrow> (nat \<Rightarrow> call_env) \<Rightarrow> string \<Rightarrow> string \<Rightarrow> string \<Rightarrow> string svc" where
  "lrpc_RequestPasswordReset sv cs email name pattern =
     (if email = '''' \<and> name = '''' then lg_fail GrpcInvalidBody
      else lg_then (password_RequestReset (lsv_Services sv) cs (optional_text email) (optional_text name) pattern)
        (lg_return ''if the profile exists, reset link has been sent''))"

definition lrpc_ResetPassword :: "lg_server \<Rightarrow> (nat \<Rightarrow> call_env) \<Rightarrow> string \<Rightarrow> string \<Rightarrow> string \<Rightarrow> string \<Rightarrow> string svc" where
  "lrpc_ResetPassword sv cs i token code password =
     lg_then (lg_check (lg_ValidatePassword password))
       (lg_bind (if token = '''' then lg_bind (lg_parse sv i) (\<lambda>u. lg_return (u, code)) else lg_return (uuid_Nil, token)) (\<lambda>p.
         lg_then (password_Reset (lsv_Services sv) cs (fst p) (snd p) password) (lg_return ''password reset'')))"

definition lrpc_ChangePassword :: "lg_server \<Rightarrow> (nat \<Rightarrow> call_env) \<Rightarrow> string \<Rightarrow> string \<Rightarrow> string \<Rightarrow> string svc" where
  "lrpc_ChangePassword sv cs i old new =
     lg_then (lg_check (lg_ValidatePassword new))
       (lg_bind (lg_parse sv i) (\<lambda>u.
         lg_then (password_Change (lsv_Services sv) cs u old new) (lg_return ''password changed'')))"

definition lrpc_StartEmailBinding ::
  "lg_server \<Rightarrow> (nat \<Rightarrow> call_env) \<Rightarrow> string \<Rightarrow> string \<Rightarrow> string \<Rightarrow> string \<Rightarrow> string \<Rightarrow> string \<Rightarrow> Reauthentication option \<Rightarrow> unit svc" where
  "lrpc_StartEmailBinding sv cs binding email0 purpose i pattern redirect credentials =
     (let email = TrimSpace (lgl_Unicode (srs_Libs (lsv_Services sv))) email0 in
      lg_then (lg_check (ValidateEmail sv email))
        (if purpose = ''verify'' then email_Verify (lsv_Services sv) cs email pattern None
         else if purpose = ''change'' then
           lg_bind (lg_parse sv i) (\<lambda>u.
             email_Change (lsv_Services sv) cs binding u email pattern redirect (reauthenticationInput credentials))
         else lg_fail GrpcInvalidBody))"

definition lrpc_ConfirmEmailBinding :: "lg_server \<Rightarrow> call_env \<Rightarrow> string \<Rightarrow> string \<Rightarrow> (string \<times> string) svc" where
  "lrpc_ConfirmEmailBinding sv c token pattern =
     (if token = '''' then lg_fail GrpcInvalidBody else email_Confirm (lsv_Services sv) c token pattern)"

definition lrpc_RequestGoogleOAuth :: "lg_server \<Rightarrow> call_env \<Rightarrow> string \<Rightarrow> string \<Rightarrow> (string \<times> time) svc" where
  "lrpc_RequestGoogleOAuth sv c binding redirect =
     lg_bind (oauth_GenerateGoogleLink (lsv_Services sv) c binding redirect) (\<lambda>link. lg_return (link, cl_now c + flow_TTL))"

definition lrpc_SignInGoogle ::
  "lg_server \<Rightarrow> (nat \<Rightarrow> call_env) \<Rightarrow> string \<Rightarrow> string \<Rightarrow> string \<Rightarrow> ClientData \<Rightarrow> string \<Rightarrow> SessionResponse svc" where
  "lrpc_SignInGoogle sv cs binding code state client redirect =
     lg_bind (session_SignInGoogle (lsv_Services sv) cs binding (query_Decode code) state client redirect)
       (\<lambda>t. lg_return (NewSessionResponse sv t))"

definition lrpc_SignInGoogleToken :: "lg_server \<Rightarrow> (nat \<Rightarrow> call_env) \<Rightarrow> string \<Rightarrow> ClientData \<Rightarrow> SessionResponse svc" where
  "lrpc_SignInGoogleToken sv cs token client =
     lg_bind (session_SignInGoogleIdToken (lsv_Services sv) cs token client) (\<lambda>t. lg_return (NewSessionResponse sv t))"

definition lrpc_ConnectGoogle ::
  "lg_server \<Rightarrow> (nat \<Rightarrow> call_env) \<Rightarrow> string \<Rightarrow> string \<Rightarrow> string \<Rightarrow> string \<Rightarrow> string \<Rightarrow> string \<Rightarrow> bool svc" where
  "lrpc_ConnectGoogle sv cs binding i token code state redirect =
     lg_bind (lg_parse sv i) (\<lambda>u.
       if token \<noteq> '''' then
         (if code \<noteq> '''' \<or> state \<noteq> '''' then lg_fail GrpcInvalidBody else oauth_ConnectGoogleToken (lsv_Services sv) cs u token)
       else if code = '''' \<or> state = '''' then lg_fail GrpcInvalidBody
       else oauth_ConnectGoogle (lsv_Services sv) cs binding u code state redirect)"

definition lrpc_DeleteGoogleConnection :: "lg_server \<Rightarrow> (nat \<Rightarrow> call_env) \<Rightarrow> string \<Rightarrow> string svc" where
  "lrpc_DeleteGoogleConnection sv cs i =
     lg_bind (lg_parse sv i) (\<lambda>u. lg_then (oauth_DeleteGoogleConnection cs u) (lg_return ''Google connection deleted''))"

definition lrpc_RequestVkOAuth :: "lg_server \<Rightarrow> call_env \<Rightarrow> string \<Rightarrow> string \<Rightarrow> string \<Rightarrow> string \<Rightarrow> (string \<times> time) svc" where
  "lrpc_RequestVkOAuth sv c binding display responseType redirect =
     lg_bind (oauth_GenerateVkLink (lsv_Services sv) c binding display responseType redirect) (\<lambda>link. lg_return (link, cl_now c + flow_TTL))"

definition lrpc_SignInVk ::
  "lg_server \<Rightarrow> (nat \<Rightarrow> call_env) \<Rightarrow> string \<Rightarrow> string \<Rightarrow> string \<Rightarrow> ClientData \<Rightarrow> string \<Rightarrow> SessionResponse svc" where
  "lrpc_SignInVk sv cs binding code state client redirect =
     lg_bind (session_SignInVk (lsv_Services sv) cs binding (query_Decode code) state client redirect)
       (\<lambda>t. lg_return (NewSessionResponse sv t))"

definition lrpc_ConnectVk :: "lg_server \<Rightarrow> (nat \<Rightarrow> call_env) \<Rightarrow> string \<Rightarrow> string \<Rightarrow> string \<Rightarrow> string \<Rightarrow> string \<Rightarrow> bool svc" where
  "lrpc_ConnectVk sv cs binding i code state redirect =
     lg_bind (lg_parse sv i) (\<lambda>u. oauth_ConnectVk (lsv_Services sv) cs binding u code state redirect)"

definition lrpc_DeleteVkConnection :: "lg_server \<Rightarrow> (nat \<Rightarrow> call_env) \<Rightarrow> string \<Rightarrow> string svc" where
  "lrpc_DeleteVkConnection sv cs i =
     lg_bind (lg_parse sv i) (\<lambda>u. lg_then (oauth_DeleteVkConnection cs u) (lg_return ''VK connection deleted''))"

definition lrpc_GetProfileDeletionStatus :: "lg_server \<Rightarrow> call_env \<Rightarrow> string \<Rightarrow> (time option \<times> bool) svc" where
  "lrpc_GetProfileDeletionStatus sv c i =
     lg_bind (lg_parse sv i) (\<lambda>u. lg_read (\<lambda>w. deletion_GetInfo c u (wld_db w)))"

definition lrpc_DeleteProfile ::
  "lg_server \<Rightarrow> (nat \<Rightarrow> call_env) \<Rightarrow> string \<Rightarrow> string \<Rightarrow> Reauthentication option \<Rightarrow> string \<Rightarrow> bool \<Rightarrow> string \<Rightarrow> (time \<times> bool) svc" where
  "lrpc_DeleteProfile sv cs binding i credentials password shared redirect =
     lg_bind (lg_parse sv i) (\<lambda>u.
       let a = (case credentials of
                  None \<Rightarrow> \<lparr>rea_Method = ''password'', rea_Password = password, rea_IdToken = '''', rea_Code = '''', rea_State = ''''\<rparr>
                | Some x \<Rightarrow> x)
       in lg_bind (deletion_Request (lsv_Services sv) cs binding u a shared redirect) (\<lambda>q.
            lg_return (dpr_Timestamp q, dpr_WithSharedData q)))"

definition lrpc_CancelProfileDeletion :: "lg_server \<Rightarrow> (nat \<Rightarrow> call_env) \<Rightarrow> string \<Rightarrow> string svc" where
  "lrpc_CancelProfileDeletion sv cs i =
     lg_bind (lg_parse sv i) (\<lambda>u. lg_then (deletion_Cancel cs u) (lg_return ''delete profile request canceled''))"

definition lrpc_UpdateProfileDeletion :: "lg_server \<Rightarrow> (nat \<Rightarrow> call_env) \<Rightarrow> string \<Rightarrow> bool \<Rightarrow> (time \<times> bool) svc" where
  "lrpc_UpdateProfileDeletion sv cs i shared =
     lg_bind (lg_parse sv i) (\<lambda>u. lg_bind (deletion_Update cs u shared) (\<lambda>q. lg_return (dpr_Timestamp q, dpr_WithSharedData q)))"

text \<open>The names are a map from the text of an identifier; identifiers that do not parse are skipped.\<close>

definition lrpc_GetVisibleNames :: "lg_server \<Rightarrow> call_env \<Rightarrow> string list \<Rightarrow> (uuid \<rightharpoonup> string) svc" where
  "lrpc_GetVisibleNames sv c ids = username_Get c (List.map_filter (uuid_Parse (lsv_uuid sv)) ids)"

definition lrpc_CheckUsernameAvailability :: "lg_server \<Rightarrow> call_env \<Rightarrow> string \<Rightarrow> bool svc" where
  "lrpc_CheckUsernameAvailability sv c name =
     lg_then (lg_check (lg_ValidateUsername sv name)) (username_CheckAvailability (lsv_Services sv) c name)"

definition lrpc_SetUsername :: "lg_server \<Rightarrow> (nat \<Rightarrow> call_env) \<Rightarrow> string \<Rightarrow> string \<Rightarrow> string svc" where
  "lrpc_SetUsername sv cs i name =
     lg_bind (lg_parse sv i) (\<lambda>u.
       lg_then (lg_check (lg_ValidateUsername sv name))
         (lg_then (username_Set (lsv_Services sv) cs u name) (lg_return ''username set'')))"

end
