(* ===== verification/Auth_LegacyFacts.thy ===== *)
theory Auth_LegacyFacts
  imports Auth_LegacyGrpc
begin

section \<open>What the former service keeps\<close>

text \<open>
  A fact about the former tables that holds after every procedure, background round and
  started goroutine. There are two interfaces. \<open>legacy_repo\<close>: every call of the repository keeps
  the fact; inside it the fact is carried through services, background work and procedures
  once. \<open>legacy_closed\<close>: every primitive change of the tables keeps the fact; it gives
  \<open>legacy_repo\<close> by carrying the fact through the transactions of the repository.
\<close>

subsection \<open>Keeping a fact\<close>

definition lg_keeps :: "('s \<Rightarrow> bool) \<Rightarrow> ('s, 'a) fallible \<Rightarrow> bool" where
  "lg_keeps P m \<longleftrightarrow> (\<forall>s. P s \<longrightarrow> P (snd (m s)))"

named_theorems lg_rules \<open>operations of the former repository and services that keep a fact\<close>

lemma lg_keepsI: "(\<And>s. P s \<Longrightarrow> P (snd (m s))) \<Longrightarrow> lg_keeps P m"
  by (simp add: lg_keeps_def)

lemma lg_keepsD: "lg_keeps P m \<Longrightarrow> P s \<Longrightarrow> P (snd (m s))"
  by (simp add: lg_keeps_def)

lemma lg_keeps_run: "m s = (r, t) \<Longrightarrow> lg_keeps P m \<Longrightarrow> P s \<Longrightarrow> P t"
  by (metis lg_keepsD snd_conv)

lemma lg_pure [lg_rules]:
  "lg_keeps P (lg_return x)" "lg_keeps P (lg_fail err)" "lg_keeps P (lg_read f)" "lg_keeps P (lg_row g err)" "lg_keeps P (lg_guard b err)"
  "lg_keeps P (of_sum y)" "lg_keeps P (lg_check e)" "lg_keeps P (lg_parse srv t)" "lg_keeps P (hash_password srv' p)"
  "lg_keeps P (rejected_code srv' err)"
  by (auto simp: lg_keeps_def lg_return_def lg_fail_def lg_read_def lg_row_def lg_guard_def of_sum_def lg_check_def lg_parse_def
      hash_password_def rejected_code_def split: option.splits sum.splits)

lemma lg_ends [lg_rules]: "lg_keeps P (lg_commit z)" "lg_keeps P (lg_rollback z)"
  by (simp_all add: lg_commit_def lg_rollback_def lg_pure)

lemma lg_exec_keeps: "(\<And>s. P s \<Longrightarrow> P (f s)) \<Longrightarrow> lg_keeps P (lg_exec f)"
  by (simp add: lg_keeps_def lg_exec_def)

lemma lg_bind_keeps [lg_rules]: "lg_keeps P m \<Longrightarrow> (\<And>x. lg_keeps P (f x)) \<Longrightarrow> lg_keeps P (lg_bind m f)"
  unfolding lg_keeps_def lg_bind_def by (metis (mono_tags, lifting) old.prod.case prod.collapse snd_conv sum.case_eq_if)

lemma lg_then_keeps [lg_rules]: "lg_keeps P m \<Longrightarrow> lg_keeps P n \<Longrightarrow> lg_keeps P (lg_then m n)"
  unfolding lg_then_def by (rule lg_bind_keeps)

lemma lg_catch_keeps [lg_rules]: "lg_keeps P m \<Longrightarrow> (\<And>err. lg_keeps P (h err)) \<Longrightarrow> lg_keeps P (lg_catch m h)"
  unfolding lg_keeps_def lg_catch_def by (metis (mono_tags, lifting) old.prod.case prod.collapse snd_conv sum.case_eq_if)

lemma lg_stmt_keeps [lg_rules]: "lg_keeps P m \<Longrightarrow> lg_keeps P (lg_stmt c k err m)"
  by (simp add: lg_keeps_def lg_stmt_def)

lemma lg_tx_keeps [lg_rules]:
  assumes "lg_keeps P m"
  shows "lg_keeps P (lg_tx c m)"
proof (rule lg_keepsI)
  fix s
  assume "P s"
  with lg_keepsD [OF assms, of s] show "P (snd (lg_tx c m s))"
    by (cases "m s", cases "fst (m s)") (auto simp: lg_tx_def split: prod.splits)
qed

lemma lg_if_keeps [lg_rules]: "lg_keeps P m \<Longrightarrow> lg_keeps P n \<Longrightarrow> lg_keeps P (if b then m else n)"
  by simp

lemma lg_case_keeps [lg_rules]:
  "lg_keeps P m \<Longrightarrow> (\<And>x. lg_keeps P (f x)) \<Longrightarrow> lg_keeps P (case z of None \<Rightarrow> m | Some x \<Rightarrow> f x)"
  "(\<And>err. lg_keeps P (g err)) \<Longrightarrow> (\<And>y. lg_keeps P (h y)) \<Longrightarrow> lg_keeps P (case w of Inl err \<Rightarrow> g err | Inr y \<Rightarrow> h y)"
  "(\<And>x y. lg_keeps P (k x y)) \<Longrightarrow> lg_keeps P (case p of (x, y) \<Rightarrow> k x y)"
  by (auto split: option.splits sum.splits prod.splits)

text \<open>The lookups change nothing.\<close>

lemma infos:
  "lg_keeps P (getAuthInfoByCondition c Q)" "lg_keeps P (GetAuthInfoById c i)" "lg_keeps P (GetAuthInfoByEmail c m)"
  "lg_keeps P (GetAuthInfoByUsername c n)" "lg_keeps P (info_by_subject c col)" "lg_keeps P (GetAuthInfoByIdentifiers cs ids)"
  "lg_keeps P (opaqueToken c)" "lg_keeps P (GetUsernames c us)" "lg_keeps P (lg_GetSessions c i)" "lg_keeps P (GetPasswordResetUser c tok)"
  unfolding getAuthInfoByCondition_def GetAuthInfoById_def GetAuthInfoByEmail_def GetAuthInfoByUsername_def info_by_subject_def
    GetAuthInfoByGoogleId_def GetAuthInfoByVkId_def GetAuthInfoByIdentifiers_def opaqueToken_def GetUsernames_def lg_GetSessions_def
    GetPasswordResetUser_def
  by (auto intro!: lg_rules split: identity_column.split)

subsection \<open>The interface of the repository\<close>

text \<open>The calls of the repository that change the tables, each of which keeps the fact.\<close>

locale legacy_repo =
  fixes P :: "legacy_db \<Rightarrow> bool"
  assumes call_CreateUser: "lg_keeps P (lg_CreateUser c cred code oauth)"
    and call_ActivateProfile: "lg_keeps P (lg_ActivateProfile c i code')"
    and call_SetUsername: "lg_keeps P (lg_SetUsername c i name)"
    and call_SetPassword: "lg_keeps P (lg_SetPassword c i h)"
    and call_ResetPassword: "lg_keeps P (lg_ResetPassword c i code' h)"
    and call_CreateReset: "lg_keeps P (CreatePasswordResetRequest r c i x)"
    and call_CreateSession: "lg_keeps P (lg_CreateSession r c input)"
    and call_UpdateSession: "lg_keeps P (UpdateSession r c input t)"
    and call_DeleteSession: "lg_keeps P (lg_DeleteSession c t)"
    and call_DeleteSessions: "lg_keeps P (lg_DeleteSessions c i ids)"
    and call_DeleteAllSessions: "lg_keeps P (DeleteAllSessions c i)"
    and call_DeleteOutdatedSessions: "P s \<Longrightarrow> P (DeleteOutdatedSessions c i n s)"
    and call_connectIdentity: "lg_keeps P (connectIdentity c i value)"
    and call_DeleteGoogleConnection: "lg_keeps P (lg_DeleteGoogleConnection c i)"
    and call_DeleteVkConnection: "lg_keeps P (lg_DeleteVkConnection c i)"
    and call_CreateOAuthState: "lg_keeps P (CreateOAuthState r c provider redirect binding)"
    and call_ConsumeOAuthState: "lg_keeps P (ConsumeOAuthState r c provider t redirect binding)"
    and call_ConsumeReauthentication: "lg_keeps P (ConsumeReauthentication r c i t)"
    and call_Cleanup: "lg_keeps P (CleanupAuthWorkflows c)"
    and call_ConnectFirebase: "lg_keeps P (ConnectFirebase c i fid created)"
    and call_MarkMessageSent: "lg_keeps P (MarkMessageSent c m)"
    and call_StartEmailBinding: "lg_keeps P (StartEmailBinding r c b)"
    and call_ConfirmEmailBinding: "lg_keeps P (ConfirmEmailBinding r c t pattern)"
    and call_DeliverEmail: "lg_keeps P (DeliverEmail c send)"
    and call_RequestDeletion: "lg_keeps P (RequestDeleteProfile r c i shared)"
    and call_UpdateDeletion: "lg_keeps P (lg_UpdateProfileDeletion c i shared)"
    and call_CancelDeletion: "lg_keeps P (lg_CancelProfileDeletion c i)"
    and call_DeleteUser: "lg_keeps P (lg_DeleteUser c i)"
begin

lemmas calls = call_CreateUser call_ActivateProfile call_SetUsername call_SetPassword call_ResetPassword call_CreateReset call_CreateSession
  call_UpdateSession call_DeleteSession call_DeleteSessions call_DeleteAllSessions call_connectIdentity
  call_DeleteGoogleConnection call_DeleteVkConnection call_CreateOAuthState call_ConsumeOAuthState call_ConsumeReauthentication call_Cleanup
  call_ConnectFirebase call_MarkMessageSent call_StartEmailBinding call_ConfirmEmailBinding call_DeliverEmail call_RequestDeletion
  call_UpdateDeletion call_CancelDeletion call_DeleteUser

lemma connections: "lg_keeps P (lg_ConnectGoogle c i g)" "lg_keeps P (lg_ConnectVk c i v)"
  unfolding lg_ConnectGoogle_def lg_ConnectVk_def by (rule call_connectIdentity)+

lemma publish: "lg_keeps P (PublishProfilesMessage c sent msg)"
  unfolding PublishProfilesMessage_def by (intro lg_rules calls)

lemma refresh_read: "lg_keeps P (GetAuthInfoByRefreshToken cs tok)"
  unfolding GetAuthInfoByRefreshToken_def by (intro lg_rules infos calls)

subsubsection \<open>Services\<close>

abbreviation holds :: "world \<Rightarrow> bool" where
  "holds w \<equiv> P (wld_db w)"

lemmas repo_ops = calls infos connections publish refresh_read

lemma sv: "lg_keeps P m \<Longrightarrow> lg_keeps holds (sv_repo m)" "lg_keeps holds (sv_go d)"
  by (auto simp: lg_keeps_def sv_repo_def sv_go_def split: prod.splits)

lemmas sv_rules = lg_rules sv repo_ops

lemma user_checks: "lg_keeps Q (unblocked info)" "lg_keeps Q (not_deleting info)" "lg_keeps Q (checkProfileAvailability info)"
  unfolding unblocked_def not_deleting_def checkProfileAvailability_def by (intro lg_rules)+

lemma clients: "lg_keeps P (google_CreateOAuthLink r lb client c binding redirect)" "lg_keeps P (vk_CreateOAuthLink r p c binding display kind redirect)"
  "lg_keeps P (google_GetUserInfoByCode r lb c binding code state redirect)" "lg_keeps P (vk_GetAccessToken r lb p c binding code state redirect)"
  unfolding google_CreateOAuthLink_def vk_CreateOAuthLink_def google_GetUserInfoByCode_def google_GetAccessToken_def vk_GetAccessToken_def
    Let_def by (intro lg_rules repo_ops)+

lemma username_services: "lg_keeps holds (username_Get c ids)" "lg_keeps holds (username_CheckAvailability srv c name)"
  "lg_keeps holds (username_Set srv cs i name)"
  unfolding username_Get_def username_CheckAvailability_def username_Set_def by (intro sv_rules user_checks)+

lemma password_services: "lg_keeps holds (password_RequestReset srv cs email name pattern)" "lg_keeps holds (password_Reset srv cs i code password)"
  "lg_keeps holds (password_Change srv cs i old new)"
  unfolding password_RequestReset_def password_Reset_def password_Change_def by (intro sv_rules user_checks)+

lemma reauthentication: "lg_keeps holds (reauth_Check srv cs binding i a redirect)"
  unfolding reauth_Check_def reauth_google_def reauth_vk_def by (intro sv_rules user_checks clients)

lemma email_services: "lg_keeps holds (email_Verify srv cs address pattern password)"
  "lg_keeps holds (email_Change srv cs binding i address pattern redirect a)" "lg_keeps holds (email_Confirm srv c token pattern)"
  unfolding email_Verify_def email_Change_def email_Confirm_def by (intro sv_rules user_checks reauthentication)+

lemma deletion_services: "lg_keeps holds (deletion_Request srv cs binding i a shared redirect)" "lg_keeps holds (deletion_Update cs i shared)"
  "lg_keeps holds (deletion_Execute srv cs sent request)" "lg_keeps holds (deletion_Cancel cs i)"
  unfolding deletion_Request_def deletion_Update_def deletion_Execute_def deletion_Cancel_def
  by (intro sv_rules user_checks reauthentication)+

lemma oauth_services: "lg_keeps holds (oauth_GenerateGoogleLink srv c binding redirect)" "lg_keeps holds (oauth_ConnectGoogle srv cs binding i code state redirect)"
  "lg_keeps holds (oauth_ConnectGoogleToken srv cs i token)" "lg_keeps holds (oauth_DeleteGoogleConnection cs i)"
  "lg_keeps holds (oauth_GenerateVkLink srv c binding display kind redirect)" "lg_keeps holds (oauth_ConnectVk srv cs binding i code state redirect)"
  "lg_keeps holds (oauth_DeleteVkConnection cs i)"
  unfolding oauth_GenerateGoogleLink_def oauth_ConnectGoogle_def oauth_ConnectGoogleToken_def oauth_DeleteGoogleConnection_def
    oauth_GenerateVkLink_def oauth_ConnectVk_def oauth_DeleteVkConnection_def
  by (intro sv_rules user_checks clients)+

lemma create_session_service: "lg_keeps holds (createSession srv c info client)"
  unfolding createSession_def by (intro sv_rules)

lemma import_profile: "lg_keeps holds (importFirebaseProfile srv cs email password)"
  unfolding importFirebaseProfile_def by (intro sv_rules)

lemma provider_steps: "lg_keeps holds (profile_of_subject srv cs subject email)" "lg_keeps holds (sign_in_existing srv cs info subject client)"
  "lg_keeps holds (sign_in_creating srv cs subject email client)"
  unfolding profile_of_subject_def sign_in_existing_def sign_in_creating_def by (intro sv_rules user_checks create_session_service)+

lemma provider_sign_in: "lg_keeps holds (handleGoogleInfoResponse srv cs g client)" "lg_keeps holds (signInVkWithExistingProfile srv cs info v client)"
  "lg_keeps holds (signInVkWithProfileCreation srv cs v client)"
  unfolding handleGoogleInfoResponse_def signInGoogleWithExistingProfile_def signInGoogleWithProfileCreation_def
    signInVkWithExistingProfile_def signInVkWithProfileCreation_def
  by (intro lg_rules provider_steps)+

lemma session_services: "lg_keeps holds (session_SignUp srv cs digits requested email password pattern)" "lg_keeps holds (session_ActivateProfile c i code)"
  "lg_keeps holds (session_SignIn srv cs mail name password client)" "lg_keeps holds (session_SignOut c token)" "lg_keeps holds (session_GetAuthInfo cs ids)"
  "lg_keeps holds (session_SignInGoogle srv cs binding code state client redirect)" "lg_keeps holds (session_SignInGoogleIdToken srv cs token client)"
  "lg_keeps holds (session_SignInVk srv cs binding code state client redirect)" "lg_keeps holds (session_Refresh srv cs token ip agent)"
  "lg_keeps holds (session_GetAll srv c i)" "lg_keeps holds (session_DeleteMultiple c i sids)"
  unfolding session_SignUp_def createNewUserData_def session_ActivateProfile_def session_SignIn_def session_SignOut_def session_GetAuthInfo_def
    session_SignInGoogle_def session_SignInGoogleIdToken_def session_SignInVk_def session_Refresh_def session_GetAll_def
    session_DeleteMultiple_def Let_def
  by (intro sv_rules user_checks clients create_session_service import_profile provider_steps provider_sign_in email_services)+

subsubsection \<open>Background work\<close>

lemma firebase_import: "P s \<Longrightarrow> P (case ConnectFirebase c i fid created s of
    (Inl err, t) \<Rightarrow> t | (Inr msg, t) \<Rightarrow> snd (PublishProfilesMessage d sent msg t))"
  by (auto intro: lg_keeps_run [OF _ call_ConnectFirebase] lg_keepsD [OF publish] split: prod.split sum.split)

lemma run_deferred: "P s \<Longrightarrow> P (run_deferred srv cs sent d s)"
  unfolding run_deferred_def connectFirebaseProfile_def
  by (auto simp: call_DeleteOutdatedSessions lg_keepsD [OF publish] firebase_import split: deferred.split option.split)

lemma observe_messages: "P s \<Longrightarrow> P (observe_messages cs sent n msgs s)"
proof (induction cs sent n msgs s rule: observe_messages.induct)
  case (2 cs sent n msg msgs s)
  obtain r t where run: "PublishProfilesMessage (cs (msd_Id msg)) (sent (msd_Id msg)) msg s = (r, t)"
    by fastforce
  then have "P t"
    using 2(3) by (rule lg_keeps_run [OF _ publish])
  with 2(1,2) [OF run [symmetric]] run show ?case
    by (auto split: sum.split)
qed simp

lemma observe_round: "P s \<Longrightarrow> P (observe_round c cs sent s)"
  by (auto simp: observe_round_def GetPendingMessages_def lg_stmt_def lg_read_def observe_messages split: prod.splits sum.splits if_splits)

lemma dispatch_loop: "P s \<Longrightarrow> P (dispatch_loop n cs send s)"
  by (induction n arbitrary: s) (auto intro: lg_keeps_run [OF _ call_DeliverEmail] split: prod.split sum.split bool.split)

lemma dispatch: "P s \<Longrightarrow> P (email_Dispatch c cs send s)"
  by (auto simp: email_Dispatch_def intro: lg_keeps_run [OF _ call_Cleanup] dispatch_loop split: prod.split sum.split)

lemma execute_all: "P (wld_db w) \<Longrightarrow> P (wld_db (deletion_ExecuteAll srv c cs sent w))"
proof -
  have "P (wld_db w) \<Longrightarrow> P (wld_db (execute_requests srv cs sent requests w))" for requests
  proof (induction requests arbitrary: w)
    case (Cons request requests)
    then show ?case
      using lg_keepsD [OF deletion_services(3), of w srv] by simp
  qed simp
  then show "P (wld_db w) \<Longrightarrow> P (wld_db (deletion_ExecuteAll srv c cs sent w))"
    by (simp add: deletion_ExecuteAll_def)
qed

subsubsection \<open>Procedures\<close>

lemmas all_services = username_services password_services email_services deletion_services oauth_services session_services

lemma procedures:
  "lg_keeps holds (lrpc_SignUp srv cs digits i email password pattern)" "lg_keeps holds (lrpc_ActivateProfile srv c i code)"
  "lg_keeps holds (lrpc_SignIn srv cs email name password client)" "lg_keeps holds (lrpc_RefreshSession srv cs token ip agent)"
  "lg_keeps holds (lrpc_SignOut c token)" "lg_keeps holds (lrpc_EndSessions srv c i ids)"
  "lg_keeps holds (lrpc_RequestPasswordReset srv cs email name pattern)" "lg_keeps holds (lrpc_ResetPassword srv cs i token code password)"
  "lg_keeps holds (lrpc_ChangePassword srv cs i old new)"
  "lg_keeps holds (lrpc_StartEmailBinding srv cs binding email purpose i pattern redirect credentials)"
  "lg_keeps holds (lrpc_ConfirmEmailBinding srv c token pattern)" "lg_keeps holds (lrpc_SetUsername srv cs i name)"
  unfolding lrpc_SignUp_def lrpc_ActivateProfile_def lrpc_SignIn_def lrpc_RefreshSession_def lrpc_SignOut_def lrpc_EndSessions_def
    lrpc_RequestPasswordReset_def lrpc_ResetPassword_def lrpc_ChangePassword_def lrpc_StartEmailBinding_def lrpc_ConfirmEmailBinding_def
    lrpc_SetUsername_def Let_def
  by (intro lg_rules all_services)+

lemma provider_procedures:
  "lg_keeps holds (lrpc_RequestGoogleOAuth srv c binding redirect)" "lg_keeps holds (lrpc_SignInGoogle srv cs binding code state client redirect)"
  "lg_keeps holds (lrpc_SignInGoogleToken srv cs token client)" "lg_keeps holds (lrpc_ConnectGoogle srv cs binding i token code state redirect)"
  "lg_keeps holds (lrpc_DeleteGoogleConnection srv cs i)" "lg_keeps holds (lrpc_RequestVkOAuth srv c binding display kind redirect)"
  "lg_keeps holds (lrpc_SignInVk srv cs binding code state client redirect)" "lg_keeps holds (lrpc_ConnectVk srv cs binding i code state redirect)"
  "lg_keeps holds (lrpc_DeleteVkConnection srv cs i)"
  unfolding lrpc_RequestGoogleOAuth_def lrpc_SignInGoogle_def lrpc_SignInGoogleToken_def lrpc_ConnectGoogle_def
    lrpc_DeleteGoogleConnection_def lrpc_RequestVkOAuth_def lrpc_SignInVk_def lrpc_ConnectVk_def lrpc_DeleteVkConnection_def
  by (intro lg_rules all_services)+

lemma deletion_procedures:
  "lg_keeps holds (lrpc_DeleteProfile srv cs binding i credentials password shared redirect)"
  "lg_keeps holds (lrpc_CancelProfileDeletion srv cs i)" "lg_keeps holds (lrpc_UpdateProfileDeletion srv cs i shared)"
  unfolding lrpc_DeleteProfile_def lrpc_CancelProfileDeletion_def lrpc_UpdateProfileDeletion_def Let_def
  by (intro lg_rules all_services)+

lemma read_procedures:
  "lg_keeps holds (lrpc_GetAuthInfo srv cs i email name)" "lg_keeps holds (lrpc_GetSessions srv show_time c i)"
  "lg_keeps holds (lrpc_GetProfileDeletionStatus srv c i)" "lg_keeps holds (lrpc_GetVisibleNames srv c ids)"
  "lg_keeps holds (lrpc_CheckUsernameAvailability srv c name)"
  unfolding lrpc_GetAuthInfo_def lrpc_GetSessions_def lrpc_GetProfileDeletionStatus_def lrpc_GetVisibleNames_def
    lrpc_CheckUsernameAvailability_def
  by (intro lg_rules all_services)+

end

subsection \<open>The interface of the tables\<close>

text \<open>The changes the repository makes to the tables, each with the checks the database makes.\<close>

locale legacy_closed =
  fixes P :: "legacy_db \<Rightarrow> bool"
  assumes insert_user: "usr_username u = None \<Longrightarrow> usr_role u = ''member'' \<Longrightarrow> lg_keeps P (lg_insert_user u err)"
    and insert_oauth: "lg_keeps P (lg_insert_oauth a err)"
    and insert_code: "lg_keeps P (lg_insert_code d err)"
    and insert_message: "lg_keeps P (createOutboxMsg c k msg)"
    and insert_binding: "lg_keeps P (insert_binding b)"
    and queue_email: "lg_keeps P (queueBindingEmail c k e)"
    and update_users: "(\<And>u. usr_id (f u) = usr_id u \<and> usr_email (f u) = usr_email u \<and> usr_username (f u) = usr_username u \<and> usr_role (f u) = usr_role u) \<Longrightarrow>
      P s \<Longrightarrow> P (lg_update_users Q f s)"
    and set_username: "lg_keeps P (lg_SetUsername c i name)"
    and confirm_new: "lg_keeps P (confirm_new c q)"
    and rekey_binding: "\<not> list_ex (\<lambda>p. lgb_hash p \<noteq> old \<and> lgb_hash p = new) (lg_bindings s) \<Longrightarrow> P s \<Longrightarrow>
      P (s\<lparr>lg_bindings := map (\<lambda>p. if lgb_hash p = old then p\<lparr>lgb_hash := new, lgb_stage := ''new'', lgb_expires := x\<rparr> else p) (lg_bindings s)\<rparr>)"
    and create_session: "lg_keeps P (lg_CreateSession r c i')"
    and update_session: "lg_keeps P (UpdateSession r c i' t)"
    and mark_resets: "P s \<Longrightarrow> P (s\<lparr>lg_resets := map (\<lambda>q. if R q then q\<lparr>lgr_used := True\<rparr> else q) (lg_resets s)\<rparr>)"
    and create_reset: "lg_keeps P (CreatePasswordResetRequest r c j x)"
    and connect: "lg_keeps P (connectIdentity c j value)"
    and disconnect: "P s \<Longrightarrow> P (lg_update_oauths j (\<lambda>q. if google then q\<lparr>lga_google := None\<rparr> else q\<lparr>lga_vk := None\<rparr>) s)"
    and create_state: "lg_keeps P (CreateOAuthState r c provider redirect binding)"
    and consume_proof: "lg_keeps P (ConsumeReauthentication r c j token)"
    and connect_firebase: "lg_keeps P (ConnectFirebase c j fid created)"
    and deliver: "lg_keeps P (DeliverEmail c send)"
    and request_deletion: "lg_keeps P (RequestDeleteProfile r c j shared)"
    and update_deletion: "P s \<Longrightarrow> P (s\<lparr>lg_deletions := map (\<lambda>d. if lgd_user d = j then d\<lparr>lgd_shared := shared\<rparr> else d) (lg_deletions s)\<rparr>)"
    and delete_user: "P s \<Longrightarrow> P (lg_delete_user j s)"
    and filters: "P s \<Longrightarrow> P (s\<lparr>lg_sessions := filter F1 (lg_sessions s)\<rparr>)" "P s \<Longrightarrow> P (s\<lparr>lg_codes := filter F2 (lg_codes s)\<rparr>)"
      "P s \<Longrightarrow> P (s\<lparr>lg_resets := filter F3 (lg_resets s)\<rparr>)" "P s \<Longrightarrow> P (s\<lparr>lg_deletions := filter F4 (lg_deletions s)\<rparr>)"
      "P s \<Longrightarrow> P (s\<lparr>lg_states := filter F5 (lg_states s)\<rparr>)" "P s \<Longrightarrow> P (s\<lparr>lg_bindings := filter F6 (lg_bindings s)\<rparr>)"
      "P s \<Longrightarrow> P (s\<lparr>lg_deliveries := filter F7 (lg_deliveries s)\<rparr>)" "P s \<Longrightarrow> P (s\<lparr>lg_proofs := filter F8 (lg_proofs s)\<rparr>)"
      "P s \<Longrightarrow> P (s\<lparr>lg_outbox := filter F9 (lg_outbox s)\<rparr>)"
begin

lemmas changes = insert_user insert_oauth insert_code insert_message insert_binding queue_email set_username confirm_new create_session
  update_session create_reset connect create_state consume_proof connect_firebase deliver request_deletion

lemma execs:
  "lg_keeps P (lg_exec (\<lambda>s. s\<lparr>lg_resets := map (\<lambda>q. if R q then q\<lparr>lgr_used := True\<rparr> else q) (lg_resets s)\<rparr>))"
  "lg_keeps P (lg_exec (lg_update_oauths j (\<lambda>q. if google then q\<lparr>lga_google := None\<rparr> else q\<lparr>lga_vk := None\<rparr>)))"
  "lg_keeps P (lg_exec (\<lambda>s. s\<lparr>lg_deletions := map (\<lambda>d. if lgd_user d = j then d\<lparr>lgd_shared := shared\<rparr> else d) (lg_deletions s)\<rparr>))"
  "lg_keeps P (lg_exec (lg_delete_user j))"
  "lg_keeps P (lg_exec (\<lambda>s. s\<lparr>lg_sessions := filter F1 (lg_sessions s)\<rparr>))"
  "lg_keeps P (lg_exec (\<lambda>s. s\<lparr>lg_codes := filter F2 (lg_codes s)\<rparr>))"
  "lg_keeps P (lg_exec (\<lambda>s. s\<lparr>lg_resets := filter F3 (lg_resets s)\<rparr>))"
  "lg_keeps P (lg_exec (\<lambda>s. s\<lparr>lg_deletions := filter F4 (lg_deletions s)\<rparr>))"
  "lg_keeps P (lg_exec (\<lambda>s. s\<lparr>lg_states := filter F5 (lg_states s)\<rparr>))"
  "lg_keeps P (lg_exec (\<lambda>s. s\<lparr>lg_bindings := filter F6 (lg_bindings s)\<rparr>))"
  "lg_keeps P (lg_exec (\<lambda>s. s\<lparr>lg_deliveries := filter F7 (lg_deliveries s)\<rparr>))"
  "lg_keeps P (lg_exec (\<lambda>s. s\<lparr>lg_proofs := filter F8 (lg_proofs s)\<rparr>))"
  "lg_keeps P (lg_exec (\<lambda>s. s\<lparr>lg_outbox := filter F9 (lg_outbox s)\<rparr>))"
  by (simp_all add: lg_keeps_def lg_exec_def mark_resets disconnect update_deletion delete_user filters)

lemma exec_users:
  "(\<And>u. usr_id (f u) = usr_id u \<and> usr_email (f u) = usr_email u \<and> usr_username (f u) = usr_username u \<and> usr_role (f u) = usr_role u) \<Longrightarrow> lg_keeps P (lg_exec (lg_update_users Q f))"
  by (intro lg_exec_keeps update_users)

lemma sessions_deleted: "lg_keeps P (lg_exec (lg_delete_sessions D))"
  unfolding lg_delete_sessions_def by (intro lg_exec_keeps filters)

lemma session_ops: "lg_keeps P (lg_DeleteSession c tok)" "lg_keeps P (lg_DeleteSessions c i ids)" "lg_keeps P (DeleteAllSessions c i)"
  unfolding lg_DeleteSession_def lg_DeleteSessions_def DeleteAllSessions_def
  by (intro lg_rules sessions_deleted)+

lemma outdated_sessions: "P s \<Longrightarrow> P (DeleteOutdatedSessions c i n s)"
  by (simp add: DeleteOutdatedSessions_def lg_delete_sessions_def filters)

lemma create_user: "lg_keeps P (lg_CreateUser c cred code oauth)"
  unfolding lg_CreateUser_def Let_def by (intro lg_rules changes) simp_all

lemma activate: "lg_keeps P (lg_ActivateProfile c i code)"
  unfolding lg_ActivateProfile_def by (intro lg_rules lg_keepsI) (auto intro!: update_users)

lemma passwords: "lg_keeps P (lg_ResetPassword c i code h)" "lg_keeps P (lg_SetPassword c i h)"
proof -
  show "lg_keeps P (lg_ResetPassword c i code h)"
    unfolding lg_ResetPassword_def by (intro lg_rules execs exec_users) auto
  show "lg_keeps P (lg_SetPassword c i h)"
    unfolding lg_SetPassword_def by (intro lg_rules lg_keepsI) (auto intro!: update_users split: option.splits)
qed

lemma identities: "lg_keeps P (lg_ConnectGoogle c i g)" "lg_keeps P (lg_ConnectVk c i v)" "lg_keeps P (lg_DeleteGoogleConnection c i)"
  "lg_keeps P (lg_DeleteVkConnection c i)"
  unfolding lg_ConnectGoogle_def lg_ConnectVk_def lg_DeleteGoogleConnection_def lg_DeleteVkConnection_def disconnectIdentity_def
    lg_usable_def Let_def
  by (intro lg_rules changes execs)+

lemma consume_state: "lg_keeps P (ConsumeOAuthState r c provider token redirect binding)"
  unfolding ConsumeOAuthState_def Let_def by (intro lg_rules lg_keepsI) (auto intro!: filters)

lemma cleanup: "lg_keeps P (CleanupAuthWorkflows c)"
  unfolding CleanupAuthWorkflows_def by (intro lg_rules execs)

lemma mark_sent: "lg_keeps P (MarkMessageSent c m)"
  unfolding MarkMessageSent_def by (intro lg_rules execs)

lemma start_binding: "lg_keeps P (StartEmailBinding r c b)"
  unfolding StartEmailBinding_def kept_password_def binding_change_checks_def Let_def by (intro lg_rules infos changes execs)

lemma confirm_old: "lg_keeps P (confirm_old r c token pattern q)"
  unfolding confirm_old_def Let_def
  by (intro lg_rules infos changes lg_keepsI) (auto intro!: rekey_binding)

lemma confirm_binding: "lg_keeps P (ConfirmEmailBinding r c token pattern)"
  unfolding ConfirmEmailBinding_def forget_bindings_def confirm_verify_def
  by (intro lg_rules changes execs exec_users confirm_old) auto

lemma deletions: "lg_keeps P (lg_UpdateProfileDeletion c i shared)" "lg_keeps P (lg_CancelProfileDeletion c i)" "lg_keeps P (lg_DeleteUser c i)"
  unfolding lg_UpdateProfileDeletion_def lg_CancelProfileDeletion_def lg_DeleteUser_def lockDeletionUser_def lockDeletion_def Let_def
  by (intro lg_rules changes execs)+

end

sublocale legacy_closed \<subseteq> ops: legacy_repo P
  by unfold_locales
    (rule changes create_user activate passwords session_ops identities consume_state cleanup mark_sent start_binding confirm_binding
      deletions | erule outdated_sessions)+

end
