(* ===== verification/Auth_LegacyKeys.thy ===== *)
theory Auth_LegacyKeys
  imports Auth_LegacyFacts
begin

section \<open>Keys and references of the former tables\<close>

text \<open>
  What the schema of the former tables declares, primary and unique keys, references to users
  and the columns with enumerated values (the role of a user, the purpose and stage of an email
  binding, the provider of an OAuth state), as a fact about the state, and that it satisfies
  the interface \<open>legacy_closed\<close>.
\<close>

subsection \<open>Keys\<close>

definition keyed :: "('a \<Rightarrow> 'k) \<Rightarrow> 'a list \<Rightarrow> bool" where
  "keyed f = sorted_wrt (\<lambda>x y. f x \<noteq> f y)"

definition opt_keyed :: "('a \<Rightarrow> 'k option) \<Rightarrow> 'a list \<Rightarrow> bool" where
  "opt_keyed f = sorted_wrt (\<lambda>x y. f x = None \<or> f x \<noteq> f y)"

definition owned :: "uuid list \<Rightarrow> ('a \<Rightarrow> uuid) \<Rightarrow> 'a list \<Rightarrow> bool" where
  "owned ids f = list_all (\<lambda>r. f r \<in> set ids)"

lemma keyed_ends [simp]:
  "keyed f []" "keyed f (xs @ [x]) \<longleftrightarrow> keyed f xs \<and> \<not> list_ex (\<lambda>q. f q = f x) xs"
  "opt_keyed g []" "opt_keyed g (xs @ [x]) \<longleftrightarrow> opt_keyed g xs \<and> (g x \<noteq> None \<longrightarrow> \<not> list_ex (\<lambda>q. g q = g x) xs)"
  by (auto simp: keyed_def opt_keyed_def sorted_wrt_append list_ex_iff)

lemma keyed_filter [simp]: "keyed f xs \<Longrightarrow> keyed f (filter Q xs)" "opt_keyed g xs \<Longrightarrow> opt_keyed g (filter Q xs)"
  by (simp_all add: keyed_def opt_keyed_def sorted_wrt_filter)

lemma keyed_map [simp]:
  "(\<And>x. f (h x) = f x) \<Longrightarrow> keyed f (map h xs) = keyed f xs" "(\<And>x. g (h x) = g x) \<Longrightarrow> opt_keyed g (map h xs) = opt_keyed g xs"
  by (simp_all add: keyed_def opt_keyed_def sorted_wrt_map)

lemma keyed_inj: "keyed f xs \<Longrightarrow> x \<in> set xs \<Longrightarrow> y \<in> set xs \<Longrightarrow> f x = f y \<Longrightarrow> x = y"
  unfolding keyed_def by (induction xs) fastforce+

lemma sorted_wrt_both: "sorted_wrt R xs \<Longrightarrow> sorted_wrt S xs \<Longrightarrow> sorted_wrt (\<lambda>x y. R x y \<and> S x y) xs"
  by (induction xs) auto

text \<open>Rows of one key are given a value of another key that no other row has.\<close>

lemma keyed_update:
  assumes keys: "keyed k xs" "opt_keyed f xs"
    and rows: "\<And>x y. x \<in> set xs \<Longrightarrow> y \<in> set xs \<Longrightarrow> U x \<Longrightarrow> k x \<noteq> k y \<Longrightarrow> \<not> U y \<and> f (h x) \<noteq> f y"
  shows "opt_keyed f (map (\<lambda>x. if U x then h x else x) xs)"
proof -
  have "sorted_wrt (\<lambda>x y. k x \<noteq> k y \<and> (f x = None \<or> f x \<noteq> f y)) xs"
    using sorted_wrt_both [OF keys [unfolded keyed_def opt_keyed_def]] .
  then show ?thesis
    unfolding opt_keyed_def sorted_wrt_map by (rule sorted_wrt_mono_rel [rotated]) (metis (full_types) rows)
qed

lemma keyed_opt: "keyed f xs = opt_keyed (\<lambda>x. Some (f x)) xs"
  by (simp add: keyed_def opt_keyed_def)

lemma owned_simps [simp]:
  "owned ids f []" "owned ids f (xs @ ys) \<longleftrightarrow> owned ids f xs \<and> owned ids f ys" "owned ids f [x] \<longleftrightarrow> f x \<in> set ids"
  by (auto simp: owned_def)

lemma owned_filter [simp]: "owned ids f xs \<Longrightarrow> owned ids f (filter Q xs)"
  by (auto simp: owned_def list_all_iff)

lemma owned_map [simp]: "(\<And>x. f (h x) = f x) \<Longrightarrow> owned ids f (map h xs) = owned ids f xs"
  by (simp add: owned_def list_all_iff)

lemma owned_more [simp]: "owned ids f xs \<Longrightarrow> owned (ids @ new) f xs"
  by (auto simp: owned_def list_all_iff)

lemma owned_less [simp]:
  "owned (map usr_id us) f xs \<Longrightarrow> owned (map usr_id (filter (\<lambda>q. usr_id q \<noteq> i) us)) f (filter (\<lambda>q. f q \<noteq> i) xs)"
  by (auto simp: owned_def list_all_iff)

lemma all_filter [simp]: "list_all R xs \<Longrightarrow> list_all R (filter Q xs)"
  by (auto simp: list_all_iff)

subsection \<open>The fact\<close>

definition users_ok :: "lg_user list \<Rightarrow> bool" where
  "users_ok us \<longleftrightarrow> keyed usr_id us \<and> keyed usr_email us \<and> opt_keyed usr_username us \<and>
     list_all (\<lambda>u. usr_role u \<in> set [''member'', ''admin'']) us"

definition sessions_ok :: "uuid list \<Rightarrow> int \<Rightarrow> lg_session list \<Rightarrow> bool" where
  "sessions_ok ids n ss \<longleftrightarrow> keyed lgs_id ss \<and> keyed lgs_refresh ss \<and> owned ids lgs_user ss \<and> list_all (\<lambda>q. lgs_id q < n) ss"

definition oauths_ok :: "uuid list \<Rightarrow> lg_oauth list \<Rightarrow> bool" where
  "oauths_ok ids rs \<longleftrightarrow> keyed lga_user rs \<and> opt_keyed lga_google rs \<and> opt_keyed lga_vk rs \<and> owned ids lga_user rs"

definition bindings_ok :: "uuid list \<Rightarrow> lg_binding list \<Rightarrow> bool" where
  "bindings_ok ids bs \<longleftrightarrow> keyed lgb_hash bs \<and> keyed (\<lambda>b. (lgb_user b, lgb_purpose b)) bs \<and> owned ids lgb_user bs \<and>
     list_all (\<lambda>b. lgb_purpose b \<in> set [''verify'', ''change''] \<and> lgb_stage b \<in> set [''verify'', ''old'', ''new'']) bs"

definition deliveries_ok :: "uuid list \<Rightarrow> int \<Rightarrow> lg_delivery list \<Rightarrow> bool" where
  "deliveries_ok ids n vs \<longleftrightarrow> keyed lgv_id vs \<and> owned ids (\<lambda>v. edl_UserId (lgv_mail v)) vs \<and> list_all (\<lambda>v. lgv_id v < n) vs"

definition codes_ok :: "uuid list \<Rightarrow> lg_code list \<Rightarrow> bool" where
  "codes_ok ids cs \<longleftrightarrow> keyed lgc_user cs \<and> owned ids lgc_user cs"

definition resets_ok :: "uuid list \<Rightarrow> lg_reset list \<Rightarrow> bool" where
  "resets_ok ids rs \<longleftrightarrow> keyed lgr_code rs \<and> owned ids lgr_user rs"

definition firebases_ok :: "uuid list \<Rightarrow> lg_firebase list \<Rightarrow> bool" where
  "firebases_ok ids fs \<longleftrightarrow> keyed lgf_user fs \<and> keyed lgf_id fs \<and> owned ids lgf_user fs"

definition deletions_ok :: "uuid list \<Rightarrow> lg_deletion list \<Rightarrow> bool" where
  "deletions_ok ids ds \<longleftrightarrow> keyed lgd_user ds \<and> owned ids lgd_user ds"

definition states_ok :: "lg_state list \<Rightarrow> bool" where
  "states_ok ts \<longleftrightarrow> keyed lgt_hash ts \<and> list_all (\<lambda>q. lgt_provider q \<in> set [''google'', ''vk'']) ts"

definition proofs_ok :: "uuid list \<Rightarrow> lg_proof list \<Rightarrow> bool" where
  "proofs_ok ids ps \<longleftrightarrow> keyed lgp_hash ps \<and> owned ids lgp_user ps"

definition legacy_wf :: "legacy_db \<Rightarrow> bool" where
  "legacy_wf s \<longleftrightarrow>
     (let ids = map usr_id (lg_users s) in
      users_ok (lg_users s) \<and> sessions_ok ids (lg_next_session s) (lg_sessions s) \<and> oauths_ok ids (lg_oauths s) \<and>
      bindings_ok ids (lg_bindings s) \<and> deliveries_ok ids (lg_next_delivery s) (lg_deliveries s) \<and> codes_ok ids (lg_codes s) \<and>
      resets_ok ids (lg_resets s) \<and> firebases_ok ids (lg_firebases s) \<and> deletions_ok ids (lg_deletions s) \<and> states_ok (lg_states s) \<and>
      proofs_ok ids (lg_proofs s) \<and> keyed msd_Id (lg_outbox s))"

text \<open>Every table by the same two facts: fewer rows are still in order, and so are the rows next to more users.\<close>

lemmas table_defs = users_ok_def sessions_ok_def oauths_ok_def bindings_ok_def deliveries_ok_def codes_ok_def resets_ok_def firebases_ok_def
  deletions_ok_def states_ok_def proofs_ok_def

lemma tables_filter [simp]:
  "users_ok us \<Longrightarrow> users_ok (filter Fu us)" "sessions_ok ids n ss \<Longrightarrow> sessions_ok ids n (filter Fs ss)" "oauths_ok ids rs \<Longrightarrow> oauths_ok ids (filter Fo rs)"
  "bindings_ok ids bs \<Longrightarrow> bindings_ok ids (filter Fb bs)" "deliveries_ok ids n vs \<Longrightarrow> deliveries_ok ids n (filter Fv vs)"
  "codes_ok ids cs \<Longrightarrow> codes_ok ids (filter Fc cs)" "resets_ok ids qs \<Longrightarrow> resets_ok ids (filter Fr qs)"
  "firebases_ok ids fs \<Longrightarrow> firebases_ok ids (filter Ff fs)" "deletions_ok ids ds \<Longrightarrow> deletions_ok ids (filter Fd ds)"
  "states_ok ts \<Longrightarrow> states_ok (filter Ft ts)" "proofs_ok ids ps \<Longrightarrow> proofs_ok ids (filter Fp ps)"
  by (simp_all add: table_defs)

lemma tables_more [simp]:
  "sessions_ok ids n ss \<Longrightarrow> sessions_ok (ids @ js) n ss" "oauths_ok ids rs \<Longrightarrow> oauths_ok (ids @ js) rs" "bindings_ok ids bs \<Longrightarrow> bindings_ok (ids @ js) bs"
  "deliveries_ok ids n vs \<Longrightarrow> deliveries_ok (ids @ js) n vs" "codes_ok ids cs \<Longrightarrow> codes_ok (ids @ js) cs" "resets_ok ids qs \<Longrightarrow> resets_ok (ids @ js) qs"
  "firebases_ok ids fs \<Longrightarrow> firebases_ok (ids @ js) fs" "deletions_ok ids ds \<Longrightarrow> deletions_ok (ids @ js) ds" "proofs_ok ids ps \<Longrightarrow> proofs_ok (ids @ js) ps"
  by (simp_all add: table_defs)

lemma tables_fresh [simp]:
  "sessions_ok ids n ss \<Longrightarrow> sessions_ok ids (n + 1) ss" "deliveries_ok ids n vs \<Longrightarrow> deliveries_ok ids (n + 1) vs"
  by (auto simp: table_defs list_all_iff)

lemma user_of_known [simp]: "user_of i s = None \<longleftrightarrow> i \<notin> usr_id ` set (lg_users s)"
  by (force simp: user_of_def find_None_iff)

lemma user_of_Some: "user_of i s = Some u \<Longrightarrow> u \<in> set (lg_users s) \<and> usr_id u = i"
  by (auto simp: user_of_def find_Some_iff)

lemma find_SomeD: "find Q xs = Some x \<Longrightarrow> x \<in> set xs \<and> Q x"
  by (auto simp: find_Some_iff)

subsection \<open>Insertions\<close>

lemmas wf_keeps = lg_keeps_def legacy_wf_def Let_def list_ex_iff

lemma wf_insert_user: "usr_username u = None \<Longrightarrow> usr_role u = ''member'' \<Longrightarrow> lg_keeps legacy_wf (lg_insert_user u err)"
  by (auto simp: wf_keeps lg_insert_user_def users_ok_def)

lemma wf_insert_oauth: "lg_keeps legacy_wf (lg_insert_oauth a err)"
  by (auto simp: wf_keeps lg_insert_oauth_def oauths_ok_def)

lemma wf_insert_code: "lg_keeps legacy_wf (lg_insert_code d err)"
  by (auto simp: wf_keeps lg_insert_code_def codes_ok_def)

lemma wf_insert_message: "lg_keeps legacy_wf (createOutboxMsg c k msg)"
  by (auto simp: wf_keeps createOutboxMsg_def lg_stmt_def)

lemma wf_insert_binding: "lg_keeps legacy_wf (insert_binding b)"
  by (auto simp: wf_keeps insert_binding_def bindings_ok_def)

lemma wf_queue_email: "lg_keeps legacy_wf (queueBindingEmail c k e)"
  unfolding queueBindingEmail_def Let_def
proof (intro lg_rules lg_exec_keeps lg_keepsI)
  fix s :: legacy_db
  show "legacy_wf s \<Longrightarrow> legacy_wf (s\<lparr>lg_deliveries := filter Q (lg_deliveries s)\<rparr>)" for Q
    by (simp add: legacy_wf_def Let_def)
qed (auto simp: legacy_wf_def Let_def deliveries_ok_def list_ex_iff list_all_iff)

lemma wf_create_session: "lg_keeps legacy_wf (lg_CreateSession r c x)"
  by (auto simp: wf_keeps lg_CreateSession_def lg_stmt_def sessions_ok_def list_all_iff split: option.split)

lemma wf_create_reset: "lg_keeps legacy_wf (CreatePasswordResetRequest r c j x)"
  unfolding CreatePasswordResetRequest_def removeOutdatedPasswordResetRequests_def
  by (intro lg_rules lg_exec_keeps lg_keepsI) (auto simp: legacy_wf_def Let_def resets_ok_def list_ex_iff)

lemma wf_create_state: "lg_keeps legacy_wf (CreateOAuthState r c provider redirect binding)"
  unfolding CreateOAuthState_def opaqueToken_def
  by (intro lg_rules lg_keepsI) (auto simp: legacy_wf_def Let_def states_ok_def list_ex_iff)

lemma wf_consume_proof: "lg_keeps legacy_wf (ConsumeReauthentication r c j token)"
  by (auto simp: wf_keeps ConsumeReauthentication_def lg_stmt_def proofs_ok_def)

lemma wf_request_deletion: "lg_keeps legacy_wf (RequestDeleteProfile r c j shared)"
  unfolding RequestDeleteProfile_def lockDeletionUser_def lockDeletion_def Let_def
  by (intro lg_rules lg_keepsI) (auto simp: legacy_wf_def Let_def deletions_ok_def lg_deleting_def list_ex_iff)

subsection \<open>Updates\<close>

lemma same_ids [simp]: "(\<And>u. usr_id (f u) = usr_id u) \<Longrightarrow> map usr_id (map (\<lambda>u. if Q u then f u else u) us) = map usr_id us"
  by simp

lemma wf_users:
  assumes "legacy_wf s" "\<And>u. usr_id (f u) = usr_id u" "users_ok (map (\<lambda>u. if Q u then f u else u) (lg_users s))"
  shows "legacy_wf (lg_update_users Q f s)"
  using assms(1,3) same_ids [of f Q "lg_users s", OF assms(2)] by (simp add: legacy_wf_def Let_def lg_update_users_def del: map_map)

lemma wf_update_users:
  assumes "\<And>u. usr_id (f u) = usr_id u \<and> usr_email (f u) = usr_email u \<and> usr_username (f u) = usr_username u \<and> usr_role (f u) = usr_role u" "legacy_wf s"
  shows "legacy_wf (lg_update_users Q f s)"
proof (rule wf_users [OF assms(2)])
  show "users_ok (map (\<lambda>u. if Q u then f u else u) (lg_users s))"
    using assms by (auto simp: users_ok_def legacy_wf_def Let_def list_all_iff)
qed (simp add: assms(1))

lemma wf_set_username: "lg_keeps legacy_wf (lg_SetUsername c i name)"
proof -
  have "legacy_wf (lg_update_users (\<lambda>q. usr_id q = i) (\<lambda>q. q\<lparr>usr_username := Some name\<rparr>) s)"
    if wf: "legacy_wf s" and free: "\<not> list_ex (\<lambda>q. usr_id q \<noteq> i \<and> usr_username q = Some name) (lg_users s)" for s
  proof (rule wf_users [OF wf])
    have "opt_keyed usr_username (map (\<lambda>q. if usr_id q = i then q\<lparr>usr_username := Some name\<rparr> else q) (lg_users s))"
      using wf free by (intro keyed_update [where k = usr_id]) (auto simp: legacy_wf_def Let_def users_ok_def list_ex_iff)
    then show "users_ok (map (\<lambda>q. if usr_id q = i then q\<lparr>usr_username := Some name\<rparr> else q) (lg_users s))"
      using wf by (auto simp: legacy_wf_def Let_def users_ok_def list_all_iff)
  qed simp
  then show ?thesis
    by (auto simp: lg_keeps_def lg_SetUsername_def lg_stmt_def split: option.split)
qed

lemma wf_confirm_new: "lg_keeps legacy_wf (confirm_new c b)"
proof -
  have "legacy_wf (lg_update_users (\<lambda>u. usr_id u = lgb_user b) (\<lambda>u. u\<lparr>usr_email := lgb_email b\<rparr>) s)"
    if wf: "legacy_wf s" and free: "\<not> list_ex (\<lambda>u. usr_id u \<noteq> lgb_user b \<and> usr_email u = lgb_email b) (lg_users s)" for s
  proof (rule wf_users [OF wf])
    have "keyed usr_email (map (\<lambda>u. if usr_id u = lgb_user b then u\<lparr>usr_email := lgb_email b\<rparr> else u) (lg_users s))"
      unfolding keyed_opt using wf free
      by (intro keyed_update [where k = usr_id]) (auto simp: legacy_wf_def Let_def users_ok_def list_ex_iff keyed_opt)
    then show "users_ok (map (\<lambda>u. if usr_id u = lgb_user b then u\<lparr>usr_email := lgb_email b\<rparr> else u) (lg_users s))"
      using wf by (auto simp: legacy_wf_def Let_def users_ok_def list_all_iff)
  qed simp
  then show ?thesis
    unfolding confirm_new_def by (intro lg_rules lg_keepsI) auto
qed

lemma wf_rekey_binding:
  assumes wf: "legacy_wf s" and free: "\<not> list_ex (\<lambda>p. lgb_hash p \<noteq> old \<and> lgb_hash p = new) (lg_bindings s)"
  shows "legacy_wf (s\<lparr>lg_bindings := map (\<lambda>p. if lgb_hash p = old then p\<lparr>lgb_hash := new, lgb_stage := ''new'', lgb_expires := x\<rparr> else p) (lg_bindings s)\<rparr>)"
proof -
  have "keyed lgb_hash (map (\<lambda>p. if lgb_hash p = old then p\<lparr>lgb_hash := new, lgb_stage := ''new'', lgb_expires := x\<rparr> else p) (lg_bindings s))"
    unfolding keyed_opt using wf free
    by (intro keyed_update [where k = lgb_hash]) (auto simp: legacy_wf_def Let_def bindings_ok_def list_ex_iff keyed_opt)
  then show ?thesis
    using wf by (auto simp: legacy_wf_def Let_def bindings_ok_def list_all_iff)
qed

lemma wf_update_session: "lg_keeps legacy_wf (UpdateSession r c x old)"
proof -
  have "sessions_ok ids n (map (\<lambda>p. if lgs_refresh p = old \<and> lgs_expires p > now
      then p\<lparr>lgs_refresh := sin_RefreshToken x, lgs_ip := ip, lgs_agent := sin_UserAgent x, lgs_access := now, lgs_expires := sin_ExpiresAt x\<rparr> else p) ss)"
    if "sessions_ok ids n ss" "find (\<lambda>p. lgs_refresh p = old \<and> lgs_expires p > now) ss = Some q"
      "\<not> list_ex (\<lambda>p. lgs_id p \<noteq> lgs_id q \<and> lgs_refresh p = sin_RefreshToken x) ss" for ids n ss now ip q
  proof -
    have "keyed lgs_refresh (map (\<lambda>p. if lgs_refresh p = old \<and> lgs_expires p > now
        then p\<lparr>lgs_refresh := sin_RefreshToken x, lgs_ip := ip, lgs_agent := sin_UserAgent x, lgs_access := now, lgs_expires := sin_ExpiresAt x\<rparr> else p) ss)"
      unfolding keyed_opt
    proof (rule keyed_update [where k = lgs_refresh])
      fix p p'
      assume "p \<in> set ss" "p' \<in> set ss" "lgs_refresh p = old \<and> now < lgs_expires p" "lgs_refresh p \<noteq> lgs_refresh p'"
      moreover have "lgs_id p' \<noteq> lgs_id q"
        using calculation that(1) find_SomeD [OF that(2)] keyed_inj [of lgs_id ss p' q] by (auto simp: sessions_ok_def)
      ultimately show "\<not> (lgs_refresh p' = old \<and> now < lgs_expires p') \<and> Some (lgs_refresh (p\<lparr>lgs_refresh := sin_RefreshToken x, lgs_ip := ip,
          lgs_agent := sin_UserAgent x, lgs_access := now, lgs_expires := sin_ExpiresAt x\<rparr>)) \<noteq> Some (lgs_refresh p')"
        using that(3) by (auto simp: list_ex_iff)
    qed (use that(1) in \<open>simp_all add: sessions_ok_def flip: keyed_opt\<close>)
    then show ?thesis
      using that(1) by (auto simp: sessions_ok_def list_all_iff)
  qed
  then show ?thesis
    by (auto simp: lg_keeps_def UpdateSession_def lg_stmt_def legacy_wf_def Let_def split: option.split)
qed

lemma oauths_update:
  assumes ok: "oauths_ok ids rs"
    and free: "\<not> list_ex (\<lambda>q. column_value col q = Some col) rs"
  shows "oauths_ok ids (map (\<lambda>q. if lga_user q = j then set_column col q else q) rs)"
proof (cases col)
  case (GoogleColumn v)
  have "opt_keyed lga_google (map (\<lambda>q. if lga_user q = j then q\<lparr>lga_google := Some v\<rparr> else q) rs)"
    using ok free by (intro keyed_update [where k = lga_user]) (auto simp: oauths_ok_def list_ex_iff column_value_def GoogleColumn)
  then show ?thesis
    using ok unfolding set_column_def GoogleColumn identity_column.case by (simp add: oauths_ok_def)
next
  case (VkColumn v)
  have "opt_keyed lga_vk (map (\<lambda>q. if lga_user q = j then q\<lparr>lga_vk := Some v\<rparr> else q) rs)"
    using ok free by (intro keyed_update [where k = lga_user]) (auto simp: oauths_ok_def list_ex_iff column_value_def VkColumn)
  then show ?thesis
    using ok unfolding set_column_def VkColumn identity_column.case by (simp add: oauths_ok_def)
qed

lemma wf_connect: "lg_keeps legacy_wf (connectIdentity c j col)"
  unfolding connectIdentity_def lg_usable_def
  by (intro lg_rules lg_keepsI) (auto simp: legacy_wf_def Let_def lg_update_oauths_def oauths_update)

lemma opt_keyed_forget: "opt_keyed f xs \<Longrightarrow> (\<And>x. f (h x) = None \<or> f (h x) = f x) \<Longrightarrow> opt_keyed f (map h xs)"
  unfolding opt_keyed_def sorted_wrt_map by (erule sorted_wrt_mono_rel [rotated]) metis

lemma wf_disconnect: "legacy_wf s \<Longrightarrow> legacy_wf (lg_update_oauths j (\<lambda>q. if google then q\<lparr>lga_google := None\<rparr> else q\<lparr>lga_vk := None\<rparr>) s)"
  by (auto simp: legacy_wf_def Let_def lg_update_oauths_def oauths_ok_def intro!: opt_keyed_forget split: if_splits)

lemma wf_connect_firebase: "lg_keeps legacy_wf (ConnectFirebase c j fid created)"
  unfolding ConnectFirebase_def Let_def
proof (intro lg_rules lg_exec_keeps wf_update_users wf_insert_message)
  show "lg_keeps legacy_wf (\<lambda>s. if list_ex (\<lambda>r. lgf_user r = j \<or> lgf_id r = fid) (lg_firebases s) \<or> user_of j s = None then (Inl GrpcUnknown, s)
      else (Inr (), s\<lparr>lg_firebases := lg_firebases s @ [\<lparr>lgf_user = j, lgf_id = fid\<rparr>]\<rparr>))"
    by (auto simp: wf_keeps firebases_ok_def)
qed auto

lemma wf_deliver: "lg_keeps legacy_wf (DeliverEmail c send)"
  unfolding DeliverEmail_def
  by (intro lg_rules lg_exec_keeps) (auto simp: legacy_wf_def Let_def deliveries_ok_def list_all_iff)

lemma wf_mark_resets: "legacy_wf s \<Longrightarrow> legacy_wf (s\<lparr>lg_resets := map (\<lambda>q. if R q then q\<lparr>lgr_used := True\<rparr> else q) (lg_resets s)\<rparr>)"
  by (simp add: legacy_wf_def Let_def resets_ok_def)

lemma wf_update_deletion: "legacy_wf s \<Longrightarrow> legacy_wf (s\<lparr>lg_deletions := map (\<lambda>d. if lgd_user d = j then d\<lparr>lgd_shared := b\<rparr> else d) (lg_deletions s)\<rparr>)"
  by (simp add: legacy_wf_def Let_def deletions_ok_def)

lemma wf_delete_user: "legacy_wf s \<Longrightarrow> legacy_wf (lg_delete_user j s)"
  by (simp add: legacy_wf_def Let_def lg_delete_user_def table_defs)

lemma wf_filters:
  "legacy_wf s \<Longrightarrow> legacy_wf (s\<lparr>lg_sessions := filter F1 (lg_sessions s)\<rparr>)" "legacy_wf s \<Longrightarrow> legacy_wf (s\<lparr>lg_codes := filter F2 (lg_codes s)\<rparr>)"
  "legacy_wf s \<Longrightarrow> legacy_wf (s\<lparr>lg_resets := filter F3 (lg_resets s)\<rparr>)" "legacy_wf s \<Longrightarrow> legacy_wf (s\<lparr>lg_deletions := filter F4 (lg_deletions s)\<rparr>)"
  "legacy_wf s \<Longrightarrow> legacy_wf (s\<lparr>lg_states := filter F5 (lg_states s)\<rparr>)" "legacy_wf s \<Longrightarrow> legacy_wf (s\<lparr>lg_bindings := filter F6 (lg_bindings s)\<rparr>)"
  "legacy_wf s \<Longrightarrow> legacy_wf (s\<lparr>lg_deliveries := filter F7 (lg_deliveries s)\<rparr>)" "legacy_wf s \<Longrightarrow> legacy_wf (s\<lparr>lg_proofs := filter F8 (lg_proofs s)\<rparr>)"
  "legacy_wf s \<Longrightarrow> legacy_wf (s\<lparr>lg_outbox := filter F9 (lg_outbox s)\<rparr>)"
  by (simp_all add: legacy_wf_def Let_def)

interpretation keys: legacy_closed legacy_wf
  by unfold_locales
    (simp_all add: wf_insert_user wf_insert_oauth wf_insert_code wf_insert_message wf_insert_binding wf_queue_email wf_update_users
      wf_set_username wf_confirm_new wf_rekey_binding wf_create_session wf_update_session wf_mark_resets wf_create_reset wf_connect
      wf_disconnect wf_create_state wf_consume_proof wf_connect_firebase wf_deliver wf_request_deletion wf_update_deletion
      wf_delete_user wf_filters)

end
