(* ===== verification/Auth_LegacyTokens.thy ===== *)
theory Auth_LegacyTokens
  imports Auth_LegacyKeys
begin

section \<open>What the former repository spends and keeps\<close>

text \<open>
  Tokens of the former service that work once, and the sign-in methods a user keeps. The
  lemmas are about single calls on a state with its keys in order, which every reachable state
  is; what a call has spent is gone from the tables it is looked up in.
\<close>

subsection \<open>Successful calls\<close>

text \<open>What the steps of a call have done when it has succeeded, one equation per combinator.\<close>

lemma lg_bind_Inr: "lg_bind m f s = (Inr y, t) \<longleftrightarrow> (\<exists>x u. m s = (Inr x, u) \<and> f x u = (Inr y, t))"
  by (auto simp: lg_bind_def split: prod.splits sum.splits)

lemma lg_then_Inr: "lg_then m n s = (Inr y, t) \<longleftrightarrow> (\<exists>u. m s = (Inr (), u) \<and> n u = (Inr y, t))"
  by (simp add: lg_then_def lg_bind_Inr)

lemma lg_stmt_Inr: "lg_stmt c k err m s = (Inr y, t) \<longleftrightarrow> cl_fault c \<noteq> StatementFault k \<and> m s = (Inr y, t)"
  by (simp add: lg_stmt_def)

lemma lg_tx_Inr:
  "lg_tx c m s = (Inr y, t) \<longleftrightarrow> cl_fault c \<noteq> BeginFault \<and>
     (\<exists>b u. m s = (Inr (y, b), u) \<and> (if b then cl_fault c \<noteq> CommitFault \<and> t = u else t = s))"
  by (auto simp: lg_tx_def split: prod.splits sum.splits if_splits)

lemma lg_row_Inr: "lg_row f err s = (Inr y, t) \<longleftrightarrow> f s = Some y \<and> t = s"
  by (auto simp: lg_row_def split: option.splits)

lemma lg_simple_Inr:
  "lg_return x s = (Inr y, t) \<longleftrightarrow> y = x \<and> t = s" "lg_read g s = (Inr z, t) \<longleftrightarrow> z = g s \<and> t = s"
  "lg_guard b err s = (Inr u, t) \<longleftrightarrow> b \<and> t = s" "lg_exec f s = (Inr u, t) \<longleftrightarrow> t = f s" "lg_fail err s \<noteq> (Inr y, t)"
  by (auto simp: lg_return_def lg_read_def lg_guard_def lg_exec_def lg_fail_def)

lemma lg_end_Inr: "lg_commit x s = (Inr y, t) \<longleftrightarrow> y = (x, True) \<and> t = s" "lg_rollback x s = (Inr y, t) \<longleftrightarrow> y = (x, False) \<and> t = s"
  by (auto simp: lg_commit_def lg_rollback_def lg_simple_Inr)

lemmas lg_inv = lg_bind_Inr lg_then_Inr lg_stmt_Inr lg_tx_Inr lg_row_Inr lg_simple_Inr lg_end_Inr

lemma no_success: "(\<And>x t. m s \<noteq> (Inr x, t)) \<Longrightarrow> \<exists>err. fst (m s) = Inl err"
  by (metis prod.collapse sum.exhaust)

subsection \<open>OAuth states\<close>

lemma consumed_state_gone:
  assumes "legacy_wf s" "ConsumeOAuthState r c provider token redirect binding s = (Inr (), t)"
  shows "\<not> list_ex (\<lambda>q. lgt_hash q = tokenHash r token) (lg_states t)"
proof -
  let ?P = "state_valid r (cl_dbnow c) provider token redirect binding"
  have t: "t = s\<lparr>lg_states := filter (\<lambda>q. \<not> ?P q) (lg_states s)\<rparr>" and one: "length (filter ?P (lg_states s)) = 1"
    using assms(2) by (auto simp: ConsumeOAuthState_def lg_inv Let_def split: if_splits)
  from one have "filter ?P (lg_states s) \<noteq> []"
    by auto
  then obtain p where p: "p \<in> set (lg_states s)" "?P p"
    by (auto simp: filter_empty_conv)
  have "keyed lgt_hash (lg_states s)"
    using assms(1) by (simp add: legacy_wf_def Let_def states_ok_def)
  then have "q = p" if "q \<in> set (lg_states s)" "lgt_hash q = tokenHash r token" for q
    using keyed_inj [of lgt_hash _ q p] that p by (simp add: state_valid_def)
  with p show ?thesis
    by (auto simp: t list_ex_iff)
qed

lemma consumed_state_rejected:
  assumes "legacy_wf s" "ConsumeOAuthState r c provider token redirect binding s = (Inr (), t)"
  shows "\<exists>err. fst (ConsumeOAuthState r c' provider' token redirect' binding' t) = Inl err"
proof -
  have "filter (state_valid r (cl_dbnow c') provider' token redirect' binding') (lg_states t) = []"
    using consumed_state_gone [OF assms] by (auto simp: state_valid_def list_ex_iff filter_empty_conv)
  then show ?thesis
    by (intro no_success) (auto simp: ConsumeOAuthState_def lg_inv Let_def split: if_splits)
qed

subsection \<open>Password resets\<close>

lemma reset_code_spent:
  assumes "legacy_wf s" "lg_ResetPassword c i code h s = (Inr (), t)"
  shows "list_all (\<lambda>q. lgr_code q = code \<longrightarrow> lgr_used q) (lg_resets t)"
proof -
  let ?V = "reset_valid i code (cl_now c)"
  have valid: "list_ex ?V (lg_resets s)"
    and t: "lg_resets t = map (\<lambda>q. if ?V q then q\<lparr>lgr_used := True\<rparr> else q) (lg_resets s)"
    using assms(2) by (auto simp: lg_ResetPassword_def lg_inv lg_update_users_def)
  have "keyed lgr_code (lg_resets s)"
    using assms(1) by (simp add: legacy_wf_def Let_def resets_ok_def)
  then have "?V q" if "q \<in> set (lg_resets s)" "lgr_code q = code" for q
    using keyed_inj [of lgr_code] that valid by (fastforce simp: list_ex_iff reset_valid_def)
  then show ?thesis
    unfolding t by (auto simp: list_all_iff)
qed

lemma reset_code_rejected:
  assumes "legacy_wf s" "lg_ResetPassword c i code h s = (Inr (), t)"
  shows "\<exists>err. fst (lg_ResetPassword c' i' code h' t) = Inl err"
proof -
  have "\<not> list_ex (reset_valid i' code now) (lg_resets t)" for now
    using reset_code_spent [OF assms] by (auto simp: list_all_iff list_ex_iff reset_valid_def)
  then show ?thesis
    by (intro no_success) (auto simp: lg_ResetPassword_def lg_inv)
qed

subsection \<open>Refresh tokens\<close>

lemma refreshed_token_gone:
  assumes "legacy_wf s" "UpdateSession r c x old s = (Inr sid, t)" "sin_RefreshToken x \<noteq> old"
  shows "\<not> list_ex (\<lambda>q. lgs_refresh q = old) (lg_sessions t)"
proof -
  obtain ip where ip: "rep_cidr r (sin_Ip x) = Some ip"
    using assms(2) by (cases "rep_cidr r (sin_Ip x)") (auto simp: UpdateSession_def lg_inv)
  obtain q where q: "find (\<lambda>q. lgs_refresh q = old \<and> lgs_expires q > cl_dbnow c) (lg_sessions s) = Some q"
    using assms(2) ip by (cases "find (\<lambda>q. lgs_refresh q = old \<and> lgs_expires q > cl_dbnow c) (lg_sessions s)") (auto simp: UpdateSession_def lg_inv)
  have t: "lg_sessions t = map (\<lambda>p. if lgs_refresh p = old \<and> lgs_expires p > cl_dbnow c
      then p\<lparr>lgs_refresh := sin_RefreshToken x, lgs_ip := ip, lgs_agent := sin_UserAgent x, lgs_access := cl_dbnow c,
             lgs_expires := sin_ExpiresAt x\<rparr> else p) (lg_sessions s)"
    using assms(2) ip q by (auto simp: UpdateSession_def lg_inv split: if_splits)
  have "keyed lgs_refresh (lg_sessions s)"
    using assms(1) by (simp add: legacy_wf_def Let_def sessions_ok_def)
  then have "p = q" if "p \<in> set (lg_sessions s)" "lgs_refresh p = old" for p
    using keyed_inj [of lgs_refresh _ p q] that find_SomeD [OF q] by simp
  then show ?thesis
    using find_SomeD [OF q] assms(3) by (auto simp: t list_ex_iff)
qed

lemma refreshed_token_rejected:
  assumes "legacy_wf s" "UpdateSession r c x old s = (Inr sid, t)" "sin_RefreshToken x \<noteq> old"
  shows "\<exists>err. fst (UpdateSession r c' x' old t) = Inl err" "\<exists>err. fst (GetAuthInfoByRefreshToken cs old t) = Inl err"
proof -
  have gone: "find (\<lambda>q. lgs_refresh q = old \<and> Q q) (lg_sessions t) = None" for Q
    using refreshed_token_gone [OF assms] by (auto simp: find_None_iff list_ex_iff)
  show "\<exists>err. fst (UpdateSession r c' x' old t) = Inl err"
    using gone by (intro no_success) (auto simp: UpdateSession_def lg_inv split: option.splits)
  show "\<exists>err. fst (GetAuthInfoByRefreshToken cs old t) = Inl err"
    using gone [of "\<lambda>_. True"] by (intro no_success) (auto simp: GetAuthInfoByRefreshToken_def lg_inv)
qed

subsection \<open>Sign-in methods\<close>

definition lg_methods :: "uuid \<Rightarrow> legacy_db \<Rightarrow> bool" where
  "lg_methods i s \<longleftrightarrow> list_ex (\<lambda>u. usr_id u = i \<and> (case usr_password u of None \<Rightarrow> False | Some h \<Rightarrow> h \<noteq> '''')) (lg_users s) \<or>
     list_ex (\<lambda>r. lga_user r = i \<and> (lga_google r \<noteq> None \<or> lga_vk r \<noteq> None)) (lg_oauths s)"

lemma disconnect_leaves_method:
  assumes "disconnectIdentity c i google s = (Inr (), t)" "t \<noteq> s"
  shows "lg_methods i t"
proof -
  obtain u row where u: "user_of i s = Some u" and row: "oauth_of i s = Some row"
    and left: "(case usr_password u of None \<Rightarrow> False | Some h \<Rightarrow> h \<noteq> '''') \<or> lga_google row \<noteq> None \<and> lga_vk row \<noteq> None"
    and t: "t = lg_update_oauths i (\<lambda>r. if google then r\<lparr>lga_google := None\<rparr> else r\<lparr>lga_vk := None\<rparr>) s"
    using assms by (auto simp: disconnectIdentity_def lg_usable_def lg_inv Let_def split: if_splits)
  have "row \<in> set (lg_oauths s)" "lga_user row = i"
    using row by (auto simp: oauth_of_def dest: find_SomeD)
  then have "(if google then row\<lparr>lga_google := None\<rparr> else row\<lparr>lga_vk := None\<rparr>) \<in> set (lg_oauths t)"
    by (force simp: t lg_update_oauths_def)
  moreover have "lg_users t = lg_users s"
    by (simp add: t lg_update_oauths_def)
  ultimately show ?thesis
    using left user_of_Some [OF u] \<open>lga_user row = i\<close> unfolding lg_methods_def list_ex_iff by (cases google) fastforce+
qed

text \<open>Connecting an identity never replaces one, and gives it to this user alone.\<close>

lemma connect_keeps_identity:
  assumes "connectIdentity c i col s = (Inr fresh, t)" "oauth_of i s = Some row" "column_value col row = Some old"
  shows "old = col" "t = s"
  using assms by (auto simp: connectIdentity_def lg_usable_def lg_inv split: if_splits)

lemma lg_tx_fails: "fst (lg_tx c m s) = Inl err \<Longrightarrow> snd (lg_tx c m s) = s"
  by (auto simp: lg_tx_def split: prod.splits sum.splits if_splits)

lemma connect_replaces_nothing:
  assumes "oauth_of i s = Some row" "column_value col row \<noteq> None"
  shows "snd (connectIdentity c i col s) = s"
proof (cases "connectIdentity c i col s")
  case (Pair res t)
  show ?thesis
  proof (cases res)
    case (Inl err)
    then have "fst (connectIdentity c i col s) = Inl err" using Pair by simp
    then show ?thesis unfolding connectIdentity_def by (rule lg_tx_fails)
  next
    case (Inr fresh)
    then show ?thesis using connect_keeps_identity(2) [of c i col s fresh t row] assms Pair by auto
  qed
qed

lemma oauth_of_known: "keyed lga_user (lg_oauths s) \<Longrightarrow> oauth_of i s = Some row \<Longrightarrow> q \<in> set (lg_oauths s) \<Longrightarrow> lga_user q = i \<Longrightarrow> q = row"
  unfolding oauth_of_def by (drule find_SomeD) (auto intro: keyed_inj)

lemma opt_keyed_inj: "opt_keyed f xs \<Longrightarrow> x \<in> set xs \<Longrightarrow> y \<in> set xs \<Longrightarrow> f x = Some k \<Longrightarrow> f y = Some k \<Longrightarrow> x = y"
  unfolding opt_keyed_def by (induction xs) fastforce+

lemma column_owner:
  assumes "oauths_ok ids rs" "p \<in> set rs" "q \<in> set rs" "column_value col p = Some col" "column_value col q = Some col"
  shows "p = q"
  using assms by (cases col) (auto simp: oauths_ok_def column_value_def dest: opt_keyed_inj [of lga_google rs p q] opt_keyed_inj [of lga_vk rs p q])

lemma connected_identity_owned:
  assumes "legacy_wf s" "connectIdentity c i col s = (Inr fresh, t)" "q \<in> set (lg_oauths t)"
  shows "column_value col q = Some col \<longleftrightarrow> lga_user q = i"
proof -
  have ok: "oauths_ok (map usr_id (lg_users s)) (lg_oauths s)" using assms(1) by (simp add: legacy_wf_def Let_def)
  then have key: "keyed lga_user (lg_oauths s)" by (simp add: oauths_ok_def)
  obtain row where row: "oauth_of i s = Some row" using assms(2) by (auto simp: connectIdentity_def lg_usable_def lg_inv)
  note at = find_SomeD [OF row [unfolded oauth_of_def]]
  show ?thesis
  proof (cases "column_value col row")
    case (Some old)
    note kept = connect_keeps_identity [OF assms(2) row Some]
    then show ?thesis
      using column_owner [OF ok, of q row col] oauth_of_known [OF key row, of q] at Some assms(3) by auto
  next
    case None
    then have t: "t = lg_update_oauths i (set_column col) s" "\<not> list_ex (\<lambda>q. column_value col q = Some col) (lg_oauths s)"
      using assms(2) row by (auto simp: connectIdentity_def lg_usable_def lg_inv split: if_splits)
    have "lg_oauths t = map (\<lambda>r. if lga_user r = i then set_column col r else r) (lg_oauths s)"
      by (simp add: t(1) lg_update_oauths_def)
    then show ?thesis
      using assms(3) t(2) by (cases col) (auto simp: list_ex_iff column_value_def set_column_def)
  qed
qed

end
