(* ===== verification/Auth_LegacyRuns.thy ===== *)
theory Auth_LegacyRuns
  imports Auth_LegacyTokens Auth_Examples
begin

section \<open>Runs of the former service\<close>

text \<open>
  The former service as a transition system, twice. Coarse: a procedure is served, a started
  goroutine runs, the outbox observer, the mail dispatcher or the deletion daemon makes a
  round. Fine: a single call of the repository, with any arguments. Every coarse step is a
  sequence of fine ones, and the fine ones come in any order, as they do when requests run
  beside each other. The keys and references hold in every state either reaches. The last part
  shows what the username validator and the session listing do with the files and the
  comparison they are given.
\<close>

subsection \<open>Steps\<close>

text \<open>A request with the values the procedure reads from it.\<close>

datatype legacy_call =
    CallSignUp string string string string string
  | CallActivateProfile string string
  | CallSignIn string string string ClientData
  | CallRefreshSession string string string
  | CallSignOut string
  | CallGetAuthInfo string string string
  | CallGetSessions string
  | CallEndSessions string "int list"
  | CallRequestPasswordReset string string string
  | CallResetPassword string string string string
  | CallChangePassword string string string
  | CallStartEmailBinding string string string string string string "Reauthentication option"
  | CallConfirmEmailBinding string string
  | CallRequestGoogleOAuth string string
  | CallSignInGoogle string string string ClientData string
  | CallSignInGoogleToken string ClientData
  | CallConnectGoogle string string string string string string
  | CallDeleteGoogleConnection string
  | CallRequestVkOAuth string string string string
  | CallSignInVk string string string ClientData string
  | CallConnectVk string string string string string
  | CallDeleteVkConnection string
  | CallGetProfileDeletionStatus string
  | CallDeleteProfile string string "Reauthentication option" string bool string
  | CallCancelProfileDeletion string
  | CallUpdateProfileDeletion string bool
  | CallGetVisibleNames "string list"
  | CallCheckUsernameAvailability string
  | CallSetUsername string string

definition discard :: "'a svc \<Rightarrow> world \<Rightarrow> world" where
  "discard m w = snd (m w)"

definition legacy_serve :: "lg_server \<Rightarrow> (nat \<Rightarrow> call_env) \<Rightarrow> (time \<Rightarrow> string) \<Rightarrow> legacy_call \<Rightarrow> world \<Rightarrow> world" where
  "legacy_serve srv cs show_time call =
     (case call of
        CallSignUp digits i email password pattern \<Rightarrow> discard (lrpc_SignUp srv cs digits i email password pattern)
      | CallActivateProfile i code \<Rightarrow> discard (lrpc_ActivateProfile srv (cs 0) i code)
      | CallSignIn email name password client \<Rightarrow> discard (lrpc_SignIn srv cs email name password client)
      | CallRefreshSession token ip agent \<Rightarrow> discard (lrpc_RefreshSession srv cs token ip agent)
      | CallSignOut token \<Rightarrow> discard (lrpc_SignOut (cs 0) token)
      | CallGetAuthInfo i email name \<Rightarrow> discard (lrpc_GetAuthInfo srv cs i email name)
      | CallGetSessions i \<Rightarrow> discard (lrpc_GetSessions srv show_time (cs 0) i)
      | CallEndSessions i ids \<Rightarrow> discard (lrpc_EndSessions srv (cs 0) i ids)
      | CallRequestPasswordReset email name pattern \<Rightarrow> discard (lrpc_RequestPasswordReset srv cs email name pattern)
      | CallResetPassword i token code password \<Rightarrow> discard (lrpc_ResetPassword srv cs i token code password)
      | CallChangePassword i old new \<Rightarrow> discard (lrpc_ChangePassword srv cs i old new)
      | CallStartEmailBinding binding email purpose i pattern redirect credentials \<Rightarrow>
          discard (lrpc_StartEmailBinding srv cs binding email purpose i pattern redirect credentials)
      | CallConfirmEmailBinding token pattern \<Rightarrow> discard (lrpc_ConfirmEmailBinding srv (cs 0) token pattern)
      | CallRequestGoogleOAuth binding redirect \<Rightarrow> discard (lrpc_RequestGoogleOAuth srv (cs 0) binding redirect)
      | CallSignInGoogle binding code state client redirect \<Rightarrow> discard (lrpc_SignInGoogle srv cs binding code state client redirect)
      | CallSignInGoogleToken token client \<Rightarrow> discard (lrpc_SignInGoogleToken srv cs token client)
      | CallConnectGoogle binding i token code state redirect \<Rightarrow> discard (lrpc_ConnectGoogle srv cs binding i token code state redirect)
      | CallDeleteGoogleConnection i \<Rightarrow> discard (lrpc_DeleteGoogleConnection srv cs i)
      | CallRequestVkOAuth binding display kind redirect \<Rightarrow> discard (lrpc_RequestVkOAuth srv (cs 0) binding display kind redirect)
      | CallSignInVk binding code state client redirect \<Rightarrow> discard (lrpc_SignInVk srv cs binding code state client redirect)
      | CallConnectVk binding i code state redirect \<Rightarrow> discard (lrpc_ConnectVk srv cs binding i code state redirect)
      | CallDeleteVkConnection i \<Rightarrow> discard (lrpc_DeleteVkConnection srv cs i)
      | CallGetProfileDeletionStatus i \<Rightarrow> discard (lrpc_GetProfileDeletionStatus srv (cs 0) i)
      | CallDeleteProfile binding i credentials password shared redirect \<Rightarrow>
          discard (lrpc_DeleteProfile srv cs binding i credentials password shared redirect)
      | CallCancelProfileDeletion i \<Rightarrow> discard (lrpc_CancelProfileDeletion srv cs i)
      | CallUpdateProfileDeletion i shared \<Rightarrow> discard (lrpc_UpdateProfileDeletion srv cs i shared)
      | CallGetVisibleNames ids \<Rightarrow> discard (lrpc_GetVisibleNames srv (cs 0) ids)
      | CallCheckUsernameAvailability name \<Rightarrow> discard (lrpc_CheckUsernameAvailability srv (cs 0) name)
      | CallSetUsername i name \<Rightarrow> discard (lrpc_SetUsername srv cs i name))"

inductive legacy_step :: "lg_server \<Rightarrow> world \<Rightarrow> world \<Rightarrow> bool" for srv where
  Serve: "legacy_step srv w (legacy_serve srv cs show_time call w)"
| Goroutine: "d \<in> set (wld_pending w) \<Longrightarrow>
    legacy_step srv w (w\<lparr>wld_pending := remove1 d (wld_pending w), wld_db := run_deferred (lsv_Services srv) cs sent d (wld_db w)\<rparr>)"
| Observe: "legacy_step srv w (w\<lparr>wld_db := observe_round c ms taken (wld_db w)\<rparr>)"
| Dispatch: "legacy_step srv w (w\<lparr>wld_db := email_Dispatch c cs send (wld_db w)\<rparr>)"
| Execute: "legacy_step srv w (deletion_ExecuteAll (lsv_Services srv) c ds taken w)"

definition legacy_start :: world where
  "legacy_start = \<lparr>wld_db = \<lparr>lg_users = [], lg_codes = [], lg_sessions = [], lg_resets = [], lg_oauths = [], lg_firebases = [], lg_deletions = [],
     lg_states = [], lg_bindings = [], lg_deliveries = [], lg_proofs = [], lg_outbox = [], lg_next_session = 1, lg_next_delivery = 1\<rparr>,
     wld_pending = []\<rparr>"

text \<open>
  One call of the repository, by whatever request or background task, with whatever arguments
  and faults. The tables change in no other way.
\<close>

inductive repo_step :: "legacy_db \<Rightarrow> legacy_db \<Rightarrow> bool" for s :: legacy_db where
  RepoCreateUser: "repo_step s (snd (lg_CreateUser c cred code oauth s))"
| RepoActivateProfile: "repo_step s (snd (lg_ActivateProfile c i code' s))"
| RepoSetUsername: "repo_step s (snd (lg_SetUsername c i name s))"
| RepoSetPassword: "repo_step s (snd (lg_SetPassword c i h s))"
| RepoResetPassword: "repo_step s (snd (lg_ResetPassword c i code' h s))"
| RepoCreateReset: "repo_step s (snd (CreatePasswordResetRequest r c i x s))"
| RepoCreateSession: "repo_step s (snd (lg_CreateSession r c input s))"
| RepoUpdateSession: "repo_step s (snd (UpdateSession r c input t s))"
| RepoDeleteSession: "repo_step s (snd (lg_DeleteSession c t s))"
| RepoDeleteSessions: "repo_step s (snd (lg_DeleteSessions c i ids s))"
| RepoDeleteAllSessions: "repo_step s (snd (DeleteAllSessions c i s))"
| RepoDeleteOutdatedSessions: "repo_step s (DeleteOutdatedSessions c i n s)"
| RepoConnectIdentity: "repo_step s (snd (connectIdentity c i col s))"
| RepoDeleteGoogleConnection: "repo_step s (snd (lg_DeleteGoogleConnection c i s))"
| RepoDeleteVkConnection: "repo_step s (snd (lg_DeleteVkConnection c i s))"
| RepoCreateOAuthState: "repo_step s (snd (CreateOAuthState r c provider redirect binding s))"
| RepoConsumeOAuthState: "repo_step s (snd (ConsumeOAuthState r c provider t redirect binding s))"
| RepoConsumeReauthentication: "repo_step s (snd (ConsumeReauthentication r c i t s))"
| RepoCleanup: "repo_step s (snd (CleanupAuthWorkflows c s))"
| RepoConnectFirebase: "repo_step s (snd (ConnectFirebase c i fid created s))"
| RepoMarkMessageSent: "repo_step s (snd (MarkMessageSent c m s))"
| RepoStartEmailBinding: "repo_step s (snd (StartEmailBinding r c b s))"
| RepoConfirmEmailBinding: "repo_step s (snd (ConfirmEmailBinding r c t pattern s))"
| RepoDeliverEmail: "repo_step s (snd (DeliverEmail c send s))"
| RepoRequestDeletion: "repo_step s (snd (RequestDeleteProfile r c i shared s))"
| RepoUpdateDeletion: "repo_step s (snd (lg_UpdateProfileDeletion c i shared s))"
| RepoCancelDeletion: "repo_step s (snd (lg_CancelProfileDeletion c i s))"
| RepoDeleteUser: "repo_step s (snd (lg_DeleteUser c i s))"

context legacy_repo begin

lemma discard_keeps: "lg_keeps holds m \<Longrightarrow> holds w \<Longrightarrow> holds (discard m w)"
  unfolding discard_def by (rule lg_keepsD [of holds])

lemma serve: "holds w \<Longrightarrow> holds (legacy_serve srv cs show_time call w)"
  by (cases call)
    (simp_all add: legacy_serve_def discard_keeps procedures provider_procedures deletion_procedures read_procedures)

lemma step: "legacy_step srv w w' \<Longrightarrow> holds w \<Longrightarrow> holds w'"
  by (induction rule: legacy_step.induct) (simp_all add: serve run_deferred observe_round dispatch execute_all)

lemma repo_step: "repo_step s t \<Longrightarrow> P s \<Longrightarrow> P t"
  by (induction rule: repo_step.induct) (auto intro: calls [THEN lg_keepsD] call_DeleteOutdatedSessions)

end

text \<open>The states that sequences of repository calls reach are closed under the coarse steps.\<close>

interpretation interleaved: legacy_repo "reach repo_step s0" for s0
  by unfold_locales (auto simp: lg_keeps_def intro: reach_step repo_step.intros)

lemma start_wf: "legacy_wf (wld_db legacy_start)"
  by (simp add: legacy_start_def legacy_wf_def table_defs)

interpretation former: invariant_of repo_step "\<lambda>s. s = wld_db legacy_start" legacy_wf
  by unfold_locales (auto simp: start_wf dest: keys.ops.repo_step)


subsection \<open>An example\<close>

definition demo_lg_libs :: lg_libs where
  "demo_lg_libs = \<lparr>lgl_Code = (\<lambda>err. if err = GrpcUserNotFound then NotFound else Internal), lgl_Unicode = demo_unicode,
     lgl_EqualFold = (\<lambda>s t. s = t), lgl_Hash = (\<lambda>p. Some p), lgl_Validate = (\<lambda>p h. p = h), lgl_CreateAccess = (\<lambda>p d. Some ''access''),
     lgl_Plan = (\<lambda>i. None), lgl_PlanFree = ''free'', lgl_Firebase = None,
     lgl_UserAgent = (\<lambda>s. \<lparr>uag_Mobile = False, uag_Model = '''', uag_Browser = s, uag_Version = '''', uag_OS = ''''\<rparr>),
     lgl_Sprintf = (\<lambda>p s. p @ s), lgl_RFC1123 = (\<lambda>t. ''''), lgl_IpInfo = (\<lambda>ip. NoAnswer),
     lgl_AuthCodeURL = (\<lambda>c r s. s), lgl_Exchange = (\<lambda>c r. Inr c), lgl_UserInfo = (\<lambda>t. NoAnswer), lgl_TokenInfo = (\<lambda>t. NoAnswer),
     lgl_VkToken = (\<lambda>t. NoAnswer)\<rparr>"

definition demo_server :: "string \<Rightarrow> lg_server" where
  "demo_server words = \<lparr>lsv_Services = \<lparr>srs_Repo = \<lparr>rep_crypto = demo_crypto, rep_uuid_String = uuid_String demo_uuids, rep_cidr = Some,
       rep_Offset = 5\<rparr>, srs_Libs = demo_lg_libs, srs_Dev = True, srs_Google = ''google'',
       srs_Vk = \<lparr>vkl_clientId = ''vk'', vkl_clientSecret = ''secret'', vkl_scope = ''email''\<rparr>, srs_AccessTTL = 5, srs_RefreshTTL = 9, srs_ResetTTL = 7\<rparr>,
     lsv_uuid = demo_uuids\<lparr>uuid_Parse := (\<lambda>s. if list_all (\<lambda>c. c = CHR ''u'') s then Some (length s) else None)\<rparr>,
     lsv_ParseAddress = (\<lambda>s. Some (s, '''')), lsv_Forbidden = NewValidator words\<rparr>"

definition demo_calls :: "nat \<Rightarrow> call_env" where
  "demo_calls k = \<lparr>cl_fault = Fine, cl_now = 100, cl_dbnow = 100, cl_uuid = (\<lambda>i. 2 * k + i + 1), cl_token = Some (replicate k CHR ''t'')\<rparr>"

definition demo_run :: world where
  "demo_run = legacy_serve (demo_server ''admin'') demo_calls (\<lambda>t. '''')
     (CallSignUp ''123456'' '''' ''cook@example.org'' ''Passw0rd'' ''https://example.org/'') legacy_start"

text \<open>Calls run step by step: the continuation is looked at once its argument is a col.\<close>

lemma lg_weak:
  "m = m' \<Longrightarrow> lg_bind m f = lg_bind m' f" "m = m' \<Longrightarrow> lg_then m n = lg_then m' n" "m = m' \<Longrightarrow> lg_catch m h = lg_catch m' h"
  by simp_all

lemmas lg_run = lg_bind_def lg_then_def lg_catch_def lg_return_def lg_fail_def lg_read_def lg_row_def lg_guard_def lg_exec_def lg_stmt_def
  lg_tx_def lg_commit_def lg_rollback_def lg_check_def sv_repo_def sv_go_def discard_def

lemma demo_run_rows: "map usr_email (lg_users (wld_db demo_run)) = [''cook@example.org''] \<and>
   map usr_role (lg_users (wld_db demo_run)) = [''member''] \<and> length (lg_deliveries (wld_db demo_run)) = 1"
  unfolding demo_run_def legacy_serve_def
  by (simp add: lg_run legacy_start_def lrpc_SignUp_def ValidateEmail_def lg_ValidatePassword_def password_char_def is_letter_def
      is_lower_def is_upper_def is_digit_def byte_def session_SignUp_def createNewUserData_def hash_password_def email_Verify_def StartEmailBinding_def
      kept_password_def binding_change_checks_def insert_binding_def queueBindingEmail_def opaqueToken_def GetAuthInfoByEmail_def
      getAuthInfoByCondition_def lg_CreateUser_def lg_insert_user_def lg_insert_oauth_def lg_insert_code_def createOutboxMsg_def
      lg_info_of_def oauth_of_def lg_deletion_of_def svc_code_def user_of_def demo_server_def demo_lg_libs_def demo_calls_def demo_uuids_def
      demo_unicode_def Let_def cong: lg_weak)


subsection \<open>Usernames and listings\<close>

lemma split_lines_last: "[] \<in> set (split_lines acc (words @ [CHR 0x0A]))"
  by (induction words arbitrary: acc) (auto simp: byte_def)

lemma everything_contains_nothing: "Contains s []"
  by (induction s) auto

lemma trailing_newline_rejects:
  assumes "lsv_Forbidden srv = NewValidator (words @ [CHR 0x0A])"
  obtains err where "lg_ValidateUsername srv name = Some err"
proof -
  have "list_ex (\<lambda>word. Contains (letter_username name) word) (lsv_Forbidden srv)"
    using split_lines_last [of "[]" words] everything_contains_nothing by (auto simp: assms NewValidator_def list_ex_iff)
  then have "lg_ValidateUsername srv name \<noteq> None"
    by (simp add: lg_ValidateUsername_def)
  then show ?thesis
    using that by blast
qed

text \<open>
  C40: with a file of forbidden words that ends in a newline, as the shipped one does, the
  former transport accepts no username at all: the last line is empty, and every text contains
  the empty word. Setting a username and asking whether one is available are answered with an
  error, whatever the name, and nothing changes.\<close>

theorem legacy_usernames_rejected:
  assumes "lsv_Forbidden srv = NewValidator (words @ [CHR 0x0A])"
  shows "(\<exists>err. lg_ValidateUsername srv name = Some err) \<and>
    (\<exists>err. lrpc_SetUsername srv cs i name w = (Inl err, w)) \<and> (\<exists>err. lrpc_CheckUsernameAvailability srv c name w = (Inl err, w))"
proof -
  obtain err where rejected: "lg_ValidateUsername srv name = Some err"
    using trailing_newline_rejects [OF assms] .
  then show ?thesis
    by (auto simp: lrpc_SetUsername_def lrpc_CheckUsernameAvailability_def lg_bind_def lg_then_def lg_check_def lg_parse_def lg_fail_def
        lg_return_def split: option.split)
qed

theorem legacy_usernames_rejected_witness:
  "lg_ValidateUsername (demo_server (''admin'' @ [CHR 0x0A])) ''gordon'' = Some GrpcUsernameForbiddenWord \<and>
   lg_ValidateUsername (demo_server ''admin'') ''gordon'' = None \<and>
   (\<exists>err. lrpc_SetUsername (demo_server (''admin'' @ [CHR 0x0A])) demo_calls ''u'' ''gordon'' demo_run = (Inl err, demo_run))"
proof -
  have "lg_ValidateUsername (demo_server (''admin'' @ [CHR 0x0A])) ''gordon'' = Some GrpcUsernameForbiddenWord"
    "lg_ValidateUsername (demo_server ''admin'') ''gordon'' = None"
    by code_simp+
  moreover have "lsv_Forbidden (demo_server (''admin'' @ [CHR 0x0A])) = NewValidator (''admin'' @ [CHR 0x0A])"
    by (simp add: demo_server_def)
  ultimately show ?thesis
    using legacy_usernames_rejected [of "demo_server (''admin'' @ [CHR 0x0A])" "''admin''"] by blast
qed

text \<open>The comparison of the listing never holds, so the insertion sort leaves the order it is given.\<close>

lemma text_less_irrefl: "\<not> text_less s s"
  by (induction s) auto

lemma insertionSort_idle: "(\<And>ys i j. \<not> lt ys i j) \<Longrightarrow> insertionSort lt xs = xs"
proof -
  assume idle: "\<And>ys i j. \<not> lt ys i j"
  have "bubble_down lt i ys = ys" for i and ys :: "'a list"
    by (cases i) (simp_all add: idle)
  moreover have "foldl (\<lambda>ys i. ys) xs ns = xs" for ns :: "nat list"
    by (induction ns) auto
  ultimately show ?thesis
    by (simp add: insertionSort_def)
qed

lemma sessions_not_sorted: "NewGetSessionsResponse show_time infos = infos"
  unfolding NewGetSessionsResponse_def by (rule insertionSort_idle) (simp add: sessions_less_def text_less_irrefl)

end
