(* ===== verification/Auth_LegacyStart.thy ===== *)
theory Auth_LegacyStart
  imports Auth_LegacyRuns Auth_Config
begin

section \<open>Construction and loops of the former service\<close>

text \<open>
  How the former service is put together: \<open>internal/transport/dependencies/service\<close> with the
  constructors it calls, the connections of \<open>internal/repository/amqp\<close> and \<open>grpc\<close>, the server
  of \<open>internal/transport/grpc\<close>, and the two loops that run until the process ends, the
  outbox observer and \<open>internal/app/daemon\<close>. Dereferencing an unset field of the
  configuration panics, the error \<open>NilPointer\<close>. What the constructors of libraries answer is the
  record \<open>former_boot\<close>.
\<close>

definition need :: "'a option \<Rightarrow> ('a \<Rightarrow> start_error + 'b) \<Rightarrow> start_error + 'b" where
  "need x f = (case x of None \<Rightarrow> Inl NilPointer | Some v \<Rightarrow> f v)"

definition start_bind :: "start_error + 'a \<Rightarrow> ('a \<Rightarrow> start_error + 'b) \<Rightarrow> start_error + 'b" where
  "start_bind x f = (case x of Inl err \<Rightarrow> Inl err | Inr v \<Rightarrow> f v)"

lemma need_Inr [simp]: "need x f = Inr y \<longleftrightarrow> (\<exists>v. x = Some v \<and> f v = Inr y)"
  by (cases x) (simp_all add: need_def)

lemma start_bind_Inr [simp]: "start_bind x f = Inr y \<longleftrightarrow> (\<exists>v. x = Inr v \<and> f v = Inr y)"
  by (cases x) (simp_all add: start_bind_def)

subsection \<open>Providers and mails\<close>

record google_client =
  ggc_clientId :: string
  ggc_clientSecret :: string
  ggc_scopes :: "string list"

definition google_NewOAuthProvider :: "string \<Rightarrow> string \<Rightarrow> string list \<Rightarrow> google_client" where
  "google_NewOAuthProvider i secret scopes = \<lparr>ggc_clientId = i, ggc_clientSecret = secret, ggc_scopes = scopes\<rparr>"

definition vk_NewOAuthProvider :: "string \<Rightarrow> string \<Rightarrow> string \<Rightarrow> vk_client" where
  "vk_NewOAuthProvider i secret scope = \<lparr>vkl_clientId = i, vkl_clientSecret = secret, vkl_scope = scope\<rparr>"

definition VkScope :: int where
  "VkScope = 2 ^ 22"

record mail_service =
  mls_IsStub :: bool
  mls_IsDevEnv :: bool
  mls_sendAttempts :: int

type_synonym token_manager = "lg_Payload \<Rightarrow> duration \<Rightarrow> string option"

record former_boot =
  fbt_Repo :: Repository
  fbt_Libs :: lg_libs
  fbt_SmtpSender :: "string \<Rightarrow> string \<Rightarrow> string \<Rightarrow> int \<Rightarrow> string \<Rightarrow> string option"
  fbt_BcryptHash :: "int \<Rightarrow> string \<Rightarrow> string option"
  fbt_BcryptValidate :: "int \<Rightarrow> string \<Rightarrow> string \<Rightarrow> bool"
  fbt_ManagerByRawKey :: "string \<Rightarrow> string + token_manager"
  fbt_GeneratedManager :: "string + token_manager"
  fbt_Firebase :: "string \<Rightarrow> string \<Rightarrow> firebase_client option"
  fbt_AuthCodeURL :: "google_client \<Rightarrow> string \<Rightarrow> string \<Rightarrow> string"
  fbt_Exchange :: "google_client \<Rightarrow> string \<Rightarrow> string \<Rightarrow> raw_error + string"

text \<open>\<open>mail.NewService\<close>: a stub without an SMTP host; \<open>fbt_SmtpSender\<close> answers with an error, if any.\<close>

definition mail_NewService :: "former_boot \<Rightarrow> Config \<Rightarrow> start_error + mail_service" where
  "mail_NewService b cfg =
     (let smtp = cfg_Smtp cfg in
      need (smc_Host smtp) (\<lambda>host.
        start_bind (if host = '''' then Inr ()
            else need (smc_Email smtp) (\<lambda>email. need (smc_Password smtp) (\<lambda>password. need (smc_Port smtp) (\<lambda>port. need (smc_Username smtp) (\<lambda>user.
              case fbt_SmtpSender b email password host port user of None \<Rightarrow> Inr () | Some err \<Rightarrow> Inl (StartError err))))))
          (\<lambda>_. need (cfg_Environment cfg) (\<lambda>environment. need (smc_SendAttempts smtp) (\<lambda>attempts.
            Inr \<lparr>mls_IsStub = (host = ''''), mls_IsDevEnv = (environment = EnvDev), mls_sendAttempts = attempts\<rparr>)))))"

subsection \<open>The services\<close>

definition former_tokens :: "former_boot \<Rightarrow> Config \<Rightarrow> start_error + token_manager" where
  "former_tokens b cfg =
     need (cfg_AccessTokenSigningKey (cfg_Auth cfg)) (\<lambda>key.
       case (if key \<noteq> '''' then fbt_ManagerByRawKey b key else fbt_GeneratedManager b) of
         Inl err \<Rightarrow> Inl (StartError err) | Inr m \<Rightarrow> Inr m)"

definition former_google :: "Config \<Rightarrow> start_error + google_client" where
  "former_google cfg =
     need (cfg_ClientId (cfg_Google (cfg_OAuth cfg))) (\<lambda>i. need (cfg_ClientSecret (cfg_Google (cfg_OAuth cfg))) (\<lambda>secret.
       need (cfg_State (cfg_OAuth cfg)) (\<lambda>_. Inr (google_NewOAuthProvider i secret
         [''https://www.googleapis.com/auth/userinfo.email'', ''https://www.googleapis.com/auth/userinfo.profile'', ''openid'']))))"

definition former_vk :: "Config \<Rightarrow> start_error + vk_client" where
  "former_vk cfg =
     need (cfg_ClientId (cfg_Vk (cfg_OAuth cfg))) (\<lambda>i. need (cfg_ClientSecret (cfg_Vk (cfg_OAuth cfg))) (\<lambda>secret.
       need (cfg_State (cfg_OAuth cfg)) (\<lambda>_. Inr (vk_NewOAuthProvider i secret (FormatInt VkScope)))))"

text \<open>Firebase is left out without its credentials or when its client cannot be made.\<close>

definition former_firebase :: "former_boot \<Rightarrow> Config \<Rightarrow> start_error + firebase_client option" where
  "former_firebase b cfg =
     need (cfg_FirebaseCredentials (cfg_Auth cfg)) (\<lambda>credentials.
       if credentials = '''' then Inr None
       else need (cfg_FirebaseApiKey (cfg_Auth cfg)) (\<lambda>key. if key = '''' then Inr None else Inr (fbt_Firebase b credentials key)))"

definition session_NewService ::
  "former_boot \<Rightarrow> mail_service \<Rightarrow> google_client \<Rightarrow> vk_client \<Rightarrow> int \<Rightarrow> token_manager \<Rightarrow> firebase_client option \<Rightarrow> Auth_config \<Rightarrow> start_error + services" where
  "session_NewService b mls google vk cost create firebase cfg =
     need (cfg_AccessToken cfg) (\<lambda>access. need (cfg_RefreshToken cfg) (\<lambda>refresh. need (cfg_PasswordResetCode cfg) (\<lambda>reset.
       Inr \<lparr>srs_Repo = fbt_Repo b,
            srs_Libs = (fbt_Libs b)\<lparr>lgl_Hash := fbt_BcryptHash b cost, lgl_Validate := fbt_BcryptValidate b cost, lgl_CreateAccess := create,
              lgl_Firebase := firebase, lgl_AuthCodeURL := (\<lambda>_. fbt_AuthCodeURL b google), lgl_Exchange := fbt_Exchange b google\<rparr>,
            srs_Dev = mls_IsDevEnv mls, srs_Google = ggc_clientId google, srs_Vk = vk, srs_AccessTTL = access, srs_RefreshTTL = refresh,
            srs_ResetTTL = reset\<rparr>)))"

definition service_New :: "former_boot \<Rightarrow> Config \<Rightarrow> start_error + services" where
  "service_New b cfg =
     start_bind (mail_NewService b cfg) (\<lambda>mls.
       need (cfg_SaltCost (cfg_Auth cfg)) (\<lambda>cost.
         start_bind (former_tokens b cfg) (\<lambda>create.
           start_bind (former_google cfg) (\<lambda>google.
             start_bind (former_vk cfg) (\<lambda>vk.
               start_bind (former_firebase b cfg) (\<lambda>firebase.
                 session_NewService b mls google vk cost create firebase (cfg_Auth cfg)))))))"

text \<open>The server: a file of forbidden words that cannot be read leaves an empty text to split.\<close>

definition NewServer :: "services \<Rightarrow> uuids \<Rightarrow> (string \<Rightarrow> (string \<times> string) option) \<Rightarrow> string option \<Rightarrow> lg_server" where
  "NewServer sv ids parse file =
     \<lparr>lsv_Services = sv, lsv_uuid = ids, lsv_ParseAddress = parse, lsv_Forbidden = NewValidator (case file of None \<Rightarrow> '''' | Some words \<Rightarrow> words)\<rparr>"

lemma VkScope_text: "FormatInt VkScope = ''4194304''"
  by (simp add: FormatInt_def VkScope_def decimal.simps digit_char_def char_of_def bit_0)

lemma service_New_built:
  assumes "service_New b cfg = Inr sv"
  obtains google where "former_google cfg = Inr google" "former_vk cfg = Inr (srs_Vk sv)" "srs_Google sv = ggc_clientId google"
    "vkl_scope (srs_Vk sv) = ''4194304''" "srs_Dev sv \<longleftrightarrow> cfg_Environment cfg = Some EnvDev"
    "cfg_AccessToken (cfg_Auth cfg) = Some (srs_AccessTTL sv)" "cfg_RefreshToken (cfg_Auth cfg) = Some (srs_RefreshTTL sv)"
    "cfg_PasswordResetCode (cfg_Auth cfg) = Some (srs_ResetTTL sv)"
proof -
  obtain mls cost create google vk firebase where parts: "mail_NewService b cfg = Inr mls" "former_google cfg = Inr google" "former_vk cfg = Inr vk"
    and built: "session_NewService b mls google vk cost create firebase (cfg_Auth cfg) = Inr sv"
    using assms by (auto simp: service_New_def)
  have "mls_IsDevEnv mls \<longleftrightarrow> cfg_Environment cfg = Some EnvDev"
    using parts(1) by (auto simp: mail_NewService_def Let_def)
  moreover have "vkl_scope vk = ''4194304''"
    using parts(3) VkScope_text by (auto simp: former_vk_def vk_NewOAuthProvider_def)
  moreover have "srs_Vk sv = vk" "srs_Google sv = ggc_clientId google" "srs_Dev sv = mls_IsDevEnv mls"
    "cfg_AccessToken (cfg_Auth cfg) = Some (srs_AccessTTL sv)" "cfg_RefreshToken (cfg_Auth cfg) = Some (srs_RefreshTTL sv)"
    "cfg_PasswordResetCode (cfg_Auth cfg) = Some (srs_ResetTTL sv)"
    using built by (auto simp: session_NewService_def)
  ultimately show ?thesis
    using that [of google] parts by simp
qed

text \<open>A server that could not read its word file rejects every username, like one whose file ends in a newline.\<close>

lemma unread_words_reject: "\<exists>err. lg_ValidateUsername (NewServer sv ids parse None) name = Some err"
proof -
  have "lg_ValidateUsername (NewServer sv ids parse None) name \<noteq> None"
    by (simp add: lg_ValidateUsername_def NewServer_def NewValidator_def everything_contains_nothing)
  then show ?thesis by blast
qed

subsection \<open>Connections\<close>

text \<open>\<open>fmt.Sprintf\<close> puts the fields into the URL of the broker as they are.\<close>

definition former_broker_url :: "Amqp_config \<Rightarrow> start_error + string" where
  "former_broker_url c =
     need (mqc_User c) (\<lambda>user. need (mqc_Password c) (\<lambda>password. need (mqc_Host c) (\<lambda>host. need (mqc_Port c) (\<lambda>port. need (mqc_VHost c) (\<lambda>vhost.
       Inr (''amqp://'' @ user @ '':'' @ password @ ''@'' @ host @ '':'' @ FormatInt port @ ''/'' @ vhost))))))"

definition amqp_NewRepository :: "(string \<Rightarrow> string + 'conn) \<Rightarrow> Amqp_config \<Rightarrow> start_error + 'conn" where
  "amqp_NewRepository connect c =
     start_bind (former_broker_url c) (\<lambda>url. case connect url of Inl err \<Rightarrow> Inl (StartError err) | Inr conn \<Rightarrow> Inr conn)"

record publisher_options =
  pbo_ExchangeName :: string
  pbo_ExchangeKind :: string
  pbo_ExchangeDurable :: bool
  pbo_ExchangeDeclare :: bool

definition amqp_Start :: "('conn \<Rightarrow> publisher_options \<Rightarrow> string + 'pub) \<Rightarrow> 'conn \<Rightarrow> start_error + 'pub" where
  "amqp_Start publisher conn =
     (case publisher conn \<lparr>pbo_ExchangeName = ExchangeProfiles, pbo_ExchangeKind = ''fanout'', pbo_ExchangeDurable = True,
        pbo_ExchangeDeclare = True\<rparr> of Inl err \<Rightarrow> Inl (StartError err) | Inr p \<Rightarrow> Inr p)"

definition NewSubscription :: "(string \<Rightarrow> string + 'conn) \<Rightarrow> string \<Rightarrow> start_error + 'conn" where
  "NewSubscription dial addr = (case dial addr of Inl err \<Rightarrow> Inl (StartError err) | Inr conn \<Rightarrow> Inr conn)"

definition grpc_NewRepository :: "(string \<Rightarrow> string + 'conn) \<Rightarrow> Config \<Rightarrow> start_error + 'conn" where
  "grpc_NewRepository dial cfg = need (cfg_SubscriptionAddr cfg) (NewSubscription dial)"

subsection \<open>Loops\<close>

text \<open>The rounds of the observer and of the daemon; between two rounds they sleep.\<close>

record observation =
  obn_call :: call_env
  obn_marks :: "uuid \<Rightarrow> call_env"
  obn_sent :: "uuid \<Rightarrow> bool"

fun observeOutbox :: "observation list \<Rightarrow> legacy_db \<Rightarrow> legacy_db" where
  "observeOutbox [] s = s"
| "observeOutbox (r # rs) s = observeOutbox rs (observe_round (obn_call r) (obn_marks r) (obn_sent r) s)"

record deletion_round =
  dro_call :: call_env
  dro_calls :: "uuid \<Rightarrow> nat \<Rightarrow> call_env"
  dro_sent :: "uuid \<Rightarrow> bool"

record Daemon =
  dae_services :: services
  dae_interval :: duration

definition daemon_New :: "services \<Rightarrow> Deletion_config \<Rightarrow> start_error + Daemon" where
  "daemon_New sv cfg = need (cfg_CheckInterval cfg) (\<lambda>interval. Inr \<lparr>dae_services = sv, dae_interval = interval\<rparr>)"

fun daemon_Start :: "Daemon \<Rightarrow> deletion_round list \<Rightarrow> world \<Rightarrow> world" where
  "daemon_Start d [] w = w"
| "daemon_Start d (r # rs) w = daemon_Start d rs (deletion_ExecuteAll (dae_services d) (dro_call r) (dro_calls r) (dro_sent r) w)"

lemma observeOutbox_reach:
  "reach (legacy_step srv) w0 w \<Longrightarrow> reach (legacy_step srv) w0 (w\<lparr>wld_db := observeOutbox rs (wld_db w)\<rparr>)"
proof (induction rs arbitrary: w)
  case (Cons r rs)
  have "reach (legacy_step srv) w0 (w\<lparr>wld_db := observe_round (obn_call r) (obn_marks r) (obn_sent r) (wld_db w)\<rparr>)"
    using Cons.prems legacy_step.Observe by (rule reach_step)
  from Cons.IH [OF this] show ?case by simp
qed simp

lemma daemon_reach:
  assumes "dae_services d = lsv_Services srv"
  shows "reach (legacy_step srv) w0 w \<Longrightarrow> reach (legacy_step srv) w0 (daemon_Start d rs w)"
proof (induction rs arbitrary: w)
  case (Cons r rs)
  then show ?case
    using reach_step [OF Cons.prems legacy_step.Execute] by (simp add: assms)
qed simp

text \<open>A round whose messages the broker takes, without a database failure, leaves nothing in the outbox.\<close>

lemma publish_taken:
  "cl_fault c = Fine \<Longrightarrow> PublishProfilesMessage c True msg s = (Inr (), s\<lparr>lg_outbox := filter (\<lambda>q. msd_Id q \<noteq> msd_Id msg) (lg_outbox s)\<rparr>)"
  by (simp add: PublishProfilesMessage_def MarkMessageSent_def lg_run)

lemma observed_messages:
  assumes "\<And>m. cl_fault (cs m) = Fine"
  shows "lg_outbox (observe_messages cs (\<lambda>_. True) n msgs s) = filter (\<lambda>q. msd_Id q \<notin> msd_Id ` set msgs) (lg_outbox s)"
  by (induction msgs arbitrary: s) (auto simp: publish_taken assms intro: filter_cong)

lemma observed_round:
  assumes "cl_fault c = Fine" "\<And>m. cl_fault (cs m) = Fine"
  shows "lg_outbox (observe_round c cs (\<lambda>_. True) s) = []"
  using assms(1) by (simp add: observe_round_def GetPendingMessages_def lg_run observed_messages assms(2))

end
