(* ===== verification/Auth_Logging.thy ===== *)
theory Auth_Logging
  imports Auth_Strings
begin

section \<open>Log events\<close>

text \<open>
  \<open>internal/logging\<close>: every event of the service as the value it hands to the shared log
  library, which is not part of the repository. The names of the components are constants of
  that library, the record \<open>log_components\<close>. An error is what the code asks of it: whether it
  is a cancelled or timed-out context, whether it has an SQL state, and its text. The last part
  shows which events keep the text of an error out of the log.
\<close>

datatype payload_value = PayloadText string | PayloadInt int | PayloadBool bool

record log_Event =
  lev_Event :: string
  lev_Message :: string
  lev_Component :: string
  lev_UserID :: string
  lev_MessageID :: string
  lev_Operation :: string
  lev_ErrorType :: string
  lev_Payload :: "(string \<times> payload_value) list option"

record go_error =
  ger_Canceled :: bool
  ger_DeadlineExceeded :: bool
  ger_SQLState :: "string option"
  ger_Text :: string

datatype log_call = Log log_Event | LogWarn log_Event | LogWarnError log_Event go_error | LogError log_Event "go_error option" | LogFatal log_Event "go_error option"

record log_components =
  ComponentPostgres :: string
  ComponentAMQP :: string
  ComponentGRPC :: string
  ComponentFirebase :: string

text \<open>An event with only its name and message set; the other fields have Go's zero value.\<close>

definition plain_event :: "string \<Rightarrow> string \<Rightarrow> log_Event" where
  "plain_event name message = \<lparr>lev_Event = name, lev_Message = message, lev_Component = '''', lev_UserID = '''', lev_MessageID = '''',
     lev_Operation = '''', lev_ErrorType = '''', lev_Payload = None\<rparr>"

definition safeErrorType :: "go_error \<Rightarrow> string \<Rightarrow> string" where
  "safeErrorType err fallback =
     (if ger_Canceled err then ''context_canceled''
      else if ger_DeadlineExceeded err then ''context_deadline_exceeded''
      else case ger_SQLState err of Some state \<Rightarrow> ''postgres_sqlstate_'' @ state | None \<Rightarrow> fallback)"

subsection \<open>The database\<close>

record PostgresOperationData =
  pod_Operation :: string
  pod_UserID :: string
  pod_MessageID :: string
  pod_Entity :: string
  pod_Count :: int

definition postgresPayload :: "PostgresOperationData \<Rightarrow> (string \<times> payload_value) list option" where
  "postgresPayload data =
     (let payload = (if pod_Entity data \<noteq> '''' then [(''entity'', PayloadText (pod_Entity data))] else []) @
        (if pod_Count data > 0 then [(''count'', PayloadInt (pod_Count data))] else [])
      in if payload = [] then None else Some payload)"

definition PostgresOperationFailed :: "log_components \<Rightarrow> PostgresOperationData \<Rightarrow> go_error \<Rightarrow> log_call" where
  "PostgresOperationFailed lc data err = LogError ((plain_event ''auth.postgres.operation.failed'' ''postgres operation failed'')
     \<lparr>lev_Component := ComponentPostgres lc, lev_UserID := pod_UserID data, lev_MessageID := pod_MessageID data,
      lev_Operation := pod_Operation data, lev_ErrorType := safeErrorType err ''postgres_error'', lev_Payload := postgresPayload data\<rparr>) None"

definition PostgresOperationWarned :: "log_components \<Rightarrow> PostgresOperationData \<Rightarrow> go_error \<Rightarrow> log_call" where
  "PostgresOperationWarned lc data err = LogWarn ((plain_event ''auth.postgres.operation.warned'' ''postgres operation completed with a warning'')
     \<lparr>lev_Component := ComponentPostgres lc, lev_UserID := pod_UserID data, lev_MessageID := pod_MessageID data,
      lev_Operation := pod_Operation data, lev_ErrorType := safeErrorType err ''postgres_error'', lev_Payload := postgresPayload data\<rparr>)"

definition PostgresRowScanFailed :: "log_components \<Rightarrow> PostgresOperationData \<Rightarrow> go_error \<Rightarrow> log_call" where
  "PostgresRowScanFailed lc data err = LogError ((plain_event ''auth.postgres.row.scan_failed'' ''unable to scan postgres row'')
     \<lparr>lev_Component := ComponentPostgres lc, lev_UserID := pod_UserID data, lev_Operation := pod_Operation data,
      lev_ErrorType := safeErrorType err ''postgres_scan_error'', lev_Payload := postgresPayload data\<rparr>) None"

definition PostgresLookupMissed :: "log_components \<Rightarrow> PostgresOperationData \<Rightarrow> log_call" where
  "PostgresLookupMissed lc data = Log ((plain_event ''auth.postgres.lookup.missed'' ''postgres lookup returned no matching record'')
     \<lparr>lev_Component := ComponentPostgres lc, lev_UserID := pod_UserID data, lev_Operation := pod_Operation data,
      lev_Payload := postgresPayload data\<rparr>)"

definition PostgresLookupWarned :: "log_components \<Rightarrow> PostgresOperationData \<Rightarrow> log_call" where
  "PostgresLookupWarned lc data = LogWarn ((plain_event ''auth.postgres.lookup.warned'' ''postgres lookup returned no matching record'')
     \<lparr>lev_Component := ComponentPostgres lc, lev_UserID := pod_UserID data, lev_Operation := pod_Operation data,
      lev_Payload := postgresPayload data\<rparr>)"

definition UserCreationStarted :: "log_components \<Rightarrow> string \<Rightarrow> log_call" where
  "UserCreationStarted lc user = Log ((plain_event ''auth.user.creation.started'' ''user creation started'')
     \<lparr>lev_Component := ComponentPostgres lc, lev_UserID := user\<rparr>)"

definition PasswordResetReused :: "log_components \<Rightarrow> string \<Rightarrow> log_call" where
  "PasswordResetReused lc user = Log ((plain_event ''auth.password_reset.reused'' ''existing password reset request reused'')
     \<lparr>lev_Component := ComponentPostgres lc, lev_UserID := user\<rparr>)"

definition ActivationCodeRejected :: "log_components \<Rightarrow> string \<Rightarrow> log_call" where
  "ActivationCodeRejected lc user = Log ((plain_event ''auth.activation_code.rejected'' ''profile activation code rejected'')
     \<lparr>lev_Component := ComponentPostgres lc, lev_UserID := user\<rparr>)"

definition PasswordResetCodeRejected :: "log_components \<Rightarrow> string \<Rightarrow> log_call" where
  "PasswordResetCodeRejected lc user = Log ((plain_event ''auth.password_reset.code_rejected'' ''password reset code rejected'')
     \<lparr>lev_Component := ComponentPostgres lc, lev_UserID := user\<rparr>)"

subsection \<open>Credentials, profiles and sessions\<close>

record OAuthData =
  oad_Provider :: string
  oad_UserID :: string

definition OAuthIdentityOccupied :: "log_components \<Rightarrow> OAuthData \<Rightarrow> log_call" where
  "OAuthIdentityOccupied lc data = LogWarn ((plain_event ''auth.oauth.identity_occupied'' ''oauth identity is already connected'')
     \<lparr>lev_Component := ComponentPostgres lc, lev_UserID := oad_UserID data,
      lev_Payload := Some [(''provider'', PayloadText (oad_Provider data))]\<rparr>)"

definition PasswordInvalid :: "string \<Rightarrow> log_call" where
  "PasswordInvalid user = Log ((plain_event ''auth.credentials.password_invalid'' ''password validation failed'')\<lparr>lev_UserID := user\<rparr>)"

definition PasswordHashFailed :: "go_error \<Rightarrow> log_call" where
  "PasswordHashFailed err = LogError (plain_event ''auth.credentials.password_hash_failed'' ''unable to hash password'') (Some err)"

definition ProfileNotActivated :: "string \<Rightarrow> log_call" where
  "ProfileNotActivated user = Log ((plain_event ''auth.profile.not_activated'' ''profile is not activated'')\<lparr>lev_UserID := user\<rparr>)"

definition ProfileBlocked :: "string \<Rightarrow> log_call" where
  "ProfileBlocked user = LogWarn ((plain_event ''auth.profile.blocked'' ''profile is blocked'')\<lparr>lev_UserID := user\<rparr>)"

definition ProfileAlreadyExists :: "string \<Rightarrow> log_call" where
  "ProfileAlreadyExists user =
     LogWarn ((plain_event ''auth.profile.already_exists'' ''activated profile already exists'')\<lparr>lev_UserID := user\<rparr>)"

definition SessionCreationStarted :: "string \<Rightarrow> log_call" where
  "SessionCreationStarted user = Log ((plain_event ''auth.session.creation.started'' ''session creation started'')\<lparr>lev_UserID := user\<rparr>)"

definition AccessTokenCreationFailed :: "string \<Rightarrow> go_error \<Rightarrow> log_call" where
  "AccessTokenCreationFailed user err =
     LogError ((plain_event ''auth.access_token.creation_failed'' ''unable to create access token'')\<lparr>lev_UserID := user\<rparr>) (Some err)"

definition OAuthCodeRejected :: "OAuthData \<Rightarrow> go_error \<Rightarrow> log_call" where
  "OAuthCodeRejected data err = LogWarn ((plain_event ''auth.oauth.code_rejected'' ''oauth authorization code rejected'')
     \<lparr>lev_UserID := oad_UserID data, lev_ErrorType := safeErrorType err ''oauth_provider_error'',
      lev_Payload := Some [(''provider'', PayloadText (oad_Provider data))]\<rparr>)"

definition ProfileDeletionTargetMissing :: "string \<Rightarrow> log_call" where
  "ProfileDeletionTargetMissing user =
     LogWarn ((plain_event ''auth.profile_deletion.target_missing'' ''profile scheduled for deletion was not found'')\<lparr>lev_UserID := user\<rparr>)"

definition UsernameValidatorInitializationFailed :: "go_error \<Rightarrow> log_call" where
  "UsernameValidatorInitializationFailed err =
     LogError (plain_event ''auth.username.validator_initialization_failed'' ''unable to initialize username validator'') (Some err)"

subsection \<open>Firebase\<close>

definition FirebaseImportStarted :: "log_components \<Rightarrow> log_call" where
  "FirebaseImportStarted lc = Log ((plain_event ''auth.firebase.import.started'' ''firebase profile import started'')
     \<lparr>lev_Component := ComponentFirebase lc\<rparr>)"

definition FirebaseIdentityOccupied :: "log_components \<Rightarrow> log_call" where
  "FirebaseIdentityOccupied lc = LogWarn ((plain_event ''auth.firebase.identity_occupied'' ''firebase identity is already connected'')
     \<lparr>lev_Component := ComponentFirebase lc\<rparr>)"

definition FirebaseProfileFetchFailed :: "log_components \<Rightarrow> go_error \<Rightarrow> log_call" where
  "FirebaseProfileFetchFailed lc err = LogError ((plain_event ''auth.firebase.profile_fetch_failed'' ''unable to fetch firebase profile'')
     \<lparr>lev_Component := ComponentFirebase lc, lev_ErrorType := safeErrorType err ''firebase_api_error''\<rparr>) None"

definition FirebaseProfileConnected :: "log_components \<Rightarrow> string \<Rightarrow> log_call" where
  "FirebaseProfileConnected lc user = Log ((plain_event ''auth.firebase.profile_connected'' ''firebase profile connected'')
     \<lparr>lev_Component := ComponentFirebase lc, lev_UserID := user\<rparr>)"

definition FirebaseProfileConnectFailed :: "log_components \<Rightarrow> string \<Rightarrow> go_error \<Rightarrow> log_call" where
  "FirebaseProfileConnectFailed lc user err = LogError ((plain_event ''auth.firebase.profile_connect_failed'' ''unable to connect firebase profile'')
     \<lparr>lev_Component := ComponentFirebase lc, lev_UserID := user\<rparr>) (Some err)"

definition FirebaseClientInitialized :: "log_components \<Rightarrow> log_call" where
  "FirebaseClientInitialized lc = Log ((plain_event ''auth.firebase.client_initialized'' ''firebase client initialized'')
     \<lparr>lev_Component := ComponentFirebase lc\<rparr>)"

subsection \<open>Mails and messages\<close>

record MailData =
  mld_Kind :: string
  mld_UserID :: string
  mld_WithSharedData :: "bool option"

definition mailPayload :: "MailData \<Rightarrow> (string \<times> payload_value) list option" where
  "mailPayload data = Some ((''kind'', PayloadText (mld_Kind data)) #
     (case mld_WithSharedData data of None \<Rightarrow> [] | Some b \<Rightarrow> [(''with_shared_data'', PayloadBool b)]))"

definition MailDeliveryStarted :: "MailData \<Rightarrow> log_call" where
  "MailDeliveryStarted data = Log ((plain_event ''auth.mail.delivery.started'' ''mail delivery started'')
     \<lparr>lev_UserID := mld_UserID data, lev_Payload := mailPayload data\<rparr>)"

definition MailTemplateRenderFailed :: "MailData \<Rightarrow> go_error \<Rightarrow> log_call" where
  "MailTemplateRenderFailed data err = LogError ((plain_event ''auth.mail.template_render_failed'' ''unable to render mail template'')
     \<lparr>lev_UserID := mld_UserID data, lev_Payload := mailPayload data\<rparr>) (Some err)"

definition MailDeliveryFailed :: "MailData \<Rightarrow> go_error \<Rightarrow> log_call" where
  "MailDeliveryFailed data err = LogError ((plain_event ''auth.mail.delivery_failed'' ''unable to deliver mail'')
     \<lparr>lev_UserID := mld_UserID data, lev_Payload := mailPayload data\<rparr>) (Some err)"

record message_data =
  lmd_MessageID :: string
  lmd_Type :: string
  lmd_Exchange :: string

definition message_payload :: "message_data \<Rightarrow> (string \<times> payload_value) list option" where
  "message_payload data = Some [(''message_type'', PayloadText (lmd_Type data)), (''exchange'', PayloadText (lmd_Exchange data))]"

definition MessagePublishStarted :: "log_components \<Rightarrow> message_data \<Rightarrow> log_call" where
  "MessagePublishStarted lc data = Log ((plain_event ''auth.mq.message.publish_started'' ''message publish started'')
     \<lparr>lev_Component := ComponentAMQP lc, lev_MessageID := lmd_MessageID data, lev_Payload := message_payload data\<rparr>)"

definition MessagePublished :: "log_components \<Rightarrow> message_data \<Rightarrow> log_call" where
  "MessagePublished lc data = Log ((plain_event ''auth.mq.message.published'' ''message published'')
     \<lparr>lev_Component := ComponentAMQP lc, lev_MessageID := lmd_MessageID data, lev_Payload := message_payload data\<rparr>)"

definition MessagePublishFailed :: "log_components \<Rightarrow> message_data \<Rightarrow> go_error \<Rightarrow> log_call" where
  "MessagePublishFailed lc data err = LogWarnError ((plain_event ''auth.mq.message.publish_failed'' ''unable to publish message'')
     \<lparr>lev_Component := ComponentAMQP lc, lev_MessageID := lmd_MessageID data, lev_Payload := message_payload data\<rparr>) err"

subsection \<open>The running service\<close>

definition ConfigLoaded :: log_call where
  "ConfigLoaded = Log ((plain_event ''config.loaded'' ''service configuration loaded'')\<lparr>lev_Component := ''config''\<rparr>)"

definition StartupFailed :: "string \<Rightarrow> go_error \<Rightarrow> log_call" where
  "StartupFailed operation err = LogFatal ((plain_event ''app.startup.failed'' ''service startup failed'')
     \<lparr>lev_Component := ''app'', lev_Operation := operation, lev_ErrorType := safeErrorType err ''startup_error''\<rparr>) None"

definition MQServerInitialized :: "log_components \<Rightarrow> log_call" where
  "MQServerInitialized lc = Log ((plain_event ''mq.server.initialized'' ''MQ server initialized'')\<lparr>lev_Component := ComponentAMQP lc\<rparr>)"

definition GRPCServerStarted :: "log_components \<Rightarrow> log_call" where
  "GRPCServerStarted lc = Log ((plain_event ''grpc.server.started'' ''gRPC server started'')
     \<lparr>lev_Component := ComponentGRPC lc, lev_Operation := ''serve''\<rparr>)"

definition GRPCServerFailed :: "log_components \<Rightarrow> go_error \<Rightarrow> log_call" where
  "GRPCServerFailed lc err = LogError ((plain_event ''grpc.server.failed'' ''gRPC server stopped with an error'')
     \<lparr>lev_Component := ComponentGRPC lc, lev_Operation := ''serve''\<rparr>) (Some err)"

definition PostgresHealthCheckFailed :: "log_components \<Rightarrow> go_error \<Rightarrow> log_call" where
  "PostgresHealthCheckFailed lc err = LogWarn ((plain_event ''postgres.health_check.failed'' ''database is unavailable'')
     \<lparr>lev_Component := ComponentPostgres lc, lev_Operation := ''ping'', lev_ErrorType := safeErrorType err ''postgres_error''\<rparr>)"

definition AccountDeletionBatchFailed :: "log_components \<Rightarrow> go_error \<Rightarrow> log_call" where
  "AccountDeletionBatchFailed lc err = LogWarn ((plain_event ''account.deletion.failed'' ''Scheduled account deletion could not complete'')
     \<lparr>lev_Component := ComponentPostgres lc, lev_Operation := ''delete_due_account'', lev_ErrorType := safeErrorType err ''postgres_error''\<rparr>)"

definition TemporaryStateCleanupFailed :: "log_components \<Rightarrow> go_error \<Rightarrow> log_call" where
  "TemporaryStateCleanupFailed lc err = LogWarn ((plain_event ''auth.cleanup.failed'' ''Expired authentication state cleanup could not complete'')
     \<lparr>lev_Component := ComponentPostgres lc, lev_Operation := ''cleanup_auth_state'', lev_ErrorType := safeErrorType err ''postgres_error''\<rparr>)"

subsection \<open>What an event says of an error\<close>

text \<open>
  Two errors of the same class look the same to an event that only uses \<open>safeErrorType\<close>: the
  text of a failed statement, which may quote the values of a row, does not reach the log.
\<close>

definition same_class :: "go_error \<Rightarrow> go_error \<Rightarrow> bool" where
  "same_class a b \<longleftrightarrow> ger_Canceled a = ger_Canceled b \<and> ger_DeadlineExceeded a = ger_DeadlineExceeded b \<and> ger_SQLState a = ger_SQLState b"

definition masks :: "(go_error \<Rightarrow> log_call) \<Rightarrow> bool" where
  "masks event \<longleftrightarrow> (\<forall>a b. same_class a b \<longrightarrow> event a = event b)"

lemma safeErrorType_class: "same_class a b \<Longrightarrow> safeErrorType a t = safeErrorType b t"
  by (simp add: same_class_def safeErrorType_def)

lemma masksI: "(\<And>a b. (\<And>t. safeErrorType a t = safeErrorType b t) \<Longrightarrow> event a = event b) \<Longrightarrow> masks event"
  unfolding masks_def by (blast intro: safeErrorType_class)

lemma database_events_mask:
  "masks (PostgresOperationFailed lc data)" "masks (PostgresOperationWarned lc data)" "masks (PostgresRowScanFailed lc data)"
  "masks (PostgresHealthCheckFailed lc)" "masks (AccountDeletionBatchFailed lc)" "masks (TemporaryStateCleanupFailed lc)"
  by (rule masksI, simp add: PostgresOperationFailed_def PostgresOperationWarned_def PostgresRowScanFailed_def PostgresHealthCheckFailed_def
      AccountDeletionBatchFailed_def TemporaryStateCleanupFailed_def)+

lemma provider_events_mask: "masks (OAuthCodeRejected d)" "masks (FirebaseProfileFetchFailed lc)" "masks (StartupFailed operation)"
  by (rule masksI, simp add: OAuthCodeRejected_def FirebaseProfileFetchFailed_def StartupFailed_def)+

text \<open>The end of the gRPC server, mails, published messages and a few more hand the error on as it is.\<close>

definition two_errors :: "go_error \<times> go_error" where
  "two_errors = (let e = \<lparr>ger_Canceled = False, ger_DeadlineExceeded = False, ger_SQLState = None, ger_Text = ''a''\<rparr> in (e, e\<lparr>ger_Text := ''b''\<rparr>))"

lemma other_events_show: "\<not> masks (GRPCServerFailed lc)" "\<not> masks (MailDeliveryFailed m)" "\<not> masks (MessagePublishFailed lc d)"
proof -
  have "same_class (fst two_errors) (snd two_errors)"
    by (simp add: same_class_def two_errors_def)
  then have shown: "\<not> masks event" if "event (fst two_errors) \<noteq> event (snd two_errors)" for event
    using that by (auto simp: masks_def)
  show "\<not> masks (GRPCServerFailed lc)" "\<not> masks (MailDeliveryFailed m)" "\<not> masks (MessagePublishFailed lc d)"
    by (rule shown, simp add: GRPCServerFailed_def MailDeliveryFailed_def MessagePublishFailed_def two_errors_def)+
qed

end
