(* ===== verification/Spec2Isabelle.thy ===== *)
theory Spec2Isabelle
  imports Auth_Background Auth_Vouching Auth_Registration Auth_Lifecycle Auth_Closing Auth_Reads Auth_Enrolment Auth_LegacyStart Auth_LegacyRuns Auth_Logging
begin

section \<open>The ChefBook authentication service\<close>

text \<open>
  \<^bold>\<open>The program.\<close> The service keeps accounts and lets people prove who they are. A client
  opens an authentication process for a purpose (signing in or up, recovering, or a sensitive
  action), is given challenges, answers them, and receives a grant that is exchanged for a
  session or spent on the action. Passwords, mailed codes, TOTP, backup codes, Google and VK
  and passkeys are the ways to answer. Every change of state is one database transaction;
  events for other services are written to an outbox in the same transaction and published by
  a worker. The repository also holds the service that came before, compiled but no longer
  started; it has its own tables, services and transport and is modelled as well.

  \<^bold>\<open>The state.\<close> \<open>Auth_Schema\<close> is \<open>schema/initial.sql\<close>: a record \<open>db\<close> of tables, each a list of rows,
  with unique keys, checks, foreign keys and cascades; \<open>wf_db\<close> is what the schema promises. The
  former service has the record \<open>legacy_db\<close> of \<open>Auth_LegacyRepo\<close>, after \<open>migrations/sql\<close>. An
  identifier is a natural number with 0 the nil one, a time or duration an integer of
  nanoseconds, text and bytes are strings of bytes.

  \<^bold>\<open>Effects.\<close> \<open>Auth_Prelude\<close> has the transaction monad: a function from a state to an error or a
  value with a new state; \<open>run_tx\<close> keeps the old state on every failure, including those of
  begin and commit. What a call meets is an argument, a record \<open>env\<close>: the clocks, the random
  draws, the outcome of begin and commit, the network. A transaction reads the clock once,
  where the code may read it several times within a call. An operation with a network call
  between two transactions takes an environment for each, so other calls may come in between.
  The former service has the same scheme with \<open>call_env\<close>, which also names the statement that
  fails, and a list of goroutines started and not run yet. Loops are structural recursion over
  the rounds they are given; no definition uses fuel, and where a loop must end by itself that
  is a theorem.

  \<^bold>\<open>Parameters.\<close> HMAC, SHA-256, AES-GCM, bcrypt, UUID parsing, \<open>net/mail\<close> and \<open>net/url\<close>, the Unicode
  tables, go-webauthn, the OAuth and ID-token libraries, HTTP, AMQP, the token issuer, Firebase
  and the status codes of the shared response library are fields of records. \<open>Auth_Examples\<close> and
  \<open>Auth_LegacyRuns\<close> have concrete values, on which the witnesses evaluate the model. What a
  theorem needs of them is one of its assumptions, such as that a cipher opens what it sealed.

  \<^bold>\<open>The theories of the running service\<close> (under \<open>internal/authentication\<close> where nothing else is said)

  \<^item> \<open>Auth_Strings\<close>, \<open>Auth_Secrets\<close>: the string functions the code uses; \<open>secrets.go\<close>, with the framing of
    hashes, the layout of ciphertexts and the TOTP window.
  \<^item> \<open>Auth_Statements\<close>, \<open>Auth_Cascade\<close>: the statements on the tables and the deletions they cause.
  \<^item> \<open>Auth_Engine\<close>, \<open>Auth_Process\<close>, \<open>Auth_Challenge\<close>, \<open>Auth_Attempt\<close>: \<open>types.go\<close>, \<open>transaction.go\<close>, \<open>process.go\<close>,
    \<open>steps.go\<close>, \<open>challenge.go\<close>: processes, the choice of the next methods, grants, challenges, attempts.
  \<^item> \<open>Auth_Provider\<close>: \<open>oauth.go\<close> and the adapters of \<open>provider/provider.go\<close>.
  \<^item> \<open>Auth_Passkey\<close>, \<open>Auth_Passkeys\<close>: \<open>pkg/passkey/verifier.go\<close> and \<open>passkeys.go\<close>.
  \<^item> \<open>Auth_Sessions\<close>, \<open>Auth_Totp\<close>, \<open>Auth_Limiter\<close>, \<open>Auth_Account\<close>, \<open>Auth_Mail\<close>, \<open>Auth_Notify\<close>, \<open>Auth_Identities\<close>, \<open>Auth_Cleanup\<close>:
    the files of these names, the deletion loop of \<open>app.go\<close> and \<open>internal/outbox/worker.go\<close>.
  \<^item> \<open>Auth_Grpc\<close>, \<open>Auth_Reads\<close>: \<open>internal/transport/authenticationgrpc\<close>: every procedure of the server and
    of the read service for older clients.
  \<^item> \<open>Auth_Config\<close>, \<open>Auth_App\<close>: \<open>internal/config\<close>, \<open>cmd\<close>, \<open>schema/apply.go\<close> and \<open>internal/app\<close>: configuration, start-up with
    every way it can fail, health, and the loops in the background.

  \<^bold>\<open>The theories of the former service\<close>

  \<^item> \<open>Auth_LegacyRepo\<close>, \<open>Auth_LegacyFlows\<close>: \<open>internal/entity\<close>, \<open>internal/repository/postgres\<close> and \<open>amqp\<close>.
  \<^item> \<open>Auth_LegacyServices\<close>, \<open>Auth_LegacySessions\<close>: \<open>pkg/oauth\<close>, \<open>pkg/ip\<close>, \<open>internal/service\<close>. Google and VK sign-ins are built
    from the same steps over the subject, since the code of both is the same.
  \<^item> \<open>Auth_LegacyGrpc\<close>: \<open>internal/transport/utils\<close> and \<open>internal/transport/grpc\<close>.
  \<^item> \<open>Auth_LegacyStart\<close>: \<open>internal/transport/dependencies/service\<close> with the constructors it calls, the
    connections of \<open>internal/repository/amqp\<close> and \<open>grpc\<close>, and \<open>internal/app/daemon\<close>.

  \<^bold>\<open>Both\<close> write their log through \<open>internal/logging\<close>, which is \<open>Auth_Logging\<close>: each event as the value handed
  to the log library.

  \<^bold>\<open>Interfaces.\<close> The laws one part relies on are locales, interpreted on the definitions above:
  \<open>keyed_table\<close> (a table with a unique key, once per table), \<open>statement_closed\<close> and \<open>step_closed\<close> (a fact
  about the database that every statement and every operation keeps; for well-formedness, the
  failure count, the origin of hashes, the order of the outbox), \<open>auth_row_closed\<close> (the same for
  a fact about each process), \<open>invariant_of\<close> (an invariant of a step relation), \<open>one_time\<close> (a token
  that is spent when it is accepted: grants, refresh tokens, reset and email links, OAuth
  states), \<open>identity_provider\<close> (Google and VK), \<open>removal\<close> (an operation that takes a way to sign in
  away), \<open>legacy_repo\<close> (a fact about the former tables that every call of the repository keeps; for
  the keys, and for being reached by such calls), \<open>legacy_closed\<close> (a fact that every primitive change of
  the former tables keeps, which gives \<open>legacy_repo\<close>).

  \<^bold>\<open>What is shown\<close>

  \<^item> Factors: a process completes only with the factors its purpose and its account ask for
    (\<open>Auth_Policy\<close>), each factor only with its evidence (\<open>Auth_Evidence\<close>, \<open>Auth_Vouching\<close>), and after a
    bounded number of wrong proofs a process is refused (\<open>Auth_Lockout\<close>).
  \<^item> Tokens: whatever proves something once is accepted once over all runs, for what it was
    issued for (\<open>Auth_Origin\<close>, \<open>Auth_Trace\<close>, \<open>Auth_Tokens\<close>), and a change of credentials voids what was
    proved before (\<open>Auth_Lifecycle\<close>).
  \<^item> Integrity: every state a run reaches satisfies the schema (\<open>Auth_Integrity\<close>, \<open>Auth_Invariant\<close>, \<open>Auth_Trace\<close>),
    for the former service as well (\<open>Auth_LegacyFacts\<close>, \<open>Auth_LegacyKeys\<close>), over any interleaving of its
    repository calls (\<open>Auth_LegacyRuns\<close>); its OAuth states, reset codes and refresh tokens are spent
    by their use, a connected identity is not replaced, and its users keep a way to sign in
    (\<open>Auth_LegacyTokens\<close>).
  \<^item> Effects of the operations: sign-up and failing attempts (\<open>Auth_Registration\<close>), passwords,
    identities, backup codes (\<open>Auth_Lifecycle\<close>), sessions, deletion and cleanup (\<open>Auth_Closing\<close>), the TOTP
    limiter (\<open>Auth_Limiter\<close>) and enrolment (\<open>Auth_Enrolment\<close>).
  \<^item> Background work: the outbox refines a queue, keeps an event until it is delivered and
    drains (\<open>Auth_Outbox\<close>), in order over all connections of the worker (\<open>Auth_Background\<close>); due deletions
    are carried out and the loop stops (\<open>Auth_Closing\<close>).
  \<^item> Start-up: a service that starts has keys, providers and links as required (\<open>Auth_App\<close>), and its
    database URL reads back as configured (\<open>Auth_Config\<close>). The former services are built with the
    values of their configuration (\<open>Auth_LegacyStart\<close>).
  \<^item> Logs: database, start-up and provider events depend on an error only through its class, so
    its text does not reach the log; a few events hand the error on (\<open>Auth_Logging\<close>).

  Two places where the former transport does not do what it means to are proved in
  \<open>Auth_LegacyRuns\<close>: no username passes the validator, and the listing of sessions is not sorted.

  \<^bold>\<open>Not modelled.\<close> The calls that write a log event are left out of the
  operations, since they change no state and no answer; the events themselves are modelled.
  Generated protobuf code is replaced by records of the messages. Interfaces of Go have no
  definition of their own. Reading flags and environment variables, timers and the graceful stop are
  libraries and process lifetime; when a round of a loop comes is therefore open, and the theorems
  hold for every schedule. Transactions follow one another in the model, as they do in the running
  service, where all of them take one advisory lock; a failure of a single statement within one of
  them is not modelled, only that of begin or commit. The rounds of a loop follow one another where a
  theorem is about the loop alone (\<open>delete_batch\<close>, \<open>run_connection\<close>, \<open>worker_Run\<close>); beside other calls they
  are steps of a run like any other. In the former service a call of the repository is one step,
  also where it makes several statements outside a transaction. A session number that a failed
  transaction has drawn is drawn again, where a sequence of PostgreSQL would skip it. Mail bodies,
  outbox bodies and the otpauth URI are kept structured instead of as JSON or URL text. Column
  lengths of the former tables are left out.
\<close>

end
